(* ===== verification/Prelude.thy ===== *)
theory Prelude
  imports Main "HOL-Library.Sublist"
begin

text \<open>
  Shared material of the development: the types that stand for Go's scalar types, the
  error values and the \<^verbatim>\<open>error\<close>-returning functions of the code (a sum type, \<open>Inl\<close> for the
  error), the sequencing of calls that may fail, generic lemmas on lists and on
  sequencing that the components use, and the collections of rewrite rules they share.
\<close>

named_theorems go_defs \<open>definitions of the Go standard-library functions the code calls\<close>
named_theorems seq_simps \<open>inversion of a successful sequence of fallible calls\<close>
named_theorems keeps_intros \<open>rules that push a state predicate through a sequence of calls\<close>

section \<open>Scalars\<close>

text \<open>
  \<^verbatim>\<open>time.Time\<close> is the number of nanoseconds since Go's zero time, so \<^verbatim>\<open>IsZero\<close> is \<open>0\<close>;
  \<^verbatim>\<open>time.Duration\<close> is a number of nanoseconds. A nil pointer is \<open>None\<close>.
\<close>

type_synonym time = int
type_synonym duration = int

definition second :: duration where
  "second = 1000000000"

section \<open>Sequencing of fallible calls\<close>

definition bindR :: "'e + 'a \<Rightarrow> ('a \<Rightarrow> 'e + 'b) \<Rightarrow> 'e + 'b" where
  "bindR m f = (case m of Inl e \<Rightarrow> Inl e | Inr x \<Rightarrow> f x)"

lemma bindR_simps [simp]:
  "bindR (Inl e) f = Inl e"
  "bindR (Inr x) f = f x"
  by (simp_all add: bindR_def)

lemma bindR_Inr [seq_simps]: "bindR m f = Inr y \<longleftrightarrow> (\<exists>x. m = Inr x \<and> f x = Inr y)"
  by (cases m) auto

lemma bindR_Inl: "bindR m f = Inl e \<longleftrightarrow> m = Inl e \<or> (\<exists>x. m = Inr x \<and> f x = Inl e)"
  by (cases m) auto

lemma bindR_assoc: "bindR (bindR m f) g = bindR m (\<lambda>x. bindR (f x) g)"
  by (cases m) auto

section \<open>Fallible computations on a state\<close>

text \<open>
  A Go method that works inside a transaction and returns an \<^verbatim>\<open>error\<close> is a function from
  the transaction's state to an error or a result with the new state. \<open>bindT\<close> is the
  idiom \<^verbatim>\<open>x, err := m(); if err != nil { rollback; return err }\<close>.
\<close>

type_synonym ('s, 'e, 'a) st = "'s \<Rightarrow> 'e + 'a \<times> 's"

definition returnT :: "'a \<Rightarrow> ('s, 'e, 'a) st" where
  "returnT x = (\<lambda>s. Inr (x, s))"

definition failT :: "'e \<Rightarrow> ('s, 'e, 'a) st" where
  "failT e = (\<lambda>s. Inl e)"

definition bindT :: "('s, 'e, 'a) st \<Rightarrow> ('a \<Rightarrow> ('s, 'e, 'b) st) \<Rightarrow> ('s, 'e, 'b) st" where
  "bindT m f = (\<lambda>s. case m s of Inl e \<Rightarrow> Inl e | Inr (x, s') \<Rightarrow> f x s')"

definition thenT :: "('s, 'e, 'a) st \<Rightarrow> ('s, 'e, 'b) st \<Rightarrow> ('s, 'e, 'b) st" where
  "thenT m m' = bindT m (\<lambda>_. m')"

definition requireT :: "bool \<Rightarrow> 'e \<Rightarrow> ('s, 'e, unit) st" where
  "requireT b e = (if b then returnT () else failT e)"

definition liftT :: "'e + 'a \<Rightarrow> ('s, 'e, 'a) st" where
  "liftT r = (\<lambda>s. case r of Inl e \<Rightarrow> Inl e | Inr x \<Rightarrow> Inr (x, s))"

definition readT :: "('s \<Rightarrow> 'a) \<Rightarrow> ('s, 'e, 'a) st" where
  "readT f = (\<lambda>s. Inr (f s, s))"

definition modifyT :: "('s \<Rightarrow> 's) \<Rightarrow> ('s, 'e, unit) st" where
  "modifyT f = (\<lambda>s. Inr ((), f s))"

definition mapErrT :: "('e \<Rightarrow> 'e) \<Rightarrow> ('s, 'e, 'a) st \<Rightarrow> ('s, 'e, 'a) st" where
  "mapErrT h m = (\<lambda>s. case m s of Inl e \<Rightarrow> Inl (h e) | Inr r \<Rightarrow> Inr r)"

lemma run_simps [simp]:
  "returnT x s = Inr (x, s)"
  "failT e s = Inl e"
  "readT f s = Inr (f s, s)"
  "modifyT g s = Inr ((), g s)"
  by (simp_all add: returnT_def failT_def readT_def modifyT_def)

lemma requireT_Inr [seq_simps]: "requireT b e s = Inr (u, s') \<longleftrightarrow> b \<and> s' = s"
  by (auto simp: requireT_def)

lemma liftT_Inr [seq_simps]: "liftT r s = Inr (x, s') \<longleftrightarrow> r = Inr x \<and> s' = s"
  by (auto simp: liftT_def split: sum.splits)

lemma bindT_Inr [seq_simps]:
  "bindT m f s = Inr (y, s'') \<longleftrightarrow> (\<exists>x s'. m s = Inr (x, s') \<and> f x s' = Inr (y, s''))"
  by (auto simp: bindT_def split: sum.splits)

lemma thenT_Inr [seq_simps]:
  "thenT m m' s = Inr (y, s'') \<longleftrightarrow> (\<exists>x s'. m s = Inr (x, s') \<and> m' s' = Inr (y, s''))"
  by (simp add: thenT_def bindT_Inr)

lemma mapErrT_Inr [seq_simps]: "mapErrT h m s = Inr r \<longleftrightarrow> m s = Inr r"
  by (auto simp: mapErrT_def split: sum.splits)

lemma bindT_run: "m s = Inr (x, s') \<Longrightarrow> bindT m f s = f x s'"
  by (simp add: bindT_def)

lemma bindT_fail: "m s = Inl e \<Longrightarrow> bindT m f s = Inl e"
  by (simp add: bindT_def)

lemmas run_eqs = bindT_def thenT_def requireT_def liftT_def mapErrT_def

subsection \<open>Predicates every run keeps\<close>

text \<open>
  \<open>keepsT R m\<close>: whenever \<open>m\<close> succeeds, the state before and the state after are related
  by \<open>R\<close>. For a reflexive and transitive \<open>R\<close> the rules follow the code's own sequencing,
  so a fact about a whole service reduces to its statements.
\<close>

definition keepsT :: "('s \<Rightarrow> 's \<Rightarrow> bool) \<Rightarrow> ('s, 'e, 'a) st \<Rightarrow> bool" where
  "keepsT R m \<longleftrightarrow> (\<forall>s x s'. m s = Inr (x, s') \<longrightarrow> R s s')"

lemma keepsT_D: "keepsT R m \<Longrightarrow> m s = Inr (x, s') \<Longrightarrow> R s s'"
  by (auto simp: keepsT_def)

locale frame_relation =
  fixes R :: "'s \<Rightarrow> 's \<Rightarrow> bool"
  assumes frame_refl: "R s s"
    and frame_trans: "R s t \<Longrightarrow> R t u \<Longrightarrow> R s u"
begin

lemma keeps_return: "keepsT R (returnT x)"
  by (auto simp: keepsT_def frame_refl)

lemma keeps_fail: "keepsT R (failT e)"
  by (auto simp: keepsT_def)

lemma keeps_read: "keepsT R (readT f)"
  by (auto simp: keepsT_def frame_refl)

lemma keeps_require: "keepsT R (requireT b e)"
  by (auto simp: keepsT_def frame_refl requireT_Inr)

lemma keeps_lift: "keepsT R (liftT r)"
  by (auto simp: keepsT_def frame_refl liftT_Inr)

lemma keeps_modify: "(\<And>s. R s (f s)) \<Longrightarrow> keepsT R (modifyT f)"
  by (auto simp: keepsT_def)

lemma keeps_mapErr: "keepsT R m \<Longrightarrow> keepsT R (mapErrT h m)"
  by (auto simp: keepsT_def mapErrT_Inr)

lemma keeps_bind:
  assumes "keepsT R m" and "\<And>x. keepsT R (f x)"
  shows "keepsT R (bindT m f)"
  using assms unfolding keepsT_def bindT_Inr by (blast intro: frame_trans)

lemma keeps_then: "keepsT R m \<Longrightarrow> keepsT R m' \<Longrightarrow> keepsT R (thenT m m')"
  unfolding thenT_def by (rule keeps_bind)

lemma keeps_if: "keepsT R m \<Longrightarrow> keepsT R m' \<Longrightarrow> keepsT R (if b then m else m')"
  by simp

lemma keeps_case_option:
  "keepsT R m \<Longrightarrow> (\<And>x. keepsT R (f x)) \<Longrightarrow> keepsT R (case v of None \<Rightarrow> m | Some x \<Rightarrow> f x)"
  by (cases v) auto

lemma keeps_case_prod: "(\<And>a b. keepsT R (f a b)) \<Longrightarrow> keepsT R (case p of (a, b) \<Rightarrow> f a b)"
  by (cases p) auto

lemma keeps_case_list:
  "keepsT R m \<Longrightarrow> (\<And>x xs. keepsT R (f x xs)) \<Longrightarrow> keepsT R (case v of [] \<Rightarrow> m | x # xs \<Rightarrow> f x xs)"
  by (cases v) auto

lemmas keeps_seq = keeps_return keeps_fail keeps_read keeps_require keeps_lift keeps_mapErr
  keeps_bind keeps_then keeps_if keeps_case_option keeps_case_prod keeps_case_list

end

section \<open>Loops over a slice\<close>

text \<open>\<^verbatim>\<open>for _, x := range xs { if err := f(x); err != nil { return err } }\<close>\<close>

fun forT :: "('a \<Rightarrow> ('s, 'e, unit) st) \<Rightarrow> 'a list \<Rightarrow> ('s, 'e, unit) st" where
  "forT f [] = returnT ()"
| "forT f (x # xs) = bindT (f x) (\<lambda>_. forT f xs)"

context frame_relation
begin

lemma keeps_forT: "(\<And>x. keepsT R (f x)) \<Longrightarrow> keepsT R (forT f xs)"
  by (induction xs) (auto intro: keeps_return keeps_bind)

end

text \<open>The index of the first element that satisfies a test; \<open>None\<close> for Go's \<^verbatim>\<open>-1\<close>.\<close>

fun find_index :: "('a \<Rightarrow> bool) \<Rightarrow> 'a list \<Rightarrow> nat option" where
  "find_index P [] = None"
| "find_index P (x # xs) = (if P x then Some 0 else map_option Suc (find_index P xs))"

lemma find_index_None [simp]: "find_index P xs = None \<longleftrightarrow> (\<forall>x \<in> set xs. \<not> P x)"
  by (induction xs) auto

lemma find_index_absent: "\<forall>x \<in> set xs. \<not> P x \<Longrightarrow> find_index P xs \<noteq> Some i"
  by (metis find_index_None option.distinct(1))

lemma find_index_SomeD:
  assumes "find_index P xs = Some i"
  shows "i < length xs" and "P (xs ! i)" and "j < i \<Longrightarrow> \<not> P (xs ! j)"
proof -
  have "i < length xs \<and> P (xs ! i) \<and> (\<forall>j < i. \<not> P (xs ! j))"
    using assms
  proof (induction xs arbitrary: i)
    case (Cons x xs)
    then show ?case by (cases i) (auto simp: less_Suc_eq_0_disj split: if_splits)
  qed simp
  then show "i < length xs" and "P (xs ! i)" and "j < i \<Longrightarrow> \<not> P (xs ! j)" by auto
qed

lemma find_index_split:
  assumes "\<forall>y \<in> set ys. \<not> P y" and "P z"
  shows "find_index P (ys @ z # zs) = Some (length ys)"
  using assms by (induction ys) auto

lemma find_index_SomeE:
  assumes "find_index P xs = Some i"
  obtains ys z zs where "xs = ys @ z # zs" "length ys = i" "P z" "\<forall>y \<in> set ys. \<not> P y"
proof
  have i: "i < length xs" using assms by (rule find_index_SomeD)
  show "xs = take i xs @ xs ! i # drop (Suc i) xs" using i by (rule id_take_nth_drop)
  show "length (take i xs) = i" using i by simp
  show "P (xs ! i)" using assms by (rule find_index_SomeD)
  show "\<forall>y \<in> set (take i xs). \<not> P y"
    using find_index_SomeD(3) [OF assms] by (auto simp: in_set_conv_nth)
qed

lemma range_disjoint: "A \<subseteq> range f \<Longrightarrow> \<forall>n. f n \<notin> B \<Longrightarrow> B \<inter> A = {}"
  by blast

section \<open>Lists as tables\<close>

text \<open>A table whose rows change by \<open>R\<close> and that only grows.\<close>

definition grows :: "('a \<Rightarrow> 'a \<Rightarrow> bool) \<Rightarrow> 'a list \<Rightarrow> 'a list \<Rightarrow> bool" where
  "grows R xs ys \<longleftrightarrow> length xs \<le> length ys \<and> (\<forall>i < length xs. R (xs ! i) (ys ! i))"

lemma grows_refl: "(\<And>x. R x x) \<Longrightarrow> grows R xs xs"
  by (simp add: grows_def)

lemma grows_trans:
  assumes "\<And>x y z. R x y \<Longrightarrow> R y z \<Longrightarrow> R x z" and "grows R xs ys" and "grows R ys zs"
  shows "grows R xs zs"
  using assms unfolding grows_def by (meson less_le_trans order_trans)

lemma grows_append: "(\<And>x. R x x) \<Longrightarrow> grows R xs (xs @ ys)"
  by (simp add: grows_def nth_append)

lemma grows_update_where: "(\<And>r. P r \<Longrightarrow> R r (f r)) \<Longrightarrow> (\<And>r. R r r) \<Longrightarrow> grows R t (map (\<lambda>r. if P r then f r else r) t)"
  by (simp add: grows_def)

lemma grows_memberD:
  assumes "grows R xs ys" and "x \<in> set xs"
  obtains y where "y \<in> set ys" "R x y"
proof -
  from assms obtain i where i: "i < length xs" "xs ! i = x" by (auto simp: in_set_conv_nth)
  with assms(1) have "R x (ys ! i)" by (auto simp: grows_def)
  moreover have "ys ! i \<in> set ys" using i assms(1) by (auto simp: grows_def)
  ultimately show thesis using that by blast
qed

text \<open>An SQL \<^verbatim>\<open>UPDATE ... WHERE\<close>: the rows that satisfy the condition are rewritten.\<close>

definition update_where :: "('a \<Rightarrow> bool) \<Rightarrow> ('a \<Rightarrow> 'a) \<Rightarrow> 'a list \<Rightarrow> 'a list" where
  "update_where P f t = map (\<lambda>r. if P r then f r else r) t"

definition rows_affected :: "('a \<Rightarrow> bool) \<Rightarrow> 'a list \<Rightarrow> nat" where
  "rows_affected P t = length (filter P t)"

lemma rows_affected_0 [simp]: "rows_affected P t = 0 \<longleftrightarrow> (\<forall>r \<in> set t. \<not> P r)"
  by (simp add: rows_affected_def filter_empty_conv)

lemma rows_affected_pos: "0 < rows_affected P t \<longleftrightarrow> (\<exists>r \<in> set t. P r)"
  using rows_affected_0 [of P t] by (metis gr0I less_not_refl)

lemma update_where_Nil [simp]: "update_where P f [] = []"
  by (simp add: update_where_def)

lemma update_where_Cons [simp]:
  "update_where P f (r # t) = (if P r then f r else r) # update_where P f t"
  by (simp add: update_where_def)

lemma length_update_where [simp]: "length (update_where P f t) = length t"
  by (simp add: update_where_def)

lemma set_update_where: "set (update_where P f t) = (\<lambda>r. if P r then f r else r) ` set t"
  by (simp add: update_where_def)

lemma in_update_where: "x \<in> set (update_where P f t) \<longleftrightarrow> (\<exists>r \<in> set t. x = (if P r then f r else r))"
  unfolding update_where_def set_map image_iff ..

lemma bex_update_where: "(\<exists>x \<in> set (update_where P f t). Q x) \<longleftrightarrow> (\<exists>r \<in> set t. Q (if P r then f r else r))"
  by (induction t) auto

lemma update_where_none: "\<forall>r \<in> set t. \<not> P r \<Longrightarrow> update_where P f t = t"
  by (induction t) auto

lemma map_update_where:
  assumes "\<And>r. P r \<Longrightarrow> g (f r) = g r"
  shows "map g (update_where P f t) = map g t"
  using assms by (induction t) auto

lemma find_update_where:
  assumes "\<And>r. K (if P r then f r else r) = K r"
  shows "List.find K (update_where P f t) =
         map_option (\<lambda>r. if P r then f r else r) (List.find K t)"
  using assms by (induction t) (auto simp del: not_None_eq)

lemma find_SomeD: "List.find K t = Some r \<Longrightarrow> r \<in> set t \<and> K r"
  by (auto simp: find_Some_iff)

lemma find_None_iff_all: "List.find K t = None \<longleftrightarrow> (\<forall>r \<in> set t. \<not> K r)"
  by (induction t) auto

lemma find_unique_key:
  assumes "distinct (map key t)" and "r \<in> set t"
  shows "List.find (\<lambda>x. key x = key r) t = Some r"
  using assms by (induction t) auto

lemma distinct_map_key: "distinct (map key t) \<Longrightarrow> r \<in> set t \<Longrightarrow> r' \<in> set t \<Longrightarrow>
  key r = key r' \<Longrightarrow> r = r'"
  by (auto simp: distinct_map inj_on_def)

end
