(* ===== verification/Go_Std.thy ===== *)
theory Go_Std
  imports Prelude "HOL-Library.Word" "HOL-Library.Multiset" "HOL-Library.List_Lexorder"
    "HOL-Library.Char_ord"
begin

text \<open>
  The functions of Go's standard library that the modelled code calls: \<^verbatim>\<open>strings.ToLower\<close>
  (on ASCII letters), decimal rendering of integers, \<^verbatim>\<open>hex.EncodeToString\<close>,
  \<^verbatim>\<open>crypto/sha256\<close>, \<^verbatim>\<open>sort.Strings\<close> and \<^verbatim>\<open>encoding/json\<close> on strings. A Go \<^verbatim>\<open>string\<close> and a
  \<^verbatim>\<open>[]byte\<close> are lists of bytes, the \<open>char\<close>s of HOL.
\<close>

unbundle bit_operations_syntax

section \<open>Characters\<close>

abbreviation byte :: "char \<Rightarrow> nat" where
  "byte c \<equiv> of_char c"

definition lower_char :: "char \<Rightarrow> char" where
  "lower_char c = (if 65 \<le> byte c \<and> byte c \<le> 90 then char_of (byte c + 32) else c)"

definition to_lower :: "string \<Rightarrow> string" where
  "to_lower = map lower_char"

definition is_digit_char :: "char \<Rightarrow> bool" where
  "is_digit_char c \<longleftrightarrow> 48 \<le> byte c \<and> byte c \<le> 57"

definition is_lower_hex :: "char \<Rightarrow> bool" where
  "is_lower_hex c \<longleftrightarrow> is_digit_char c \<or> (97 \<le> byte c \<and> byte c \<le> 102)"

lemma byte_less_256: "byte c < 256"
  by (metis of_char_mod_256 mod_less_divisor zero_less_numeral)

lemma byte_char_of [simp]: "n < 256 \<Longrightarrow> byte (char_of n) = n"
  by simp

lemma lower_char_hex [simp]: "is_lower_hex c \<Longrightarrow> lower_char c = c"
  by (auto simp: is_lower_hex_def is_digit_char_def lower_char_def)

lemma to_lower_hex [simp]: "list_all is_lower_hex s \<Longrightarrow> to_lower s = s"
  by (induction s) (auto simp: to_lower_def)

lemma lower_char_idem [simp]: "lower_char (lower_char c) = lower_char c"
  by (auto simp: lower_char_def)

lemma to_lower_idem [simp]: "to_lower (to_lower s) = to_lower s"
  by (simp add: to_lower_def)

lemma length_to_lower [simp]: "length (to_lower s) = length s"
  by (simp add: to_lower_def)

text \<open>\<^verbatim>\<open>%q\<close> of printable text, and text in single quotes.\<close>

definition go_quote :: "string \<Rightarrow> string" where
  "go_quote s = CHR 0x22 # s @ [CHR 0x22]"

definition sq_quote :: "string \<Rightarrow> string" where
  "sq_quote s = CHR 0x27 # s @ [CHR 0x27]"

section \<open>Integers in decimal\<close>

definition digit_char :: "nat \<Rightarrow> char" where
  "digit_char d = char_of (48 + d)"

fun nat_dec :: "nat \<Rightarrow> string" where
  "nat_dec n = (if n < 10 then [digit_char n] else nat_dec (n div 10) @ [digit_char (n mod 10)])"

declare nat_dec.simps [simp del]

text \<open>\<^verbatim>\<open>strconv.Itoa\<close>, and \<^verbatim>\<open>json.Marshal\<close> of an \<^verbatim>\<open>int\<close> or \<^verbatim>\<open>int64\<close>.\<close>

definition int_dec :: "int \<Rightarrow> string" where
  "int_dec n = (if n < 0 then CHR ''-'' # nat_dec (nat (- n)) else nat_dec (nat n))"

definition digit_val :: "char \<Rightarrow> nat" where
  "digit_val c = byte c - 48"

text \<open>The value of a string of digits, most significant first.\<close>

definition dec_val :: "string \<Rightarrow> nat" where
  "dec_val = foldl (\<lambda>a c. 10 * a + digit_val c) 0"

lemma digit_val_char [simp]: "d < 10 \<Longrightarrow> digit_val (digit_char d) = d"
  by (simp add: digit_val_def digit_char_def)

lemma is_digit_digit_char [simp]: "d < 10 \<Longrightarrow> is_digit_char (digit_char d)"
  by (simp add: is_digit_char_def digit_char_def)

lemma nat_dec_ne [simp]: "nat_dec n \<noteq> []"
  by (subst nat_dec.simps) simp

lemma dec_val_snoc: "dec_val (s @ [c]) = 10 * dec_val s + digit_val c"
  by (simp add: dec_val_def)

lemma dec_val_nat_dec [simp]: "dec_val (nat_dec n) = n"
proof (induction n rule: nat_dec.induct)
  case (1 n)
  show ?case
  proof (cases "n < 10")
    case True
    then show ?thesis by (subst nat_dec.simps) (simp add: dec_val_def)
  next
    case False
    then show ?thesis using 1 by (subst nat_dec.simps) (simp add: dec_val_snoc)
  qed
qed

lemma nat_dec_digits: "list_all is_digit_char (nat_dec n)"
proof (induction n rule: nat_dec.induct)
  case (1 n)
  then show ?case by (subst nat_dec.simps) auto
qed

lemma nat_dec_inj: "nat_dec m = nat_dec n \<Longrightarrow> m = n"
  by (metis dec_val_nat_dec)

section \<open>Hexadecimal\<close>

definition hex_digit :: "nat \<Rightarrow> char" where
  "hex_digit d = (if d < 10 then char_of (48 + d) else char_of (87 + d))"

definition hex_encode :: "string \<Rightarrow> string" where
  "hex_encode bs = concat (map (\<lambda>b. [hex_digit (byte b div 16), hex_digit (byte b mod 16)]) bs)"

lemma is_lower_hex_digit [simp]: "d < 16 \<Longrightarrow> is_lower_hex (hex_digit d)"
  by (auto simp: is_lower_hex_def is_digit_char_def hex_digit_def)

lemma length_hex_encode [simp]: "length (hex_encode bs) = 2 * length bs"
  by (induction bs) (auto simp: hex_encode_def)

lemma byte_div_16 [simp]: "byte c div 16 < 16"
  using byte_less_256 [of c] by linarith

lemma hex_encode_lower_hex [simp]: "list_all is_lower_hex (hex_encode bs)"
  by (induction bs) (auto simp: hex_encode_def)

section \<open>SHA-256\<close>

type_synonym w32 = "32 word"

definition sha_k :: "w32 list" where
  "sha_k = [
     1116352408, 1899447441, 3049323471, 3921009573,
     961987163, 1508970993, 2453635748, 2870763221,
     3624381080, 310598401, 607225278, 1426881987,
     1925078388, 2162078206, 2614888103, 3248222580,
     3835390401, 4022224774, 264347078, 604807628,
     770255983, 1249150122, 1555081692, 1996064986,
     2554220882, 2821834349, 2952996808, 3210313671,
     3336571891, 3584528711, 113926993, 338241895,
     666307205, 773529912, 1294757372, 1396182291,
     1695183700, 1986661051, 2177026350, 2456956037,
     2730485921, 2820302411, 3259730800, 3345764771,
     3516065817, 3600352804, 4094571909, 275423344,
     430227734, 506948616, 659060556, 883997877,
     958139571, 1322822218, 1537002063, 1747873779,
     1955562222, 2024104815, 2227730452, 2361852424,
     2428436474, 2756734187, 3204031479, 3329325298]"

definition sha_init :: "w32 list" where
  "sha_init = [
     1779033703, 3144134277, 1013904242, 2773480762,
     1359893119, 2600822924, 528734635, 1541459225]"

definition be32 :: "w32 \<Rightarrow> string" where
  "be32 w = map (\<lambda>i. char_of (unat (drop_bit (24 - 8 * i) w AND 0xff))) [0, 1, 2, 3]"

definition be64 :: "nat \<Rightarrow> string" where
  "be64 n = map (\<lambda>i. char_of (n div 2 ^ (56 - 8 * i) mod 256)) [0, 1, 2, 3, 4, 5, 6, 7]"

fun words_of_bytes :: "string \<Rightarrow> w32 list" where
  "words_of_bytes (a # b # c # d # r) =
     word_of_nat (((byte a * 256 + byte b) * 256 + byte c) * 256 + byte d) # words_of_bytes r"
| "words_of_bytes _ = []"

text \<open>The padded message: a one bit, zeros, and the length in bits as 64 bits.\<close>

definition sha_pad :: "string \<Rightarrow> string" where
  "sha_pad m = m @ [CHR 0x80] @ replicate ((119 - length m mod 64) mod 64) (CHR 0x00) @
     be64 (8 * length m mod 2 ^ 64)"

text \<open>The schedule, most recent word first.\<close>

fun sha_extend :: "nat \<Rightarrow> w32 list \<Rightarrow> w32 list" where
  "sha_extend 0 ws = ws"
| "sha_extend (Suc n) ws =
     (let w2 = ws ! 1; w7 = ws ! 6; w15 = ws ! 14; w16 = ws ! 15;
          s0 = word_rotr 7 w15 XOR word_rotr 18 w15 XOR drop_bit 3 w15;
          s1 = word_rotr 17 w2 XOR word_rotr 19 w2 XOR drop_bit 10 w2
      in sha_extend n ((w16 + s0 + w7 + s1) # ws))"

fun sha_round :: "w32 list \<Rightarrow> w32 \<times> w32 \<Rightarrow> w32 list" where
  "sha_round [a, b, c, d, e, f, g, h] (k, w) =
     (let s1 = word_rotr 6 e XOR word_rotr 11 e XOR word_rotr 25 e;
          ch = (e AND f) XOR (NOT e AND g);
          t1 = h + s1 + ch + k + w;
          s0 = word_rotr 2 a XOR word_rotr 13 a XOR word_rotr 22 a;
          maj = (a AND b) XOR (a AND c) XOR (b AND c)
      in [t1 + (s0 + maj), a, b, c, d + t1, e, f, g])"
| "sha_round hs _ = hs"

definition sha_block :: "w32 list \<Rightarrow> w32 list \<Rightarrow> w32 list" where
  "sha_block hs ws = map2 (+) hs (foldl sha_round hs (zip sha_k (rev (sha_extend 48 (rev ws)))))"

fun sha_blocks :: "w32 list \<Rightarrow> w32 list list \<Rightarrow> w32 list" where
  "sha_blocks hs [] = hs"
| "sha_blocks hs (b # bs) = sha_blocks (sha_block hs b) bs"

fun chunk16 :: "w32 list \<Rightarrow> w32 list list" where
  "chunk16 ws = (if ws = [] then [] else take 16 ws # chunk16 (drop 16 ws))"

declare chunk16.simps [simp del]

definition sha256_sum :: "string \<Rightarrow> string" where
  "sha256_sum m = concat (map be32 (sha_blocks sha_init (chunk16 (words_of_bytes (sha_pad m)))))"

lemma length_sha_round [simp]: "length (sha_round hs kw) = length hs"
  by (induction hs kw rule: sha_round.induct) (auto simp: Let_def)

lemma length_foldl_sha_round [simp]: "length (foldl sha_round hs kws) = length hs"
  by (induction kws arbitrary: hs) auto

lemma length_sha_blocks [simp]: "length (sha_blocks hs bs) = length hs"
  by (induction hs bs rule: sha_blocks.induct) (auto simp: sha_block_def)

lemma length_concat_be32 [simp]: "length (concat (map be32 ws)) = 4 * length ws"
  by (induction ws) (auto simp: be32_def)

lemma length_sha256_sum [simp]: "length (sha256_sum m) = 32"
  by (simp add: sha256_sum_def sha_init_def)

section \<open>JSON strings\<close>

text \<open>
  \<^verbatim>\<open>json.Marshal\<close> of a string escapes the quote, the backslash, control characters, the
  HTML characters and the line separators U+2028 and U+2029, and writes an ill-formed
  UTF-8 byte as \<^verbatim>\<open>\ufffd\<close>. \<open>utf8_len\<close> is the length of the well-formed sequence at the
  start of a string, \<open>0\<close> if there is none (\<^verbatim>\<open>utf8.DecodeRuneInString\<close>).
\<close>

definition is_cont :: "char \<Rightarrow> bool" where
  "is_cont c \<longleftrightarrow> 128 \<le> byte c \<and> byte c \<le> 191"

fun utf8_len :: "string \<Rightarrow> nat" where
  "utf8_len [] = 0"
| "utf8_len (a # r) =
     (let x = byte a in
      if x < 128 then 1
      else if 194 \<le> x \<and> x \<le> 223 then (case r of b # _ \<Rightarrow> if is_cont b then 2 else 0 | _ \<Rightarrow> 0)
      else if 224 \<le> x \<and> x \<le> 239 then
        (case r of b # c # _ \<Rightarrow>
           if is_cont b \<and> is_cont c \<and> (x = 224 \<longrightarrow> 160 \<le> byte b) \<and> (x = 237 \<longrightarrow> byte b \<le> 159)
           then 3 else 0
         | _ \<Rightarrow> 0)
      else if 240 \<le> x \<and> x \<le> 244 then
        (case r of b # c # d # _ \<Rightarrow>
           if is_cont b \<and> is_cont c \<and> is_cont d \<and> (x = 240 \<longrightarrow> 144 \<le> byte b) \<and>
              (x = 244 \<longrightarrow> byte b \<le> 143)
           then 4 else 0
         | _ \<Rightarrow> 0)
      else 0)"

definition u_escape :: "nat \<Rightarrow> string" where
  "u_escape n = [CHR 0x5C, CHR ''u'', hex_digit (n div 4096 mod 16), hex_digit (n div 256 mod 16),
     hex_digit (n div 16 mod 16), hex_digit (n mod 16)]"

definition json_ascii :: "char \<Rightarrow> string" where
  "json_ascii c =
     (if c = CHR 0x22 then [CHR 0x5C, CHR 0x22]
      else if c = CHR 0x5C then [CHR 0x5C, CHR 0x5C]
      else if c = CHR 0x08 then [CHR 0x5C, CHR ''b'']
      else if c = CHR 0x0C then [CHR 0x5C, CHR ''f'']
      else if c = CHR 0x0A then [CHR 0x5C, CHR ''n'']
      else if c = CHR 0x0D then [CHR 0x5C, CHR ''r'']
      else if c = CHR 0x09 then [CHR 0x5C, CHR ''t'']
      else if byte c < 32 \<or> c = CHR ''<'' \<or> c = CHR ''>'' \<or> c = CHR ''&'' then u_escape (byte c)
      else [c])"

fun json_body :: "string \<Rightarrow> string" where
  "json_body [] = []"
| "json_body (a # r) =
     (let n = utf8_len (a # r) in
      if n = 0 then u_escape 65533 @ json_body r
      else if n = 1 then json_ascii a @ json_body r
      else if take 3 (a # r) = [CHR 0xE2, CHR 0x80, CHR 0xA8] then u_escape 8232 @ json_body (drop 2 r)
      else if take 3 (a # r) = [CHR 0xE2, CHR 0x80, CHR 0xA9] then u_escape 8233 @ json_body (drop 2 r)
      else take n (a # r) @ json_body (drop (n - 1) r))"

declare json_body.simps(2) [simp del]

definition json_string :: "string \<Rightarrow> string" where
  "json_string s = CHR 0x22 # json_body s @ [CHR 0x22]"

section \<open>Sorting of strings\<close>

text \<open>
  \<^verbatim>\<open>sort.Strings\<close> compares bytewise, which is the lexicographic order of the library on
  lists of bytes. \<open>sort_by_key\<close> visits the entries of a map in the order of its sorted keys.
\<close>

definition sort_by_key :: "(string \<times> 'a) list \<Rightarrow> (string \<times> 'a) list" where
  "sort_by_key = sort_key fst"

lemma sort_by_key_perm:
  assumes "mset xs = mset ys" and "distinct (map fst xs)"
  shows "sort_by_key xs = sort_by_key ys"
proof -
  have "inj_on fst (set xs)" using assms(2) by (simp add: distinct_map)
  then show ?thesis unfolding sort_by_key_def
    by (intro sort_key_inj_key_eq) (auto simp: assms(1))
qed

lemma set_sort_by_key [simp]: "set (sort_by_key xs) = set xs"
  by (simp add: sort_by_key_def)

lemma map_sort_by_key:
  "sort_by_key (map (\<lambda>(k, v). (k, f v)) xs) = map (\<lambda>(k, v). (k, f v)) (sort_by_key xs)"
proof -
  have ins: "insort_key fst ((\<lambda>(k, v). (k, f v)) e) (map (\<lambda>(k, v). (k, f v)) ys) =
      map (\<lambda>(k, v). (k, f v)) (insort_key fst e ys)" for e ys
    by (induction ys) (auto split: prod.splits)
  show ?thesis unfolding sort_by_key_def
    by (induction xs) (auto simp: ins [symmetric] split: prod.splits)
qed

section \<open>Times in RFC 3339\<close>

text \<open>
  \<^verbatim>\<open>t.UTC().Format(time.RFC3339)\<close> for times after Go's zero time, 1 January of year 1: the
  proleptic Gregorian date by cycles of 400, 100, 4 and 1 years, the month by its length.
\<close>

definition is_leap :: "nat \<Rightarrow> bool" where
  "is_leap y \<longleftrightarrow> y mod 4 = 0 \<and> (y mod 100 \<noteq> 0 \<or> y mod 400 = 0)"

definition civil_year :: "nat \<Rightarrow> nat \<times> nat" where
  "civil_year d =
     (let n400 = d div 146097; d1 = d mod 146097;
          n100 = min 3 (d1 div 36524); d2 = d1 - 36524 * n100;
          n4 = d2 div 1461; d3 = d2 mod 1461;
          n1 = min 3 (d3 div 365)
      in (400 * n400 + 100 * n100 + 4 * n4 + n1 + 1, d3 - 365 * n1))"

fun civil_month :: "nat \<Rightarrow> nat list \<Rightarrow> nat \<Rightarrow> nat \<times> nat" where
  "civil_month m [] d = (m, d + 1)"
| "civil_month m (l # ls) d = (if d < l then (m, d + 1) else civil_month (m + 1) ls (d - l))"

definition month_lengths :: "nat \<Rightarrow> nat list" where
  "month_lengths y = [31, if is_leap y then 29 else 28, 31, 30, 31, 30, 31, 31, 30, 31, 30]"

definition pad_dec :: "nat \<Rightarrow> nat \<Rightarrow> string" where
  "pad_dec w n = replicate (w - length (nat_dec n)) (CHR ''0'') @ nat_dec n"

definition rfc3339 :: "time \<Rightarrow> string" where
  "rfc3339 t =
     (let secs = nat (t div second); d = secs div 86400; r = secs mod 86400;
          (y, yd) = civil_year d; (m, md) = civil_month 1 (month_lengths y) yd
      in pad_dec 4 y @ ''-'' @ pad_dec 2 m @ ''-'' @ pad_dec 2 md @ ''T'' @
         pad_dec 2 (r div 3600) @ '':'' @ pad_dec 2 (r mod 3600 div 60) @ '':'' @ pad_dec 2 (r mod 60) @ ''Z'')"

text \<open>\<^verbatim>\<open>t.Truncate(d)\<close>: down to a multiple of \<open>d\<close> since the zero time.\<close>

definition truncate_time :: "duration \<Rightarrow> time \<Rightarrow> time" where
  "truncate_time d t = t - t mod d"

end
