(* ===== verification/Approval_Errors.thy ===== *)
theory Approval_Errors
  imports Go_Std
begin

text \<open>
  The error values of the approval subsystem: the sentinels of its packages, the errors of
  the database driver, and \<^verbatim>\<open>fmt.Errorf\<close> with and without \<^verbatim>\<open>%w\<close>. \<open>errors_is\<close> and
  \<open>errors_as_pg\<close> walk the chain of wrapped errors as Go's \<^verbatim>\<open>errors.Is\<close> and \<^verbatim>\<open>errors.As\<close> do.
  \<open>MapPgError\<close> translates a PostgreSQL error by its SQLSTATE.
\<close>

datatype gerr =
  \<comment> \<open>\<^verbatim>\<open>approval/repository/errors.go\<close>\<close>
    ErrStaleRevision | ErrNoActiveInstance | ErrDuplicateSubmission | RepoErrActorAlreadySigned
  | ErrCrossTenantSignoff | ErrInstanceCompleted | ErrStageNotActive | ErrFKViolation
  | ErrCheckViolation | ErrInsufficientPrivilege | ErrUnknownDB | ErrRouteInUse
  | ErrDuplicateRouteProfile
  \<comment> \<open>\<^verbatim>\<open>approval/domain\<close>\<close>
  | ErrNoActiveStage | ErrCannotSkipLastStage | ErrRevisionRegression | ErrInstanceTerminal
  | ErrLegacyStateRejected | ErrAuthorCannotSign | ErrActorAlreadySigned
  \<comment> \<open>\<^verbatim>\<open>approval/application\<close>\<close>
  | ErrFloatInFormData | ErrFloatInPayload | ErrInstanceNotApproved | ErrEffectiveDateInPast
  | ErrInvalidObsoleteSource | ErrReasonRequired | ErrRouteNotFound | ErrNoActor
  | ErrLegacyDocumentsRemain
  \<comment> \<open>\<^verbatim>\<open>approval/http\<close> and \<^verbatim>\<open>approval/infra/signature\<close>\<close>
  | ErrIfMatchRequired | ErrIfMatchMalformed | ErrIdempotencyRequired | ErrContentHashMismatch
  | ErrInvalidCredentials | ErrRateLimited | ErrUnknownSignatureMethod
  \<comment> \<open>\<^verbatim>\<open>approval/http/contracts\<close>\<close>
  | ErrContentType | ErrBodyTooLarge | ErrEmptyBody | ErrDuplicateKey
  \<comment> \<open>\<^verbatim>\<open>io\<close>, \<^verbatim>\<open>encoding/json\<close> (with their messages) and \<^verbatim>\<open>context\<close>\<close>
  | IoEOF | IoUnexpectedEOF | JsonSyntaxError string | JsonTypeError string
  | ContextDeadlineExceeded | ContextCanceled
  \<comment> \<open>\<^verbatim>\<open>authz.ErrCapabilityDenied\<close>: capability, area code, actor\<close>
  | ErrCapabilityDenied string string string
  \<comment> \<open>\<^verbatim>\<open>sql.ErrNoRows\<close>; \<^verbatim>\<open>pgconn.PgError\<close>: SQLSTATE, constraint, message; any other driver error\<close>
  | SqlErrNoRows | PgError string string string | DriverError string
  \<comment> \<open>\<^verbatim>\<open>errors.New\<close> or \<^verbatim>\<open>fmt.Errorf\<close> without \<^verbatim>\<open>%w\<close>; \<^verbatim>\<open>fmt.Errorf("...: %w")\<close> and \<^verbatim>\<open>fmt.Errorf("%w: ...")\<close>\<close>
  | NewError string | Wrap string gerr | WrapAfter gerr string

fun errors_is :: "gerr \<Rightarrow> gerr \<Rightarrow> bool" where
  "errors_is (Wrap m e) t = (Wrap m e = t \<or> errors_is e t)"
| "errors_is (WrapAfter e m) t = (WrapAfter e m = t \<or> errors_is e t)"
| "errors_is e t = (e = t)"

fun errors_as_pg :: "gerr \<Rightarrow> (string \<times> string \<times> string) option" where
  "errors_as_pg (PgError c k m) = Some (c, k, m)"
| "errors_as_pg (Wrap m e) = errors_as_pg e"
| "errors_as_pg (WrapAfter e m) = errors_as_pg e"
| "errors_as_pg _ = None"

lemma errors_is_refl [simp]: "errors_is e e"
  by (cases e) auto

lemma errors_is_Wrap: "errors_is e t \<Longrightarrow> errors_is (Wrap m e) t"
  by simp

text \<open>\<^verbatim>\<open>MapPgError\<close> of \<^verbatim>\<open>repository/errors.go\<close>; \<open>hint\<close> is \<^verbatim>\<open>MapHints.UniqueConstraint\<close>.\<close>

definition MapPgError :: "gerr \<Rightarrow> string \<Rightarrow> gerr" where
  "MapPgError err hint =
     (case errors_as_pg err of
        None \<Rightarrow> err
      | Some (code, constraint, msg) \<Rightarrow>
          if code = ''23505'' then
            (if constraint = ''ux_approval_instances_active'' \<or>
                constraint = ''approval_instances_document_v2_id_idempotency_key_key''
             then ErrDuplicateSubmission
             else if constraint = ''approval_signoffs_approval_instance_id_actor_user_id_key'' \<or>
                constraint = ''approval_signoffs_stage_instance_id_actor_user_id_key''
             then RepoErrActorAlreadySigned
             else if constraint = ''approval_routes_tenant_profile_key'' then ErrDuplicateRouteProfile
             else if hint \<noteq> [] \<and> constraint = hint then ErrDuplicateSubmission
             else RepoErrActorAlreadySigned)
          else if code = ''23503'' then ErrFKViolation
          else if code = ''23514'' then
            (if msg \<noteq> [] then WrapAfter ErrCheckViolation msg else ErrCheckViolation)
          else if code = ''42501'' then ErrInsufficientPrivilege
          else if code = ''P0001'' then
            (if prefix ''ErrRouteInUse'' msg then ErrRouteInUse else WrapAfter ErrUnknownDB (msg @ '' (SQLSTATE '' @ code @ '')''))
          else WrapAfter ErrUnknownDB (msg @ '' (SQLSTATE '' @ code @ '')''))"

lemma MapPgError_not_pg: "errors_as_pg e = None \<Longrightarrow> MapPgError e h = e"
  by (simp add: MapPgError_def)

text \<open>No PostgreSQL error leaves the repository as such: the driver's type never escapes.\<close>

lemma MapPgError_hides_pg: "errors_as_pg (MapPgError e h) = None"
proof (cases "errors_as_pg e")
  case (Some p)
  then show ?thesis by (cases p) (simp add: MapPgError_def if_distrib [of errors_as_pg])
qed (simp add: MapPgError_def)

end
