(* ===== verification/Doc_State.thy ===== *)
theory Doc_State
  imports Approval_Errors "HOL-Library.Transitive_Closure_Table"
begin

text \<open>
  The document life cycle of \<^verbatim>\<open>approval/domain/state.go\<close>: the eight states, their text form
  and its parser, and the directed graph of legal transitions; and the older three-state
  cycle of \<^verbatim>\<open>documents_v2/domain/state.go\<close>. Shown here: parsing inverts printing, the legacy
  states are refused, and what the graph allows along a whole path of transitions.
\<close>

datatype DocState =
    StateDraft | StateUnderReview | StateApproved | StateRejected
  | StateScheduled | StatePublished | StateSuperseded | StateObsolete

definition AllStates :: "DocState list" where
  "AllStates = [StateDraft, StateUnderReview, StateApproved, StateRejected,
     StateScheduled, StatePublished, StateSuperseded, StateObsolete]"

fun DocState_String :: "DocState \<Rightarrow> string" where
  "DocState_String StateDraft = ''draft''"
| "DocState_String StateUnderReview = ''under_review''"
| "DocState_String StateApproved = ''approved''"
| "DocState_String StateRejected = ''rejected''"
| "DocState_String StateScheduled = ''scheduled''"
| "DocState_String StatePublished = ''published''"
| "DocState_String StateSuperseded = ''superseded''"
| "DocState_String StateObsolete = ''obsolete''"

definition StateFromString :: "string \<Rightarrow> gerr + DocState" where
  "StateFromString s =
     (case List.find (\<lambda>d. DocState_String d = s) AllStates of
        Some d \<Rightarrow> Inr d
      | None \<Rightarrow> if s = ''finalized'' \<or> s = ''archived'' then Inl ErrLegacyStateRejected
                else Inl (NewError (''unknown document state: '' @ s)))"

definition legalTransitions :: "(DocState \<times> DocState list) list" where
  "legalTransitions =
     [(StateDraft, [StateUnderReview]),
      (StateUnderReview, [StateApproved, StateRejected]),
      (StateRejected, [StateDraft]),
      (StateApproved, [StatePublished, StateScheduled, StateDraft]),
      (StateScheduled, [StatePublished, StateDraft]),
      (StatePublished, [StateSuperseded, StateObsolete]),
      (StateSuperseded, [StateObsolete]),
      (StateObsolete, [])]"

definition IsLegalTransition :: "DocState \<Rightarrow> DocState \<Rightarrow> bool" where
  "IsLegalTransition from to =
     (if from = to then False
      else (case map_of legalTransitions from of
              None \<Rightarrow> False
            | Some targets \<Rightarrow> to \<in> set targets))"

lemma AllStates_complete [simp]: "d \<in> set AllStates"
  by (cases d) (auto simp: AllStates_def)

lemma DocState_String_inj: "DocState_String a = DocState_String b \<Longrightarrow> a = b"
  by (cases a; cases b) auto

text \<open>
  Printing a state and parsing it back gives the state, for all eight states;
  conversely a string that parses is exactly the printed form of the state it parses to, and
  the two legacy names are refused with \<^verbatim>\<open>ErrLegacyStateRejected\<close>.
\<close>

theorem StateFromString_roundtrip:
  "StateFromString (DocState_String d) = Inr d \<and>
   (StateFromString s = Inr d' \<longleftrightarrow> s = DocState_String d') \<and>
   (StateFromString s = Inl ErrLegacyStateRejected \<longleftrightarrow> s \<in> {''finalized'', ''archived''})"
proof -
  have rt: "StateFromString (DocState_String x) = Inr x" for x
    by (cases x) (simp_all add: StateFromString_def AllStates_def)
  have inv: "s = DocState_String d'" if "StateFromString s = Inr d'"
    using that by (auto simp: StateFromString_def dest!: find_SomeD split: option.splits if_splits)
  have leg: "StateFromString s = Inl ErrLegacyStateRejected \<longleftrightarrow> s \<in> {''finalized'', ''archived''}"
    by (auto simp: StateFromString_def AllStates_def split: option.splits if_splits)
  show ?thesis using rt inv leg by blast
qed

lemma IsLegalTransition_simps:
  "IsLegalTransition StateDraft t \<longleftrightarrow> t = StateUnderReview"
  "IsLegalTransition StateUnderReview t \<longleftrightarrow> t = StateApproved \<or> t = StateRejected"
  "IsLegalTransition StateRejected t \<longleftrightarrow> t = StateDraft"
  "IsLegalTransition StateApproved t \<longleftrightarrow> t = StatePublished \<or> t = StateScheduled \<or> t = StateDraft"
  "IsLegalTransition StateScheduled t \<longleftrightarrow> t = StatePublished \<or> t = StateDraft"
  "IsLegalTransition StatePublished t \<longleftrightarrow> t = StateSuperseded \<or> t = StateObsolete"
  "IsLegalTransition StateSuperseded t \<longleftrightarrow> t = StateObsolete"
  "IsLegalTransition StateObsolete t \<longleftrightarrow> False"
  by (auto simp: IsLegalTransition_def legalTransitions_def)

section \<open>Paths of the graph\<close>

abbreviation doc_path :: "DocState \<Rightarrow> DocState \<Rightarrow> bool" where
  "doc_path \<equiv> IsLegalTransition\<^sup>*\<^sup>*"

definition released :: "DocState \<Rightarrow> bool" where
  "released d \<longleftrightarrow> d \<in> {StatePublished, StateSuperseded, StateObsolete}"

lemma released_step: "IsLegalTransition a b \<Longrightarrow> released a \<Longrightarrow> released b"
  by (auto simp: released_def IsLegalTransition_simps)

lemma released_path: "doc_path a b \<Longrightarrow> released a \<Longrightarrow> released b"
  by (induction rule: rtranclp_induct) (auto intro: released_step)

text \<open>
  How far a released document is from the end of its life; every transition goes forward.
\<close>

fun release_rank :: "DocState \<Rightarrow> nat" where
  "release_rank StatePublished = 2"
| "release_rank StateSuperseded = 1"
| "release_rank StateObsolete = 0"
| "release_rank _ = 3"

lemma release_rank_step: "IsLegalTransition a b \<Longrightarrow> released a \<Longrightarrow> release_rank b < release_rank a"
  by (auto simp: released_def IsLegalTransition_simps)

lemma release_rank_path: "doc_path a b \<Longrightarrow> released a \<Longrightarrow> a = b \<or> release_rank b < release_rank a"
proof (induction rule: rtranclp_induct)
  case (step b c)
  then have "released b" using released_path by blast
  with step show ?case using release_rank_step [of b c] by auto
qed simp

lemma no_path_to_published_from_early:
  "doc_path a StatePublished \<Longrightarrow> a \<noteq> StatePublished \<Longrightarrow>
   doc_path a StateApproved"
proof (induction rule: converse_rtranclp_induct)
  case (step a b)
  show ?case
  proof (cases "b = StatePublished")
    case True
    with step.hyps have "a = StateApproved \<or> a = StateScheduled"
      by (cases a) (auto simp: IsLegalTransition_simps)
    moreover have "doc_path StateScheduled StateApproved"
    proof -
      have "IsLegalTransition StateScheduled StateDraft" "IsLegalTransition StateDraft StateUnderReview"
        "IsLegalTransition StateUnderReview StateApproved" by (simp_all add: IsLegalTransition_simps)
      then show ?thesis by (meson converse_rtranclp_into_rtranclp rtranclp.rtrancl_refl)
    qed
    ultimately show ?thesis by auto
  next
    case False
    with step show ?thesis by (meson converse_rtranclp_into_rtranclp)
  qed
qed simp

text \<open>
  The last transition into \<^verbatim>\<open>published\<close> starts from \<^verbatim>\<open>approved\<close> or \<^verbatim>\<open>scheduled\<close>, and \<^verbatim>\<open>scheduled\<close>
  itself is entered from \<^verbatim>\<open>approved\<close> only, so no path reaches \<^verbatim>\<open>published\<close> around the approval.
\<close>

definition skips_approval :: "DocState \<Rightarrow> DocState \<Rightarrow> bool" where
  "skips_approval a b \<longleftrightarrow> IsLegalTransition a b \<and> b \<noteq> StateApproved"

lemma skips_approval_path:
  "skips_approval\<^sup>*\<^sup>* StateDraft b \<Longrightarrow> b \<in> {StateDraft, StateUnderReview, StateRejected}"
  by (induction rule: rtranclp_induct) (auto simp: skips_approval_def IsLegalTransition_simps)

text \<open>
  C22. The transition graph: no state has an edge to itself; \<^verbatim>\<open>obsolete\<close> is final; from a
  released state (published, superseded, obsolete) every path stays released and never comes
  back to a state it left; and from \<^verbatim>\<open>draft\<close> no path that avoids \<^verbatim>\<open>approved\<close> reaches
  \<^verbatim>\<open>scheduled\<close> or any released state.
\<close>

theorem IsLegalTransition_graph:
  "\<not> IsLegalTransition a a \<and> \<not> IsLegalTransition StateObsolete a \<and>
   (released b \<and> doc_path b c \<longrightarrow> released c \<and> (doc_path c b \<longrightarrow> c = b)) \<and>
   (skips_approval\<^sup>*\<^sup>* StateDraft d \<longrightarrow> d \<noteq> StateScheduled \<and> \<not> released d)"
proof -
  have no_return: "c = b" if "released b" "doc_path b c" "doc_path c b"
    using that release_rank_path [of b c] release_rank_path [of c b] released_path [of b c]
    by fastforce
  have "\<not> IsLegalTransition a a" by (simp add: IsLegalTransition_def)
  moreover have "\<not> IsLegalTransition StateObsolete a" by (simp add: IsLegalTransition_simps)
  moreover have "skips_approval\<^sup>*\<^sup>* StateDraft d \<longrightarrow> d \<noteq> StateScheduled \<and> \<not> released d"
    using skips_approval_path [of d] by (auto simp: released_def)
  ultimately show ?thesis using no_return released_path by blast
qed

theorem IsLegalTransition_graph_witness:
  "released StatePublished \<and> doc_path StatePublished StateObsolete \<and>
   \<not> doc_path StateObsolete StatePublished"
proof -
  have p: "doc_path StatePublished StateObsolete"
    by (rule r_into_rtranclp) (simp add: IsLegalTransition_simps)
  moreover have r: "released StatePublished" by (simp add: released_def)
  ultimately show ?thesis using IsLegalTransition_graph by blast
qed

section \<open>The legacy cycle of documents\_v2\<close>

datatype DocumentStatus = DocStatusDraft | DocStatusFinalized | DocStatusArchived | DocStatusOther string

fun CanTransitionDocument :: "DocumentStatus \<Rightarrow> DocumentStatus \<Rightarrow> bool" where
  "CanTransitionDocument DocStatusDraft next = (next = DocStatusFinalized \<or> next = DocStatusArchived)"
| "CanTransitionDocument DocStatusFinalized next = (next = DocStatusArchived)"
| "CanTransitionDocument _ next = False"

lemma CanTransitionDocument_acyclic: "CanTransitionDocument\<^sup>+\<^sup>+ a b \<Longrightarrow> a \<noteq> b"
proof -
  define rk where "rk = (\<lambda>s. case s of DocStatusDraft \<Rightarrow> 2 | DocStatusFinalized \<Rightarrow> 1 | _ \<Rightarrow> (0::nat))"
  have st: "rk y < rk x" if "CanTransitionDocument x y" for x y
    using that by (cases x) (auto simp: rk_def)
  have "rk b < rk a" if "CanTransitionDocument\<^sup>+\<^sup>+ a b"
    using that by (induction rule: tranclp_induct) (auto dest: st)
  then show "CanTransitionDocument\<^sup>+\<^sup>+ a b \<Longrightarrow> a \<noteq> b" by auto
qed

end
