(* ===== verification/Approval_Route.thy ===== *)
theory Approval_Route
  imports Doc_State
begin

text \<open>
  Approval routes, \<^verbatim>\<open>approval/domain/route.go\<close>: the stages of a route, their quorum and drift
  policies, and \<^verbatim>\<open>Route.Validate\<close>. A Go string type with named constants is a datatype, with a
  last constructor for every other string, which the code's default branches see. The validator
  is shown to accept exactly the structurally well-formed routes.
\<close>

section \<open>Routes\<close>

datatype QuorumPolicy = QuorumAny1Of | QuorumAllOf | QuorumMofN | QuorumOther string

fun QuorumPolicy_String :: "QuorumPolicy \<Rightarrow> string" where
  "QuorumPolicy_String QuorumAny1Of = ''any_1_of''"
| "QuorumPolicy_String QuorumAllOf = ''all_of''"
| "QuorumPolicy_String QuorumMofN = ''m_of_n''"
| "QuorumPolicy_String (QuorumOther s) = s"

datatype DriftPolicy = DriftReduceQuorum | DriftFailStage | DriftKeepSnapshot | DriftOther string

record Stage =
  st_order :: int
  st_name :: string
  st_role :: string
  st_capability :: string
  st_area :: string
  st_quorum :: QuorumPolicy
  st_quorum_m :: "int option"
  st_drift :: DriftPolicy

record Route =
  rt_id :: string
  rt_tenant :: string
  rt_profile :: string
  rt_version :: int
  rt_stages :: "Stage list"

text \<open>The loop of \<^verbatim>\<open>Route.Validate\<close>: \<open>i\<close> is the index, \<open>names\<close> the names met so far.\<close>

fun validate_stages :: "int \<Rightarrow> string list \<Rightarrow> Stage list \<Rightarrow> gerr + unit" where
  "validate_stages i names [] = Inr ()"
| "validate_stages i names (s # ss) =
     (if st_order s \<noteq> i + 1 then
        Inl (NewError (''stage order must be dense starting at 1: stage at index '' @ int_dec i @
          '' has order '' @ int_dec (st_order s) @ '', expected '' @ int_dec (i + 1)))
      else if st_quorum s = QuorumMofN \<and> st_quorum_m s = None then
        Inl (NewError (''stage '' @ go_quote (st_name s) @ '': quorum m_of_n requires QuorumM''))
      else if st_quorum s = QuorumMofN \<and> the (st_quorum_m s) < 1 then
        Inl (NewError (''stage '' @ go_quote (st_name s) @ '': QuorumM must be >= 1''))
      else if st_quorum s \<noteq> QuorumMofN \<and> st_quorum_m s \<noteq> None then
        Inl (NewError (''stage '' @ go_quote (st_name s) @ '': QuorumM must be nil for quorum '' @
          QuorumPolicy_String (st_quorum s)))
      else if st_name s \<in> set names then
        Inl (NewError (''duplicate stage name '' @ go_quote (st_name s) @ '' in route''))
      else validate_stages (i + 1) (st_name s # names) ss)"

definition Route_Validate :: "Route \<Rightarrow> gerr + unit" where
  "Route_Validate r =
     (if rt_stages r = [] then Inl (NewError ''route must have at least one stage'')
      else validate_stages 0 [] (rt_stages r))"

text \<open>The structural contract of a stage list.\<close>

definition quorum_m_ok :: "Stage \<Rightarrow> bool" where
  "quorum_m_ok s \<longleftrightarrow>
     (case st_quorum_m s of None \<Rightarrow> st_quorum s \<noteq> QuorumMofN | Some m \<Rightarrow> st_quorum s = QuorumMofN \<and> 1 \<le> m)"

definition route_wf :: "Stage list \<Rightarrow> bool" where
  "route_wf ss \<longleftrightarrow> ss \<noteq> [] \<and> map st_order ss = map int [1..<Suc (length ss)] \<and>
     list_all quorum_m_ok ss \<and> distinct (map st_name ss)"

lemma validate_stages_ok:
  "validate_stages i names ss = Inr () \<longleftrightarrow>
     map st_order ss = map (\<lambda>k. i + 1 + int k) [0..<length ss] \<and> list_all quorum_m_ok ss \<and>
     distinct (map st_name ss) \<and> set names \<inter> set (map st_name ss) = {}"
proof (induction i names ss rule: validate_stages.induct)
  case (2 i names s ss)
  have up: "map (\<lambda>k. i + 1 + int k) [0..<length (s # ss)] =
      (i + 1) # map (\<lambda>k. (i + 1) + 1 + int k) [0..<length ss]"
    by (simp add: upt_conv_Cons map_Suc_upt [symmetric] algebra_simps del: upt_Suc)
  show ?case unfolding up using 2
    by (cases "st_quorum_m s") (auto simp: quorum_m_ok_def)
qed simp

lemma Route_Validate_wf: "Route_Validate r = Inr () \<longleftrightarrow> route_wf (rt_stages r)"
proof -
  have "map int [1..<Suc n] = map (\<lambda>k. 1 + int k) [0..<n]" for n
    by (simp add: map_Suc_upt [symmetric] comp_def del: upt_Suc)
  then show ?thesis
    by (auto simp: Route_Validate_def route_wf_def validate_stages_ok simp del: upt_Suc)
qed

text \<open>
  C21. \<^verbatim>\<open>Route.Validate\<close> accepts a route exactly when it has a stage, the stage orders are
  1, 2, ..., n in this order, \<^verbatim>\<open>QuorumM\<close> is set (and at least 1) on the \<^verbatim>\<open>m_of_n\<close> stages and on no
  other stage, and the stage names are pairwise different.
\<close>

theorem Route_Validate_correct:
  "Route_Validate r = Inr () \<longleftrightarrow>
     rt_stages r \<noteq> [] \<and>
     map st_order (rt_stages r) = map int [1..<Suc (length (rt_stages r))] \<and>
     list_all (\<lambda>s. if st_quorum s = QuorumMofN then (\<exists>m. st_quorum_m s = Some m \<and> 1 \<le> m)
                  else st_quorum_m s = None) (rt_stages r) \<and>
     distinct (map st_name (rt_stages r))"
proof -
  have "quorum_m_ok s \<longleftrightarrow> (if st_quorum s = QuorumMofN then (\<exists>m. st_quorum_m s = Some m \<and> 1 \<le> m)
      else st_quorum_m s = None)" for s
    by (auto simp: quorum_m_ok_def split: option.splits)
  then have "quorum_m_ok = (\<lambda>s. if st_quorum s = QuorumMofN then (\<exists>m. st_quorum_m s = Some m \<and> 1 \<le> m)
      else st_quorum_m s = None)" by (rule ext)
  then show ?thesis by (simp only: Route_Validate_wf route_wf_def)
qed

end
