(* ===== verification/Approval_Instance.thy ===== *)
theory Approval_Instance
  imports Approval_Route
begin

text \<open>
  The approval instance aggregate, \<^verbatim>\<open>approval/domain/instance.go\<close>: its stages and the methods
  that move them. A method that changes its receiver returns the changed value; \<^verbatim>\<open>time.Now()\<close> is
  an argument. Shown here: the shape of the stage list that every method keeps, what each
  method does to it, and that advancing an instance ends in approval.
\<close>

section \<open>Instances and stages\<close>

datatype InstanceStatus = InstanceInProgress | InstanceApproved | InstanceRejected | InstanceCancelled

text \<open>\<open>StageCancelled\<close> is the literal \<^verbatim>\<open>'cancelled'\<close> that \<^verbatim>\<open>cancel_service.go\<close> writes.\<close>

datatype StageStatus =
  StagePending | StageActive | StageCompleted | StageSkipped | StageRejectedHere | StageCancelled

record StageInstance =
  si_id :: string
  si_instance :: string
  si_order :: int
  si_name :: string
  si_role :: string
  si_capability :: string
  si_area :: string
  si_quorum :: QuorumPolicy
  si_quorum_m :: "int option"
  si_drift :: DriftPolicy
  si_eligible :: "string list"
  si_denominator :: "int option"
  si_status :: StageStatus
  si_opened :: "time option"
  si_completed :: "time option"
  si_skip_reason :: string

record Instance =
  in_id :: string
  in_tenant :: string
  in_document :: string
  in_route :: string
  in_route_version :: int
  in_status :: InstanceStatus
  in_submitted_by :: string
  in_submitted_at :: time
  in_completed :: "time option"
  in_content_hash :: string
  in_idem_key :: string
  in_revision :: int
  in_stages :: "StageInstance list"

abbreviation is_active :: "StageInstance \<Rightarrow> bool" where
  "is_active s \<equiv> si_status s = StageActive"

definition Active :: "Instance \<Rightarrow> StageInstance option" where
  "Active inst = List.find is_active (in_stages inst)"

text \<open>
  The second loop of \<^verbatim>\<open>AdvanceStage\<close> and \<^verbatim>\<open>SkipStage\<close>: the first pending stage after index
  \<open>k\<close> becomes active; the flag says whether there was one.
\<close>

fun activate_next :: "time \<Rightarrow> StageInstance list \<Rightarrow> bool \<times> StageInstance list" where
  "activate_next now [] = (False, [])"
| "activate_next now (s # ss) =
     (if si_status s = StagePending
      then (True, s\<lparr>si_status := StageActive, si_opened := Some now\<rparr> # ss)
      else (let (ok, ss') = activate_next now ss in (ok, s # ss')))"

definition AdvanceStage :: "time \<Rightarrow> Instance \<Rightarrow> gerr + Instance" where
  "AdvanceStage now inst =
     (case find_index is_active (in_stages inst) of
        None \<Rightarrow> Inl ErrNoActiveStage
      | Some i \<Rightarrow>
          let ss = in_stages inst;
              done = (ss ! i)\<lparr>si_status := StageCompleted, si_completed := Some now\<rparr>;
              (found, rest) = activate_next now (drop (Suc i) ss);
              ss' = take i ss @ done # rest
          in if found then Inr (inst\<lparr>in_stages := ss'\<rparr>)
             else Inr (inst\<lparr>in_stages := ss', in_status := InstanceApproved, in_completed := Some now\<rparr>))"

definition RejectHere :: "time \<Rightarrow> string \<Rightarrow> Instance \<Rightarrow> gerr + Instance" where
  "RejectHere now reason inst =
     (case find_index is_active (in_stages inst) of
        None \<Rightarrow> Inl ErrNoActiveStage
      | Some i \<Rightarrow>
          let ss = in_stages inst;
              rej = (ss ! i)\<lparr>si_status := StageRejectedHere, si_skip_reason := reason, si_completed := Some now\<rparr>
          in Inr (inst\<lparr>in_stages := ss[i := rej], in_status := InstanceRejected, in_completed := Some now\<rparr>))"

definition SkipStage :: "time \<Rightarrow> string \<Rightarrow> Instance \<Rightarrow> gerr + Instance" where
  "SkipStage now reason inst =
     (case find_index is_active (in_stages inst) of
        None \<Rightarrow> Inl ErrNoActiveStage
      | Some i \<Rightarrow>
          let ss = in_stages inst in
          if \<not> list_ex (\<lambda>s. si_status s = StagePending) (drop (Suc i) ss)
          then Inl ErrCannotSkipLastStage
          else let skipped = (ss ! i)\<lparr>si_status := StageSkipped, si_skip_reason := reason, si_completed := Some now\<rparr>;
                   (found, rest) = activate_next now (drop (Suc i) ss)
               in Inr (inst\<lparr>in_stages := take i ss @ skipped # rest\<rparr>))"

definition BumpRevisionVersion :: "int \<Rightarrow> Instance \<Rightarrow> gerr + Instance" where
  "BumpRevisionVersion next inst =
     (if next < in_revision inst then Inl ErrRevisionRegression
      else Inr (inst\<lparr>in_revision := next\<rparr>))"

definition Instance_Cancel :: "time \<Rightarrow> string \<Rightarrow> Instance \<Rightarrow> gerr + Instance" where
  "Instance_Cancel now reason inst =
     (case in_status inst of
        InstanceApproved \<Rightarrow> Inl ErrInstanceTerminal
      | InstanceRejected \<Rightarrow> Inl ErrInstanceTerminal
      | InstanceCancelled \<Rightarrow> Inl ErrInstanceTerminal
      | InstanceInProgress \<Rightarrow>
          Inr (inst\<lparr>in_status := InstanceCancelled, in_completed := Some now\<rparr>))"

definition isTerminal :: "Instance \<Rightarrow> bool" where
  "isTerminal inst \<longleftrightarrow> in_status inst = InstanceApproved \<or> in_status inst = InstanceRejected \<or>
     in_status inst = InstanceCancelled"

section \<open>The shape of the stage list\<close>

definition stage_done :: "StageInstance \<Rightarrow> bool" where
  "stage_done s \<longleftrightarrow> si_status s = StageCompleted \<or> si_status s = StageSkipped"

definition stage_pending :: "StageInstance \<Rightarrow> bool" where
  "stage_pending s \<longleftrightarrow> si_status s = StagePending"

text \<open>Finished stages, then one stage with the given status, then stages not yet opened.\<close>

fun shape_at :: "StageStatus \<Rightarrow> StageInstance list \<Rightarrow> bool" where
  "shape_at st [] = False"
| "shape_at st (s # ss) =
     (if stage_done s then shape_at st ss else si_status s = st \<and> list_all stage_pending ss)"

definition instance_wf :: "Instance \<Rightarrow> bool" where
  "instance_wf inst =
     (case in_status inst of
        InstanceInProgress \<Rightarrow> shape_at StageActive (in_stages inst)
      | InstanceApproved \<Rightarrow> list_all stage_done (in_stages inst)
      | InstanceRejected \<Rightarrow> shape_at StageRejectedHere (in_stages inst)
      | InstanceCancelled \<Rightarrow> shape_at StageActive (in_stages inst))"

lemma shape_atE:
  assumes "shape_at st ss"
  obtains ys z zs where "ss = ys @ z # zs" "list_all stage_done ys" "si_status z = st"
    "\<not> stage_done z" "list_all stage_pending zs"
proof -
  have "\<exists>ys z zs. ss = ys @ z # zs \<and> list_all stage_done ys \<and> si_status z = st \<and>
      \<not> stage_done z \<and> list_all stage_pending zs"
    using assms
  proof (induction ss)
    case (Cons s ss)
    show ?case
    proof (cases "stage_done s")
      case True
      with Cons obtain ys z zs where "ss = ys @ z # zs" "list_all stage_done ys" "si_status z = st"
        "\<not> stage_done z" "list_all stage_pending zs" by auto
      with True show ?thesis by (intro exI [of _ "s # ys"] exI [of _ z] exI [of _ zs]) simp
    next
      case False
      with Cons.prems show ?thesis
        by (intro exI [of _ "[]"] exI [of _ s] exI [of _ ss]) simp
    qed
  qed simp
  then show thesis using that by blast
qed

lemma shape_at_append [simp]: "list_all stage_done ys \<Longrightarrow> shape_at st (ys @ zs) = shape_at st zs"
  by (induction ys) auto

lemma active_index:
  assumes "list_all stage_done ys" and "is_active z"
  shows "find_index is_active (ys @ z # zs) = Some (length ys)"
  using assms by (intro find_index_split) (auto simp: list_all_iff stage_done_def)

lemma activate_next_pending:
  "list_all stage_pending zs \<Longrightarrow> activate_next now zs =
     (case zs of [] \<Rightarrow> (False, [])
      | z # zs' \<Rightarrow> (True, z\<lparr>si_status := StageActive, si_opened := Some now\<rparr> # zs'))"
  by (cases zs) (auto simp: stage_pending_def)

lemma no_active_done: "list_all stage_done ss \<Longrightarrow> find_index is_active ss \<noteq> Some i"
  by (rule find_index_absent) (auto simp: list_all_iff stage_done_def)

lemma no_active_rejected: "shape_at StageRejectedHere ss \<Longrightarrow> find_index is_active ss \<noteq> Some i"
  by (rule find_index_absent, erule shape_atE)
    (auto simp: list_all_iff stage_done_def stage_pending_def)

lemma not_done_simps [simp]:
  "si_status z = StageActive \<Longrightarrow> \<not> stage_done z"
  "si_status z = StageRejectedHere \<Longrightarrow> \<not> stage_done z"
  "stage_done (z\<lparr>si_status := StageCompleted, si_completed := c\<rparr>)"
  "stage_done (z\<lparr>si_status := StageSkipped, si_skip_reason := r, si_completed := c\<rparr>)"
  by (auto simp: stage_done_def)

lemma AdvanceStage_at:
  assumes "in_stages inst = ys @ z # zs" "list_all stage_done ys" "is_active z"
    "list_all stage_pending zs"
  shows "AdvanceStage now inst =
    (let done = z\<lparr>si_status := StageCompleted, si_completed := Some now\<rparr> in
     case zs of
       [] \<Rightarrow> Inr (inst\<lparr>in_stages := ys @ [done], in_status := InstanceApproved, in_completed := Some now\<rparr>)
     | y # zs' \<Rightarrow> Inr (inst\<lparr>in_stages :=
         ys @ done # y\<lparr>si_status := StageActive, si_opened := Some now\<rparr> # zs'\<rparr>))"
  using assms by (simp add: AdvanceStage_def active_index activate_next_pending Let_def nth_append
      split: list.split)

lemma SkipStage_at:
  assumes "in_stages inst = ys @ z # zs" "list_all stage_done ys" "is_active z"
    "list_all stage_pending zs"
  shows "SkipStage now reason inst =
    (case zs of
       [] \<Rightarrow> Inl ErrCannotSkipLastStage
     | y # zs' \<Rightarrow> Inr (inst\<lparr>in_stages :=
         ys @ z\<lparr>si_status := StageSkipped, si_skip_reason := reason, si_completed := Some now\<rparr> #
         y\<lparr>si_status := StageActive, si_opened := Some now\<rparr> # zs'\<rparr>))"
  using assms by (cases zs) (simp_all add: SkipStage_def active_index activate_next_pending Let_def
      nth_append stage_pending_def)

lemma RejectHere_at:
  assumes "in_stages inst = ys @ z # zs" "list_all stage_done ys" "is_active z"
  shows "RejectHere now reason inst =
    Inr (inst\<lparr>in_stages := ys @ z\<lparr>si_status := StageRejectedHere, si_skip_reason := reason,
        si_completed := Some now\<rparr> # zs,
      in_status := InstanceRejected, in_completed := Some now\<rparr>)"
  using assms by (simp add: RejectHere_def active_index Let_def nth_append)

lemmas stage_moves_at = AdvanceStage_at SkipStage_at RejectHere_at

section \<open>Methods that keep the shape\<close>

text \<open>What a method of the aggregate promises: the shape, the identity and the number of stages.\<close>

definition same_identity :: "Instance \<Rightarrow> Instance \<Rightarrow> bool" where
  "same_identity a b \<longleftrightarrow> in_id b = in_id a \<and> in_tenant b = in_tenant a \<and> in_document b = in_document a \<and>
     in_route b = in_route a \<and> in_submitted_by b = in_submitted_by a \<and>
     map si_id (in_stages b) = map si_id (in_stages a)"

locale instance_method =
  fixes meth :: "Instance \<Rightarrow> gerr + Instance"
  assumes meth_wf: "instance_wf inst \<Longrightarrow> meth inst = Inr inst' \<Longrightarrow> instance_wf inst'"
    and meth_identity: "instance_wf inst \<Longrightarrow> meth inst = Inr inst' \<Longrightarrow> same_identity inst inst'"
begin

lemma iterate_wf:
  "instance_wf inst \<Longrightarrow> ((\<lambda>r. bindR r meth) ^^ n) (Inr inst) = Inr inst' \<Longrightarrow>
   instance_wf inst' \<and> same_identity inst inst'"
proof (induction n arbitrary: inst')
  case 0
  then show ?case by (simp add: same_identity_def)
next
  case (Suc n)
  then obtain mid where "((\<lambda>r. bindR r meth) ^^ n) (Inr inst) = Inr mid" "meth mid = Inr inst'"
    by (auto simp: bindR_Inr)
  moreover from this Suc have "instance_wf mid" "same_identity inst mid" by auto
  ultimately show ?case using meth_wf [of mid] meth_identity [of mid] by (simp add: same_identity_def)
qed

end

text \<open>The two shapes with an active stage: in progress, and cancelled before the end.\<close>

lemma wf_activeE:
  assumes "instance_wf inst" "find_index is_active (in_stages inst) = Some i"
  obtains ys z zs where "in_stages inst = ys @ z # zs" "list_all stage_done ys" "is_active z"
    "list_all stage_pending zs" "in_status inst \<in> {InstanceInProgress, InstanceCancelled}"
proof (cases "in_status inst")
  case InstanceInProgress
  with assms(1) show ?thesis by (auto simp: instance_wf_def elim!: shape_atE intro: that)
next
  case InstanceCancelled
  with assms(1) show ?thesis by (auto simp: instance_wf_def elim!: shape_atE intro: that)
next
  case InstanceApproved
  with assms show ?thesis by (simp add: instance_wf_def no_active_done)
next
  case InstanceRejected
  with assms show ?thesis by (simp add: instance_wf_def no_active_rejected)
qed

lemma stage_done_after [simp]:
  "stage_done (s\<lparr>si_status := StageActive, si_opened := c\<rparr>) = False"
  by (simp add: stage_done_def)

interpretation advance: instance_method "AdvanceStage now"
proof
  fix inst inst' assume wf: "instance_wf inst" and r: "AdvanceStage now inst = Inr inst'"
  from r obtain i where "find_index is_active (in_stages inst) = Some i"
    by (auto simp: AdvanceStage_def split: option.splits)
  with wf obtain ys z zs where d: "in_stages inst = ys @ z # zs" "list_all stage_done ys" "is_active z"
    "list_all stage_pending zs" "in_status inst \<in> {InstanceInProgress, InstanceCancelled}"
    by (rule wf_activeE)
  from d r show "instance_wf inst'" and "same_identity inst inst'"
    by (auto simp: AdvanceStage_at Let_def instance_wf_def same_identity_def 
        split: list.splits InstanceStatus.splits)
qed

interpretation skip: instance_method "SkipStage now reason"
proof
  fix inst inst' assume wf: "instance_wf inst" and r: "SkipStage now reason inst = Inr inst'"
  from r obtain i where "find_index is_active (in_stages inst) = Some i"
    by (auto simp: SkipStage_def split: option.splits)
  with wf obtain ys z zs where d: "in_stages inst = ys @ z # zs" "list_all stage_done ys" "is_active z"
    "list_all stage_pending zs" "in_status inst \<in> {InstanceInProgress, InstanceCancelled}"
    by (rule wf_activeE)
  from d r show "instance_wf inst'" and "same_identity inst inst'"
    by (auto simp: SkipStage_at instance_wf_def same_identity_def
        split: list.splits InstanceStatus.splits)
qed

interpretation reject: instance_method "RejectHere now reason"
proof
  fix inst inst' assume wf: "instance_wf inst" and r: "RejectHere now reason inst = Inr inst'"
  from r obtain i where "find_index is_active (in_stages inst) = Some i"
    by (auto simp: RejectHere_def split: option.splits)
  with wf obtain ys z zs where d: "in_stages inst = ys @ z # zs" "list_all stage_done ys" "is_active z"
    "list_all stage_pending zs" by (rule wf_activeE)
  from d r show "instance_wf inst'" and "same_identity inst inst'"
    by (auto simp: RejectHere_at instance_wf_def same_identity_def )
qed

interpretation cancel: instance_method "Instance_Cancel now reason"
  by unfold_locales
    (auto simp: Instance_Cancel_def instance_wf_def same_identity_def split: InstanceStatus.splits)

interpretation bump: instance_method "BumpRevisionVersion next"
  by unfold_locales
    (auto simp: BumpRevisionVersion_def instance_wf_def same_identity_def
      split: InstanceStatus.splits if_splits)

lemmas method_facts = advance.meth_wf advance.meth_identity skip.meth_wf skip.meth_identity
  reject.meth_wf reject.meth_identity cancel.meth_wf cancel.meth_identity bump.meth_wf
  bump.meth_identity

section \<open>Properties\<close>

text \<open>The calls a client can make on an instance.\<close>

datatype inst_call = CallAdvance time | CallReject time string | CallSkip time string
  | CallBump int | CallCancel time string

fun run_call :: "inst_call \<Rightarrow> Instance \<Rightarrow> gerr + Instance" where
  "run_call (CallAdvance t) = AdvanceStage t"
| "run_call (CallReject t r) = RejectHere t r"
| "run_call (CallSkip t r) = SkipStage t r"
| "run_call (CallBump n) = BumpRevisionVersion n"
| "run_call (CallCancel t r) = Instance_Cancel t r"

fun run_calls :: "inst_call list \<Rightarrow> Instance \<Rightarrow> gerr + Instance" where
  "run_calls [] inst = Inr inst"
| "run_calls (c # cs) inst = bindR (run_call c inst) (run_calls cs)"

lemma run_call_wf:
  "instance_wf inst \<Longrightarrow> run_call c inst = Inr inst' \<Longrightarrow> instance_wf inst' \<and> same_identity inst inst'"
proof (induction c)
  case (CallAdvance t)
  then show ?case by (metis run_call.simps(1) advance.meth_wf advance.meth_identity)
next
  case (CallReject t r)
  then show ?case by (metis run_call.simps(2) reject.meth_wf reject.meth_identity)
next
  case (CallSkip t r)
  then show ?case by (metis run_call.simps(3) skip.meth_wf skip.meth_identity)
next
  case (CallBump n)
  then show ?case by (metis run_call.simps(4) bump.meth_wf bump.meth_identity)
next
  case (CallCancel t r)
  then show ?case by (metis run_call.simps(5) cancel.meth_wf cancel.meth_identity)
qed

lemma run_call_revision: "run_call c inst = Inr inst' \<Longrightarrow> in_revision inst \<le> in_revision inst'"
  by (cases c) (auto simp: AdvanceStage_def RejectHere_def SkipStage_def BumpRevisionVersion_def
      Instance_Cancel_def Let_def split: option.splits if_splits prod.splits InstanceStatus.splits)

lemma shape_active_count:
  "shape_at st ss \<Longrightarrow> length (filter is_active ss) < 2"
proof (erule shape_atE)
  fix ys z zs assume "ss = ys @ z # zs" "list_all stage_done ys" "list_all stage_pending zs"
  moreover from this have "filter is_active ys = []" "filter is_active zs = []"
    by (auto simp: filter_empty_conv list_all_iff stage_done_def stage_pending_def)
  ultimately show ?thesis by simp
qed

lemma wf_one_active: "instance_wf inst \<Longrightarrow> length (filter is_active (in_stages inst)) < 2"
proof (cases "in_status inst")
  case InstanceApproved
  assume "instance_wf inst"
  with InstanceApproved have "filter is_active (in_stages inst) = []"
    by (auto simp: instance_wf_def filter_empty_conv list_all_iff stage_done_def)
  then show ?thesis by simp
qed (auto simp: instance_wf_def intro: shape_active_count)

text \<open>
  C13. Whatever methods a client calls on a well-formed instance, in whatever order, the
  instance stays well-formed (finished stages, then the current one, then unopened ones, in step
  with the instance's status), so it never has two active stages; its identity and its stages
  stay the same ones; and its revision version never decreases.
\<close>

theorem run_calls_wf:
  "instance_wf inst \<Longrightarrow> run_calls cs inst = Inr inst' \<Longrightarrow>
   instance_wf inst' \<and> length (filter is_active (in_stages inst')) < 2 \<and>
   same_identity inst inst' \<and> in_revision inst \<le> in_revision inst'"
proof (induction cs arbitrary: inst)
  case Nil
  then show ?case by (auto simp: same_identity_def wf_one_active)
next
  case (Cons c cs)
  then obtain mid where m: "run_call c inst = Inr mid" "run_calls cs mid = Inr inst'"
    by (auto simp: bindR_Inr)
  with Cons.prems have "instance_wf mid" "same_identity inst mid" by (auto dest: run_call_wf)
  with Cons.IH [OF _ m(2)] run_call_revision [OF m(1)] show ?case by (auto simp: same_identity_def)
qed

definition sample_stage :: "string \<Rightarrow> StageStatus \<Rightarrow> StageInstance" where
  "sample_stage n st = \<lparr>si_id = n, si_instance = ''i'', si_order = 1, si_name = n, si_role = ''qa'',
     si_capability = ''doc.signoff'', si_area = ''prod'', si_quorum = QuorumAny1Of,
     si_quorum_m = None, si_drift = DriftKeepSnapshot, si_eligible = [], si_denominator = None,
     si_status = st, si_opened = None, si_completed = None, si_skip_reason = []\<rparr>"

definition sample_instance :: Instance where
  "sample_instance = \<lparr>in_id = ''i'', in_tenant = ''t'', in_document = ''d'', in_route = ''r'',
     in_route_version = 1, in_status = InstanceInProgress, in_submitted_by = ''ana'',
     in_submitted_at = 5, in_completed = None, in_content_hash = [], in_idem_key = [],
     in_revision = 0,
     in_stages = [sample_stage ''a'' StageActive, sample_stage ''b'' StagePending,
       sample_stage ''c'' StagePending]\<rparr>"

lemmas sample_simps = sample_instance_def sample_stage_def

lemma sample_wf: "instance_wf sample_instance"
  by (simp add: sample_simps instance_wf_def stage_done_def stage_pending_def)

theorem run_calls_wf_witness:
  "\<exists>inst'. run_calls [CallAdvance 7, CallSkip 8 ''absent'', CallAdvance 9] sample_instance = Inr inst' \<and>
     instance_wf inst' \<and> in_status inst' = InstanceApproved"
proof -
  let ?cs = "[CallAdvance 7, CallSkip 8 ''absent'', CallAdvance 9]"
  obtain inst' where r: "run_calls ?cs sample_instance = Inr inst'" "in_status inst' = InstanceApproved"
    by (simp add: sample_simps AdvanceStage_def SkipStage_def)
  with run_calls_wf [OF sample_wf r(1)] show ?thesis by auto
qed

text \<open>Repeated \<^verbatim>\<open>AdvanceStage\<close>: one call per stage that is still open.\<close>

fun advance_all :: "time list \<Rightarrow> Instance \<Rightarrow> gerr + Instance" where
  "advance_all [] inst = Inr inst"
| "advance_all (t # ts) inst = bindR (AdvanceStage t inst) (advance_all ts)"

definition open_stages :: "Instance \<Rightarrow> nat" where
  "open_stages inst = length (filter (\<lambda>s. is_active s \<or> stage_pending s) (in_stages inst))"

lemma open_stages_at:
  assumes "in_stages inst = ys @ z # zs" "list_all stage_done ys" "is_active z" "list_all stage_pending zs"
  shows "open_stages inst = Suc (length zs)"
proof -
  have "filter (\<lambda>s. is_active s \<or> stage_pending s) ys = []"
    using assms(2) by (auto simp: filter_empty_conv list_all_iff stage_done_def stage_pending_def)
  moreover have "filter (\<lambda>s. is_active s \<or> stage_pending s) zs = zs"
    using assms(4) by (auto simp: filter_id_conv list_all_iff)
  ultimately show ?thesis using assms by (simp add: open_stages_def)
qed

lemma advance_progress:
  assumes "instance_wf inst" "in_status inst = InstanceInProgress"
  obtains inst' where "AdvanceStage t inst = Inr inst'" "instance_wf inst'"
    "open_stages inst = Suc (open_stages inst')"
    "in_status inst' = (if open_stages inst' = 0 then InstanceApproved else InstanceInProgress)"
proof -
  from assms obtain ys z zs where d: "in_stages inst = ys @ z # zs" "list_all stage_done ys"
    "is_active z" "list_all stage_pending zs"
    by (auto simp: instance_wf_def elim!: shape_atE)
  let ?z = "z\<lparr>si_status := StageCompleted, si_completed := Some t\<rparr>"
  have o: "open_stages inst = Suc (length zs)" using d by (rule open_stages_at)
  show thesis
  proof (cases zs)
    case Nil
    let ?r = "inst\<lparr>in_stages := ys @ [?z], in_status := InstanceApproved, in_completed := Some t\<rparr>"
    have r: "AdvanceStage t inst = Inr ?r" using d Nil by (simp add: AdvanceStage_at Let_def)
    have "list_all stage_done (in_stages ?r)" using d by simp
    then have "open_stages ?r = 0"
      by (auto simp: open_stages_def filter_empty_conv list_all_iff stage_done_def stage_pending_def)
    with r o Nil advance.meth_wf [OF assms(1) r] show ?thesis by (intro that [of ?r]) auto
  next
    case (Cons y zs')
    let ?y = "y\<lparr>si_status := StageActive, si_opened := Some t\<rparr>"
    let ?r = "inst\<lparr>in_stages := ys @ ?z # ?y # zs'\<rparr>"
    have r: "AdvanceStage t inst = Inr ?r" using d Cons by (simp add: AdvanceStage_at Let_def)
    have "open_stages ?r = Suc (length zs')"
      using d Cons by (intro open_stages_at [of _ "ys @ [?z]" ?y zs']) auto
    with r o Cons assms(2) advance.meth_wf [OF assms(1) r] show ?thesis
      by (intro that [of ?r]) auto
  qed
qed

text \<open>
  C14. Advancing ends in approval: from a well-formed instance in progress, as many
  calls of \<^verbatim>\<open>AdvanceStage\<close> as there are open stages all succeed and leave the instance approved,
  with every stage completed or skipped; with fewer calls it is still in progress.
\<close>

theorem advance_all_approves:
  assumes "instance_wf inst" "in_status inst = InstanceInProgress" "length ts \<le> open_stages inst"
  shows "\<exists>inst'. advance_all ts inst = Inr inst' \<and> instance_wf inst' \<and>
     (length ts = open_stages inst \<longrightarrow>
        in_status inst' = InstanceApproved \<and> list_all stage_done (in_stages inst')) \<and>
     (length ts < open_stages inst \<longrightarrow> in_status inst' = InstanceInProgress)"
  using assms
proof (induction ts arbitrary: inst)
  case Nil
  then have "open_stages inst \<noteq> 0"
    by (auto simp: instance_wf_def elim!: shape_atE dest: open_stages_at)
  with Nil show ?case by auto
next
  case (Cons t ts)
  from Cons.prems(1,2) obtain mid where m: "AdvanceStage t inst = Inr mid" "instance_wf mid"
    "open_stages inst = Suc (open_stages mid)"
    "in_status mid = (if open_stages mid = 0 then InstanceApproved else InstanceInProgress)"
    by (rule advance_progress)
  show ?case
  proof (cases "open_stages mid = 0")
    case True
    with Cons.prems(3) m have "ts = []" by simp
    with True m show ?thesis by (auto simp: instance_wf_def)
  next
    case False
    with m Cons.IH [of mid] Cons.prems(3) show ?thesis by auto
  qed
qed

theorem advance_all_approves_witness:
  "\<exists>inst'. advance_all [7, 8, 9] sample_instance = Inr inst' \<and> in_status inst' = InstanceApproved"
proof -
  have "open_stages sample_instance = 3"
    by (simp add: sample_simps open_stages_def stage_pending_def)
  with advance_all_approves [OF sample_wf, of "[7, 8, 9]"] show ?thesis
    by (auto simp: sample_simps)
qed

end
