(* ===== verification/Approval_Signoff.thy ===== *)
theory Approval_Signoff
  imports Approval_Instance
begin

text \<open>
  Signoffs and separation of duties, \<^verbatim>\<open>approval/domain/signoff.go\<close> and \<^verbatim>\<open>sod.go\<close>: the validating
  constructor of the immutable \<^verbatim>\<open>Signoff\<close> value and \<^verbatim>\<open>CheckSoD\<close>.
\<close>

section \<open>Signoffs and separation of duties\<close>

record Signoff =
  sg_id :: string
  sg_instance :: string
  sg_stage :: string
  sg_actor :: string
  sg_tenant :: string
  sg_decision :: string
  sg_comment :: string
  sg_signed_at :: time
  sg_method :: string
  sg_payload :: string
  sg_content_hash :: string

definition DecisionApprove :: string where "DecisionApprove = ''approve''"
definition DecisionReject :: string where "DecisionReject = ''reject''"

text \<open>\<^verbatim>\<open>hashRegex\<close>, \<^verbatim>\<open>^[0-9a-f]{64}$\<close>.\<close>

definition hash_ok :: "string \<Rightarrow> bool" where
  "hash_ok h \<longleftrightarrow> length h = 64 \<and> list_all is_lower_hex h"

text \<open>
  \<^verbatim>\<open>SignoffParams\<close> and \<^verbatim>\<open>Signoff\<close> have the same fields, so the parameters are a \<open>Signoff\<close> too.
\<close>

definition NewSignoff :: "Signoff \<Rightarrow> gerr + Signoff" where
  "NewSignoff p =
     (if sg_id p = [] then Inl (NewError ''signoff: ID is required'')
      else if sg_instance p = [] then Inl (NewError ''signoff: ApprovalInstanceID is required'')
      else if sg_stage p = [] then Inl (NewError ''signoff: StageInstanceID is required'')
      else if sg_actor p = [] then Inl (NewError ''signoff: ActorUserID is required'')
      else if sg_tenant p = [] then Inl (NewError ''signoff: ActorTenantID is required'')
      else if sg_decision p \<noteq> DecisionApprove \<and> sg_decision p \<noteq> DecisionReject
      then Inl (NewError (''signoff: Decision must be '' @ sq_quote ''approve'' @ '' or '' @ sq_quote ''reject''))
      else if sg_signed_at p = 0 then Inl (NewError ''signoff: SignedAt must not be zero'')
      else let hash = to_lower (sg_content_hash p) in
           if \<not> hash_ok hash
           then Inl (NewError ''signoff: ContentHash must be 64 lowercase hex chars (sha-256)'')
           else Inr (p\<lparr>sg_content_hash := hash\<rparr>))"

fun CheckSoD :: "string \<Rightarrow> string \<Rightarrow> Signoff list \<Rightarrow> gerr + unit" where
  "CheckSoD author actor prior =
     (if actor = author then Inl ErrAuthorCannotSign
      else if list_ex (\<lambda>s. sg_actor s = actor) prior then Inl ErrActorAlreadySigned
      else Inr ())"

lemma CheckSoD_ok:
  "CheckSoD author actor prior = Inr u \<longleftrightarrow> actor \<noteq> author \<and> actor \<notin> sg_actor ` set prior"
  by (auto simp: list_ex_iff)

section \<open>Properties\<close>

lemma hash_ok_lower: "hash_ok (to_lower h) \<Longrightarrow> to_lower (to_lower h) = to_lower h"
  by simp

lemma NewSignoff_ok:
  "NewSignoff p = Inr s \<longleftrightarrow>
     sg_id p \<noteq> [] \<and> sg_instance p \<noteq> [] \<and> sg_stage p \<noteq> [] \<and> sg_actor p \<noteq> [] \<and> sg_tenant p \<noteq> [] \<and>
     sg_decision p \<in> {DecisionApprove, DecisionReject} \<and> sg_signed_at p \<noteq> 0 \<and>
     hash_ok (to_lower (sg_content_hash p)) \<and> s = p\<lparr>sg_content_hash := to_lower (sg_content_hash p)\<rparr>"
  by (auto simp: NewSignoff_def Let_def)

lemma NewSignoff_fields:
  assumes "NewSignoff p = Inr s"
  shows "sg_actor s = sg_actor p" "sg_instance s = sg_instance p" "sg_stage s = sg_stage p"
    "sg_tenant s = sg_tenant p" "sg_decision s = sg_decision p" "sg_id s = sg_id p"
    "sg_content_hash s = to_lower (sg_content_hash p)" "sg_signed_at s = sg_signed_at p"
  using assms by (auto simp: NewSignoff_ok)

text \<open>
  C24. \<^verbatim>\<open>NewSignoff\<close> accepts exactly the parameters with every identifier set, a decision that is
  \<^verbatim>\<open>approve\<close> or \<^verbatim>\<open>reject\<close>, a signing time and a content hash of 64 hex digits in either case; the
  signoff it builds is the parameters with the hash in lower case; and building a signoff
  again from a stored one (what the scan of the table does) gives the same signoff.
\<close>

theorem NewSignoff_accepts:
  "(NewSignoff p = Inr s \<longleftrightarrow>
     (\<forall>f \<in> {sg_id, sg_instance, sg_stage, sg_actor, sg_tenant}. f p \<noteq> []) \<and>
     sg_decision p \<in> {''approve'', ''reject''} \<and> sg_signed_at p \<noteq> 0 \<and>
     length (sg_content_hash p) = 64 \<and> list_all is_lower_hex (to_lower (sg_content_hash p)) \<and>
     s = p\<lparr>sg_content_hash := to_lower (sg_content_hash p)\<rparr>) \<and>
   bindR (NewSignoff p) NewSignoff = NewSignoff p"
proof
  show "NewSignoff p = Inr s \<longleftrightarrow>
     (\<forall>f \<in> {sg_id, sg_instance, sg_stage, sg_actor, sg_tenant}. f p \<noteq> []) \<and>
     sg_decision p \<in> {''approve'', ''reject''} \<and> sg_signed_at p \<noteq> 0 \<and>
     length (sg_content_hash p) = 64 \<and> list_all is_lower_hex (to_lower (sg_content_hash p)) \<and>
     s = p\<lparr>sg_content_hash := to_lower (sg_content_hash p)\<rparr>"
    by (auto simp: NewSignoff_ok hash_ok_def DecisionApprove_def DecisionReject_def)
  show "bindR (NewSignoff p) NewSignoff = NewSignoff p"
  proof (cases "NewSignoff p")
    case (Inr s)
    then have "NewSignoff s = Inr s" by (auto simp: NewSignoff_ok)
    with Inr show ?thesis by simp
  qed simp
qed

definition sample_params :: Signoff where
  "sample_params = \<lparr>sg_id = ''s1'', sg_instance = ''i1'', sg_stage = ''st1'', sg_actor = ''bob'',
     sg_tenant = ''t1'', sg_decision = ''approve'', sg_comment = [], sg_signed_at = 5,
     sg_method = ''password'', sg_payload = ''{}'', sg_content_hash = replicate 64 (CHR ''A'')\<rparr>"

lemma char_of_97: "char_of (97 :: nat) = CHR ''a''"
  by code_simp

theorem NewSignoff_accepts_witness:
  "NewSignoff sample_params = Inr (sample_params\<lparr>sg_content_hash := replicate 64 (CHR ''a'')\<rparr>)"
  using NewSignoff_accepts [of sample_params "sample_params\<lparr>sg_content_hash := replicate 64 (CHR ''a'')\<rparr>"]
  by (simp add: sample_params_def to_lower_def lower_char_def is_lower_hex_def is_digit_char_def
      list_all_length char_of_97)

end
