(* ===== verification/Content_Hash.thy ===== *)
theory Content_Hash
  imports Approval_Signoff
begin

text \<open>
  Canonical JSON, content hashes and idempotency keys:
  \<^verbatim>\<open>approval/application/content_hash.go\<close>, \<^verbatim>\<open>idempotency.go\<close> and \<^verbatim>\<open>ValidateEventPayload\<close> of
  \<^verbatim>\<open>services.go\<close>. Unicode normalisation (\<^verbatim>\<open>golang.org/x/text/unicode/norm\<close>) is the parameter
  \<open>nfc\<close>; SHA-256, hex and JSON strings are the concrete functions of \<^verbatim>\<open>Go_Std\<close>.
\<close>

section \<open>Values of type any\<close>

text \<open>
  The dynamic types the code distinguishes. A map is a list of its entries in iteration order, with
  distinct keys; a \<^verbatim>\<open>float64\<close> is its bits; a value of any other type is what \<^verbatim>\<open>json.Marshal\<close>
  makes of it.
\<close>

datatype any = AnyNil | AnyBool bool | AnyInt int | AnyInt64 int | AnyFloat "64 word" | AnyStr string
  | AnyArr "any list" | AnyMap "(string \<times> any) list" | AnyOther "gerr + string"

text \<open>A loop that stops at the first error, and \<^verbatim>\<open>append(out, ',')\<close> between the parts.\<close>

fun seqR :: "('e + 'a) list \<Rightarrow> 'e + 'a list" where
  "seqR [] = Inr []"
| "seqR (r # rs) = bindR r (\<lambda>x. bindR (seqR rs) (\<lambda>xs. Inr (x # xs)))"

fun commas :: "string list \<Rightarrow> string" where
  "commas [] = []"
| "commas [b] = b"
| "commas (b # bs) = b @ '','' @ commas bs"

primrec canonicalize :: "(string \<Rightarrow> string) \<Rightarrow> any \<Rightarrow> gerr + string" where
  "canonicalize nfc AnyNil = Inr ''null''"
| "canonicalize nfc (AnyBool b) = Inr (if b then ''true'' else ''false'')"
| "canonicalize nfc (AnyInt n) = Inr (int_dec n)"
| "canonicalize nfc (AnyInt64 n) = Inr (int_dec n)"
| "canonicalize nfc (AnyFloat f) = Inl ErrFloatInFormData"
| "canonicalize nfc (AnyStr s) = Inr (json_string (nfc s))"
| "canonicalize nfc (AnyArr vs) =
     bindR (seqR (map (canonicalize nfc) vs)) (\<lambda>bs. Inr (''['' @ commas bs @ '']''))"
| "canonicalize nfc (AnyMap m) =
     bindR (seqR (map (\<lambda>(k, r). bindR r (\<lambda>vb. Inr (json_string (nfc k) @ '':'' @ vb)))
       (sort_by_key (map (map_prod id (canonicalize nfc)) m))))
     (\<lambda>bs. Inr (''{'' @ commas bs @ ''}''))"
| "canonicalize nfc (AnyOther r) = r"

primrec walkAny :: "any \<Rightarrow> gerr + unit" where
  "walkAny (AnyFloat f) = Inl ErrFloatInFormData"
| "walkAny (AnyMap m) = bindR (seqR (map snd (map (map_prod id walkAny) m))) (\<lambda>_. Inr ())"
| "walkAny (AnyArr vs) = bindR (seqR (map walkAny vs)) (\<lambda>_. Inr ())"
| "walkAny AnyNil = Inr ()"
| "walkAny (AnyBool b) = Inr ()"
| "walkAny (AnyInt n) = Inr ()"
| "walkAny (AnyInt64 n) = Inr ()"
| "walkAny (AnyStr s) = Inr ()"
| "walkAny (AnyOther r) = Inr ()"

definition validateNoFloats :: "(string \<times> any) list \<Rightarrow> gerr + unit" where
  "validateNoFloats m = walkAny (AnyMap m)"

record ContentHashInput =
  ch_tenant :: string
  ch_document :: string
  ch_revision :: int
  ch_form :: "(string \<times> any) list"
  ch_values_hash :: string
  ch_schema_hash :: string

definition hash_fields :: "ContentHashInput \<Rightarrow> any" where
  "hash_fields inp = AnyMap [
     (''tenant_id'', AnyStr (ch_tenant inp)),
     (''document_id'', AnyStr (ch_document inp)),
     (''revision_number'', AnyInt (ch_revision inp)),
     (''form_data'', AnyMap (ch_form inp)),
     (''values_hash'', AnyStr (ch_values_hash inp)),
     (''schema_hash'', AnyStr (ch_schema_hash inp))]"

definition ComputeContentHash :: "(string \<Rightarrow> string) \<Rightarrow> ContentHashInput \<Rightarrow> gerr + string" where
  "ComputeContentHash nfc inp =
     bindR (validateNoFloats (ch_form inp)) (\<lambda>_.
       case canonicalize nfc (hash_fields inp) of
         Inl e \<Rightarrow> Inl (Wrap ''content hash: canonicalize'' e)
       | Inr canonical \<Rightarrow> Inr (hex_encode (sha256_sum canonical)))"

text \<open>\<^verbatim>\<open>ValidateEventPayload\<close> looks at the top level only.\<close>

fun is_float :: "any \<Rightarrow> bool" where
  "is_float (AnyFloat f) = True"
| "is_float _ = False"

definition ValidateEventPayload :: "(string \<times> any) list \<Rightarrow> gerr + unit" where
  "ValidateEventPayload payload =
     (if list_ex (\<lambda>(k, v). is_float v) payload then Inl ErrFloatInPayload else Inr ())"

record IdempotencyInput =
  ik_actor :: string
  ik_document :: string
  ik_stage :: string
  ik_decision :: string
  ik_timestamp :: time

definition ComputeIdempotencyKey :: "(string \<Rightarrow> string) \<Rightarrow> IdempotencyInput \<Rightarrow> string" where
  "ComputeIdempotencyKey nfc inp =
     (let ts = truncate_time second (ik_timestamp inp);
          m = AnyMap [(''actor_user_id'', AnyStr (ik_actor inp)),
                      (''document_id'', AnyStr (ik_document inp)),
                      (''stage_instance_id'', AnyStr (ik_stage inp)),
                      (''decision'', AnyStr (ik_decision inp)),
                      (''timestamp'', AnyStr (rfc3339 ts))];
          b = (case canonicalize nfc m of Inl e \<Rightarrow> [] | Inr b \<Rightarrow> b)
      in hex_encode (sha256_sum b))"

section \<open>Properties\<close>

text \<open>Two representations of the same value: maps may list their entries in another order.\<close>

inductive same_any :: "any \<Rightarrow> any \<Rightarrow> bool" where
  same_refl: "same_any v v"
| same_arr: "list_all2 same_any vs ws \<Longrightarrow> same_any (AnyArr vs) (AnyArr ws)"
| same_map: "list_all2 (rel_prod (=) same_any) m mid \<Longrightarrow> distinct (map fst mid) \<Longrightarrow> mset mid = mset m' \<Longrightarrow>
    same_any (AnyMap m) (AnyMap m')"

lemma seqR_ok: "(\<exists>xs. seqR rs = Inr xs) \<longleftrightarrow> list_all (\<lambda>r. \<exists>x. r = Inr x) rs"
  by (induction rs) (auto simp: bindR_Inr)

lemma seqR_error: "seqR rs = Inl e \<Longrightarrow> Inl e \<in> set rs"
  by (induction rs) (auto simp: bindR_Inl)

lemma seqR_unit: "bindR (seqR rs) (\<lambda>_. Inr ()) = Inl e \<Longrightarrow> Inl e \<in> set rs"
  by (auto simp: bindR_Inl dest: seqR_error)

lemma map_prod_rel:
  assumes "list_all2 (rel_prod (=) (\<lambda>v w. P v w \<and> f v = f w)) m m1"
  shows "map (map_prod id f) m = map (map_prod id f) m1"
  using assms by (induction rule: list_all2_induct) auto

lemma canonicalize_same: "same_any v w \<Longrightarrow> canonicalize nfc v = canonicalize nfc w"
proof (induction rule: same_any.induct)
  case (same_arr vs ws)
  then have "map (canonicalize nfc) vs = map (canonicalize nfc) ws"
    by (induction rule: list_all2_induct) auto
  then show ?case by simp
next
  case (same_map m mid m')
  let ?c = "map (map_prod id (canonicalize nfc))"
  have "?c m = ?c mid" using same_map(1) by (rule map_prod_rel)
  moreover have "sort_by_key (?c mid) = sort_by_key (?c m')"
    using same_map(2,3) by (intro sort_by_key_perm) (auto simp: comp_def)
  ultimately show ?case by simp
qed simp

text \<open>Does a value hold a \<^verbatim>\<open>float64\<close>, at any depth; can the values of other types be marshalled.\<close>

primrec has_float :: "any \<Rightarrow> bool" where
  "has_float (AnyFloat f) = True"
| "has_float (AnyMap m) = list_ex snd (map (map_prod id has_float) m)"
| "has_float (AnyArr vs) = list_ex id (map has_float vs)"
| "has_float AnyNil = False"
| "has_float (AnyBool b) = False"
| "has_float (AnyInt n) = False"
| "has_float (AnyInt64 n) = False"
| "has_float (AnyStr s) = False"
| "has_float (AnyOther r) = False"

primrec others_ok :: "any \<Rightarrow> bool" where
  "others_ok (AnyOther r) = (case r of Inl e \<Rightarrow> False | Inr b \<Rightarrow> True)"
| "others_ok (AnyMap m) = list_all snd (map (map_prod id others_ok) m)"
| "others_ok (AnyArr vs) = list_all id (map others_ok vs)"
| "others_ok AnyNil = True"
| "others_ok (AnyBool b) = True"
| "others_ok (AnyInt n) = True"
| "others_ok (AnyInt64 n) = True"
| "others_ok (AnyStr s) = True"
| "others_ok (AnyFloat f) = True"

lemma has_float_simps [simp]:
  "has_float (AnyMap m) \<longleftrightarrow> (\<exists>(k, v) \<in> set m. has_float v)"
  "has_float (AnyArr vs) \<longleftrightarrow> (\<exists>v \<in> set vs. has_float v)"
  by (auto simp: list_ex_iff Bex_def)

lemma others_ok_simps [simp]:
  "others_ok (AnyMap m) \<longleftrightarrow> (\<forall>(k, v) \<in> set m. others_ok v)"
  "others_ok (AnyArr vs) \<longleftrightarrow> (\<forall>v \<in> set vs. others_ok v)"
  by (auto simp: list_all_iff)

declare has_float.simps(2,3) [simp del] others_ok.simps(2,3) [simp del]

lemma walkAny_has_float: "walkAny v = (if has_float v then Inl ErrFloatInFormData else Inr ())"
proof (induction v)
  case (AnyArr vs)
  then have e: "map walkAny vs = map (\<lambda>v. if has_float v then Inl ErrFloatInFormData else Inr ()) vs" by simp
  have "bindR (seqR (map (\<lambda>v. if has_float v then Inl ErrFloatInFormData else Inr ()) vs)) (\<lambda>_. Inr ()) =
    (if \<exists>v \<in> set vs. has_float v then Inl ErrFloatInFormData else Inr ())"
    by (induction vs) (auto simp: bindR_assoc split: if_splits)
  then show ?case by (simp only: walkAny.simps e has_float_simps)
next
  case (AnyMap m)
  then have e: "map snd (map (map_prod id walkAny) m) =
      map (\<lambda>(k, v). if has_float v then Inl ErrFloatInFormData else Inr ()) m"
    by (auto simp: snds.simps)
  have "bindR (seqR (map (\<lambda>(k, v). if has_float v then Inl ErrFloatInFormData else Inr ()) m)) (\<lambda>_. Inr ()) =
    (if \<exists>(k, v) \<in> set m. has_float v then Inl ErrFloatInFormData else Inr ())"
    by (induction m) (auto simp: bindR_assoc split: if_splits prod.splits)
  then show ?case by (simp only: walkAny.simps e has_float_simps)
qed simp_all

lemma canonicalize_ok: "(\<exists>b. canonicalize nfc v = Inr b) \<longleftrightarrow> \<not> has_float v \<and> others_ok v"
proof (induction v)
  case (AnyArr vs)
  have "(\<exists>b. canonicalize nfc (AnyArr vs) = Inr b) \<longleftrightarrow> (\<exists>bs. seqR (map (canonicalize nfc) vs) = Inr bs)"
    by (auto simp: bindR_Inr)
  also have "\<dots> \<longleftrightarrow> (\<forall>v \<in> set vs. \<not> has_float v \<and> others_ok v)"
    using AnyArr by (simp add: seqR_ok list_all_iff)
  finally show ?case by auto
next
  case (AnyMap m)
  let ?e = "\<lambda>(k, r). bindR r (\<lambda>vb. Inr (json_string (nfc k) @ '':'' @ vb))"
  have "(\<exists>b. canonicalize nfc (AnyMap m) = Inr b) \<longleftrightarrow>
      (\<exists>bs. seqR (map ?e (sort_by_key (map (map_prod id (canonicalize nfc)) m))) = Inr bs)"
    by (auto simp: bindR_Inr)
  also have "\<dots> \<longleftrightarrow> (\<forall>(k, v) \<in> set m. \<exists>b. canonicalize nfc v = Inr b)"
    by (auto simp: seqR_ok list_all_iff bindR_Inr split: prod.splits)
  also have "\<dots> \<longleftrightarrow> (\<forall>(k, v) \<in> set m. \<not> has_float v \<and> others_ok v)"
    using AnyMap by (fastforce simp: snds.simps)
  finally show ?case by auto
qed (auto split: sum.splits)

lemma same_any_floats: "same_any v w \<Longrightarrow> has_float v = has_float w"
proof (induction rule: same_any.induct)
  case (same_arr vs ws)
  then have "map has_float vs = map has_float ws" by (induction rule: list_all2_induct) auto
  then show ?case by (simp only: has_float.simps)
next
  case (same_map m mid m')
  have "map (map_prod id has_float) m = map (map_prod id has_float) mid"
    using same_map(1) by (rule map_prod_rel)
  then have "has_float (AnyMap m) = has_float (AnyMap mid)"
    by (simp only: has_float.simps)
  also have "\<dots> = has_float (AnyMap m')" using mset_eq_setD [OF same_map(3)] by simp
  finally show ?case .
qed simp

lemma sha_hex_ok: "hash_ok (hex_encode (sha256_sum b))"
  by (simp add: hash_ok_def)

lemma hash_fields_ok:
  "has_float (hash_fields inp) \<longleftrightarrow> has_float (AnyMap (ch_form inp))"
  "others_ok (hash_fields inp) \<longleftrightarrow> others_ok (AnyMap (ch_form inp))"
  by (simp_all add: hash_fields_def)

text \<open>
  C19. The content hash does not depend on the order in which a map is iterated: two form data that
  are the same up to the order of map entries, at any depth, give the same hash or the same error.
\<close>

theorem content_hash_order_independent:
  assumes "same_any (AnyMap form) (AnyMap form')"
  shows "ComputeContentHash nfc (inp\<lparr>ch_form := form\<rparr>) = ComputeContentHash nfc (inp\<lparr>ch_form := form'\<rparr>)"
proof -
  let ?h = "\<lambda>f. hash_fields (inp\<lparr>ch_form := f\<rparr>)"
  have "same_any (?h form) (?h form')"
    unfolding hash_fields_def
    by (rule same_map [where mid = "[
        (''tenant_id'', AnyStr (ch_tenant inp)), (''document_id'', AnyStr (ch_document inp)),
        (''revision_number'', AnyInt (ch_revision inp)), (''form_data'', AnyMap form'),
        (''values_hash'', AnyStr (ch_values_hash inp)), (''schema_hash'', AnyStr (ch_schema_hash inp))]"])
      (simp_all add: assms same_refl)
  then have "canonicalize nfc (?h form) = canonicalize nfc (?h form')" by (rule canonicalize_same)
  moreover have "validateNoFloats form = validateNoFloats form'"
    unfolding validateNoFloats_def walkAny_has_float by (simp only: same_any_floats [OF assms])
  ultimately show ?thesis by (simp add: ComputeContentHash_def)
qed

definition sample_hash_input :: ContentHashInput where
  "sample_hash_input = \<lparr>ch_tenant = ''t'', ch_document = ''d'', ch_revision = 1, ch_form = [],
     ch_values_hash = [], ch_schema_hash = []\<rparr>"

theorem content_hash_order_independent_witness:
  "ComputeContentHash id (sample_hash_input\<lparr>ch_form := [(''b'', AnyInt 2), (''a'', AnyNil)]\<rparr>) =
   ComputeContentHash id (sample_hash_input\<lparr>ch_form := [(''a'', AnyNil), (''b'', AnyInt 2)]\<rparr>)"
  by (intro content_hash_order_independent same_map [where mid = "[(''b'', AnyInt 2), (''a'', AnyNil)]"])
    (simp_all add: same_refl)

lemma content_hash_ok:
  assumes "\<not> has_float (AnyMap (ch_form inp))" and "others_ok (AnyMap (ch_form inp))"
  obtains h where "ComputeContentHash nfc inp = Inr h" "hash_ok h"
proof -
  have "\<exists>b. canonicalize nfc (hash_fields inp) = Inr b"
    using assms by (simp only: canonicalize_ok hash_fields_ok simp_thms)
  with assms(1) show thesis
    by (auto simp: ComputeContentHash_def validateNoFloats_def walkAny_has_float sha_hex_ok intro: that simp del: has_float_simps)
qed

text \<open>
  C20. Computing a content hash fails exactly on the inputs the rules exclude: a \<^verbatim>\<open>float64\<close> at any depth of the
  form data gives \<^verbatim>\<open>ErrFloatInFormData\<close>, a value that cannot be marshalled gives a wrapped error, and
  everything else gives a hash, always of the form the signoff constructor requires.
\<close>

theorem content_hash_total:
  "(case ComputeContentHash nfc inp of
      Inl e \<Rightarrow> (if has_float (AnyMap (ch_form inp)) then e = ErrFloatInFormData
               else \<not> others_ok (AnyMap (ch_form inp)) \<and> (\<exists>e'. e = Wrap ''content hash: canonicalize'' e'))
    | Inr h \<Rightarrow> \<not> has_float (AnyMap (ch_form inp)) \<and> others_ok (AnyMap (ch_form inp)) \<and>
               hash_ok h \<and> to_lower h = h)"
proof -
  have c: "(\<exists>b. canonicalize nfc (hash_fields inp) = Inr b) \<longleftrightarrow>
      \<not> has_float (AnyMap (ch_form inp)) \<and> others_ok (AnyMap (ch_form inp))"
    by (simp only: canonicalize_ok hash_fields_ok)
  show ?thesis
    using c sha_hex_ok
    by (cases "canonicalize nfc (hash_fields inp)"; cases "has_float (AnyMap (ch_form inp))")
      (simp_all add: ComputeContentHash_def validateNoFloats_def walkAny_has_float del: has_float_simps others_ok_simps)
qed

lemma truncate_bucket: "t div second = t' div second \<Longrightarrow> truncate_time second t = truncate_time second t'"
  by (simp add: truncate_time_def minus_mod_eq_mult_div)

text \<open>
  The idempotency key has second granularity: requests that differ only within one second of the server
  clock get the same key, and the key is always 64 lower-case hex digits (the canonical form of
  its five string fields never fails).
\<close>

theorem idempotency_key_bucket:
  assumes "t div second = t' div second"
  shows "ComputeIdempotencyKey nfc (inp\<lparr>ik_timestamp := t\<rparr>) = ComputeIdempotencyKey nfc (inp\<lparr>ik_timestamp := t'\<rparr>) \<and>
    hash_ok (ComputeIdempotencyKey nfc inp)"
  using truncate_bucket [OF assms] sha_hex_ok by (simp add: ComputeIdempotencyKey_def Let_def)

definition sample_idem :: IdempotencyInput where
  "sample_idem = \<lparr>ik_actor = ''ana'', ik_document = ''d'', ik_stage = [], ik_decision = [], ik_timestamp = 0\<rparr>"

theorem idempotency_key_bucket_witness:
  "ComputeIdempotencyKey id (sample_idem\<lparr>ik_timestamp := 63000000000000000001\<rparr>) =
   ComputeIdempotencyKey id (sample_idem\<lparr>ik_timestamp := 63000000000900000000\<rparr>)"
  using idempotency_key_bucket [of 63000000000000000001 63000000000900000000 id sample_idem]
  by (simp add: second_def)

end
