(* ===== verification/Approval_Store.thy ===== *)
theory Approval_Store
  imports Content_Hash
begin

text \<open>
  The database the approval services work on: its tables, the constraints and triggers of the
  migrations that guard them, transactions, and the repository of
  \<^verbatim>\<open>approval/repository/postgres_approval_repository.go\<close>. A transaction is a fallible computation on
  a copy of the tables together with its transaction-local settings; it is committed or dropped as
  a whole, so transactions are atomic and serial here.
\<close>

section \<open>Tables\<close>

text \<open>
  A row of \<^verbatim>\<open>documents\<close>. \<open>d_effective_date\<close> is the column \<^verbatim>\<open>SchedulePublish\<close> writes; no migration
  creates it (see \<open>ev_effective_date\<close> below).
\<close>

record doc_row =
  d_id :: string
  d_tenant :: string
  d_status :: string
  d_revision :: int
  d_created_by :: string
  d_area :: "string option"
  d_controlled :: "string option"
  d_effective_from :: "time option"
  d_effective_date :: "time option"

record route_row =
  rr_id :: string
  rr_tenant :: string
  rr_profile :: string
  rr_name :: string
  rr_version :: int
  rr_created_by :: string
  rr_active :: bool

text \<open>\<^verbatim>\<open>application.GovernanceEvent\<close>, also the row it is stored as.\<close>

record GovernanceEvent =
  ge_tenant :: string
  ge_type :: string
  ge_actor :: string
  ge_resource_type :: string
  ge_resource_id :: string
  ge_reason :: string
  ge_payload :: string
  ge_occurred :: time

record user_area_row =
  ua_tenant :: string
  ua_user :: string
  ua_area :: string
  ua_role :: string
  ua_effective_to :: "time option"

text \<open>
  The rows of \<^verbatim>\<open>approval_instances\<close>, \<^verbatim>\<open>approval_stage_instances\<close> and \<^verbatim>\<open>approval_signoffs\<close> are the domain
  records; the fields that have no column hold Go's zero value (\<open>in_revision\<close>, \<open>in_stages\<close>,
  \<open>si_skip_reason\<close>).
\<close>

record database =
  db_documents :: "doc_row list"
  db_controlled :: "(string \<times> string) list"
  db_instances :: "Instance list"
  db_stages :: "StageInstance list"
  db_signoffs :: "Signoff list"
  db_routes :: "route_row list"
  db_route_stages :: "(string \<times> Stage) list"
  db_events :: "GovernanceEvent list"
  db_role_caps :: "(string \<times> string) list"
  db_user_areas :: "user_area_row list"

section \<open>Transactions\<close>

text \<open>
  The state inside a transaction: the tables as it sees them, the transaction-local settings
  (\<^verbatim>\<open>set_config(..., true)\<close>), the capabilities asserted in \<^verbatim>\<open>metaldocs.asserted_caps\<close>, and the
  capability cache of the context (\<open>None\<close> when \<^verbatim>\<open>WithCapCache\<close> was not called).
\<close>

record txs =
  tx_db :: database
  guc_tenant :: "string option"
  guc_actor :: "string option"
  guc_bypass :: "string option"
  guc_cancel :: "string option"
  tx_caps :: "(string \<times> string) list"
  tx_cache :: "string list option"

type_synonym 'a tx = "(txs, gerr, 'a) st"

text \<open>
  The outside of the program. \<open>ev_fault\<close> says which statement, named by the call site, fails and
  with which error: a lost connection, a timeout, a constraint that is not modelled. \<open>ev_now\<close> is
  the service's clock by the number of the call, \<open>ev_dbnow\<close> is SQL's \<^verbatim>\<open>now()\<close>, \<open>ev_uuid\<close> gives the
  generated identifiers, \<open>ev_nfc\<close> is Unicode normalisation, \<open>ev_float\<close> the JSON text of a float, and
  \<open>ev_effective_date\<close> tells whether \<^verbatim>\<open>documents\<close> has a column \<^verbatim>\<open>effective_date\<close>.
\<close>

record env =
  ev_fault :: "string \<Rightarrow> gerr option"
  ev_now :: "nat \<Rightarrow> time"
  ev_dbnow :: time
  ev_uuid :: "nat \<Rightarrow> string"
  ev_nfc :: "string \<Rightarrow> string"
  ev_float :: "64 word \<Rightarrow> gerr + string"
  ev_effective_date :: bool

definition stmt :: "env \<Rightarrow> string \<Rightarrow> 'a tx \<Rightarrow> 'a tx" where
  "stmt env site m = (\<lambda>s. case ev_fault env site of Some e \<Rightarrow> Inl e | None \<Rightarrow> m s)"

lemma stmt_Inr [seq_simps]: "stmt env site m s = Inr r \<longleftrightarrow> ev_fault env site = None \<and> m s = Inr r"
  by (auto simp: stmt_def split: option.splits)

definition fresh_tx :: "database \<Rightarrow> txs" where
  "fresh_tx db = \<lparr>tx_db = db, guc_tenant = None, guc_actor = None, guc_bypass = None, guc_cancel = None,
     tx_caps = [], tx_cache = None\<rparr>"

lemma tx_db_fresh [simp]: "tx_db (fresh_tx db) = db"
  by (simp add: fresh_tx_def)

text \<open>
  The two messages name the call sites of \<^verbatim>\<open>BeginTx\<close> and \<^verbatim>\<open>Commit\<close>: \<^verbatim>\<open>BeginTx\<close>, the body, then \<^verbatim>\<open>Commit\<close>, or \<^verbatim>\<open>Rollback\<close> on every error of the body. An error of
  \<^verbatim>\<open>Commit\<close> means that nothing was committed.
\<close>

definition runTx :: "env \<Rightarrow> string \<Rightarrow> string \<Rightarrow> 'a tx \<Rightarrow> database \<Rightarrow> (gerr + 'a) \<times> database" where
  "runTx env beginMsg commitMsg body db =
     (case ev_fault env beginMsg of
        Some e \<Rightarrow> (Inl (Wrap beginMsg e), db)
      | None \<Rightarrow>
          (case body (fresh_tx db) of
             Inl e \<Rightarrow> (Inl e, db)
           | Inr (x, s) \<Rightarrow>
               (case ev_fault env commitMsg of
                  Some e \<Rightarrow> (Inl (Wrap commitMsg e), db)
                | None \<Rightarrow> (Inr x, tx_db s))))"

lemma runTx_Inr [seq_simps]:
  "runTx env bm cm body db = (Inr x, db') \<longleftrightarrow>
     ev_fault env bm = None \<and> ev_fault env cm = None \<and>
     (\<exists>s. body (fresh_tx db) = Inr (x, s) \<and> db' = tx_db s)"
  by (auto simp: runTx_def split: option.splits sum.splits)

lemma runTx_Inl: "runTx env bm cm body db = (Inl e, db') \<Longrightarrow> db' = db"
  by (auto simp: runTx_def split: option.splits sum.splits)

text \<open>\<^verbatim>\<open>fmt.Errorf("...: %w", err)\<close> around a call.\<close>

abbreviation wrapT :: "string \<Rightarrow> 'a tx \<Rightarrow> 'a tx" where
  "wrapT msg \<equiv> mapErrT (Wrap msg)"

section \<open>Constraints and triggers\<close>

text \<open>\<^verbatim>\<open>enforce_document_transition\<close> and \<^verbatim>\<open>enforce_revision_version_monotonic\<close>.\<close>

definition trigger_edge :: "string \<Rightarrow> string \<Rightarrow> bool" where
  "trigger_edge old new \<longleftrightarrow>
     (old = ''draft'' \<and> new = ''under_review'') \<or>
     (old = ''under_review'' \<and> new \<in> {''approved'', ''rejected''}) \<or>
     (old = ''rejected'' \<and> new = ''draft'') \<or>
     (old = ''approved'' \<and> new \<in> {''published'', ''scheduled'', ''draft''}) \<or>
     (old = ''scheduled'' \<and> new \<in> {''published'', ''draft''}) \<or>
     (old = ''published'' \<and> new \<in> {''superseded'', ''obsolete''}) \<or>
     (old = ''superseded'' \<and> new = ''obsolete'')"

definition enforce_document_transition :: "string option \<Rightarrow> string \<Rightarrow> string \<Rightarrow> bool" where
  "enforce_document_transition cancel old new \<longleftrightarrow>
     old = new \<or>
     (if old = ''under_review'' \<and> new = ''draft'' then (case cancel of None \<Rightarrow> False | Some c \<Rightarrow> c \<noteq> [])
      else trigger_edge old new)"

definition doc_triggers :: "string option \<Rightarrow> doc_row \<Rightarrow> doc_row \<Rightarrow> bool" where
  "doc_triggers cancel old new \<longleftrightarrow>
     enforce_document_transition cancel (d_status old) (d_status new) \<and> d_revision old \<le> d_revision new"

text \<open>\<^verbatim>\<open>UPDATE documents SET ... WHERE ...\<close>; the result is \<^verbatim>\<open>RowsAffected\<close>.\<close>

definition update_documents :: "(doc_row \<Rightarrow> bool) \<Rightarrow> (doc_row \<Rightarrow> doc_row) \<Rightarrow> nat tx" where
  "update_documents P f = (\<lambda>s.
     let docs = db_documents (tx_db s) in
     if list_all (\<lambda>r. P r \<longrightarrow> doc_triggers (guc_cancel s) r (f r)) docs
     then Inr (rows_affected P docs, s\<lparr>tx_db := (tx_db s)\<lparr>db_documents := update_where P f docs\<rparr>\<rparr>)
     else Inl (PgError ''23514'' [] ''illegal status transition''))"

text \<open>
  \<^verbatim>\<open>enforce_capability_asserted\<close>: an insert into \<^verbatim>\<open>approval_instances\<close> or \<^verbatim>\<open>approval_signoffs\<close> needs
  the capability in \<^verbatim>\<open>metaldocs.asserted_caps\<close>, or the bypass token \<^verbatim>\<open>scheduler\<close>, which is audited.
\<close>

definition bypass_payload :: "string \<Rightarrow> string \<Rightarrow> string" where
  "bypass_payload tab cap = ''{'' @ commas (map (\<lambda>(k, v). json_string k @ '': '' @ json_string v)
     [(''op'', ''INSERT''), (''table'', tab), (''bypass_token'', ''scheduler''), (''required_cap'', cap)]) @ ''}''"

definition enforce_capability_asserted :: "env \<Rightarrow> string \<Rightarrow> string \<Rightarrow> string \<Rightarrow> string \<Rightarrow> unit tx" where
  "enforce_capability_asserted env tab cap tenant rowid = (\<lambda>s.
     case guc_bypass s of
       Some (c # cs) \<Rightarrow>
         if c # cs = ''scheduler''
         then Inr ((), s\<lparr>tx_db := (tx_db s)\<lparr>db_events := db_events (tx_db s) @
           [\<lparr>ge_tenant = tenant, ge_type = ''authz.bypass_used'', ge_actor = ''system:scheduler'',
             ge_resource_type = tab, ge_resource_id = rowid, ge_reason = ''scheduler bypass for '' @ cap,
             ge_payload = bypass_payload tab cap, ge_occurred = ev_dbnow env\<rparr>]\<rparr>\<rparr>)
         else Inl (PgError ''P0001'' [] ''ErrCapabilityNotAsserted: unrecognised bypass token'')
     | _ \<Rightarrow> if cap \<in> fst ` set (tx_caps s) then Inr ((), s)
            else Inl (PgError ''P0001'' [] ''ErrCapabilityNotAsserted''))"

abbreviation unique_violation :: "string \<Rightarrow> gerr" where
  "unique_violation c \<equiv> PgError ''23505'' c []"

abbreviation fk_violation :: gerr where
  "fk_violation \<equiv> PgError ''23503'' [] []"

abbreviation check_violation :: "string \<Rightarrow> gerr" where
  "check_violation m \<equiv> PgError ''23514'' [] m"

abbreviation read_db :: "(database \<Rightarrow> 'a) \<Rightarrow> 'a tx" where
  "read_db f \<equiv> readT (\<lambda>s. f (tx_db s))"

abbreviation modify_db :: "(database \<Rightarrow> database) \<Rightarrow> unit tx" where
  "modify_db f \<equiv> modifyT (\<lambda>s. s\<lparr>tx_db := f (tx_db s)\<rparr>)"

text \<open>\<^verbatim>\<open>INSERT INTO approval_instances\<close> with the keys of migration 0135.\<close>

definition insert_instance :: "env \<Rightarrow> Instance \<Rightarrow> unit tx" where
  "insert_instance env r =
     bindT (enforce_capability_asserted env ''approval_instances'' ''doc.submit'' (in_tenant r) (in_id r)) (\<lambda>_.
     bindT (read_db id) (\<lambda>db.
     bindT (requireT (in_id r \<notin> in_id ` set (db_instances db)) (unique_violation ''approval_instances_pkey'')) (\<lambda>_.
     bindT (requireT (\<forall>i \<in> set (db_instances db). \<not> (in_document i = in_document r \<and> in_idem_key i = in_idem_key r))
       (unique_violation ''approval_instances_document_v2_id_idempotency_key_key'')) (\<lambda>_.
     bindT (requireT (\<not> (in_status r = InstanceInProgress \<and>
         (\<exists>i \<in> set (db_instances db). in_document i = in_document r \<and> in_status i = InstanceInProgress)))
       (unique_violation ''ux_approval_instances_active'')) (\<lambda>_.
     bindT (requireT (in_document r \<in> d_id ` set (db_documents db) \<and> in_route r \<in> rr_id ` set (db_routes db))
       fk_violation) (\<lambda>_.
     modify_db (\<lambda>db. db\<lparr>db_instances := db_instances db @ [r]\<rparr>)))))))"

text \<open>\<^verbatim>\<open>INSERT INTO approval_stage_instances\<close>, all rows in one statement.\<close>

definition stage_checks :: "StageInstance \<Rightarrow> bool" where
  "stage_checks r \<longleftrightarrow> 1 \<le> si_order r \<and> si_quorum r \<in> {QuorumAny1Of, QuorumAllOf, QuorumMofN} \<and>
     si_drift r \<in> {DriftReduceQuorum, DriftFailStage, DriftKeepSnapshot}"

definition stage_key :: "StageInstance \<Rightarrow> string \<times> int" where
  "stage_key r = (si_instance r, si_order r)"

definition insert_stages :: "StageInstance list \<Rightarrow> unit tx" where
  "insert_stages rs =
     bindT (read_db id) (\<lambda>db.
     bindT (requireT (list_all stage_checks rs) (check_violation ''approval_stage_instances'')) (\<lambda>_.
     bindT (requireT (distinct (map si_id (db_stages db @ rs))) (unique_violation ''approval_stage_instances_pkey'')) (\<lambda>_.
     bindT (requireT (distinct (map stage_key (db_stages db @ rs)))
       (unique_violation ''approval_stage_instances_approval_instance_id_stage_order_key'')) (\<lambda>_.
     bindT (requireT (list_all (\<lambda>r. si_instance r \<in> in_id ` set (db_instances db)) rs) fk_violation) (\<lambda>_.
     modify_db (\<lambda>db. db\<lparr>db_stages := db_stages db @ rs\<rparr>))))))"

text \<open>
  \<^verbatim>\<open>INSERT INTO approval_signoffs ... ON CONFLICT (approval_instance_id, actor_user_id) DO NOTHING\<close>,
  with the triggers \<^verbatim>\<open>enforce_capability_asserted\<close>, \<^verbatim>\<open>enforce_signoff_sod\<close> and
  \<^verbatim>\<open>enforce_signoff_tenant_consistent\<close>. The result tells whether the row was inserted.
\<close>

definition signoff_author :: "database \<Rightarrow> string \<Rightarrow> string option" where
  "signoff_author db iid =
     (case List.find (\<lambda>i. in_id i = iid) (db_instances db) of
        None \<Rightarrow> None
      | Some i \<Rightarrow> map_option d_created_by (List.find (\<lambda>d. d_id d = in_document i) (db_documents db)))"

definition insert_signoff :: "env \<Rightarrow> Signoff \<Rightarrow> bool tx" where
  "insert_signoff env r =
     bindT (enforce_capability_asserted env ''approval_signoffs'' ''doc.signoff'' (sg_tenant r) (sg_id r)) (\<lambda>_.
     bindT (read_db id) (\<lambda>db.
     bindT (requireT (signoff_author db (sg_instance r) \<noteq> Some (sg_actor r))
       (check_violation ''SoD: author cannot sign own revision'')) (\<lambda>_.
     bindT (requireT (map_option in_tenant (List.find (\<lambda>i. in_id i = sg_instance r) (db_instances db)) = Some (sg_tenant r))
       (check_violation ''cross-tenant signoff rejected'')) (\<lambda>_.
     if \<exists>x \<in> set (db_signoffs db). sg_instance x = sg_instance r \<and> sg_actor x = sg_actor r then returnT False
     else
     bindT (requireT (\<forall>x \<in> set (db_signoffs db). \<not> (sg_stage x = sg_stage r \<and> sg_actor x = sg_actor r))
       (unique_violation ''approval_signoffs_stage_instance_id_actor_user_id_key'')) (\<lambda>_.
     bindT (requireT (sg_id r \<notin> sg_id ` set (db_signoffs db)) (unique_violation ''approval_signoffs_pkey'')) (\<lambda>_.
     bindT (requireT (\<exists>st \<in> set (db_stages db). si_id st = sg_stage r \<and> si_instance st = sg_instance r)
       fk_violation) (\<lambda>_.
     bindT (modify_db (\<lambda>db. db\<lparr>db_signoffs := db_signoffs db @ [r]\<rparr>)) (\<lambda>_. returnT True))))))))"

section \<open>The repository\<close>

definition InsertInstance :: "env \<Rightarrow> Instance \<Rightarrow> unit tx" where
  "InsertInstance env inst =
     mapErrT (\<lambda>e. MapPgError e []) (stmt env ''InsertInstance''
       (insert_instance env (inst\<lparr>in_completed := None, in_revision := 0, in_stages := []\<rparr>)))"

definition InsertStageInstances :: "env \<Rightarrow> StageInstance list \<Rightarrow> unit tx" where
  "InsertStageInstances env stages =
     (if stages = [] then returnT ()
      else mapErrT (\<lambda>e. MapPgError e []) (stmt env ''InsertStageInstances''
        (insert_stages (map (\<lambda>s. s\<lparr>si_opened := None, si_completed := None, si_skip_reason := []\<rparr>) stages))))"

definition scanSignoff :: "Signoff \<Rightarrow> gerr + Signoff" where
  "scanSignoff row = NewSignoff row"

definition LoadSignoffByActor :: "env \<Rightarrow> string \<Rightarrow> string \<Rightarrow> string \<Rightarrow> Signoff tx" where
  "LoadSignoffByActor env tenantID instanceID actorUserID =
     bindT (stmt env ''LoadSignoffByActor'' (read_db (\<lambda>db.
       List.find (\<lambda>s. sg_instance s = instanceID \<and> sg_actor s = actorUserID \<and>
         (\<exists>i \<in> set (db_instances db). in_id i = sg_instance s \<and> in_tenant i = tenantID)) (db_signoffs db))))
     (\<lambda>r. case r of None \<Rightarrow> failT SqlErrNoRows | Some row \<Rightarrow> liftT (scanSignoff row))"

record SignoffInsertResult =
  ir_id :: string
  ir_replay :: bool

definition InsertSignoff :: "env \<Rightarrow> Signoff \<Rightarrow> SignoffInsertResult tx" where
  "InsertSignoff env s =
     bindT (mapErrT (\<lambda>e. MapPgError e []) (stmt env ''InsertSignoff'' (insert_signoff env s))) (\<lambda>inserted.
     if inserted then returnT \<lparr>ir_id = sg_id s, ir_replay = False\<rparr>
     else
       bindT (wrapT ''load existing signoff for replay check''
         (LoadSignoffByActor env (sg_tenant s) (sg_instance s) (sg_actor s))) (\<lambda>existing.
       if sg_stage existing = sg_stage s \<and> sg_decision existing = sg_decision s \<and>
          sg_content_hash existing = sg_content_hash s
       then returnT \<lparr>ir_id = sg_id existing, ir_replay = True\<rparr>
       else failT RepoErrActorAlreadySigned))"

definition loadStageInstances :: "env \<Rightarrow> string \<Rightarrow> StageInstance list tx" where
  "loadStageInstances env instanceID =
     mapErrT (\<lambda>e. MapPgError e []) (stmt env (''loadStageInstances '' @ instanceID) (read_db (\<lambda>db.
       sort_key si_order (filter (\<lambda>s. si_instance s = instanceID) (db_stages db)))))"

definition LoadInstance :: "env \<Rightarrow> string \<Rightarrow> string \<Rightarrow> Instance tx" where
  "LoadInstance env tenantID iid =
     bindT (mapErrT (\<lambda>e. MapPgError e []) (stmt env (''LoadInstance '' @ iid) (read_db (\<lambda>db.
       List.find (\<lambda>i. in_id i = iid \<and> in_tenant i = tenantID) (db_instances db)))))
     (\<lambda>r. case r of
        None \<Rightarrow> failT ErrNoActiveInstance
      | Some inst \<Rightarrow>
          bindT (loadStageInstances env (in_id inst)) (\<lambda>stages. returnT (inst\<lparr>in_stages := stages\<rparr>)))"

text \<open>\<^verbatim>\<open>ORDER BY submitted_at DESC LIMIT 1\<close>.\<close>

definition LoadActiveInstanceByDocument :: "env \<Rightarrow> string \<Rightarrow> string \<Rightarrow> Instance tx" where
  "LoadActiveInstanceByDocument env tenantID docID =
     bindT (mapErrT (\<lambda>e. MapPgError e []) (stmt env ''LoadActiveInstanceByDocument'' (read_db (\<lambda>db.
       sort_key (\<lambda>i. - in_submitted_at i) (filter (\<lambda>i. in_document i = docID \<and> in_tenant i = tenantID \<and>
         in_status i \<in> {InstanceInProgress, InstanceApproved}) (db_instances db))))))
     (\<lambda>rs. case rs of
        [] \<Rightarrow> failT ErrNoActiveInstance
      | inst # _ \<Rightarrow>
          bindT (loadStageInstances env (in_id inst)) (\<lambda>stages. returnT (inst\<lparr>in_stages := stages\<rparr>)))"

definition stage_transition :: "time \<Rightarrow> StageStatus \<Rightarrow> StageInstance \<Rightarrow> StageInstance" where
  "stage_transition now newStatus s = s\<lparr>si_status := newStatus,
     si_opened := (if newStatus = StageActive then Some now else si_opened s),
     si_completed := (if newStatus \<in> {StageCompleted, StageSkipped, StageRejectedHere} then Some now
                      else si_completed s)\<rparr>"

definition UpdateStageStatus :: "env \<Rightarrow> string \<Rightarrow> string \<Rightarrow> StageStatus \<Rightarrow> StageStatus \<Rightarrow> unit tx" where
  "UpdateStageStatus env tenantID stageID newStatus expectedOldStatus =
     bindT (mapErrT (\<lambda>e. MapPgError e []) (stmt env (''UpdateStageStatus '' @ stageID) (\<lambda>s.
       let db = tx_db s;
           P = (\<lambda>r. si_id r = stageID \<and> si_status r = expectedOldStatus \<and>
             (\<exists>i \<in> set (db_instances db). in_id i = si_instance r \<and> in_tenant i = tenantID))
       in Inr (rows_affected P (db_stages db),
            s\<lparr>tx_db := db\<lparr>db_stages := update_where P (stage_transition (ev_dbnow env) newStatus) (db_stages db)\<rparr>\<rparr>))))
     (\<lambda>n. if n = 0 then failT ErrStageNotActive else returnT ())"

definition UpdateInstanceStatus ::
  "env \<Rightarrow> string \<Rightarrow> string \<Rightarrow> InstanceStatus \<Rightarrow> InstanceStatus \<Rightarrow> time option \<Rightarrow> unit tx" where
  "UpdateInstanceStatus env tenantID instID newStatus expectedStatus completedAt =
     bindT (mapErrT (\<lambda>e. MapPgError e []) (stmt env ''UpdateInstanceStatus'' (\<lambda>s.
       let db = tx_db s;
           P = (\<lambda>i. in_id i = instID \<and> in_tenant i = tenantID \<and> in_status i = expectedStatus)
       in Inr (rows_affected P (db_instances db),
            s\<lparr>tx_db := db\<lparr>db_instances := update_where P
              (\<lambda>i. i\<lparr>in_status := newStatus, in_completed := completedAt\<rparr>) (db_instances db)\<rparr>\<rparr>))))
     (\<lambda>n. if n = 0 then failT ErrInstanceCompleted else returnT ())"

record ScheduledPublishRow =
  sp_document :: string
  sp_tenant :: string
  sp_effective_from :: time
  sp_revision :: int

definition due_rows :: "time \<Rightarrow> doc_row list \<Rightarrow> ScheduledPublishRow list" where
  "due_rows now docs =
     sort_key sp_effective_from
       (map (\<lambda>d. \<lparr>sp_document = d_id d, sp_tenant = d_tenant d,
            sp_effective_from = the (d_effective_from d), sp_revision = d_revision d\<rparr>)
         (filter (\<lambda>d. d_status d = ''scheduled'' \<and>
            (case d_effective_from d of None \<Rightarrow> False | Some t \<Rightarrow> t \<le> now)) docs))"

definition ListScheduledDue :: "env \<Rightarrow> time \<Rightarrow> nat \<Rightarrow> ScheduledPublishRow list tx" where
  "ListScheduledDue env now limit =
     mapErrT (\<lambda>e. MapPgError e []) (stmt env ''ListScheduledDue'' (read_db (\<lambda>db.
       take limit (due_rows now (db_documents db)))))"

end
