(* ===== verification/Service_Base.thy ===== *)
theory Service_Base
  imports Approval_Store
begin

text \<open>
  What the approval services share: the authorisation check of \<^verbatim>\<open>iam/authz/authz.go\<close> with its
  capability cache and its list of asserted capabilities, \<^verbatim>\<open>setAuthzGUC\<close>, the event emitter of
  \<^verbatim>\<open>events.go\<close>, the lookup of a document's area, and JSON marshalling of event payloads.
\<close>

section \<open>Authorisation\<close>

definition WithCapCache :: "unit tx" where
  "WithCapCache = modifyT (\<lambda>s. s\<lparr>tx_cache := Some []\<rparr>)"

definition cacheKey :: "string \<Rightarrow> string \<Rightarrow> string" where
  "cacheKey capability areaCode = capability @ [CHR 0x00] @ areaCode"

definition cacheGranted :: "string \<Rightarrow> string \<Rightarrow> txs \<Rightarrow> bool" where
  "cacheGranted capability areaCode s =
     (case tx_cache s of None \<Rightarrow> False | Some ks \<Rightarrow> cacheKey capability areaCode \<in> set ks)"

definition storeGranted :: "string \<Rightarrow> string \<Rightarrow> unit tx" where
  "storeGranted capability areaCode =
     modifyT (\<lambda>s. s\<lparr>tx_cache := map_option (\<lambda>ks. cacheKey capability areaCode # ks) (tx_cache s)\<rparr>)"

text \<open>\<^verbatim>\<open>current_setting(name, false)\<close> raises an error when the setting is missing.\<close>

definition missing_setting :: "string \<Rightarrow> gerr" where
  "missing_setting n = PgError ''42704'' [] (''unrecognized configuration parameter '' @ n)"

definition current_setting :: "string \<Rightarrow> (txs \<Rightarrow> string option) \<Rightarrow> string tx" where
  "current_setting n g = bindT (readT g) (\<lambda>v. case v of None \<Rightarrow> failT (missing_setting n) | Some x \<Rightarrow> returnT x)"

definition actorIDFromTx :: "env \<Rightarrow> string tx" where
  "actorIDFromTx env = stmt env ''actorIDFromTx'' (current_setting ''metaldocs.actor_id'' guc_actor)"

definition appendAssertedCap :: "env \<Rightarrow> string \<Rightarrow> string \<Rightarrow> unit tx" where
  "appendAssertedCap env capability areaCode =
     bindT (stmt env ''read asserted_caps'' (readT tx_caps)) (\<lambda>asserted.
       stmt env ''set asserted_caps'' (modifyT (\<lambda>s. s\<lparr>tx_caps := asserted @ [(capability, areaCode)]\<rparr>)))"

text \<open>The \<^verbatim>\<open>EXISTS\<close> query: a current membership whose role has the capability, in the area.\<close>

definition has_capability :: "database \<Rightarrow> string \<Rightarrow> string \<Rightarrow> string \<Rightarrow> string \<Rightarrow> bool" where
  "has_capability db tenant actor capability areaCode \<longleftrightarrow>
     (\<exists>rc \<in> set (db_role_caps db). \<exists>ua \<in> set (db_user_areas db).
        ua_role ua = fst rc \<and> ua_tenant ua = tenant \<and> ua_user ua = actor \<and> ua_effective_to ua = None \<and>
        snd rc = capability \<and> (areaCode = ''tenant'' \<or> ua_area ua = areaCode))"

definition Require :: "env \<Rightarrow> string \<Rightarrow> string \<Rightarrow> unit tx" where
  "Require env capability areaCode =
     bindT (readT (cacheGranted capability areaCode)) (\<lambda>cached.
     if cached then appendAssertedCap env capability areaCode
     else
       bindT (stmt env ''authz.Require''
         (bindT (current_setting ''metaldocs.tenant_id'' guc_tenant) (\<lambda>tenant.
          bindT (current_setting ''metaldocs.actor_id'' guc_actor) (\<lambda>actor.
          read_db (\<lambda>db. has_capability db tenant actor capability areaCode))))) (\<lambda>granted.
       if \<not> granted
       then bindT (actorIDFromTx env) (\<lambda>actorID. failT (ErrCapabilityDenied capability areaCode actorID))
       else bindT (storeGranted capability areaCode) (\<lambda>_. appendAssertedCap env capability areaCode)))"

definition BypassSystem :: "env \<Rightarrow> unit tx" where
  "BypassSystem env = stmt env ''BypassSystem'' (modifyT (\<lambda>s. s\<lparr>guc_bypass := Some ''scheduler''\<rparr>))"

definition setAuthzGUC :: "env \<Rightarrow> string \<Rightarrow> string \<Rightarrow> unit tx" where
  "setAuthzGUC env tenantID actorID =
     bindT (wrapT ''set tenant GUC'' (stmt env ''set tenant_id'' (modifyT (\<lambda>s. s\<lparr>guc_tenant := Some tenantID\<rparr>)))) (\<lambda>_.
       wrapT ''set actor GUC'' (stmt env ''set actor_id'' (modifyT (\<lambda>s. s\<lparr>guc_actor := Some actorID\<rparr>))))"

section \<open>Events and lookups\<close>

text \<open>
  \<^verbatim>\<open>sqlEmitter.Emit\<close>: the payload \<^verbatim>\<open>nil\<close> (the empty string here) is stored as an empty object, and
  the time of the row is the database's, not \<^verbatim>\<open>OccurredAt\<close>.
\<close>

definition stored_event :: "env \<Rightarrow> GovernanceEvent \<Rightarrow> GovernanceEvent" where
  "stored_event env ev = ev\<lparr>ge_payload := (if ge_payload ev = [] then ''{}'' else ge_payload ev),
     ge_occurred := ev_dbnow env\<rparr>"

definition Emit :: "env \<Rightarrow> GovernanceEvent \<Rightarrow> unit tx" where
  "Emit env ev =
     stmt env ''Emit'' (modify_db (\<lambda>db. db\<lparr>db_events := db_events db @
       [stored_event env ev]\<rparr>))"

text \<open>
  \<^verbatim>\<open>json.Marshal\<close> of a \<^verbatim>\<open>map[string]any\<close>: keys sorted, no Unicode normalisation.
\<close>

primrec json_marshal :: "(64 word \<Rightarrow> gerr + string) \<Rightarrow> any \<Rightarrow> gerr + string" where
  "json_marshal ff AnyNil = Inr ''null''"
| "json_marshal ff (AnyBool b) = Inr (if b then ''true'' else ''false'')"
| "json_marshal ff (AnyInt n) = Inr (int_dec n)"
| "json_marshal ff (AnyInt64 n) = Inr (int_dec n)"
| "json_marshal ff (AnyFloat f) = ff f"
| "json_marshal ff (AnyStr s) = Inr (json_string s)"
| "json_marshal ff (AnyArr vs) =
     bindR (seqR (map (json_marshal ff) vs)) (\<lambda>bs. Inr (''['' @ commas bs @ '']''))"
| "json_marshal ff (AnyMap m) =
     bindR (seqR (map (\<lambda>(k, r). bindR r (\<lambda>vb. Inr (json_string k @ '':'' @ vb)))
       (sort_by_key (map (map_prod id (json_marshal ff)) m))))
     (\<lambda>bs. Inr (''{'' @ commas bs @ ''}''))"
| "json_marshal ff (AnyOther r) = r"

text \<open>The payload of an event; the services' payloads hold only strings, integers and booleans.\<close>

definition marshal_map :: "env \<Rightarrow> (string \<times> any) list \<Rightarrow> gerr + string" where
  "marshal_map env m = json_marshal (ev_float env) (AnyMap m)"

fun or_default :: "'a \<Rightarrow> 'e + 'a \<Rightarrow> 'a" where
  "or_default d (Inl e) = d"
| "or_default d (Inr x) = x"

text \<open>\<^verbatim>\<open>COALESCE(d.process_area_code_snapshot, cd.process_area_code, '')\<close>.\<close>

definition doc_area :: "database \<Rightarrow> doc_row \<Rightarrow> string" where
  "doc_area db d =
     (case d_area d of
        Some a \<Rightarrow> a
      | None \<Rightarrow> (case d_controlled d of
            None \<Rightarrow> []
          | Some c \<Rightarrow> (case map_of (db_controlled db) c of None \<Rightarrow> [] | Some a \<Rightarrow> a)))"

definition loadDocumentAreaCode :: "env \<Rightarrow> string \<Rightarrow> string \<Rightarrow> string tx" where
  "loadDocumentAreaCode env tenantID documentID =
     bindT (stmt env ''loadDocumentAreaCode'' (read_db (\<lambda>db.
       map_option (doc_area db) (List.find (\<lambda>d. d_id d = documentID \<and> d_tenant d = tenantID) (db_documents db)))))
     (\<lambda>r. case r of
        None \<Rightarrow> returnT ''tenant''
      | Some areaCode \<Rightarrow> returnT (if areaCode = [] then ''tenant'' else areaCode))"

text \<open>\<^verbatim>\<open>SET status = ..., revision_version = revision_version + 1\<close>.\<close>

definition set_status :: "string \<Rightarrow> doc_row \<Rightarrow> doc_row" where
  "set_status st d = d\<lparr>d_status := st, d_revision := d_revision d + 1\<rparr>"

text \<open>The condition of the optimistic updates: id, tenant, status and revision version.\<close>

definition occ_row :: "string \<Rightarrow> string \<Rightarrow> string \<Rightarrow> int \<Rightarrow> doc_row \<Rightarrow> bool" where
  "occ_row docID tenantID st version d \<longleftrightarrow>
     d_id d = docID \<and> d_tenant d = tenantID \<and> d_status d = st \<and> d_revision d = version"

text \<open>\<^verbatim>\<open>res.RowsAffected()\<close>, which may fail too.\<close>

definition RowsAffected :: "env \<Rightarrow> string \<Rightarrow> nat \<Rightarrow> nat tx" where
  "RowsAffected env site n = stmt env (site @ '' rows affected'') (returnT n)"

text \<open>A nullable column scanned into a \<^verbatim>\<open>string\<close>.\<close>

definition scan_string :: "string option \<Rightarrow> gerr + string" where
  "scan_string v = (case v of None \<Rightarrow> Inl (DriverError ''converting NULL to string is unsupported'') | Some x \<Rightarrow> Inr x)"

end
