(* ===== verification/Http_Contracts.thy ===== *)
theory Http_Contracts
  imports Service_Base Approval_Route
begin

text \<open>
  What the HTTP layer of the approval module (\<^verbatim>\<open>approval/http\<close>) needs below its handlers: the functions of \<^verbatim>\<open>strings\<close> and
  \<^verbatim>\<open>strconv\<close> it calls, \<^verbatim>\<open>parseIfMatch\<close>, the strict JSON decoding and the request types of \<^verbatim>\<open>contracts\<close> with their validation, and the map from
  errors to responses.
\<close>

section \<open>Strings\<close>

text \<open>The UTF-8 encodings of Unicode's white space.\<close>

definition white_space :: "string list" where
  "white_space = map (map char_of)
     ([[9], [10], [11], [12], [13], [32], [0xC2, 0x85], [0xC2, 0xA0], [0xE1, 0x9A, 0x80],
       [0xE2, 0x80, 0xA8], [0xE2, 0x80, 0xA9], [0xE2, 0x80, 0xAF], [0xE2, 0x81, 0x9F], [0xE3, 0x80, 0x80]] @
      map (\<lambda>k. [0xE2, 0x80, k]) [0x80..<0x8B] :: nat list list)"

text \<open>Strip white space in front, at most \<open>n\<close> characters: the length of the text is enough.\<close>

fun strip_front :: "nat \<Rightarrow> string list \<Rightarrow> string \<Rightarrow> string" where
  "strip_front 0 ws s = s"
| "strip_front (Suc n) ws s =
     (case List.find (\<lambda>w. prefix w s) ws of None \<Rightarrow> s | Some w \<Rightarrow> strip_front n ws (drop (length w) s))"

definition trim_space :: "string \<Rightarrow> string" where
  "trim_space s =
     (let t = strip_front (length s) white_space s in rev (strip_front (length t) (map rev white_space) (rev t)))"

definition trim_char :: "char \<Rightarrow> string \<Rightarrow> string" where
  "trim_char c s = rev (dropWhile (\<lambda>x. x = c) (rev (dropWhile (\<lambda>x. x = c) s)))"

definition contains :: "string \<Rightarrow> string \<Rightarrow> bool" where
  "contains s sub \<longleftrightarrow> sublist sub s"

text \<open>\<^verbatim>\<open>strconv.Atoi\<close> on 64 bits: an optional sign, then digits.\<close>

definition atoi :: "string \<Rightarrow> int option" where
  "atoi s =
     (let (neg, digits) = (case s of c # cs \<Rightarrow> if c = CHR ''-'' then (True, cs) else if c = CHR ''+'' then (False, cs) else (False, s) | [] \<Rightarrow> (False, s));
          v = (if neg then - int (dec_val digits) else int (dec_val digits)) in
      if digits \<noteq> [] \<and> list_all is_digit_char digits \<and> - (2 ^ 63) \<le> v \<and> v < 2 ^ 63 then Some v else None)"

section \<open>If-Match\<close>

definition parseIfMatch :: "string \<Rightarrow> gerr + int" where
  "parseIfMatch header =
     (let value = trim_space header in
      if value = [] then Inl ErrIfMatchRequired
      else if value = ''*'' then Inr 0
      else
        let value = trim_char (CHR 0x22) value in
        if \<not> prefix ''v'' value then Inl ErrIfMatchMalformed
        else (case atoi (drop 1 value) of
            None \<Rightarrow> Inl ErrIfMatchMalformed
          | Some version \<Rightarrow> if version < 0 then Inl ErrIfMatchMalformed else Inr version))"

text \<open>The entity tag the submit handler answers with.\<close>

definition etag :: "int \<Rightarrow> string" where
  "etag version = go_quote (''v'' @ int_dec version)"

section \<open>Decoding\<close>

text \<open>
  A JSON value as \<^verbatim>\<open>encoding/json\<close> scans it; a number is its literal. A request body is given by what the decoding sees of it: the media type of
  the header (\<open>None\<close> when \<^verbatim>\<open>mime.ParseMediaType\<close> fails), the number of bytes, whether they are all white space, an error of reading, the values the JSON decoder reads one after
  the other, and the error it reports after the last of them (\<open>IoEOF\<close> at the end of well-formed text).
\<close>

datatype json = JNull | JBool bool | JNum string | JStr string | JArr "json list" | JObj "(string \<times> json) list"

record body =
  bd_media :: "string option"
  bd_size :: nat
  bd_blank :: bool
  bd_read_error :: "gerr option"
  bd_values :: "json list"
  bd_end :: gerr

text \<open>
  A struct is decoded by its fields, each with a setter. A key is matched exactly, else without regard to case; an unknown key is an error. The decoder goes
  on after an error and reports the first, so stopping at the first is the same. \<open>JNull\<close> leaves a value as it is.
\<close>

type_synonym 'r setter = "json \<Rightarrow> 'r \<Rightarrow> gerr + 'r"

definition find_field :: "(string \<times> 'r setter) list \<Rightarrow> string \<Rightarrow> 'r setter option" where
  "find_field fs k =
     (case map_of fs k of
        Some f \<Rightarrow> Some f
      | None \<Rightarrow> map_option snd (List.find (\<lambda>(n, f). to_lower n = to_lower k) fs))"

fun set_fields :: "(string \<times> 'r setter) list \<Rightarrow> (string \<times> json) list \<Rightarrow> 'r \<Rightarrow> gerr + 'r" where
  "set_fields fs [] r = Inr r"
| "set_fields fs ((k, v) # kvs) r =
     (case find_field fs k of
        None \<Rightarrow> Inl (NewError (''json: unknown field '' @ go_quote k))
      | Some f \<Rightarrow> bindR (f v r) (set_fields fs kvs))"

fun unmarshal :: "(string \<times> 'r setter) list \<Rightarrow> 'r setter" where
  "unmarshal fs JNull r = Inr r"
| "unmarshal fs (JObj kvs) r = set_fields fs kvs r"
| "unmarshal fs v r = Inl (JsonTypeError ''object'')"

definition set_string :: "(string \<Rightarrow> 'r \<Rightarrow> 'r) \<Rightarrow> 'r setter" where
  "set_string upd v r = (case v of JStr s \<Rightarrow> Inr (upd s r) | JNull \<Rightarrow> Inr r | _ \<Rightarrow> Inl (JsonTypeError ''string''))"

definition set_int :: "(int \<Rightarrow> 'r \<Rightarrow> 'r) \<Rightarrow> 'r setter" where
  "set_int upd v r =
     (case v of
        JNum lit \<Rightarrow> (case atoi lit of None \<Rightarrow> Inl (JsonTypeError ''int'') | Some n \<Rightarrow> Inr (upd n r))
      | JNull \<Rightarrow> Inr r
      | _ \<Rightarrow> Inl (JsonTypeError ''int''))"

definition set_int_ptr :: "(int option \<Rightarrow> 'r \<Rightarrow> 'r) \<Rightarrow> 'r setter" where
  "set_int_ptr upd v r = (if v = JNull then Inr (upd None r) else set_int (\<lambda>n. upd (Some n)) v r)"

text \<open>\<^verbatim>\<open>contracts.Decode\<close>: one value, then the end of the text.\<close>

definition maxRequestBodyBytes :: nat where
  "maxRequestBodyBytes = 64 * 1024"

definition Decode :: "(string \<times> 'r setter) list \<Rightarrow> body option \<Rightarrow> 'r \<Rightarrow> gerr + 'r" where
  "Decode fs b dst =
     (case b of
        None \<Rightarrow> Inl ErrEmptyBody
      | Some b \<Rightarrow>
          if bd_media b \<noteq> Some ''application/json'' then Inl ErrContentType
          else (case bd_read_error b of
              Some e \<Rightarrow> Inl (Wrap ''read request body'' e)
            | None \<Rightarrow>
                if bd_size b > maxRequestBodyBytes then Inl ErrBodyTooLarge
                else if bd_blank b then Inl ErrEmptyBody
                else (case bd_values b of
                    [] \<Rightarrow> Inl (bd_end b)
                  | v # vs \<Rightarrow>
                      bindR (unmarshal fs v dst) (\<lambda>r.
                      case vs of
                        [] \<Rightarrow> if bd_end b = IoEOF then Inr r else Inl (bd_end b)
                      | v' # _ \<Rightarrow> (case unmarshal [] v' () of
                            Inl e \<Rightarrow> Inl e
                          | Inr _ \<Rightarrow> Inl (NewError ''request body must contain a single JSON value''))))))"

section \<open>Requests\<close>

definition validateRequired :: "string \<Rightarrow> string \<Rightarrow> gerr + unit" where
  "validateRequired field value = (if trim_space value = [] then Inl (NewError (field @ '' is required'')) else Inr ())"

definition is_hex_char :: "char \<Rightarrow> bool" where
  "is_hex_char c \<longleftrightarrow> is_lower_hex (lower_char c)"

definition uuidPattern :: "string \<Rightarrow> bool" where
  "uuidPattern s \<longleftrightarrow> length s = 36 \<and> (\<forall>i < 36. if i \<in> {8, 13, 18, 23} then s ! i = CHR ''-'' else is_hex_char (s ! i))"

definition sha256Pattern :: "string \<Rightarrow> bool" where
  "sha256Pattern s \<longleftrightarrow> length s = 64 \<and> list_all is_hex_char s"

definition validateUUID :: "string \<Rightarrow> string \<Rightarrow> gerr + unit" where
  "validateUUID field value =
     (if trim_space value = [] then Inl (NewError (field @ '' is required''))
      else if \<not> uuidPattern value then Inl (NewError (field @ '' must be a valid UUID''))
      else Inr ())"

definition validateSHA256Hex :: "string \<Rightarrow> string \<Rightarrow> gerr + unit" where
  "validateSHA256Hex field value =
     (if trim_space value = [] then Inl (NewError (field @ '' is required''))
      else if \<not> sha256Pattern value then Inl (NewError (field @ '' must be 64 hex characters''))
      else Inr ())"

text \<open>
  Fields without a JSON tag are decoded under their Go names: every request type accepts the keys \<^verbatim>\<open>IdempotencyKey\<close> and, some of them,
  \<^verbatim>\<open>IfMatchVersion\<close>, and nothing reads them.
\<close>

abbreviation no_string :: "'r setter" where
  "no_string \<equiv> set_string (\<lambda>_. id)"

abbreviation no_int :: "'r setter" where
  "no_int \<equiv> set_int (\<lambda>_. id)"

record SubmitBody =
  sb_route :: string
  sb_hash :: string

definition submit_fields :: "(string \<times> SubmitBody setter) list" where
  "submit_fields = [(''route_id'', set_string (\<lambda>s r. r\<lparr>sb_route := s\<rparr>)), (''IdempotencyKey'', no_string),
     (''content_hash'', set_string (\<lambda>s r. r\<lparr>sb_hash := s\<rparr>))]"

definition Submit_Validate :: "SubmitBody \<Rightarrow> gerr + unit" where
  "Submit_Validate r = bindR (validateUUID ''route_id'' (sb_route r)) (\<lambda>_. validateSHA256Hex ''content_hash'' (sb_hash r))"

record SignoffBody =
  gb_decision :: string
  gb_reason :: string
  gb_password :: string
  gb_hash :: string

definition signoff_fields :: "(string \<times> SignoffBody setter) list" where
  "signoff_fields = [(''decision'', set_string (\<lambda>s r. r\<lparr>gb_decision := s\<rparr>)), (''reason'', set_string (\<lambda>s r. r\<lparr>gb_reason := s\<rparr>)),
     (''password_token'', set_string (\<lambda>s r. r\<lparr>gb_password := s\<rparr>)), (''content_hash'', set_string (\<lambda>s r. r\<lparr>gb_hash := s\<rparr>)),
     (''IdempotencyKey'', no_string)]"

definition Signoff_Validate :: "SignoffBody \<Rightarrow> gerr + unit" where
  "Signoff_Validate r =
     (if gb_decision r \<noteq> ''approve'' \<and> gb_decision r \<noteq> ''reject'' then Inl (NewError ''decision must be one of: approve, reject'')
      else
        bindR (if gb_decision r = ''reject'' then validateRequired ''reason'' (gb_reason r) else Inr ()) (\<lambda>_.
        bindR (validateRequired ''password_token'' (gb_password r)) (\<lambda>_.
        validateSHA256Hex ''content_hash'' (gb_hash r))))"

text \<open>\<^verbatim>\<open>docSignoffRequest\<close>, the same with the password under its own name.\<close>

definition doc_signoff_fields :: "(string \<times> SignoffBody setter) list" where
  "doc_signoff_fields = [(''decision'', set_string (\<lambda>s r. r\<lparr>gb_decision := s\<rparr>)), (''reason'', set_string (\<lambda>s r. r\<lparr>gb_reason := s\<rparr>)),
     (''password'', set_string (\<lambda>s r. r\<lparr>gb_password := s\<rparr>)), (''content_hash'', set_string (\<lambda>s r. r\<lparr>gb_hash := s\<rparr>))]"

text \<open>The bodies with one field: a reason, the superseded document, the effective date.\<close>

definition reason_fields :: "(string \<times> string setter) list" where
  "reason_fields = [(''reason'', set_string (\<lambda>s _. s)), (''IdempotencyKey'', no_string), (''IfMatchVersion'', no_int)]"

definition Reason_Validate :: "string \<Rightarrow> gerr + unit" where
  "Reason_Validate reason = validateRequired ''reason'' reason"

definition supersede_fields :: "(string \<times> string setter) list" where
  "supersede_fields = [(''superseded_document_id'', set_string (\<lambda>s _. s)), (''IdempotencyKey'', no_string), (''IfMatchVersion'', no_int)]"

definition Supersede_Validate :: "string \<Rightarrow> gerr + unit" where
  "Supersede_Validate prior = validateUUID ''superseded_document_id'' prior"

definition schedule_fields :: "(string \<times> string setter) list" where
  "schedule_fields = [(''effective_from'', set_string (\<lambda>s _. s)), (''IdempotencyKey'', no_string), (''IfMatchVersion'', no_int)]"

text \<open>
  \<open>parse\<close> is \<^verbatim>\<open>time.Parse(time.RFC3339, s)\<close>: the time and the offset of its zone, or \<open>None\<close>.
\<close>

definition Schedule_Validate :: "(string \<Rightarrow> (time \<times> int) option) \<Rightarrow> string \<Rightarrow> gerr + unit" where
  "Schedule_Validate parse v =
     bindR (validateRequired ''effective_from'' v) (\<lambda>_.
     case parse v of
       None \<Rightarrow> Inl (Wrap ''effective_from must be parseable RFC3339'' (NewError ''parsing time''))
     | Some (t, offset) \<Rightarrow> if offset \<noteq> 0 then Inl (NewError ''effective_from must be UTC'') else Inr ())"

subsection \<open>Routes\<close>

record StageRequest =
  tq_order :: int
  tq_name :: string
  tq_role :: string
  tq_capability :: string
  tq_area :: string
  tq_quorum :: string
  tq_quorum_m :: "int option"
  tq_drift :: string

definition stage_fields :: "(string \<times> StageRequest setter) list" where
  "stage_fields = [(''order'', set_int (\<lambda>n r. r\<lparr>tq_order := n\<rparr>)), (''name'', set_string (\<lambda>s r. r\<lparr>tq_name := s\<rparr>)),
     (''required_role'', set_string (\<lambda>s r. r\<lparr>tq_role := s\<rparr>)), (''required_capability'', set_string (\<lambda>s r. r\<lparr>tq_capability := s\<rparr>)),
     (''area_code'', set_string (\<lambda>s r. r\<lparr>tq_area := s\<rparr>)), (''quorum'', set_string (\<lambda>s r. r\<lparr>tq_quorum := s\<rparr>)),
     (''quorum_m'', set_int_ptr (\<lambda>n r. r\<lparr>tq_quorum_m := n\<rparr>)), (''drift_policy'', set_string (\<lambda>s r. r\<lparr>tq_drift := s\<rparr>))]"

definition zero_stage :: StageRequest where
  "zero_stage = \<lparr>tq_order = 0, tq_name = [], tq_role = [], tq_capability = [], tq_area = [], tq_quorum = [], tq_quorum_m = None, tq_drift = []\<rparr>"

record RouteBody =
  rb_profile :: string
  rb_name :: string
  rb_stages :: "StageRequest list"

definition set_stages :: "RouteBody setter" where
  "set_stages v r =
     (case v of
        JNull \<Rightarrow> Inr (r\<lparr>rb_stages := []\<rparr>)
      | JArr vs \<Rightarrow> bindR (seqR (map (\<lambda>v. unmarshal stage_fields v zero_stage) vs)) (\<lambda>ss. Inr (r\<lparr>rb_stages := ss\<rparr>))
      | _ \<Rightarrow> Inl (JsonTypeError ''stages''))"

definition update_route_fields :: "(string \<times> RouteBody setter) list" where
  "update_route_fields = [(''name'', set_string (\<lambda>s r. r\<lparr>rb_name := s\<rparr>)), (''stages'', set_stages), (''IdempotencyKey'', no_string)]"

definition create_route_fields :: "(string \<times> RouteBody setter) list" where
  "create_route_fields = (''profile_code'', set_string (\<lambda>s r. r\<lparr>rb_profile := s\<rparr>)) # update_route_fields"

definition stage_label :: "nat \<Rightarrow> string \<Rightarrow> string" where
  "stage_label i field = ''stages['' @ int_dec (int i) @ ''].'' @ field"

definition validate_quorum :: "nat \<Rightarrow> StageRequest \<Rightarrow> gerr + unit" where
  "validate_quorum i s =
     (if tq_quorum s = ''any_1_of'' \<or> tq_quorum s = ''all_of'' then
        (if tq_quorum_m s \<noteq> None then Inl (NewError (stage_label i ''quorum_m must be omitted unless quorum is m_of_n'')) else Inr ())
      else if tq_quorum s = ''m_of_n'' then
        (case tq_quorum_m s of
           None \<Rightarrow> Inl (NewError (stage_label i ''quorum_m is required when quorum is m_of_n''))
         | Some m \<Rightarrow> if m < 1 then Inl (NewError (stage_label i ''quorum_m must be >= 1'')) else Inr ())
      else Inl (NewError (stage_label i ''quorum must be one of: any_1_of, all_of, m_of_n'')))"

definition validate_drift :: "nat \<Rightarrow> StageRequest \<Rightarrow> gerr + unit" where
  "validate_drift i s =
     (if tq_drift s \<in> {''reduce_quorum'', ''fail_stage'', ''keep_snapshot''} then Inr ()
      else Inl (NewError (stage_label i ''drift_policy must be one of: reduce_quorum, fail_stage, keep_snapshot'')))"

text \<open>The loop of \<^verbatim>\<open>validateStages\<close> from index \<open>i\<close>, with the names seen so far.\<close>

fun validate_stage_list :: "nat \<Rightarrow> string list \<Rightarrow> StageRequest list \<Rightarrow> gerr + unit" where
  "validate_stage_list i seen [] = Inr ()"
| "validate_stage_list i seen (s # ss) =
     (if tq_order s \<noteq> int i + 1 then Inl (NewError (stage_label i (''order must be '' @ int_dec (int i + 1))))
      else
        bindR (validateRequired (stage_label i ''name'') (tq_name s)) (\<lambda>_.
        if tq_name s \<in> set seen then Inl (NewError (stage_label i ''name duplicates an earlier stage''))
        else
          bindR (validateRequired (stage_label i ''required_role'') (tq_role s)) (\<lambda>_.
          bindR (validateRequired (stage_label i ''required_capability'') (tq_capability s)) (\<lambda>_.
          bindR (validateRequired (stage_label i ''area_code'') (tq_area s)) (\<lambda>_.
          bindR (validate_quorum i s) (\<lambda>_.
          bindR (validate_drift i s) (\<lambda>_.
          validate_stage_list (Suc i) (tq_name s # seen) ss)))))))"

definition validateStages :: "StageRequest list \<Rightarrow> gerr + unit" where
  "validateStages stages =
     (if stages = [] then Inl (NewError ''stages must contain at least one stage'') else validate_stage_list 0 [] stages)"

definition CreateRoute_Validate :: "RouteBody \<Rightarrow> gerr + unit" where
  "CreateRoute_Validate r =
     bindR (validateRequired ''profile_code'' (rb_profile r)) (\<lambda>_.
     bindR (validateRequired ''name'' (rb_name r)) (\<lambda>_. validateStages (rb_stages r)))"

definition UpdateRoute_Validate :: "RouteBody \<Rightarrow> gerr + unit" where
  "UpdateRoute_Validate r = bindR (validateRequired ''name'' (rb_name r)) (\<lambda>_. validateStages (rb_stages r))"

text \<open>\<^verbatim>\<open>mapStageRequests\<close>; the conversions to the string types of the domain keep the text.\<close>

definition quorum_of :: "string \<Rightarrow> QuorumPolicy" where
  "quorum_of s = (if s = ''any_1_of'' then QuorumAny1Of else if s = ''all_of'' then QuorumAllOf
     else if s = ''m_of_n'' then QuorumMofN else QuorumOther s)"

definition drift_of :: "string \<Rightarrow> DriftPolicy" where
  "drift_of s = (if s = ''reduce_quorum'' then DriftReduceQuorum else if s = ''fail_stage'' then DriftFailStage
     else if s = ''keep_snapshot'' then DriftKeepSnapshot else DriftOther s)"

definition mapStageRequests :: "StageRequest list \<Rightarrow> Stage list" where
  "mapStageRequests ss = map (\<lambda>s. \<lparr>st_order = tq_order s, st_name = tq_name s, st_role = tq_role s, st_capability = tq_capability s,
     st_area = tq_area s, st_quorum = quorum_of (tq_quorum s), st_quorum_m = tq_quorum_m s, st_drift = drift_of (tq_drift s)\<rparr>) ss"

section \<open>Errors\<close>

text \<open>\<^verbatim>\<open>err.Error()\<close>.\<close>

fun err_text :: "gerr \<Rightarrow> string" where
  "err_text ErrStaleRevision = ''approval: stale revision '' @ [CHR 0xE2, CHR 0x80, CHR 0x94] @ '' concurrent modification detected''"
| "err_text ErrNoActiveInstance = ''approval: no active approval instance for document''"
| "err_text ErrDuplicateSubmission = ''approval: duplicate submission idempotency key''"
| "err_text RepoErrActorAlreadySigned = ''approval: actor already signed this instance''"
| "err_text ErrCrossTenantSignoff = ''approval: cross-tenant signoff rejected''"
| "err_text ErrInstanceCompleted = ''approval: instance is already terminal''"
| "err_text ErrStageNotActive = ''approval: stage is not in expected status''"
| "err_text ErrFKViolation = ''approval: foreign key violation''"
| "err_text ErrCheckViolation = ''approval: check constraint violation''"
| "err_text ErrInsufficientPrivilege = ''approval: insufficient privilege '' @ [CHR 0xE2, CHR 0x80, CHR 0x94] @ '' GUC context missing''"
| "err_text ErrUnknownDB = ''approval: unknown database error''"
| "err_text ErrRouteInUse = ''approval: route is referenced by one or more instances and cannot be modified''"
| "err_text ErrDuplicateRouteProfile = ''approval: a route already exists for this tenant+profile combination''"
| "err_text ErrNoActiveStage = ''no active stage in instance''"
| "err_text ErrCannotSkipLastStage = ''cannot skip last stage: no successor exists''"
| "err_text ErrRevisionRegression = ''revision_version cannot decrease''"
| "err_text ErrInstanceTerminal = ''instance is already in a terminal state''"
| "err_text ErrLegacyStateRejected = ''legacy document state is not valid in the Spec 2 approval graph''"
| "err_text ErrAuthorCannotSign = ''SoD: document author cannot sign their own revision''"
| "err_text ErrActorAlreadySigned = ''SoD: actor has already signed in a prior stage of this instance''"
| "err_text ErrFloatInFormData = ''content hash: float64 values are not allowed in form_data''"
| "err_text ErrFloatInPayload = ''event payload must not contain float64 values; use string or int''"
| "err_text ErrInstanceNotApproved = ''approval: instance is not in approved state''"
| "err_text ErrEffectiveDateInPast = ''approval: effective_date must be in the future''"
| "err_text ErrInvalidObsoleteSource = ''approval: document must be in '' @ sq_quote ''published'' @ '' or '' @ sq_quote ''superseded'' @ '' state to mark obsolete''"
| "err_text ErrReasonRequired = ''cancel: reason must not be empty''"
| "err_text ErrRouteNotFound = ''route_admin: route not found''"
| "err_text ErrNoActor = ''membership_tx: actorUserID must not be empty''"
| "err_text ErrLegacyDocumentsRemain = ''cutover: legacy documents remain with status '' @ sq_quote ''finalized'' @ '' or '' @ sq_quote ''archived''"
| "err_text ErrIfMatchRequired = ''precondition: If-Match header required''"
| "err_text ErrIfMatchMalformed = ''precondition: If-Match header malformed; expected '' @ go_quote ''v<N>'' @ '' or '' @ go_quote ''*''"
| "err_text ErrIdempotencyRequired = ''idempotency: Idempotency-Key header required on mutating requests''"
| "err_text ErrContentHashMismatch = ''approval: content hash mismatch''"
| "err_text ErrInvalidCredentials = ''signature: invalid credentials''"
| "err_text ErrRateLimited = ''signature: too many failed attempts, try again later''"
| "err_text ErrUnknownSignatureMethod = ''signature: unknown method''"
| "err_text ErrContentType = ''content-type must be application/json''"
| "err_text ErrBodyTooLarge = ''request body too large (max 64 KB)''"
| "err_text ErrEmptyBody = ''request body must not be empty''"
| "err_text ErrDuplicateKey = ''request body contains duplicate JSON keys''"
| "err_text IoEOF = ''EOF''"
| "err_text IoUnexpectedEOF = ''unexpected EOF''"
| "err_text (JsonSyntaxError m) = m"
| "err_text (JsonTypeError m) = ''json: cannot unmarshal value into Go value of type '' @ m"
| "err_text ContextDeadlineExceeded = ''context deadline exceeded''"
| "err_text ContextCanceled = ''context canceled''"
| "err_text (ErrCapabilityDenied c a u) = ''authz: capability '' @ go_quote c @ '' denied for actor '' @ go_quote u @ '' in area '' @ go_quote a"
| "err_text SqlErrNoRows = ''sql: no rows in result set''"
| "err_text (PgError c k m) = ''ERROR: '' @ m @ '' (SQLSTATE '' @ c @ '')''"
| "err_text (DriverError m) = m"
| "err_text (NewError m) = m"
| "err_text (Wrap m e) = m @ '': '' @ err_text e"
| "err_text (WrapAfter e m) = err_text e @ '': '' @ m"

text \<open>\<^verbatim>\<open>errors.As\<close> for the types with a payload: some error of the chain has the type.\<close>

fun errors_as :: "(gerr \<Rightarrow> bool) \<Rightarrow> gerr \<Rightarrow> bool" where
  "errors_as T (Wrap m e) = (T (Wrap m e) \<or> errors_as T e)"
| "errors_as T (WrapAfter e m) = (T (WrapAfter e m) \<or> errors_as T e)"
| "errors_as T e = T e"

definition looksLikeValidationError :: "gerr \<Rightarrow> bool" where
  "looksLikeValidationError e \<longleftrightarrow>
     contains (err_text e) '' is required'' \<or> contains (err_text e) '' must be '' \<or> contains (err_text e) '' must not be ''"

text \<open>The two nested \<^verbatim>\<open>switch\<close> statements, each as its list of cases in order.\<close>

definition sentinel_cases :: "(gerr \<times> int \<times> string) list" where
  "sentinel_cases =
     [(ErrStaleRevision, 409, ''conflict.stale_revision''), (ErrNoActiveInstance, 404, ''not_found.instance''),
      (ErrDuplicateSubmission, 409, ''conflict.duplicate_submission''), (RepoErrActorAlreadySigned, 409, ''signoff.duplicate''),
      (ErrInstanceCompleted, 409, ''state.instance_completed''), (ErrRouteInUse, 409, ''route.in_use''),
      (ErrDuplicateRouteProfile, 409, ''route.duplicate_profile''), (ErrAuthorCannotSign, 403, ''sod.submitter_cannot_sign''),
      (ErrActorAlreadySigned, 403, ''sod.cross_stage_duplicate''), (ErrFKViolation, 422, ''db.fk_violation''),
      (ErrCheckViolation, 422, ''db.check_violation''), (ErrIfMatchRequired, 428, ''precondition.if_match_required''),
      (ErrIfMatchMalformed, 400, ''validation.if_match_malformed''), (ErrIdempotencyRequired, 400, ''idempotency.key_required''),
      (ErrContentHashMismatch, 412, ''precondition.content_hash_mismatch''), (ErrInvalidCredentials, 401, ''authn.signature_invalid''),
      (ErrRateLimited, 429, ''authn.signature_rate_limited''), (ErrInsufficientPrivilege, 500, ''internal.db_privilege_missing''),
      (ErrUnknownDB, 500, ''internal.db_unknown'')]"

definition default_cases :: "((gerr \<Rightarrow> bool) \<times> int \<times> string) list" where
  "default_cases =
     [(errors_as (\<lambda>e. case e of ErrCapabilityDenied _ _ _ \<Rightarrow> True | _ \<Rightarrow> False), 403, ''authz.capability_denied''),
      (\<lambda>e. errors_is e ErrReasonRequired, 400, ''validation.reason_required''),
      (\<lambda>e. errors_is e ErrRouteNotFound, 404, ''not_found.route''),
      (\<lambda>e. errors_is e ContextDeadlineExceeded \<or> errors_is e ContextCanceled, 504, ''timeout''),
      (errors_as (\<lambda>e. case e of JsonSyntaxError _ \<Rightarrow> True | _ \<Rightarrow> False), 400, ''validation.json_decode''),
      (\<lambda>e. errors_is e IoUnexpectedEOF, 400, ''validation.json_decode''),
      (errors_as (\<lambda>e. case e of JsonTypeError _ \<Rightarrow> True | _ \<Rightarrow> False), 400, ''validation.json_type_error''),
      (\<lambda>e. errors_is e IoEOF, 400, ''validation.empty_body''),
      (\<lambda>e. errors_is e ErrContentType, 415, ''validation.content_type''),
      (\<lambda>e. errors_is e ErrBodyTooLarge, 413, ''validation.body_too_large''),
      (\<lambda>e. errors_is e ErrEmptyBody, 400, ''validation.empty_body''),
      (\<lambda>e. errors_is e ErrDuplicateKey, 400, ''validation.duplicate_key''),
      (looksLikeValidationError, 400, ''validation.request_invalid'')]"

definition error_case :: "gerr \<Rightarrow> int \<times> string" where
  "error_case err =
     (case List.find (\<lambda>(t, _). errors_is err t) sentinel_cases of
        Some (_, r) \<Rightarrow> r
      | None \<Rightarrow> (case List.find (\<lambda>(P, _). P err) default_cases of Some (_, r) \<Rightarrow> r | None \<Rightarrow> (500, ''internal.unknown'')))"

definition responseMessage :: "gerr \<Rightarrow> int \<Rightarrow> string" where
  "responseMessage err statusCode = (if statusCode \<ge> 500 then ''internal error'' else err_text err)"

record ErrorResponse =
  er_code :: string
  er_message :: string
  er_request_id :: string

definition MapErrorToResponse :: "gerr \<Rightarrow> int \<times> ErrorResponse" where
  "MapErrorToResponse err =
     (let (statusCode, code) = error_case err in
      (statusCode, \<lparr>er_code = code, er_message = responseMessage err statusCode, er_request_id = []\<rparr>))"

end
