(* ===== verification/Submit_Service.thy ===== *)
theory Submit_Service
  imports Service_Base
begin

text \<open>
  Submission of a document revision for approval, \<^verbatim>\<open>approval/application/submit_service.go\<close>: the
  whole of \<^verbatim>\<open>SubmitRevisionForReview\<close> with \<^verbatim>\<open>loadRoute\<close>.
\<close>

record SubmitRequest =
  sr_tenant :: string
  sr_document :: string
  sr_route :: string
  sr_submitted_by :: string
  sr_form :: "(string \<times> any) list"
  sr_revision :: int

text \<open>\<^verbatim>\<open>loadRoute\<close>: the route of the tenant, active or not, and its stages by order.\<close>

definition loadRoute :: "env \<Rightarrow> string \<Rightarrow> string \<Rightarrow> Route tx" where
  "loadRoute env tenantID routeID =
     bindT (stmt env ''loadRoute'' (read_db (\<lambda>db.
       List.find (\<lambda>r. rr_id r = routeID \<and> rr_tenant r = tenantID) (db_routes db)))) (\<lambda>row.
     case row of
       None \<Rightarrow> failT (NewError (''route '' @ routeID @ '' not found for tenant '' @ tenantID))
     | Some r \<Rightarrow>
         bindT (stmt env ''loadRoute stages'' (read_db (\<lambda>db.
           sort_key st_order (map snd (filter (\<lambda>(rid, st). rid = routeID) (db_route_stages db)))))) (\<lambda>stages.
         returnT \<lparr>rt_id = rr_id r, rt_tenant = rr_tenant r, rt_profile = rr_profile r,
           rt_version = rr_version r, rt_stages = stages\<rparr>))"

text \<open>Step 8: the stage instances, the first one active. \<open>ev_uuid\<close> number 0 is the instance's id.\<close>

definition stage_instance_of :: "env \<Rightarrow> string \<Rightarrow> time \<Rightarrow> nat \<Rightarrow> Stage \<Rightarrow> StageInstance" where
  "stage_instance_of env instanceID now i stage =
     \<lparr>si_id = ev_uuid env (Suc i), si_instance = instanceID, si_order = st_order stage,
      si_name = st_name stage, si_role = st_role stage, si_capability = st_capability stage,
      si_area = st_area stage, si_quorum = st_quorum stage, si_quorum_m = st_quorum_m stage,
      si_drift = st_drift stage, si_eligible = [], si_denominator = None,
      si_status = (if i = 0 then StageActive else StagePending),
      si_opened = (if i = 0 then Some now else None), si_completed = None, si_skip_reason = []\<rparr>"

definition new_stage_instances :: "env \<Rightarrow> string \<Rightarrow> time \<Rightarrow> Stage list \<Rightarrow> StageInstance list" where
  "new_stage_instances env instanceID now stages =
     map (\<lambda>(i, st). stage_instance_of env instanceID now i st) (enumerate 0 stages)"

definition new_instance :: "env \<Rightarrow> SubmitRequest \<Rightarrow> string \<Rightarrow> string \<Rightarrow> time \<Rightarrow> Route \<Rightarrow> Instance" where
  "new_instance env req contentHash idempotencyKey now route =
     \<lparr>in_id = ev_uuid env 0, in_tenant = sr_tenant req, in_document = sr_document req, in_route = sr_route req,
      in_route_version = rt_version route, in_status = InstanceInProgress, in_submitted_by = sr_submitted_by req,
      in_submitted_at = now, in_completed = None, in_content_hash = contentHash, in_idem_key = idempotencyKey,
      in_revision = sr_revision req, in_stages = []\<rparr>"

text \<open>Steps 4 to 9, inside the transaction.\<close>

definition submit_body :: "env \<Rightarrow> SubmitRequest \<Rightarrow> string \<Rightarrow> string \<Rightarrow> string tx" where
  "submit_body env req contentHash idempotencyKey =
     bindT WithCapCache (\<lambda>_.
     bindT (wrapT ''submit'' (setAuthzGUC env (sr_tenant req) (sr_submitted_by req))) (\<lambda>_.
     bindT (wrapT ''submit: load document area'' (loadDocumentAreaCode env (sr_tenant req) (sr_document req))) (\<lambda>areaCode.
     bindT (Require env ''doc.submit'' areaCode) (\<lambda>_.
     bindT (wrapT ''submit: load route'' (loadRoute env (sr_tenant req) (sr_route req))) (\<lambda>route.
     bindT (wrapT ''submit: invalid route'' (liftT (Route_Validate route))) (\<lambda>_.
     let instanceID = ev_uuid env 0; now = ev_now env 1;
         inst = new_instance env req contentHash idempotencyKey now route in
     bindT (mapErrT (\<lambda>e. if errors_is e ErrDuplicateSubmission then e else Wrap ''submit'' e)
       (InsertInstance env inst)) (\<lambda>_.
     bindT (wrapT ''submit'' (InsertStageInstances env (new_stage_instances env instanceID now (rt_stages route)))) (\<lambda>_.
     bindT (wrapT ''submit: transition document to under_review'' (stmt env ''submit document''
       (update_documents (occ_row (sr_document req) (sr_tenant req) ''draft'' (sr_revision req))
         (set_status ''under_review'')))) (\<lambda>n.
     bindT (requireT (n \<noteq> 0) ErrStaleRevision) (\<lambda>_.
     bindT (wrapT ''submit: marshal event payload'' (liftT (marshal_map env
       [(''instance_id'', AnyStr instanceID), (''route_id'', AnyStr (sr_route req)),
        (''content_hash'', AnyStr contentHash)]))) (\<lambda>payload.
     bindT (wrapT ''submit: emit event'' (Emit env
       \<lparr>ge_tenant = sr_tenant req, ge_type = ''approval_submitted'', ge_actor = sr_submitted_by req,
        ge_resource_type = ''document'', ge_resource_id = sr_document req, ge_reason = [],
        ge_payload = payload, ge_occurred = now\<rparr>)) (\<lambda>_.
     returnT instanceID))))))))))))"

definition SubmitRevisionForReview ::
  "env \<Rightarrow> SubmitRequest \<Rightarrow> database \<Rightarrow> (gerr + string) \<times> database" where
  "SubmitRevisionForReview env req db =
     (case ValidateEventPayload (sr_form req) of
        Inl e \<Rightarrow> (Inl e, db)
      | Inr _ \<Rightarrow>
        (case ComputeContentHash (ev_nfc env)
           \<lparr>ch_tenant = sr_tenant req, ch_document = sr_document req, ch_revision = sr_revision req,
            ch_form = sr_form req, ch_values_hash = [], ch_schema_hash = []\<rparr> of
           Inl e \<Rightarrow> (Inl (Wrap ''submit: content hash'' e), db)
         | Inr contentHash \<Rightarrow>
             let idempotencyKey = ComputeIdempotencyKey (ev_nfc env)
               \<lparr>ik_actor = sr_submitted_by req, ik_document = sr_document req, ik_stage = [], ik_decision = [],
                ik_timestamp = ev_now env 0\<rparr>
             in runTx env ''submit: begin tx'' ''submit: commit'' (submit_body env req contentHash idempotencyKey) db))"

end
