(* ===== verification/Decision_Service.thy ===== *)
theory Decision_Service
  imports Submit_Service Approval_Quorum
begin

text \<open>
  Signoffs, \<^verbatim>\<open>approval/application/decision_service.go\<close>: the whole of \<^verbatim>\<open>RecordSignoff\<close> and the
  functions it calls. The \<^verbatim>\<open>FreezeInvoker\<close> is a parameter: \<open>None\<close> for an invoker that is not
  configured, otherwise a computation in the same transaction. The call of the PDF dispatcher
  after the commit is part of the result.
\<close>

record ApproverContext =
  ac_user :: string
  ac_capabilities :: "string list"

type_synonym freeze_invoker = "(string \<Rightarrow> string \<Rightarrow> ApproverContext \<Rightarrow> unit tx) option"

record SignoffRequest =
  sq_tenant :: string
  sq_instance :: string
  sq_stage :: string
  sq_actor :: string
  sq_decision :: string
  sq_comment :: string
  sq_method :: string
  sq_payload :: "(string \<times> any) list"
  sq_form :: "(string \<times> any) list"
  sq_capabilities :: "string list"

record SignoffResult =
  re_stage_completed :: bool
  re_approved :: bool
  re_rejected :: bool

definition no_result :: SignoffResult where
  "no_result = \<lparr>re_stage_completed = False, re_approved = False, re_rejected = False\<rparr>"

definition scanSignoffs :: "Signoff list \<Rightarrow> gerr + Signoff list" where
  "scanSignoffs rows = seqR (map (\<lambda>r.
     case NewSignoff r of Inl e \<Rightarrow> Inl (Wrap (''scan signoff '' @ sg_id r) e) | Inr s \<Rightarrow> Inr s) rows)"

definition loadPriorSignoffs :: "env \<Rightarrow> string \<Rightarrow> string \<Rightarrow> string \<Rightarrow> Signoff list tx" where
  "loadPriorSignoffs env tenantID instanceID activeStageID =
     bindT (stmt env ''loadPriorSignoffs'' (read_db (\<lambda>db. sort_key sg_signed_at (filter (\<lambda>s.
       sg_instance s = instanceID \<and> sg_stage s \<noteq> activeStageID \<and> sg_tenant s = tenantID) (db_signoffs db)))))
     (\<lambda>rows. liftT (scanSignoffs rows))"

definition loadStageSignoffs :: "env \<Rightarrow> string \<Rightarrow> Signoff list tx" where
  "loadStageSignoffs env stageInstanceID =
     bindT (stmt env ''loadStageSignoffs'' (read_db (\<lambda>db. sort_key sg_signed_at (filter (\<lambda>s.
       sg_stage s = stageInstanceID) (db_signoffs db)))))
     (\<lambda>rows. liftT (scanSignoffs rows))"

definition splitSignoffs :: "Signoff list \<Rightarrow> Signoff list \<times> Signoff list" where
  "splitSignoffs all = (filter (\<lambda>s. sg_decision s = DecisionApprove) all,
                        filter (\<lambda>s. sg_decision s = DecisionReject) all)"

definition marshalSignaturePayload :: "env \<Rightarrow> (string \<times> any) list \<Rightarrow> gerr + string" where
  "marshalSignaturePayload env payload = (if payload = [] then Inr ''{}'' else marshal_map env payload)"

text \<open>Step 10: the denominator with its two fallbacks.\<close>

definition signoff_denominator :: "StageInstance \<Rightarrow> int" where
  "signoff_denominator st =
     (let d = ComputeEffectiveDenominator st (si_eligible st);
          d' = (if d = 0 then int (length (si_eligible st)) else d)
      in if d' = 0 then 1 else d')"

text \<open>Step 11 when every stage is done: complete the instance, freeze, approve the document.\<close>

definition approve_instance :: "env \<Rightarrow> freeze_invoker \<Rightarrow> SignoffRequest \<Rightarrow> Instance \<Rightarrow> time \<Rightarrow> unit tx" where
  "approve_instance env freeze req inst now =
     bindT (wrapT ''recordSignoff: complete instance''
       (UpdateInstanceStatus env (sq_tenant req) (sq_instance req) InstanceApproved InstanceInProgress (Some now))) (\<lambda>_.
     case freeze of
       None \<Rightarrow> failT (NewError ''recordSignoff: freezeInvoker not configured'')
     | Some fz \<Rightarrow>
         bindT (wrapT ''recordSignoff: freeze'' (fz (sq_tenant req) (in_document inst)
           \<lparr>ac_user = sq_actor req, ac_capabilities = sq_capabilities req\<rparr>)) (\<lambda>_.
         bindT (wrapT ''recordSignoff: approve document'' (stmt env ''approve document''
           (update_documents (\<lambda>d. d_id d = in_document inst \<and> d_tenant d = sq_tenant req \<and>
             d_status d = ''under_review'') (set_status ''approved'')))) (\<lambda>_.
         returnT ())))"

text \<open>Step 11: act on the outcome. The second result is the revision whose PDF is to be dispatched.\<close>

definition apply_outcome ::
  "env \<Rightarrow> freeze_invoker \<Rightarrow> SignoffRequest \<Rightarrow> Instance \<Rightarrow> StageInstance \<Rightarrow> time \<Rightarrow> QuorumOutcome \<Rightarrow>
   (SignoffResult \<times> (string \<times> string) option) tx" where
  "apply_outcome env freeze req inst activeStage now outcome =
     (case outcome of
        QuorumApprovedStage \<Rightarrow>
          bindT (wrapT ''recordSignoff: complete stage''
            (UpdateStageStatus env (sq_tenant req) (si_id activeStage) StageCompleted StageActive)) (\<lambda>_.
          bindT (wrapT ''recordSignoff: advance stage'' (liftT (AdvanceStage now inst))) (\<lambda>inst'.
          if in_status inst' = InstanceApproved then
            bindT (approve_instance env freeze req inst' now) (\<lambda>_.
            returnT (no_result\<lparr>re_stage_completed := True, re_approved := True\<rparr>,
              Some (sq_tenant req, in_document inst')))
          else
            (case Active inst' of
               None \<Rightarrow> returnT (no_result\<lparr>re_stage_completed := True\<rparr>, None)
             | Some nextStage \<Rightarrow>
                 bindT (wrapT ''recordSignoff: activate next stage''
                   (UpdateStageStatus env (sq_tenant req) (si_id nextStage) StageActive StagePending)) (\<lambda>_.
                 returnT (no_result\<lparr>re_stage_completed := True\<rparr>, None)))))
      | QuorumRejectedStage \<Rightarrow>
          bindT (wrapT ''recordSignoff: reject stage''
            (UpdateStageStatus env (sq_tenant req) (si_id activeStage) StageRejectedHere StageActive)) (\<lambda>_.
          bindT (wrapT ''recordSignoff: reject instance''
            (UpdateInstanceStatus env (sq_tenant req) (sq_instance req) InstanceRejected InstanceInProgress (Some now))) (\<lambda>_.
          returnT (no_result\<lparr>re_rejected := True\<rparr>, None)))
      | QuorumPending \<Rightarrow> returnT (no_result, None))"

text \<open>Steps 9 to 12, after a fresh signoff was stored.\<close>

definition decide_stage ::
  "env \<Rightarrow> freeze_invoker \<Rightarrow> SignoffRequest \<Rightarrow> Instance \<Rightarrow> StageInstance \<Rightarrow> time \<Rightarrow> string \<Rightarrow>
   (SignoffResult \<times> (string \<times> string) option) tx" where
  "decide_stage env freeze req inst activeStage now contentHash =
     bindT (wrapT ''recordSignoff: load stage signoffs'' (loadStageSignoffs env (si_id activeStage))) (\<lambda>allStage.
     let (approvals, rejections) = splitSignoffs allStage;
         outcome = EvaluateQuorum activeStage approvals rejections (signoff_denominator activeStage) in
     bindT (apply_outcome env freeze req inst activeStage now outcome) (\<lambda>result.
     bindT (wrapT ''recordSignoff: marshal event payload'' (liftT (marshal_map env
       [(''instance_id'', AnyStr (sq_instance req)), (''stage_instance_id'', AnyStr (si_id activeStage)),
        (''decision'', AnyStr (sq_decision req)), (''content_hash'', AnyStr contentHash)]))) (\<lambda>payload.
     bindT (wrapT ''recordSignoff: emit event'' (Emit env
       \<lparr>ge_tenant = sq_tenant req, ge_type = ''signoff_recorded'', ge_actor = sq_actor req,
        ge_resource_type = ''approval_instance'', ge_resource_id = sq_instance req, ge_reason = [],
        ge_payload = payload, ge_occurred = now\<rparr>)) (\<lambda>_.
     returnT result))))"

text \<open>Steps 4 to 6: load and guard the instance and its active stage, authorise, check duties.\<close>

definition load_for_signoff :: "env \<Rightarrow> SignoffRequest \<Rightarrow> (Instance \<times> StageInstance) tx" where
  "load_for_signoff env req =
     bindT (wrapT ''recordSignoff'' (setAuthzGUC env (sq_tenant req) (sq_actor req))) (\<lambda>_.
     bindT (mapErrT (\<lambda>e. if errors_is e SqlErrNoRows then Wrap ''recordSignoff'' ErrNoActiveInstance
                        else Wrap ''recordSignoff: load instance'' e)
       (LoadInstance env (sq_tenant req) (sq_instance req))) (\<lambda>inst.
     bindT (requireT (in_status inst = InstanceInProgress) ErrInstanceCompleted) (\<lambda>_.
     bindT (wrapT ''recordSignoff: load document area''
       (loadDocumentAreaCode env (sq_tenant req) (in_document inst))) (\<lambda>areaCode.
     bindT (Require env ''doc.signoff'' areaCode) (\<lambda>_.
     case Active inst of
       None \<Rightarrow> failT ErrNoActiveStage
     | Some activeStage \<Rightarrow>
         bindT (requireT (sq_stage req = [] \<or> si_id activeStage = sq_stage req) ErrStageNotActive) (\<lambda>_.
         bindT (wrapT ''recordSignoff: load prior signoffs''
           (loadPriorSignoffs env (sq_tenant req) (sq_instance req) (si_id activeStage))) (\<lambda>priorSignoffs.
         bindT (liftT (CheckSoD (in_submitted_by inst) (sq_actor req) priorSignoffs)) (\<lambda>_.
         returnT (inst, activeStage)))))))))"

definition signoff_body ::
  "env \<Rightarrow> freeze_invoker \<Rightarrow> SignoffRequest \<Rightarrow> string \<Rightarrow> (SignoffResult \<times> (string \<times> string) option) tx" where
  "signoff_body env freeze req contentHash =
     bindT (load_for_signoff env req) (\<lambda>(inst, activeStage).
     bindT (wrapT ''recordSignoff: marshal signature payload''
       (liftT (marshalSignaturePayload env (sq_payload req)))) (\<lambda>sigPayload.
     let now = ev_now env 0 in
     bindT (wrapT ''recordSignoff: build signoff'' (liftT (NewSignoff
       \<lparr>sg_id = ev_uuid env 0, sg_instance = sq_instance req, sg_stage = si_id activeStage,
        sg_actor = sq_actor req, sg_tenant = sq_tenant req, sg_decision = sq_decision req,
        sg_comment = sq_comment req, sg_signed_at = now, sg_method = sq_method req,
        sg_payload = sigPayload, sg_content_hash = contentHash\<rparr>))) (\<lambda>signoff.
     bindT (mapErrT (\<lambda>e. if errors_is e RepoErrActorAlreadySigned then e
                        else Wrap ''recordSignoff: insert signoff'' e)
       (InsertSignoff env signoff)) (\<lambda>insertResult.
     if ir_replay insertResult then returnT (no_result, None)
     else decide_stage env freeze req inst activeStage now contentHash))))"

definition RecordSignoff ::
  "env \<Rightarrow> freeze_invoker \<Rightarrow> SignoffRequest \<Rightarrow> database \<Rightarrow>
   (gerr + SignoffResult \<times> (string \<times> string) option) \<times> database" where
  "RecordSignoff env freeze req db =
     (case ValidateEventPayload (sq_payload req) of
        Inl e \<Rightarrow> (Inl e, db)
      | Inr _ \<Rightarrow>
        (case ComputeContentHash (ev_nfc env)
           \<lparr>ch_tenant = sq_tenant req, ch_document = sq_instance req, ch_revision = 0,
            ch_form = sq_form req, ch_values_hash = [], ch_schema_hash = []\<rparr> of
           Inl e \<Rightarrow> (Inl (Wrap ''recordSignoff: content hash'' e), db)
         | Inr contentHash \<Rightarrow> runTx env ''recordSignoff: begin tx'' ''recordSignoff: commit'' (signoff_body env freeze req contentHash) db))"

end
