(* ===== verification/Lifecycle_Services.thy ===== *)
theory Lifecycle_Services
  imports Service_Base
begin

text \<open>
  The services that move an approved document on: \<^verbatim>\<open>publish_service.go\<close>, \<^verbatim>\<open>supersede_service.go\<close>,
  \<^verbatim>\<open>obsolete_service.go\<close>, \<^verbatim>\<open>scheduler_service.go\<close>, \<^verbatim>\<open>cancel_service.go\<close> and \<^verbatim>\<open>cutover_service.go\<close> of
  \<^verbatim>\<open>approval/application\<close>.
\<close>

section \<open>Publishing\<close>

record PublishRequest =
  pq_tenant :: string
  pq_instance :: string
  pq_published_by :: string

text \<open>Loading the instance, shared by the two publish operations; \<open>op\<close> is the message prefix.\<close>

definition load_approved :: "env \<Rightarrow> string \<Rightarrow> string \<Rightarrow> string \<Rightarrow> string \<Rightarrow> Instance tx" where
  "load_approved env op tenantID instanceID actor =
     bindT (mapErrT (\<lambda>e. if errors_is e SqlErrNoRows then ErrNoActiveInstance
                        else Wrap (op @ '': load instance'') e)
       (LoadInstance env tenantID instanceID)) (\<lambda>inst.
     bindT (requireT (in_status inst = InstanceApproved) ErrInstanceNotApproved) (\<lambda>_.
     bindT (wrapT op (setAuthzGUC env tenantID actor)) (\<lambda>_.
     bindT (wrapT (op @ '': load document area'') (loadDocumentAreaCode env tenantID (in_document inst))) (\<lambda>areaCode.
     bindT (Require env ''doc.publish'' areaCode) (\<lambda>_.
     returnT inst)))))"

definition publish_body :: "env \<Rightarrow> PublishRequest \<Rightarrow> (string \<times> string) tx" where
  "publish_body env req =
     bindT (load_approved env ''publishApproved'' (pq_tenant req) (pq_instance req) (pq_published_by req)) (\<lambda>inst.
     bindT (wrapT ''publishApproved: update document state'' (stmt env ''publish document''
       (update_documents (\<lambda>d. d_id d = in_document inst \<and> d_tenant d = pq_tenant req \<and> d_status d = ''approved'')
         (set_status ''published'')))) (\<lambda>n.
     bindT (wrapT ''publishApproved: rows affected'' (RowsAffected env ''publish'' n)) (\<lambda>affected.
     bindT (requireT (affected \<noteq> 0) ErrStaleRevision) (\<lambda>_.
     bindT (wrapT ''publishApproved: marshal event payload'' (liftT (marshal_map env
       [(''instance_id'', AnyStr (pq_instance req)), (''revision_version'', AnyInt (in_revision inst))]))) (\<lambda>payload.
     bindT (wrapT ''publishApproved: emit event'' (Emit env
       \<lparr>ge_tenant = pq_tenant req, ge_type = ''document_published'', ge_actor = pq_published_by req,
        ge_resource_type = ''document'', ge_resource_id = in_document inst, ge_reason = [],
        ge_payload = payload, ge_occurred = ev_now env 0\<rparr>)) (\<lambda>_.
     returnT (in_document inst, ''published'')))))))"

definition PublishApproved :: "env \<Rightarrow> PublishRequest \<Rightarrow> database \<Rightarrow> (gerr + string \<times> string) \<times> database" where
  "PublishApproved env req db =
     runTx env ''publishApproved: begin tx'' ''publishApproved: commit'' (publish_body env req) db"

record SchedulePublishRequest =
  ps_tenant :: string
  ps_instance :: string
  ps_effective_date :: time
  ps_scheduled_by :: string

definition schedule_body :: "env \<Rightarrow> SchedulePublishRequest \<Rightarrow> (string \<times> time) tx" where
  "schedule_body env req =
     bindT (load_approved env ''schedulePublish'' (ps_tenant req) (ps_instance req) (ps_scheduled_by req)) (\<lambda>inst.
     bindT (wrapT ''schedulePublish: update document state'' (stmt env ''schedule document''
       (if ev_effective_date env
        then update_documents (occ_row (in_document inst) (ps_tenant req) ''approved'' (in_revision inst))
          (\<lambda>d. (set_status ''scheduled'' d)\<lparr>d_effective_date := Some (ps_effective_date req)\<rparr>)
        else failT (PgError ''42703'' [] ''column effective_date of relation documents does not exist'')))) (\<lambda>n.
     bindT (wrapT ''schedulePublish: rows affected'' (RowsAffected env ''schedule'' n)) (\<lambda>affected.
     bindT (requireT (affected \<noteq> 0) ErrStaleRevision) (\<lambda>_.
     bindT (wrapT ''schedulePublish: marshal event payload'' (liftT (marshal_map env
       [(''effective_date'', AnyStr (rfc3339 (ps_effective_date req)))]))) (\<lambda>payload.
     bindT (wrapT ''schedulePublish: emit event'' (Emit env
       \<lparr>ge_tenant = ps_tenant req, ge_type = ''publish_scheduled'', ge_actor = ps_scheduled_by req,
        ge_resource_type = ''document'', ge_resource_id = in_document inst, ge_reason = [],
        ge_payload = payload, ge_occurred = ev_now env 1\<rparr>)) (\<lambda>_.
     returnT (in_document inst, ps_effective_date req)))))))"

definition SchedulePublish ::
  "env \<Rightarrow> SchedulePublishRequest \<Rightarrow> database \<Rightarrow> (gerr + string \<times> time) \<times> database" where
  "SchedulePublish env req db =
     (if \<not> ps_effective_date req > ev_now env 0 then (Inl ErrEffectiveDateInPast, db)
      else runTx env ''schedulePublish: begin tx'' ''schedulePublish: commit'' (schedule_body env req) db)"

section \<open>Superseding\<close>

record SupersedeRequest =
  su_tenant :: string
  su_new :: string
  su_prior :: string
  su_by :: string
  su_new_revision :: int
  su_prior_revision :: int

definition supersede_body :: "env \<Rightarrow> SupersedeRequest \<Rightarrow> (string \<times> string) tx" where
  "supersede_body env req =
     bindT (wrapT ''publishSuperseding'' (setAuthzGUC env (su_tenant req) (su_by req))) (\<lambda>_.
     bindT (wrapT ''publishSuperseding: load document area''
       (loadDocumentAreaCode env (su_tenant req) (su_new req))) (\<lambda>areaCode.
     bindT (Require env ''doc.supersede'' areaCode) (\<lambda>_.
     bindT (wrapT ''publishSuperseding: update new document'' (stmt env ''supersede new''
       (update_documents (occ_row (su_new req) (su_tenant req) ''approved'' (su_new_revision req))
         (set_status ''published'')))) (\<lambda>n.
     bindT (wrapT ''publishSuperseding: rows affected (new)'' (RowsAffected env ''supersede new'' n)) (\<lambda>newAffected.
     bindT (requireT (newAffected \<noteq> 0) ErrStaleRevision) (\<lambda>_.
     bindT (wrapT ''publishSuperseding: update prior document'' (stmt env ''supersede prior''
       (update_documents (occ_row (su_prior req) (su_tenant req) ''published'' (su_prior_revision req))
         (set_status ''superseded'')))) (\<lambda>m.
     bindT (wrapT ''publishSuperseding: rows affected (prior)'' (RowsAffected env ''supersede prior'' m)) (\<lambda>priorAffected.
     bindT (requireT (priorAffected \<noteq> 0) ErrStaleRevision) (\<lambda>_.
     bindT (wrapT ''publishSuperseding: marshal event payload'' (liftT (marshal_map env
       [(''new_document_id'', AnyStr (su_new req)), (''prior_document_id'', AnyStr (su_prior req))]))) (\<lambda>payload.
     bindT (wrapT ''publishSuperseding: emit event'' (Emit env
       \<lparr>ge_tenant = su_tenant req, ge_type = ''document_superseded'', ge_actor = su_by req,
        ge_resource_type = ''document'', ge_resource_id = su_new req, ge_reason = [],
        ge_payload = payload, ge_occurred = ev_now env 0\<rparr>)) (\<lambda>_.
     returnT (''published'', ''superseded''))))))))))))"

definition PublishSuperseding ::
  "env \<Rightarrow> SupersedeRequest \<Rightarrow> database \<Rightarrow> (gerr + string \<times> string) \<times> database" where
  "PublishSuperseding env req db =
     runTx env ''publishSuperseding: begin tx'' ''publishSuperseding: commit'' (supersede_body env req) db"

section \<open>Obsoleting\<close>

record MarkObsoleteRequest =
  mo_tenant :: string
  mo_document :: string
  mo_by :: string
  mo_revision :: int
  mo_reason :: string

text \<open>\<^verbatim>\<open>SELECT status, revision_version, process_area_code_snapshot ... FOR UPDATE\<close>.\<close>

definition load_obsolete_source :: "env \<Rightarrow> MarkObsoleteRequest \<Rightarrow> (string \<times> string) tx" where
  "load_obsolete_source env req =
     mapErrT (\<lambda>e. if errors_is e SqlErrNoRows then ErrNoActiveInstance else Wrap ''markObsolete: load document'' e)
       (stmt env ''load document'' (bindT (read_db (\<lambda>db.
         List.find (\<lambda>d. d_id d = mo_document req \<and> d_tenant d = mo_tenant req) (db_documents db))) (\<lambda>row.
       case row of
         None \<Rightarrow> failT SqlErrNoRows
       | Some d \<Rightarrow> bindT (liftT (scan_string (d_area d))) (\<lambda>area. returnT (d_status d, area)))))"

definition cancel_document_instances :: "env \<Rightarrow> string \<Rightarrow> unit tx" where
  "cancel_document_instances env docID =
     stmt env ''cancel instances'' (modify_db (\<lambda>db. db\<lparr>db_instances :=
       update_where (\<lambda>i. in_document i = docID \<and> in_status i = InstanceInProgress)
         (\<lambda>i. i\<lparr>in_status := InstanceCancelled, in_completed := Some (ev_dbnow env)\<rparr>) (db_instances db)\<rparr>))"

definition obsolete_body :: "env \<Rightarrow> MarkObsoleteRequest \<Rightarrow> string tx" where
  "obsolete_body env req =
     bindT (load_obsolete_source env req) (\<lambda>(priorStatus, areaCode).
     bindT (requireT (priorStatus = ''published'' \<or> priorStatus = ''superseded'') ErrInvalidObsoleteSource) (\<lambda>_.
     bindT (wrapT ''markObsolete'' (setAuthzGUC env (mo_tenant req) (mo_by req))) (\<lambda>_.
     bindT (Require env ''doc.obsolete'' areaCode) (\<lambda>_.
     bindT (wrapT ''markObsolete: update document'' (stmt env ''obsolete document''
       (update_documents (occ_row (mo_document req) (mo_tenant req) priorStatus (mo_revision req))
         (set_status ''obsolete'')))) (\<lambda>n.
     bindT (wrapT ''markObsolete: rows affected'' (RowsAffected env ''obsolete'' n)) (\<lambda>affected.
     bindT (requireT (affected \<noteq> 0) ErrStaleRevision) (\<lambda>_.
     bindT (wrapT ''markObsolete: cancel approval instance'' (cancel_document_instances env (mo_document req))) (\<lambda>_.
     bindT (wrapT ''markObsolete: marshal event payload'' (liftT (marshal_map env
       [(''reason'', AnyStr (mo_reason req)), (''prior_status'', AnyStr priorStatus)]))) (\<lambda>payload.
     bindT (wrapT ''markObsolete: emit event'' (Emit env
       \<lparr>ge_tenant = mo_tenant req, ge_type = ''document_obsoleted'', ge_actor = mo_by req,
        ge_resource_type = ''document'', ge_resource_id = mo_document req, ge_reason = mo_reason req,
        ge_payload = payload, ge_occurred = ev_now env 0\<rparr>)) (\<lambda>_.
     returnT priorStatus))))))))))"

definition MarkObsolete :: "env \<Rightarrow> MarkObsoleteRequest \<Rightarrow> database \<Rightarrow> (gerr + string) \<times> database" where
  "MarkObsolete env req db =
     runTx env ''markObsolete: begin tx'' ''markObsolete: commit'' (obsolete_body env req) db"

section \<open>Cancelling\<close>

record CancelInput =
  ci_tenant :: string
  ci_instance :: string
  ci_expected_revision :: int
  ci_actor :: string
  ci_reason :: string
  ci_bypass :: bool

definition fetch_area_for_update :: "env \<Rightarrow> string \<Rightarrow> string \<Rightarrow> string tx" where
  "fetch_area_for_update env docID tenantID =
     stmt env ''fetch area_code'' (bindT (read_db (\<lambda>db.
       List.find (\<lambda>d. d_id d = docID \<and> d_tenant d = tenantID) (db_documents db))) (\<lambda>row.
     case row of None \<Rightarrow> failT SqlErrNoRows | Some d \<Rightarrow> liftT (scan_string (d_area d))))"

definition cancel_stages :: "env \<Rightarrow> string \<Rightarrow> unit tx" where
  "cancel_stages env instID =
     stmt env ''cancel stages'' (modify_db (\<lambda>db. db\<lparr>db_stages :=
       update_where (\<lambda>s. si_instance s = instID \<and> si_status s \<in> {StageActive, StagePending})
         (\<lambda>s. s\<lparr>si_status := StageCancelled\<rparr>) (db_stages db)\<rparr>))"

text \<open>Load, guard and authorise.\<close>

definition load_for_cancel :: "env \<Rightarrow> CancelInput \<Rightarrow> Instance tx" where
  "load_for_cancel env inp =
     bindT (wrapT ''cancel: load instance'' (LoadInstance env (ci_tenant inp) (ci_instance inp))) (\<lambda>inst.
     bindT (requireT (in_status inst = InstanceInProgress) ErrInstanceCompleted) (\<lambda>_.
     bindT (wrapT ''cancel: fetch area_code'' (fetch_area_for_update env (in_document inst) (ci_tenant inp))) (\<lambda>areaCode.
     bindT (if ci_bypass inp
       then wrapT ''cancel: set bypass_authz GUC'' (stmt env ''set bypass_authz''
              (modifyT (\<lambda>s. s\<lparr>guc_bypass := Some ''system''\<rparr>)))
       else wrapT ''cancel'' (setAuthzGUC env (ci_tenant inp) (ci_actor inp))) (\<lambda>_.
     bindT WithCapCache (\<lambda>_.
     bindT (Require env ''workflow.instance.cancel'' areaCode) (\<lambda>_.
     returnT inst))))))"

definition cancel_body :: "env \<Rightarrow> CancelInput \<Rightarrow> string tx" where
  "cancel_body env inp =
     bindT (load_for_cancel env inp) (\<lambda>inst.
     let docID = in_document inst; now = ev_now env 0 in
     bindT (wrapT ''cancel: set cancel GUC'' (stmt env ''set cancel_in_progress''
       (modifyT (\<lambda>s. s\<lparr>guc_cancel := Some (ci_instance inp)\<rparr>)))) (\<lambda>_.
     bindT (wrapT ''cancel: update instance status''
       (UpdateInstanceStatus env (ci_tenant inp) (ci_instance inp) InstanceCancelled InstanceInProgress (Some now))) (\<lambda>_.
     bindT (wrapT ''cancel: cancel stages'' (cancel_stages env (ci_instance inp))) (\<lambda>_.
     bindT (wrapT ''cancel: revert doc to draft'' (stmt env ''revert document''
       (update_documents (occ_row docID (ci_tenant inp) ''under_review'' (ci_expected_revision inp))
         (set_status ''draft'')))) (\<lambda>n.
     bindT (wrapT ''cancel: rows affected'' (RowsAffected env ''cancel'' n)) (\<lambda>rows.
     bindT (requireT (rows \<noteq> 0) ErrStaleRevision) (\<lambda>_.
     bindT (wrapT ''cancel: emit event'' (Emit env
       \<lparr>ge_tenant = ci_tenant inp, ge_type = ''approval.instance_cancelled'', ge_actor = ci_actor inp,
        ge_resource_type = ''document'', ge_resource_id = docID, ge_reason = ci_reason inp,
        ge_payload = or_default [] (marshal_map env
          [(''instance_id'', AnyStr (ci_instance inp)), (''reason'', AnyStr (ci_reason inp))]),
        ge_occurred = now\<rparr>)) (\<lambda>_.
     returnT docID))))))))"

definition CancelInstance :: "env \<Rightarrow> CancelInput \<Rightarrow> database \<Rightarrow> (gerr + string) \<times> database" where
  "CancelInstance env inp db =
     (if ci_reason inp = [] then (Inl ErrReasonRequired, db)
      else runTx env ''cancel: begin tx'' ''cancel: commit'' (cancel_body env inp) db)"

section \<open>Scheduled publishing\<close>

definition schedulerBatchLimit :: nat where
  "schedulerBatchLimit = 50"

definition process_body :: "env \<Rightarrow> ScheduledPublishRow \<Rightarrow> bool tx" where
  "process_body env row =
     bindT (wrapT (''scheduler: bypass authz for doc '' @ sp_document row) (BypassSystem env)) (\<lambda>_.
     bindT (wrapT (''scheduler: update document '' @ sp_document row) (stmt env (''update scheduled '' @ sp_document row)
       (update_documents (occ_row (sp_document row) (sp_tenant row) ''scheduled'' (sp_revision row))
         (set_status ''published'')))) (\<lambda>n.
     bindT (wrapT (''scheduler: rows affected for doc '' @ sp_document row)
       (RowsAffected env (''scheduled '' @ sp_document row) n)) (\<lambda>affected.
     if affected = 0 then returnT False
     else
       bindT (wrapT (''scheduler: emit event for doc '' @ sp_document row) (Emit env
         \<lparr>ge_tenant = sp_tenant row, ge_type = ''document_published'', ge_actor = ''scheduler'',
          ge_resource_type = ''document'', ge_resource_id = sp_document row, ge_reason = ''scheduled publish'',
          ge_payload = or_default [] (marshal_map env
            [(''revision_version'', AnyInt (sp_revision row + 1)),
             (''effective_date'', AnyStr (rfc3339 (sp_effective_from row)))]),
          ge_occurred = 0\<rparr>)) (\<lambda>_.
       returnT True))))"

text \<open>When no row was updated, an error of \<^verbatim>\<open>Commit\<close> is ignored.\<close>

definition processRow :: "env \<Rightarrow> ScheduledPublishRow \<Rightarrow> database \<Rightarrow> (gerr + bool) \<times> database" where
  "processRow env row db =
     (let beginMsg = ''scheduler: begin publish tx for doc '' @ sp_document row;
          commitMsg = ''scheduler: commit publish tx for doc '' @ sp_document row in
      case ev_fault env beginMsg of
        Some e \<Rightarrow> (Inl (Wrap beginMsg e), db)
      | None \<Rightarrow>
          (case process_body env row (fresh_tx db) of
             Inl e \<Rightarrow> (Inl e, db)
           | Inr (published, s) \<Rightarrow>
               (case ev_fault env commitMsg of
                  Some e \<Rightarrow> (if published then Inl (Wrap commitMsg e) else Inr False, db)
                | None \<Rightarrow> (Inr published, tx_db s))))"

fun process_rows :: "env \<Rightarrow> ScheduledPublishRow list \<Rightarrow> database \<Rightarrow> (nat \<times> gerr list) \<times> database" where
  "process_rows env [] db = ((0, []), db)"
| "process_rows env (row # rows) db =
     (let (r, db') = processRow env row db; ((processed, errs), db'') = process_rows env rows db' in
      case r of
        Inl e \<Rightarrow> ((processed, e # errs), db'')
      | Inr published \<Rightarrow> ((if published then processed + 1 else processed, errs), db''))"

definition RunDuePublishes :: "env \<Rightarrow> database \<Rightarrow> (gerr + nat \<times> gerr list) \<times> database" where
  "RunDuePublishes env db =
     (case runTx env ''scheduler: begin fetch tx'' ''scheduler: commit fetch tx''
        (wrapT ''scheduler: fetch due publishes'' (ListScheduledDue env (ev_now env 0) schedulerBatchLimit)) db of
        (Inl e, db') \<Rightarrow> (Inl e, db')
      | (Inr rows, db') \<Rightarrow> (let (r, db'') = process_rows env rows db' in (Inr r, db'')))"

section \<open>Cutover check\<close>

definition ValidateLegacyCutoverReady :: "env \<Rightarrow> database \<Rightarrow> gerr + unit" where
  "ValidateLegacyCutoverReady env db =
     (case ev_fault env ''count legacy documents'' of
        Some e \<Rightarrow> Inl (Wrap ''cutover: count legacy documents'' e)
      | None \<Rightarrow>
          let count = length (filter (\<lambda>d. d_status d \<in> {''finalized'', ''archived''}) (db_documents db)) in
          if count > 0 then Inl (Wrap (''count: '' @ int_dec (int count)) ErrLegacyDocumentsRemain)
          else Inr ())"

end
