(* ===== verification/Route_Admin.thy ===== *)
theory Route_Admin
  imports Submit_Service
begin

text \<open>
  Administration of approval routes, \<^verbatim>\<open>approval/application/route_admin_service.go\<close>, with the
  constraints of migration 0134 and the trigger \<^verbatim>\<open>enforce_route_immutable\<close> of migration 0145; and the
  read-only queries of \<^verbatim>\<open>read_service.go\<close>.
\<close>

section \<open>Constraints of the route tables\<close>

definition insert_route :: "route_row \<Rightarrow> unit tx" where
  "insert_route r =
     bindT (read_db id) (\<lambda>db.
     bindT (requireT (rr_id r \<notin> rr_id ` set (db_routes db)) (unique_violation ''approval_routes_pkey'')) (\<lambda>_.
     bindT (requireT (\<forall>x \<in> set (db_routes db). \<not> (rr_tenant x = rr_tenant r \<and> rr_profile x = rr_profile r))
       (unique_violation ''approval_routes_tenant_profile_key'')) (\<lambda>_.
     modify_db (\<lambda>db. db\<lparr>db_routes := db_routes db @ [r]\<rparr>))))"

definition route_stage_checks :: "Stage \<Rightarrow> bool" where
  "route_stage_checks st \<longleftrightarrow> 1 \<le> st_order st \<and>
     st_quorum st \<in> {QuorumAny1Of, QuorumAllOf, QuorumMofN} \<and>
     st_drift st \<in> {DriftReduceQuorum, DriftFailStage, DriftKeepSnapshot} \<and> quorum_m_ok st"

definition insert_route_stage :: "string \<Rightarrow> Stage \<Rightarrow> unit tx" where
  "insert_route_stage routeID st =
     bindT (read_db id) (\<lambda>db.
     bindT (requireT (route_stage_checks st) (check_violation ''approval_route_stages'')) (\<lambda>_.
     bindT (requireT (\<forall>(rid, x) \<in> set (db_route_stages db). \<not> (rid = routeID \<and> st_order x = st_order st))
       (unique_violation ''approval_route_stages_route_stage_order_key'')) (\<lambda>_.
     bindT (requireT (routeID \<in> rr_id ` set (db_routes db)) fk_violation) (\<lambda>_.
     modify_db (\<lambda>db. db\<lparr>db_route_stages := db_route_stages db @ [(routeID, st)]\<rparr>)))))"

text \<open>\<^verbatim>\<open>UPDATE approval_routes\<close>: the trigger refuses a route that an instance references.\<close>

definition update_routes :: "(route_row \<Rightarrow> bool) \<Rightarrow> (route_row \<Rightarrow> route_row) \<Rightarrow> route_row list tx" where
  "update_routes P f = (\<lambda>s.
     let db = tx_db s in
     if list_ex (\<lambda>r. P r \<and> rr_id r \<in> in_route ` set (db_instances db)) (db_routes db)
     then Inl (PgError ''P0001'' [] ''ErrRouteInUse: route is referenced'')
     else Inr (map f (filter P (db_routes db)),
            s\<lparr>tx_db := db\<lparr>db_routes := update_where P f (db_routes db)\<rparr>\<rparr>))"

section \<open>The service\<close>

definition lockRouteForUpdate :: "env \<Rightarrow> string \<Rightarrow> string \<Rightarrow> unit tx" where
  "lockRouteForUpdate env tenantID routeID =
     bindT (wrapT ''route_admin: lock route'' (stmt env ''lock route'' (read_db (\<lambda>db.
       List.find (\<lambda>r. rr_id r = routeID \<and> rr_tenant r = tenantID) (db_routes db)))))
     (\<lambda>row. case row of None \<Rightarrow> failT ErrRouteNotFound | Some r \<Rightarrow> returnT ())"

definition insertRouteStages :: "env \<Rightarrow> string \<Rightarrow> Stage list \<Rightarrow> unit tx" where
  "insertRouteStages env routeID stages =
     forT (\<lambda>st. mapErrT (\<lambda>e. Wrap (''route_admin: insert stage '' @ int_dec (st_order st)) (MapPgError e []))
       (stmt env (''insert stage '' @ int_dec (st_order st)) (insert_route_stage routeID st))) stages"

record CreateRouteInput =
  cr_tenant :: string
  cr_profile :: string
  cr_name :: string
  cr_actor :: string
  cr_stages :: "Stage list"

text \<open>The common opening of the three operations.\<close>

definition authorize_route_admin :: "env \<Rightarrow> string \<Rightarrow> string \<Rightarrow> string \<Rightarrow> unit tx" where
  "authorize_route_admin env op tenantID actor =
     bindT (wrapT (''route_admin '' @ op) (setAuthzGUC env tenantID actor)) (\<lambda>_.
     bindT WithCapCache (\<lambda>_.
     Require env ''route.admin'' ''tenant''))"

definition create_route_body :: "env \<Rightarrow> CreateRouteInput \<Rightarrow> string tx" where
  "create_route_body env inp =
     bindT (authorize_route_admin env ''create'' (cr_tenant inp) (cr_actor inp)) (\<lambda>_.
     bindT (liftT (Route_Validate \<lparr>rt_id = [], rt_tenant = cr_tenant inp, rt_profile = cr_profile inp,
       rt_version = 1, rt_stages = cr_stages inp\<rparr>)) (\<lambda>_.
     let routeID = ev_uuid env 0 in
     bindT (mapErrT (\<lambda>e. Wrap ''route_admin: insert route'' (MapPgError e []))
       (stmt env ''insert route'' (insert_route
         \<lparr>rr_id = routeID, rr_tenant = cr_tenant inp, rr_profile = cr_profile inp, rr_name = cr_name inp,
          rr_version = 1, rr_created_by = cr_actor inp, rr_active = True\<rparr>))) (\<lambda>_.
     bindT (insertRouteStages env routeID (cr_stages inp)) (\<lambda>_.
     bindT (wrapT ''route_admin: emit event'' (Emit env
       \<lparr>ge_tenant = cr_tenant inp, ge_type = ''route.config.created'', ge_actor = cr_actor inp,
        ge_resource_type = ''approval_route'', ge_resource_id = routeID, ge_reason = [],
        ge_payload = or_default [] (marshal_map env
          [(''route_id'', AnyStr routeID), (''profile_code'', AnyStr (cr_profile inp)),
           (''stage_count'', AnyInt (int (length (cr_stages inp)))), (''initial_state'', AnyStr ''active'')]),
        ge_occurred = ev_now env 0\<rparr>)) (\<lambda>_.
     returnT routeID)))))"

definition Route_Create :: "env \<Rightarrow> CreateRouteInput \<Rightarrow> database \<Rightarrow> (gerr + string) \<times> database" where
  "Route_Create env inp db =
     runTx env ''route_admin: begin tx'' ''route_admin: commit'' (create_route_body env inp) db"

record UpdateRouteInput =
  up_tenant :: string
  up_route :: string
  up_name :: string
  up_actor :: string
  up_stages :: "Stage list"

text \<open>A route that is in use gives \<^verbatim>\<open>ErrRouteInUse\<close> unwrapped.\<close>

definition route_update_err :: "string \<Rightarrow> gerr \<Rightarrow> gerr" where
  "route_update_err msg e =
     (let mapped = MapPgError e [] in if errors_is mapped ErrRouteInUse then mapped else Wrap msg mapped)"

definition update_route_body :: "env \<Rightarrow> UpdateRouteInput \<Rightarrow> (string \<times> int) tx" where
  "update_route_body env inp =
     bindT (authorize_route_admin env ''update'' (up_tenant inp) (up_actor inp)) (\<lambda>_.
     bindT (lockRouteForUpdate env (up_tenant inp) (up_route inp)) (\<lambda>_.
     bindT (liftT (Route_Validate \<lparr>rt_id = up_route inp, rt_tenant = up_tenant inp, rt_profile = [],
       rt_version = 0, rt_stages = up_stages inp\<rparr>)) (\<lambda>_.
     bindT (mapErrT (route_update_err ''route_admin: update route'') (stmt env ''update route''
       (bindT (update_routes (\<lambda>r. rr_id r = up_route inp \<and> rr_tenant r = up_tenant inp)
         (\<lambda>r. r\<lparr>rr_name := up_name inp, rr_version := rr_version r + 1\<rparr>)) (\<lambda>rows.
        case rows of [] \<Rightarrow> failT SqlErrNoRows | r # _ \<Rightarrow> returnT (rr_version r))))) (\<lambda>newVersion.
     bindT (wrapT ''route_admin: delete stages'' (stmt env ''delete stages'' (modify_db (\<lambda>db.
       db\<lparr>db_route_stages := filter (\<lambda>(rid, st). rid \<noteq> up_route inp) (db_route_stages db)\<rparr>)))) (\<lambda>_.
     bindT (insertRouteStages env (up_route inp) (up_stages inp)) (\<lambda>_.
     bindT (wrapT ''route_admin: emit event'' (Emit env
       \<lparr>ge_tenant = up_tenant inp, ge_type = ''route.config.updated'', ge_actor = up_actor inp,
        ge_resource_type = ''approval_route'', ge_resource_id = up_route inp, ge_reason = [],
        ge_payload = or_default [] (marshal_map env
          [(''route_id'', AnyStr (up_route inp)), (''new_version'', AnyInt newVersion),
           (''stage_count'', AnyInt (int (length (up_stages inp))))]),
        ge_occurred = ev_now env 0\<rparr>)) (\<lambda>_.
     returnT (up_route inp, newVersion))))))))"

definition Route_Update :: "env \<Rightarrow> UpdateRouteInput \<Rightarrow> database \<Rightarrow> (gerr + string \<times> int) \<times> database" where
  "Route_Update env inp db =
     runTx env ''route_admin: begin tx'' ''route_admin: commit'' (update_route_body env inp) db"

record DeactivateRouteInput =
  de_tenant :: string
  de_route :: string
  de_actor :: string

definition deactivate_route_body :: "env \<Rightarrow> DeactivateRouteInput \<Rightarrow> string tx" where
  "deactivate_route_body env inp =
     bindT (authorize_route_admin env ''deactivate'' (de_tenant inp) (de_actor inp)) (\<lambda>_.
     bindT (lockRouteForUpdate env (de_tenant inp) (de_route inp)) (\<lambda>_.
     bindT (mapErrT (route_update_err ''route_admin: deactivate route'') (stmt env ''deactivate route''
       (update_routes (\<lambda>r. rr_id r = de_route inp \<and> rr_tenant r = de_tenant inp)
         (\<lambda>r. r\<lparr>rr_active := False\<rparr>)))) (\<lambda>_.
     bindT (wrapT ''route_admin: emit event'' (Emit env
       \<lparr>ge_tenant = de_tenant inp, ge_type = ''route.config.deactivated'', ge_actor = de_actor inp,
        ge_resource_type = ''approval_route'', ge_resource_id = de_route inp, ge_reason = [],
        ge_payload = or_default [] (marshal_map env
          [(''route_id'', AnyStr (de_route inp)), (''active'', AnyBool False)]),
        ge_occurred = ev_now env 0\<rparr>)) (\<lambda>_.
     returnT (de_route inp)))))"

definition Route_Deactivate :: "env \<Rightarrow> DeactivateRouteInput \<Rightarrow> database \<Rightarrow> (gerr + string) \<times> database" where
  "Route_Deactivate env inp db =
     runTx env ''route_admin: begin tx'' ''route_admin: commit'' (deactivate_route_body env inp) db"

section \<open>Reading\<close>

definition Read_LoadInstance :: "env \<Rightarrow> string \<Rightarrow> string \<Rightarrow> database \<Rightarrow> (gerr + Instance) \<times> database" where
  "Read_LoadInstance env tenantID instanceID db =
     runTx env ''read load instance: begin tx'' ''read load instance: commit tx''
       (mapErrT (\<lambda>e. if errors_is e SqlErrNoRows then ErrNoActiveInstance else e)
         (LoadInstance env tenantID instanceID)) db"

definition Read_LoadActiveInstanceByDocument ::
  "env \<Rightarrow> string \<Rightarrow> string \<Rightarrow> database \<Rightarrow> (gerr + Instance) \<times> database" where
  "Read_LoadActiveInstanceByDocument env tenantID documentID db =
     runTx env ''read load instance by document: begin tx'' ''read load instance by document: commit tx''
       (mapErrT (\<lambda>e. if errors_is e SqlErrNoRows then ErrNoActiveInstance else e)
         (LoadActiveInstanceByDocument env tenantID documentID)) db"

text \<open>
  The inbox query: distinct ids of the tenant's instances in progress with an active stage that
  lists the actor, sorted; then \<^verbatim>\<open>OFFSET\<close> and \<^verbatim>\<open>LIMIT\<close>.
\<close>

definition inbox_stage :: "string \<Rightarrow> string \<Rightarrow> string \<Rightarrow> StageInstance \<Rightarrow> bool" where
  "inbox_stage iid actorID areaCode st \<longleftrightarrow> si_instance st = iid \<and> si_status st = StageActive \<and>
     actorID \<in> set (si_eligible st) \<and> (areaCode = [] \<or> si_area st = areaCode)"

definition pending_ids :: "string \<Rightarrow> string \<Rightarrow> string \<Rightarrow> database \<Rightarrow> string list" where
  "pending_ids tenantID actorID areaCode db =
     sort (remdups (map in_id (filter (\<lambda>i. in_tenant i = tenantID \<and> in_status i = InstanceInProgress \<and>
       list_ex (inbox_stage (in_id i) actorID areaCode) (db_stages db)) (db_instances db))))"

fun load_all :: "env \<Rightarrow> string \<Rightarrow> string list \<Rightarrow> Instance list tx" where
  "load_all env tenantID [] = returnT []"
| "load_all env tenantID (i # ids) =
     bindT (wrapT (''list pending: load instance '' @ i) (LoadInstance env tenantID i)) (\<lambda>inst.
     bindT (load_all env tenantID ids) (\<lambda>rest. returnT (inst # rest)))"

definition ListPendingForActor ::
  "env \<Rightarrow> string \<Rightarrow> string \<Rightarrow> string \<Rightarrow> int \<Rightarrow> int \<Rightarrow> database \<Rightarrow> (gerr + Instance list) \<times> database" where
  "ListPendingForActor env tenantID actorID areaCode limit offset db =
     (let limit' = (if limit \<le> 0 then 25 else limit) in
      runTx env ''list pending: begin tx'' ''list pending: commit''
        (bindT (wrapT ''list pending: query'' (stmt env ''list pending'' (bindT
           (requireT (offset \<ge> 0) (PgError ''2201X'' [] ''OFFSET must not be negative'')) (\<lambda>_.
           read_db (\<lambda>db. take (nat limit') (drop (nat offset) (pending_ids tenantID actorID areaCode db)))))))
         (load_all env tenantID)) db)"

end
