(* ===== verification/Approval_Http.thy ===== *)
theory Approval_Http
  imports Http_Contracts Submit_Service Decision_Service Lifecycle_Services Route_Admin
begin

text \<open>
  The handlers of \<^verbatim>\<open>approval/http\<close>: each takes a request, checks its headers and body in the order of the code, calls the service and
  turns the result into a response. A handler is a function from the request and the tables to the response and the new tables. It is the handler \<^verbatim>\<open>NewHandler\<close>
  builds from configured services, so the tests for missing services do not show. Responses are values; writing them as JSON cannot
  fail for their types.
\<close>

section \<open>Requests and responses\<close>

text \<open>\<open>rq_header\<close>, \<open>rq_path\<close> and \<open>rq_query\<close> give the empty text for a missing name, as Go's accessors do; \<open>rq_user\<close> is the user of the context.\<close>

record http_request =
  rq_header :: "string \<Rightarrow> string"
  rq_path :: "string \<Rightarrow> string"
  rq_query :: "string \<Rightarrow> string"
  rq_user :: string
  rq_body :: "body option"

text \<open>
  The outside of a handler: the environments of the transactions it may run, the nanoseconds of the clock, \<^verbatim>\<open>time.Parse\<close> for RFC 3339, and the freeze
  service behind the decision service.
\<close>

record http_env =
  hx_env :: env
  hx_read :: env
  hx_nano :: int
  hx_parse :: "string \<Rightarrow> (time \<times> int) option"
  hx_freeze :: freeze_invoker

record stage_view =
  sv_id :: string
  sv_index :: int
  sv_label :: string
  sv_status :: string

record instance_view =
  iv_id :: string
  iv_document :: string
  iv_route :: string
  iv_tenant :: string
  iv_status :: string
  iv_submitted_by :: string
  iv_submitted_at :: string
  iv_completed_at :: "string option"
  iv_stages :: "stage_view list"
  iv_etag :: string

record inbox_view =
  nv_instance :: string
  nv_document :: string
  nv_area :: string
  nv_submitted_by :: string
  nv_submitted_at :: string
  nv_stage :: string

record route_view =
  rv_id :: string
  rv_name :: string
  rv_tenant :: string
  rv_profile :: string
  rv_active :: bool
  rv_stages :: "(string \<times> string list \<times> string \<times> string) list"

datatype content =
    ErrorContent ErrorResponse
  | SubmitContent string bool string
  | SignoffContent string bool string
  | PublishContent string string "string option"
  | SupersedeContent string string
  | DocumentContent string
  | InstanceContent instance_view
  | InboxContent "inbox_view list" nat
  | RouteContent string int
  | RoutesContent "route_view list" nat

record response =
  rs_status :: int
  rs_etag :: "string option"
  rs_content :: content

definition WriteJSON :: "int \<Rightarrow> content \<Rightarrow> response" where
  "WriteJSON status c = \<lparr>rs_status = status, rs_etag = None, rs_content = c\<rparr>"

definition WriteError :: "string \<Rightarrow> gerr \<Rightarrow> response" where
  "WriteError requestID err =
     (let (statusCode, b) = MapErrorToResponse err in WriteJSON statusCode (ErrorContent (b\<lparr>er_request_id := requestID\<rparr>)))"

definition requestID :: "http_env \<Rightarrow> http_request \<Rightarrow> string" where
  "requestID hx r = (let i = trim_space (rq_header r ''X-Request-ID'') in if i \<noteq> [] then i else ''req-'' @ int_dec (hx_nano hx))"

definition devTenantID :: string where
  "devTenantID = ''ffffffff-ffff-ffff-ffff-ffffffffffff''"

definition tenantIDFromReq :: "http_request \<Rightarrow> string" where
  "tenantIDFromReq r = (let t = trim_space (rq_header r ''X-Tenant-ID'') in if t \<noteq> [] then t else devTenantID)"

text \<open>
  \<^verbatim>\<open>if err != nil { WriteError(w, reqID, err); return }\<close> after a computation that leaves the tables alone, and after one that changes them.
\<close>

definition check :: "string \<Rightarrow> database \<Rightarrow> gerr + 'a \<Rightarrow> ('a \<Rightarrow> response \<times> database) \<Rightarrow> response \<times> database" where
  "check reqID db r k = (case r of Inl e \<Rightarrow> (WriteError reqID e, db) | Inr x \<Rightarrow> k x)"

definition call :: "string \<Rightarrow> (gerr + 'a) \<times> database \<Rightarrow> ('a \<Rightarrow> database \<Rightarrow> response \<times> database) \<Rightarrow> response \<times> database" where
  "call reqID r k = (case r of (Inl e, db) \<Rightarrow> (WriteError reqID e, db) | (Inr x, db) \<Rightarrow> k x db)"

definition idempotency :: "http_request \<Rightarrow> gerr + unit" where
  "idempotency r = (if trim_space (rq_header r ''Idempotency-Key'') = [] then Inl ErrIdempotencyRequired else Inr ())"

section \<open>Submitting and signing\<close>

definition SubmitHandler :: "http_env \<Rightarrow> http_request \<Rightarrow> database \<Rightarrow> response \<times> database" where
  "SubmitHandler hx r db =
     (let reqID = requestID hx r in
      check reqID db (idempotency r) (\<lambda>_.
      check reqID db (parseIfMatch (rq_header r ''If-Match'')) (\<lambda>expected.
      check reqID db (Decode submit_fields (rq_body r) \<lparr>sb_route = [], sb_hash = []\<rparr>) (\<lambda>req.
      check reqID db (Submit_Validate req) (\<lambda>_.
      call reqID (SubmitRevisionForReview (hx_env hx)
        \<lparr>sr_tenant = tenantIDFromReq r, sr_document = rq_path r ''id'', sr_route = sb_route req, sr_submitted_by = rq_user r,
         sr_form = [(''_content_hash'', AnyStr (sb_hash req))], sr_revision = expected\<rparr> db) (\<lambda>instanceID db'.
      let newETag = etag (expected + 1) in
      ((WriteJSON 201 (SubmitContent instanceID False newETag))\<lparr>rs_etag := Some newETag\<rparr>, db')))))))"

definition signoffOutcome :: "SignoffResult \<Rightarrow> string" where
  "signoffOutcome res =
     (if re_approved res then ''approved'' else if re_rejected res then ''rejected''
      else if re_stage_completed res then ''stage_completed'' else ''pending'')"

definition signoff_request :: "string \<Rightarrow> string \<Rightarrow> string \<Rightarrow> string \<Rightarrow> SignoffBody \<Rightarrow> SignoffRequest" where
  "signoff_request tenantID instanceID stageID actorID b =
     \<lparr>sq_tenant = tenantID, sq_instance = instanceID, sq_stage = stageID, sq_actor = actorID, sq_decision = gb_decision b,
      sq_comment = gb_reason b, sq_method = ''password_reauth'', sq_payload = [(''password_token'', AnyStr (gb_password b))],
      sq_form = [(''_content_hash'', AnyStr (gb_hash b))], sq_capabilities = []\<rparr>"

definition empty_signoff :: SignoffBody where
  "empty_signoff = \<lparr>gb_decision = [], gb_reason = [], gb_password = [], gb_hash = []\<rparr>"

definition SignoffHandler :: "http_env \<Rightarrow> http_request \<Rightarrow> database \<Rightarrow> response \<times> database" where
  "SignoffHandler hx r db =
     (let reqID = requestID hx r in
      check reqID db (idempotency r) (\<lambda>_.
      check reqID db (parseIfMatch (rq_header r ''If-Match'')) (\<lambda>_.
      check reqID db (Decode signoff_fields (rq_body r) empty_signoff) (\<lambda>b.
      check reqID db (Signoff_Validate b) (\<lambda>_.
      call reqID (RecordSignoff (hx_env hx) (hx_freeze hx)
        (signoff_request (tenantIDFromReq r) (rq_path r ''instance_id'') (rq_path r ''stage_id'') (rq_user r) b) db) (\<lambda>(result, pdf) db'.
      (WriteJSON 200 (SignoffContent [] False (signoffOutcome result)), db')))))))"

text \<open>
  The handlers by document look the instance up first. Its errors pass on as they are: an error that is \<^verbatim>\<open>ErrNoActiveInstance\<close> is answered as that sentinel.
\<close>

definition active_instance :: "http_env \<Rightarrow> http_request \<Rightarrow> database \<Rightarrow> (gerr + Instance) \<times> database" where
  "active_instance hx r db =
     (case Read_LoadActiveInstanceByDocument (hx_read hx) (tenantIDFromReq r) (rq_path r ''id'') db of
        (Inl e, db') \<Rightarrow> (Inl (if errors_is e ErrNoActiveInstance then ErrNoActiveInstance else e), db')
      | res \<Rightarrow> res)"

definition check_doc_signoff :: "SignoffBody \<Rightarrow> gerr + unit" where
  "check_doc_signoff b =
     (if gb_decision b \<noteq> ''approve'' \<and> gb_decision b \<noteq> ''reject'' then Inl (NewError ''decision must be one of: approve, reject'')
      else if gb_decision b = ''reject'' \<and> trim_space (gb_reason b) = [] then Inl (NewError ''reason is required for reject'')
      else if trim_space (gb_password b) = [] then Inl (NewError ''password is required'')
      else Inr ())"

definition SignoffByDocumentHandler :: "http_env \<Rightarrow> http_request \<Rightarrow> database \<Rightarrow> response \<times> database" where
  "SignoffByDocumentHandler hx r db =
     (let reqID = requestID hx r in
      check reqID db (idempotency r) (\<lambda>_.
      check reqID db (Decode doc_signoff_fields (rq_body r) empty_signoff) (\<lambda>b.
      check reqID db (check_doc_signoff b) (\<lambda>_.
      call reqID (active_instance hx r db) (\<lambda>inst db1.
      case Active inst of
        None \<Rightarrow> (WriteError reqID (NewError ''no active stage in this approval instance''), db1)
      | Some activeStage \<Rightarrow>
          call reqID (RecordSignoff (hx_env hx) (hx_freeze hx)
            (signoff_request (tenantIDFromReq r) (in_id inst) (si_id activeStage) (rq_user r) b) db1) (\<lambda>(result, pdf) db'.
          (WriteJSON 200 (SignoffContent [] False (signoffOutcome result)), db')))))))"

section \<open>Publishing\<close>

definition PublishHandler :: "http_env \<Rightarrow> http_request \<Rightarrow> database \<Rightarrow> response \<times> database" where
  "PublishHandler hx r db =
     (let reqID = requestID hx r in
      check reqID db (idempotency r) (\<lambda>_.
      check reqID db (parseIfMatch (rq_header r ''If-Match'')) (\<lambda>_.
      call reqID (Read_LoadActiveInstanceByDocument (hx_read hx) (tenantIDFromReq r) (rq_path r ''id'') db) (\<lambda>inst db1.
      call reqID (PublishApproved (hx_env hx)
        \<lparr>pq_tenant = tenantIDFromReq r, pq_instance = in_id inst, pq_published_by = rq_user r\<rparr> db1) (\<lambda>(doc, status) db'.
      (WriteJSON 200 (PublishContent doc ''published'' None), db'))))))"

definition SchedulePublishHandler :: "http_env \<Rightarrow> http_request \<Rightarrow> database \<Rightarrow> response \<times> database" where
  "SchedulePublishHandler hx r db =
     (let reqID = requestID hx r in
      check reqID db (idempotency r) (\<lambda>_.
      check reqID db (parseIfMatch (rq_header r ''If-Match'')) (\<lambda>_.
      check reqID db (Decode schedule_fields (rq_body r) []) (\<lambda>from.
      check reqID db (Schedule_Validate (hx_parse hx) from) (\<lambda>_.
      check reqID db (case hx_parse hx from of None \<Rightarrow> Inl (NewError ''parsing time'') | Some (t, off) \<Rightarrow> Inr t) (\<lambda>effectiveFrom.
      call reqID (SchedulePublish (hx_env hx)
        \<lparr>ps_tenant = tenantIDFromReq r, ps_instance = rq_path r ''id'', ps_effective_date = effectiveFrom, ps_scheduled_by = rq_user r\<rparr> db)
        (\<lambda>(doc, t) db'.
      (WriteJSON 200 (PublishContent doc ''scheduled'' (Some (rfc3339 t))), db'))))))))"

text \<open>The revision of the prior document is read outside the transaction.\<close>

definition prior_revision :: "env \<Rightarrow> string \<Rightarrow> string \<Rightarrow> database \<Rightarrow> gerr + int" where
  "prior_revision env docID tenantID db =
     (case ev_fault env ''prior revision'' of
        Some e \<Rightarrow> Inl e
      | None \<Rightarrow> (case List.find (\<lambda>d. d_id d = docID \<and> d_tenant d = tenantID) (db_documents db) of
            None \<Rightarrow> Inl SqlErrNoRows | Some d \<Rightarrow> Inr (d_revision d)))"

definition SupersedeHandler :: "http_env \<Rightarrow> http_request \<Rightarrow> database \<Rightarrow> response \<times> database" where
  "SupersedeHandler hx r db =
     (let reqID = requestID hx r in
      check reqID db (idempotency r) (\<lambda>_.
      check reqID db (parseIfMatch (rq_header r ''If-Match'')) (\<lambda>expected.
      check reqID db (Decode supersede_fields (rq_body r) []) (\<lambda>prior.
      check reqID db (Supersede_Validate prior) (\<lambda>_.
      check reqID db (prior_revision (hx_read hx) prior (tenantIDFromReq r) db) (\<lambda>priorRevision.
      call reqID (PublishSuperseding (hx_env hx)
        \<lparr>su_tenant = tenantIDFromReq r, su_new = rq_path r ''id'', su_prior = prior, su_by = rq_user r,
         su_new_revision = expected, su_prior_revision = priorRevision\<rparr> db) (\<lambda>_ db'.
      (WriteJSON 200 (SupersedeContent (rq_path r ''id'') prior), db'))))))))"

definition ObsoleteHandler :: "http_env \<Rightarrow> http_request \<Rightarrow> database \<Rightarrow> response \<times> database" where
  "ObsoleteHandler hx r db =
     (let reqID = requestID hx r in
      check reqID db (idempotency r) (\<lambda>_.
      check reqID db (parseIfMatch (rq_header r ''If-Match'')) (\<lambda>expected.
      check reqID db (Decode reason_fields (rq_body r) []) (\<lambda>reason.
      check reqID db (Reason_Validate reason) (\<lambda>_.
      call reqID (MarkObsolete (hx_env hx)
        \<lparr>mo_tenant = tenantIDFromReq r, mo_document = rq_path r ''id'', mo_by = rq_user r, mo_revision = expected, mo_reason = reason\<rparr> db)
        (\<lambda>_ db'.
      (WriteJSON 200 (DocumentContent (rq_path r ''id'')), db')))))))"

section \<open>Cancelling\<close>

definition cancel_input :: "string \<Rightarrow> string \<Rightarrow> int \<Rightarrow> string \<Rightarrow> string \<Rightarrow> CancelInput" where
  "cancel_input tenantID instanceID expected actorID reason =
     \<lparr>ci_tenant = tenantID, ci_instance = instanceID, ci_expected_revision = expected, ci_actor = actorID, ci_reason = reason, ci_bypass = False\<rparr>"

definition CancelHandler :: "http_env \<Rightarrow> http_request \<Rightarrow> database \<Rightarrow> response \<times> database" where
  "CancelHandler hx r db =
     (let reqID = requestID hx r in
      check reqID db (idempotency r) (\<lambda>_.
      check reqID db (parseIfMatch (rq_header r ''If-Match'')) (\<lambda>expected.
      check reqID db (Decode reason_fields (rq_body r) []) (\<lambda>reason.
      check reqID db (Reason_Validate reason) (\<lambda>_.
      call reqID (CancelInstance (hx_env hx)
        (cancel_input (tenantIDFromReq r) (rq_path r ''instance_id'') expected (rq_user r) reason) db) (\<lambda>doc db'.
      (WriteJSON 200 (DocumentContent doc), db')))))))"

definition CancelByDocumentHandler :: "http_env \<Rightarrow> http_request \<Rightarrow> database \<Rightarrow> response \<times> database" where
  "CancelByDocumentHandler hx r db =
     (let reqID = requestID hx r in
      check reqID db (idempotency r) (\<lambda>_.
      check reqID db (Decode reason_fields (rq_body r) []) (\<lambda>reason.
      check reqID db (Reason_Validate reason) (\<lambda>_.
      call reqID (active_instance hx r db) (\<lambda>inst db1.
      call reqID (CancelInstance (hx_env hx)
        (cancel_input (tenantIDFromReq r) (in_id inst) 0 (rq_user r) reason) db1) (\<lambda>doc db'.
      (WriteJSON 200 (DocumentContent doc), db')))))))"

section \<open>Reading\<close>

definition mapStageStatus :: "StageStatus \<Rightarrow> string" where
  "mapStageStatus s =
     (case s of StageCompleted \<Rightarrow> ''passed'' | StageRejectedHere \<Rightarrow> ''failed'' | StageSkipped \<Rightarrow> ''cancelled''
      | StagePending \<Rightarrow> ''pending'' | StageActive \<Rightarrow> ''active'' | StageCancelled \<Rightarrow> ''cancelled'')"

definition instance_status_text :: "InstanceStatus \<Rightarrow> string" where
  "instance_status_text s =
     (case s of InstanceInProgress \<Rightarrow> ''in_progress'' | InstanceApproved \<Rightarrow> ''approved'' | InstanceRejected \<Rightarrow> ''rejected''
      | InstanceCancelled \<Rightarrow> ''cancelled'')"

definition mapInstanceResponse :: "Instance \<Rightarrow> instance_view" where
  "mapInstanceResponse inst =
     \<lparr>iv_id = in_id inst, iv_document = in_document inst, iv_route = in_route inst, iv_tenant = in_tenant inst,
      iv_status = instance_status_text (in_status inst), iv_submitted_by = in_submitted_by inst,
      iv_submitted_at = rfc3339 (in_submitted_at inst), iv_completed_at = map_option rfc3339 (in_completed inst),
      iv_stages = map (\<lambda>s. \<lparr>sv_id = si_id s, sv_index = si_order s, sv_label = si_name s, sv_status = mapStageStatus (si_status s)\<rparr>)
        (in_stages inst),
      iv_etag = etag 1\<rparr>"

definition instance_response :: "Instance \<Rightarrow> response" where
  "instance_response inst = (WriteJSON 200 (InstanceContent (mapInstanceResponse inst)))\<lparr>rs_etag := Some (etag 1)\<rparr>"

definition GetInstanceHandler :: "http_env \<Rightarrow> http_request \<Rightarrow> database \<Rightarrow> response \<times> database" where
  "GetInstanceHandler hx r db =
     (case Read_LoadInstance (hx_read hx) (tenantIDFromReq r) (rq_path r ''instance_id'') db of
        (Inl e, db') \<Rightarrow> (WriteError (requestID hx r) (if errors_is e ErrNoActiveInstance then ErrNoActiveInstance else e), db')
      | (Inr inst, db') \<Rightarrow> (instance_response inst, db'))"

definition GetInstanceByDocumentHandler :: "http_env \<Rightarrow> http_request \<Rightarrow> database \<Rightarrow> response \<times> database" where
  "GetInstanceByDocumentHandler hx r db = call (requestID hx r) (active_instance hx r db) (\<lambda>inst db'. (instance_response inst, db'))"

definition parseInboxLimit :: "string \<Rightarrow> gerr + int" where
  "parseInboxLimit raw =
     (if trim_space raw = [] then Inr 25
      else case atoi raw of
          None \<Rightarrow> Inl (NewError ''limit must be an integer'')
        | Some v \<Rightarrow> if v \<le> 0 \<or> v > 100 then Inl (NewError ''limit must be between 1 and 100'') else Inr v)"

definition parseInboxOffset :: "string \<Rightarrow> gerr + int" where
  "parseInboxOffset raw =
     (if trim_space raw = [] then Inr 0
      else case atoi raw of
          None \<Rightarrow> Inl (NewError ''offset must be an integer'')
        | Some v \<Rightarrow> if v < 0 then Inl (NewError ''offset must be >= 0'') else Inr v)"

definition mapInboxItem :: "Instance \<Rightarrow> inbox_view" where
  "mapInboxItem inst =
     (let act = Active inst in
      \<lparr>nv_instance = in_id inst, nv_document = in_document inst, nv_area = (case act of None \<Rightarrow> [] | Some s \<Rightarrow> si_area s),
       nv_submitted_by = in_submitted_by inst, nv_submitted_at = rfc3339 (in_submitted_at inst),
       nv_stage = (case act of None \<Rightarrow> [] | Some s \<Rightarrow> si_name s)\<rparr>)"

definition InboxHandler :: "http_env \<Rightarrow> http_request \<Rightarrow> database \<Rightarrow> response \<times> database" where
  "InboxHandler hx r db =
     (let reqID = requestID hx r in
      check reqID db (parseInboxLimit (rq_query r ''limit'')) (\<lambda>limit.
      check reqID db (parseInboxOffset (rq_query r ''offset'')) (\<lambda>offset.
      call reqID (ListPendingForActor (hx_read hx) (tenantIDFromReq r) (rq_user r) (trim_space (rq_query r ''area_code'')) limit offset db)
        (\<lambda>items db'.
      (WriteJSON 200 (InboxContent (map mapInboxItem items) (length items)), db')))))"

section \<open>Routes\<close>

definition CreateRouteHandler :: "http_env \<Rightarrow> http_request \<Rightarrow> database \<Rightarrow> response \<times> database" where
  "CreateRouteHandler hx r db =
     (let reqID = requestID hx r in
      check reqID db (idempotency r) (\<lambda>_.
      check reqID db (Decode create_route_fields (rq_body r) \<lparr>rb_profile = [], rb_name = [], rb_stages = []\<rparr>) (\<lambda>req.
      check reqID db (CreateRoute_Validate req) (\<lambda>_.
      call reqID (Route_Create (hx_env hx)
        \<lparr>cr_tenant = tenantIDFromReq r, cr_profile = rb_profile req, cr_name = rb_name req, cr_actor = rq_user r,
         cr_stages = mapStageRequests (rb_stages req)\<rparr> db) (\<lambda>routeID db'.
      (WriteJSON 201 (RouteContent routeID 0), db'))))))"

definition UpdateRouteHandler :: "http_env \<Rightarrow> http_request \<Rightarrow> database \<Rightarrow> response \<times> database" where
  "UpdateRouteHandler hx r db =
     (let reqID = requestID hx r in
      check reqID db (idempotency r) (\<lambda>_.
      check reqID db (parseIfMatch (rq_header r ''If-Match'')) (\<lambda>_.
      check reqID db (Decode update_route_fields (rq_body r) \<lparr>rb_profile = [], rb_name = [], rb_stages = []\<rparr>) (\<lambda>req.
      check reqID db (UpdateRoute_Validate req) (\<lambda>_.
      call reqID (Route_Update (hx_env hx)
        \<lparr>up_tenant = tenantIDFromReq r, up_route = rq_path r ''id'', up_name = rb_name req, up_actor = rq_user r,
         up_stages = mapStageRequests (rb_stages req)\<rparr> db) (\<lambda>(routeID, version) db'.
      (WriteJSON 200 (RouteContent routeID version), db')))))))"

definition DeactivateRouteHandler :: "http_env \<Rightarrow> http_request \<Rightarrow> database \<Rightarrow> response \<times> database" where
  "DeactivateRouteHandler hx r db =
     (let reqID = requestID hx r in
      check reqID db (idempotency r) (\<lambda>_.
      check reqID db (parseIfMatch (rq_header r ''If-Match'')) (\<lambda>_.
      call reqID (Route_Deactivate (hx_env hx)
        \<lparr>de_tenant = tenantIDFromReq r, de_route = rq_path r ''id'', de_actor = rq_user r\<rparr> db) (\<lambda>routeID db'.
      (WriteJSON 200 (RouteContent routeID 0), db')))))"

text \<open>
  The routes of the tenant, the newest first: the table keeps the order of insertion, so that is its reverse (the column \<^verbatim>\<open>created_at\<close> is left out). Their stages follow in the order of
  the stage numbers.
\<close>

fun DriftPolicy_String :: "DriftPolicy \<Rightarrow> string" where
  "DriftPolicy_String DriftReduceQuorum = ''reduce_quorum''"
| "DriftPolicy_String DriftFailStage = ''fail_stage''"
| "DriftPolicy_String DriftKeepSnapshot = ''keep_snapshot''"
| "DriftPolicy_String (DriftOther s) = s"

definition route_view_of :: "database \<Rightarrow> route_row \<Rightarrow> route_view" where
  "route_view_of db r =
     \<lparr>rv_id = rr_id r, rv_name = rr_name r, rv_tenant = rr_tenant r, rv_profile = rr_profile r, rv_active = rr_active r,
      rv_stages = map (\<lambda>st. (st_name st, [st_role st], QuorumPolicy_String (st_quorum st), DriftPolicy_String (st_drift st)))
        (sort_key st_order (map snd (filter (\<lambda>(rid, st). rid = rr_id r) (db_route_stages db))))\<rparr>"

definition ListRoutesHandler :: "http_env \<Rightarrow> http_request \<Rightarrow> database \<Rightarrow> response \<times> database" where
  "ListRoutesHandler hx r db =
     (let reqID = requestID hx r; rows = rev (filter (\<lambda>x. rr_tenant x = tenantIDFromReq r) (db_routes db)) in
      case ev_fault (hx_read hx) ''list routes'' of Some e \<Rightarrow> (WriteError reqID e, db) | None \<Rightarrow>
      case (if rows = [] then None else ev_fault (hx_read hx) ''list route stages'') of Some e \<Rightarrow> (WriteError reqID e, db) | None \<Rightarrow>
      (WriteJSON 200 (RoutesContent (map (route_view_of db) rows) (length rows)), db))"

section \<open>The routes of the module\<close>

text \<open>\<^verbatim>\<open>RegisterRoutes\<close>: one endpoint for each pattern.\<close>

datatype endpoint =
    POST_submit | POST_stage_signoffs | POST_publish | POST_schedule_publish | POST_supersede | POST_obsolete | POST_instance_cancel
  | GET_instance | GET_document_instance | GET_inbox | POST_document_signoff | POST_document_cancel
  | POST_routes | PUT_route | DELETE_route | GET_routes

fun handler :: "endpoint \<Rightarrow> http_env \<Rightarrow> http_request \<Rightarrow> database \<Rightarrow> response \<times> database" where
  "handler POST_submit = SubmitHandler"
| "handler POST_stage_signoffs = SignoffHandler"
| "handler POST_publish = PublishHandler"
| "handler POST_schedule_publish = SchedulePublishHandler"
| "handler POST_supersede = SupersedeHandler"
| "handler POST_obsolete = ObsoleteHandler"
| "handler POST_instance_cancel = CancelHandler"
| "handler GET_instance = GetInstanceHandler"
| "handler GET_document_instance = GetInstanceByDocumentHandler"
| "handler GET_inbox = InboxHandler"
| "handler POST_document_signoff = SignoffByDocumentHandler"
| "handler POST_document_cancel = CancelByDocumentHandler"
| "handler POST_routes = CreateRouteHandler"
| "handler PUT_route = UpdateRouteHandler"
| "handler DELETE_route = DeactivateRouteHandler"
| "handler GET_routes = ListRoutesHandler"

end
