(* ===== verification/Store_Laws.thy ===== *)
theory Store_Laws
  imports Service_Base
begin

text \<open>
  What every statement of the services keeps, whatever it is part of. \<open>evolves\<close> relates two states of
  the tables: documents move along the life cycle with a growing revision version, signoffs and
  events are only appended, an instance keeps its identity and a terminal one its status, a stage
  only moves forward. \<open>keys_ok\<close> is the set of unique keys. Both are frame relations, so a service keeps
  them as soon as its statements do; the laws of the statements are collected in two bundles.
\<close>

section \<open>How rows change\<close>

text \<open>The edges of the transition trigger, with the one that only a cancellation may take.\<close>

definition life_edge :: "string \<Rightarrow> string \<Rightarrow> bool" where
  "life_edge a b \<longleftrightarrow> trigger_edge a b \<or> (a = ''under_review'' \<and> b = ''draft'')"

definition doc_evolves :: "doc_row \<Rightarrow> doc_row \<Rightarrow> bool" where
  "doc_evolves d d' \<longleftrightarrow> d_id d' = d_id d \<and> d_tenant d' = d_tenant d \<and> d_created_by d' = d_created_by d \<and>
     (if d_status d' = d_status d \<and> d_revision d' = d_revision d then True
      else d_revision d < d_revision d' \<and> life_edge\<^sup>*\<^sup>* (d_status d) (d_status d'))"

definition same_row :: "Instance \<Rightarrow> Instance \<Rightarrow> bool" where
  "same_row i i' \<longleftrightarrow> in_id i' = in_id i \<and> in_tenant i' = in_tenant i \<and> in_document i' = in_document i \<and>
     in_route i' = in_route i \<and> in_submitted_by i' = in_submitted_by i \<and>
     in_content_hash i' = in_content_hash i \<and> in_idem_key i' = in_idem_key i"

definition inst_evolves :: "Instance \<Rightarrow> Instance \<Rightarrow> bool" where
  "inst_evolves i i' \<longleftrightarrow> same_row i i' \<and> (in_status i \<noteq> InstanceInProgress \<longrightarrow> in_status i' = in_status i)"

fun stage_rank :: "StageStatus \<Rightarrow> nat" where
  "stage_rank StagePending = 0"
| "stage_rank StageActive = 1"
| "stage_rank _ = 2"

definition stage_evolves :: "StageInstance \<Rightarrow> StageInstance \<Rightarrow> bool" where
  "stage_evolves s s' \<longleftrightarrow> si_id s' = si_id s \<and> si_instance s' = si_instance s \<and> si_order s' = si_order s \<and>
     si_quorum s' = si_quorum s \<and> si_quorum_m s' = si_quorum_m s \<and> si_eligible s' = si_eligible s \<and>
     (si_status s' = si_status s \<or> stage_rank (si_status s) < stage_rank (si_status s'))"

definition db_evolves :: "database \<Rightarrow> database \<Rightarrow> bool" where
  "db_evolves db db' \<longleftrightarrow>
     length (db_documents db') = length (db_documents db) \<and>
     grows doc_evolves (db_documents db) (db_documents db') \<and>
     grows inst_evolves (db_instances db) (db_instances db') \<and>
     grows stage_evolves (db_stages db) (db_stages db') \<and>
     prefix (db_signoffs db) (db_signoffs db') \<and> prefix (db_events db) (db_events db') \<and>
     db_role_caps db' = db_role_caps db \<and> db_user_areas db' = db_user_areas db"

lemma doc_evolves_refl: "doc_evolves d d"
  by (simp add: doc_evolves_def)

lemma doc_evolves_trans: "doc_evolves a b \<Longrightarrow> doc_evolves b c \<Longrightarrow> doc_evolves a c"
  by (auto simp: doc_evolves_def split: if_splits intro: rtranclp_trans)

lemma inst_evolves_refl: "inst_evolves i i"
  by (simp add: inst_evolves_def same_row_def)

lemma inst_evolves_trans: "inst_evolves a b \<Longrightarrow> inst_evolves b c \<Longrightarrow> inst_evolves a c"
  by (auto simp: inst_evolves_def same_row_def)

lemma stage_evolves_refl: "stage_evolves s s"
  by (simp add: stage_evolves_def)

lemma stage_evolves_trans: "stage_evolves a b \<Longrightarrow> stage_evolves b c \<Longrightarrow> stage_evolves a c"
  by (auto simp: stage_evolves_def)

lemmas row_refl = doc_evolves_refl inst_evolves_refl stage_evolves_refl

abbreviation evolves :: "txs \<Rightarrow> txs \<Rightarrow> bool" where
  "evolves s s' \<equiv> db_evolves (tx_db s) (tx_db s')"

lemma db_evolves_refl: "db_evolves db db"
  by (simp add: db_evolves_def grows_refl row_refl)

lemma db_evolves_trans:
  assumes "db_evolves a b" "db_evolves b c"
  shows "db_evolves a c"
proof -
  have "grows doc_evolves (db_documents a) (db_documents c)"
    using assms grows_trans [of doc_evolves "db_documents a" "db_documents b" "db_documents c", OF doc_evolves_trans]
    by (simp add: db_evolves_def)
  moreover have "grows inst_evolves (db_instances a) (db_instances c)"
    using assms grows_trans [of inst_evolves "db_instances a" "db_instances b" "db_instances c", OF inst_evolves_trans]
    by (simp add: db_evolves_def)
  moreover have "grows stage_evolves (db_stages a) (db_stages c)"
    using assms grows_trans [of stage_evolves "db_stages a" "db_stages b" "db_stages c", OF stage_evolves_trans]
    by (simp add: db_evolves_def)
  moreover have "prefix (db_signoffs a) (db_signoffs c)" "prefix (db_events a) (db_events c)"
    using assms by (auto simp: db_evolves_def)
  ultimately show ?thesis using assms by (simp add: db_evolves_def)
qed

section \<open>The contract of a frame relation on the store\<close>

text \<open>
  A relation between the states of a transaction that holds whenever the tables do not change. \<open>doc_frame\<close> is the
  part of the contract that the operations on approved documents and on routes need: the relation respects
  events, route changes and document updates to the allowed statuses. \<open>store_frame\<close> extends it to every way of
  writing a table. What follows for the operations of the repository and for the services is proved here
  once, for every such relation.
\<close>

lemma keeps_stmt: "keepsT R m \<Longrightarrow> keepsT R (stmt env site m)"
  by (auto simp: keepsT_def stmt_Inr)

definition write_status :: "string \<Rightarrow> (doc_row \<Rightarrow> time option) \<Rightarrow> doc_row \<Rightarrow> doc_row" where
  "write_status st e d = (set_status st d)\<lparr>d_effective_date := e d\<rparr>"

lemma set_status_write: "set_status st = write_status st d_effective_date"
  by (rule ext) (simp add: write_status_def set_status_def)

definition close_instance :: "InstanceStatus \<Rightarrow> time option \<Rightarrow> Instance \<Rightarrow> Instance" where
  "close_instance new c i = i\<lparr>in_status := new, in_completed := c\<rparr>"

definition move_stage :: "StageStatus \<Rightarrow> (StageInstance \<Rightarrow> time option) \<Rightarrow> (StageInstance \<Rightarrow> time option) \<Rightarrow>
  StageInstance \<Rightarrow> StageInstance" where
  "move_stage new op cp s = s\<lparr>si_status := new, si_opened := op s, si_completed := cp s\<rparr>"

locale doc_frame = frame_relation R for R :: "txs \<Rightarrow> txs \<Rightarrow> bool" +
  fixes allowed :: "string set"
  assumes same_tables: "tx_db s' = tx_db s \<Longrightarrow> R s s'"
    and events: "R s (s\<lparr>tx_db := (tx_db s)\<lparr>db_events := db_events (tx_db s) @ [e]\<rparr>\<rparr>)"
    and routes: "R s (s\<lparr>tx_db := (tx_db s)\<lparr>db_routes := rs\<rparr>\<rparr>)"
    and route_stages: "R s (s\<lparr>tx_db := (tx_db s)\<lparr>db_route_stages := ts\<rparr>\<rparr>)"
    and documents: "st \<in> allowed \<Longrightarrow> keepsT R (update_documents P (write_status st ed))"
    and settled_allowed: "{''published'', ''scheduled'', ''superseded'', ''obsolete''} \<subseteq> allowed"
begin

lemma keeps_local: "(\<And>s. tx_db (f s) = tx_db s) \<Longrightarrow> keepsT R (modifyT f)"
  by (auto simp: keepsT_def same_tables)

lemma keeps_status: "st \<in> allowed \<Longrightarrow> keepsT R (update_documents P (set_status st))"
  by (simp add: set_status_write documents)

lemma keeps_settled:
  "keepsT R (update_documents P (set_status ''published''))" "keepsT R (update_documents P (set_status ''superseded''))"
  "keepsT R (update_documents P (set_status ''obsolete''))" "keepsT R (update_documents P (write_status ''scheduled'' ed))"
  using settled_allowed by (auto intro!: keeps_status documents)

lemma keeps_current_setting: "keepsT R (current_setting n g)"
  unfolding current_setting_def by (intro keeps_seq)

lemma keeps_appendAssertedCap: "keepsT R (appendAssertedCap env c a)"
  unfolding appendAssertedCap_def by (intro keeps_seq keeps_stmt keeps_local) simp

lemma keeps_Require: "keepsT R (Require env c a)"
  unfolding Require_def actorIDFromTx_def storeGranted_def
  by (intro keeps_seq keeps_stmt keeps_appendAssertedCap keeps_current_setting keeps_local) simp

lemma keeps_setAuthzGUC: "keepsT R (setAuthzGUC env t a)"
  unfolding setAuthzGUC_def by (intro keeps_seq keeps_stmt keeps_local) simp_all

lemma keeps_WithCapCache: "keepsT R WithCapCache"
  unfolding WithCapCache_def by (intro keeps_local) simp

lemma keeps_BypassSystem: "keepsT R (BypassSystem env)"
  unfolding BypassSystem_def by (intro keeps_stmt keeps_local) simp

lemma keeps_Emit: "keepsT R (Emit env ev)"
  unfolding Emit_def by (intro keeps_stmt keeps_modify events)

lemma keeps_loadDocumentAreaCode: "keepsT R (loadDocumentAreaCode env t d)"
  unfolding loadDocumentAreaCode_def by (intro keeps_seq keeps_stmt)

lemma keeps_RowsAffected: "keepsT R (RowsAffected env site n)"
  unfolding RowsAffected_def by (intro keeps_seq keeps_stmt)

lemma keeps_LoadInstance: "keepsT R (LoadInstance env t i)"
  unfolding LoadInstance_def loadStageInstances_def by (intro keeps_seq keeps_stmt)

lemmas keeps_doc_ops = keeps_seq keeps_forT keeps_stmt keeps_Require keeps_setAuthzGUC keeps_WithCapCache
  keeps_BypassSystem keeps_Emit keeps_loadDocumentAreaCode keeps_RowsAffected keeps_LoadInstance keeps_settled

end

locale store_frame = doc_frame R UNIV for R :: "txs \<Rightarrow> txs \<Rightarrow> bool" +
  assumes inserts: "keepsT R (insert_instance env r)" "keepsT R (insert_stages rows)" "keepsT R (insert_signoff env g)"
    and instances: "(\<And>i. Q i \<Longrightarrow> in_status i = InstanceInProgress) \<Longrightarrow> new \<noteq> InstanceInProgress \<Longrightarrow>
      R s (s\<lparr>tx_db := (tx_db s)\<lparr>db_instances := update_where Q (close_instance new c) (db_instances (tx_db s))\<rparr>\<rparr>)"
    and stages: "(\<And>x. S x \<Longrightarrow> stage_rank (si_status x) < stage_rank nst) \<Longrightarrow>
      R s (s\<lparr>tx_db := (tx_db s)\<lparr>db_stages := update_where S (move_stage nst op cp) (db_stages (tx_db s))\<rparr>\<rparr>)"
begin

lemma keeps_InsertInstance: "keepsT R (InsertInstance env i)"
  unfolding InsertInstance_def by (intro keeps_seq keeps_stmt inserts)

lemma keeps_InsertStageInstances: "keepsT R (InsertStageInstances env ss)"
  unfolding InsertStageInstances_def by (intro keeps_seq keeps_stmt inserts)

lemma keeps_InsertSignoff: "keepsT R (InsertSignoff env g)"
  unfolding InsertSignoff_def LoadSignoffByActor_def by (intro keeps_seq keeps_stmt inserts)

lemma keeps_UpdateInstanceStatus:
  assumes "new \<noteq> InstanceInProgress"
  shows "keepsT R (UpdateInstanceStatus env tenant iid new InstanceInProgress c)"
proof -
  have "(\<lambda>i. i\<lparr>in_status := new, in_completed := c\<rparr>) = close_instance new c"
    by (rule ext) (simp add: close_instance_def)
  with assms show ?thesis unfolding UpdateInstanceStatus_def
    by (intro keeps_seq keeps_stmt) (auto simp: keepsT_def Let_def intro!: instances)
qed

lemma keeps_UpdateStageStatus:
  assumes "stage_rank old < stage_rank new"
  shows "keepsT R (UpdateStageStatus env tenant sid new old)"
proof -
  have "stage_transition t new = move_stage new (\<lambda>s. if new = StageActive then Some t else si_opened s)
      (\<lambda>s. if new \<in> {StageCompleted, StageSkipped, StageRejectedHere} then Some t else si_completed s)" for t
    by (rule ext) (simp add: stage_transition_def move_stage_def)
  with assms show ?thesis unfolding UpdateStageStatus_def
    by (intro keeps_seq keeps_stmt) (auto simp: keepsT_def Let_def intro!: stages)
qed

lemmas keeps_ops = keeps_doc_ops keeps_InsertInstance keeps_InsertStageInstances keeps_InsertSignoff
  keeps_status [OF UNIV_I]

end

section \<open>The tables evolve\<close>

lemma ev_write_status:
  assumes "doc_triggers c d (write_status st e d)"
  shows "doc_evolves d (write_status st e d)"
proof (cases "d_status d = st")
  case False
  with assms have "life_edge (d_status d) st"
    by (auto simp: doc_triggers_def enforce_document_transition_def write_status_def set_status_def life_edge_def
        split: if_splits)
  then show ?thesis by (auto simp: doc_evolves_def write_status_def set_status_def)
qed (simp add: doc_evolves_def write_status_def set_status_def)

lemma ev_documents: "keepsT evolves (update_documents P (write_status st e))"
  using ev_write_status
  by (auto simp: keepsT_def update_documents_def Let_def db_evolves_def grows_def list_all_length
      update_where_def row_refl split: if_splits)

lemma ev_append:
  "db_evolves db (db\<lparr>db_instances := db_instances db @ is\<rparr>)"
  "db_evolves db (db\<lparr>db_stages := db_stages db @ ss\<rparr>)"
  "db_evolves db (db\<lparr>db_signoffs := db_signoffs db @ gs\<rparr>)"
  "db_evolves db (db\<lparr>db_events := db_events db @ es\<rparr>)"
  "db_evolves db (db\<lparr>db_routes := rs\<rparr>)"
  "db_evolves db (db\<lparr>db_route_stages := ts\<rparr>)"
  by (simp_all add: db_evolves_def grows_refl grows_append row_refl)

interpretation ev0: frame_relation evolves
  by unfold_locales (auto intro: db_evolves_refl db_evolves_trans)

lemma ev_modify_db: "(\<And>db. db_evolves db (f db)) \<Longrightarrow> keepsT evolves (modify_db f)"
  by (auto simp: keepsT_def)

lemma ev_cap: "keepsT evolves (enforce_capability_asserted env tab cap tenant rowid)"
  by (auto simp: keepsT_def enforce_capability_asserted_def db_evolves_def grows_refl row_refl
      split: option.splits list.splits if_splits)

lemma ev_inserts:
  "keepsT evolves (insert_instance env r)" "keepsT evolves (insert_stages rows)" "keepsT evolves (insert_signoff env g)"
  unfolding insert_instance_def insert_stages_def insert_signoff_def
  by (intro ev0.keeps_seq ev_cap ev_modify_db ev_append)+

lemma ev_instances: "(\<And>i. P i \<Longrightarrow> inst_evolves i (f i)) \<Longrightarrow>
    db_evolves db (db\<lparr>db_instances := update_where P f (db_instances db)\<rparr>)"
  by (simp add: db_evolves_def grows_refl row_refl update_where_def grows_update_where)

lemma ev_stages: "(\<And>s. P s \<Longrightarrow> stage_evolves s (f s)) \<Longrightarrow>
    db_evolves db (db\<lparr>db_stages := update_where P f (db_stages db)\<rparr>)"
  by (simp add: db_evolves_def grows_refl row_refl update_where_def grows_update_where)

interpretation ev: store_frame evolves
  by unfold_locales
    (auto simp: close_instance_def move_stage_def inst_evolves_def same_row_def stage_evolves_def db_evolves_refl
      intro!: ev_append ev_instances ev_stages ev_documents ev_inserts)

section \<open>Keys and references\<close>

definition active_documents :: "Instance list \<Rightarrow> string list" where
  "active_documents is = map in_document (filter (\<lambda>i. in_status i = InstanceInProgress) is)"

definition keys_ok :: "database \<Rightarrow> bool" where
  "keys_ok db \<longleftrightarrow> distinct (map d_id (db_documents db)) \<and> distinct (map in_id (db_instances db)) \<and>
     distinct (map si_id (db_stages db)) \<and> distinct (map stage_key (db_stages db)) \<and>
     distinct (map sg_id (db_signoffs db)) \<and>
     distinct (map (\<lambda>g. (sg_instance g, sg_actor g)) (db_signoffs db)) \<and>
     distinct (active_documents (db_instances db))"

definition refs_ok :: "database \<Rightarrow> bool" where
  "refs_ok db \<longleftrightarrow>
     in_document ` set (db_instances db) \<subseteq> d_id ` set (db_documents db) \<and>
     si_instance ` set (db_stages db) \<subseteq> in_id ` set (db_instances db) \<and>
     (\<lambda>g. (sg_stage g, sg_instance g)) ` set (db_signoffs db) \<subseteq> (\<lambda>s. (si_id s, si_instance s)) ` set (db_stages db)"

definition integrity :: "database \<Rightarrow> bool" where
  "integrity db \<longleftrightarrow> keys_ok db \<and> refs_ok db"

abbreviation keeps_integrity :: "'a tx \<Rightarrow> bool" where
  "keeps_integrity \<equiv> keepsT (\<lambda>s s'. integrity (tx_db s) \<longrightarrow> integrity (tx_db s'))"

lemmas integrity_defs = integrity_def keys_ok_def refs_ok_def active_documents_def

lemma ig_frame:
  "integrity db \<Longrightarrow> integrity (db\<lparr>db_events := es\<rparr>)"
  "integrity db \<Longrightarrow> integrity (db\<lparr>db_routes := rs\<rparr>)"
  "integrity db \<Longrightarrow> integrity (db\<lparr>db_route_stages := ts\<rparr>)"
  by (simp_all add: integrity_defs)

lemma ig_update_documents:
  assumes "\<And>d. d_id (f d) = d_id d"
  shows "keeps_integrity (update_documents P f)"
proof -
  have "map d_id (update_where P f t) = map d_id t" for t
    using assms by (intro map_update_where)
  moreover from this have "d_id ` set (update_where P f t) = d_id ` set t" for t
    by (metis list.set_map)
  ultimately show ?thesis
    by (auto simp: keepsT_def update_documents_def Let_def integrity_defs split: if_splits)
qed

lemma ig_cap: "keeps_integrity (enforce_capability_asserted env tab cap tenant rowid)"
  by (auto simp: keepsT_def enforce_capability_asserted_def ig_frame split: option.splits list.splits if_splits)

lemma ig_instances:
  assumes "\<And>i. P i \<Longrightarrow> in_id (f i) = in_id i \<and> in_document (f i) = in_document i"
    and "\<And>i. P i \<Longrightarrow> in_status (f i) \<noteq> InstanceInProgress" and "integrity db"
  shows "integrity (db\<lparr>db_instances := update_where P f (db_instances db)\<rparr>)"
proof -
  let ?u = "update_where P f"
  have m: "map in_id (?u t) = map in_id t" "map in_document (?u t) = map in_document t" for t
    using assms(1) by (auto intro: map_update_where)
  have s: "in_id ` set (?u t) = in_id ` set t" "in_document ` set (?u t) = in_document ` set t" for t
    using m [of t] by (metis list.set_map)+
  have "distinct (active_documents t) \<longrightarrow> distinct (active_documents (?u t)) \<and>
      set (active_documents (?u t)) \<subseteq> set (active_documents t)" for t
    using assms(1,2) by (induction t) (auto simp: active_documents_def)
  with assms(3) show ?thesis unfolding integrity_def keys_ok_def refs_ok_def by (simp add: m s)
qed

lemma ig_stages:
  assumes "\<And>s. P s \<Longrightarrow> si_id (f s) = si_id s \<and> si_instance (f s) = si_instance s \<and> si_order (f s) = si_order s"
    and "integrity db"
  shows "integrity (db\<lparr>db_stages := update_where P f (db_stages db)\<rparr>)"
proof -
  let ?u = "update_where P f" and ?k = "\<lambda>s. (si_id s, si_instance s)"
  have m: "map si_id (?u t) = map si_id t" "map stage_key (?u t) = map stage_key t"
    "map si_instance (?u t) = map si_instance t" "map ?k (?u t) = map ?k t" for t
    using assms(1) by (auto simp: stage_key_def intro!: map_update_where)
  have s: "si_instance ` set (?u t) = si_instance ` set t" "?k ` set (?u t) = ?k ` set t" for t
    using m [of t] by (metis list.set_map)+
  show ?thesis using assms(2) unfolding integrity_def keys_ok_def refs_ok_def by (simp add: m s)
qed

lemma ig_insert_instance: "keeps_integrity (insert_instance env r)"
proof -
  have cap: "integrity (tx_db s')" if "enforce_capability_asserted env t c te i s = Inr (u, s')" "integrity (tx_db s)" for t c te i s u s'
    using keepsT_D [OF ig_cap that(1)] that(2) by simp
  have "integrity (db\<lparr>db_instances := db_instances db @ [r]\<rparr>)"
    if "integrity db" "in_id r \<notin> in_id ` set (db_instances db)" "in_document r \<in> d_id ` set (db_documents db)"
      "\<not> (in_status r = InstanceInProgress \<and> (\<exists>i \<in> set (db_instances db). in_document i = in_document r \<and> in_status i = InstanceInProgress))" for db
    using that by (auto simp: integrity_defs)
  then show ?thesis
    unfolding insert_instance_def by (auto simp: keepsT_def seq_simps dest!: cap)
qed

lemma ig_insert_stages: "keeps_integrity (insert_stages rs)"
  unfolding insert_stages_def keepsT_def
  by (auto simp: seq_simps integrity_defs list_all_iff)

lemma ig_insert_signoff: "keeps_integrity (insert_signoff env r)"
proof -
  have cap: "integrity (tx_db s')" if "enforce_capability_asserted env t c te i s = Inr (u, s')" "integrity (tx_db s)" for t c te i s u s'
    using keepsT_D [OF ig_cap that(1)] that(2) by simp
  have app: "integrity (db\<lparr>db_signoffs := db_signoffs db @ [r]\<rparr>)"
    if "integrity db" "sg_id r \<notin> sg_id ` set (db_signoffs db)"
      "\<not> (\<exists>x \<in> set (db_signoffs db). sg_instance x = sg_instance r \<and> sg_actor x = sg_actor r)"
      "\<exists>st \<in> set (db_stages db). si_id st = sg_stage r \<and> si_instance st = sg_instance r" for db
    using that by (auto simp: integrity_defs intro: rev_image_eqI)
  show ?thesis
    unfolding insert_signoff_def by (auto simp: keepsT_def seq_simps split: if_splits intro!: app dest!: cap)
qed

interpretation ig: store_frame "\<lambda>s s'. integrity (tx_db s) \<longrightarrow> integrity (tx_db s')"
  by unfold_locales
    (auto simp: ig_frame close_instance_def move_stage_def write_status_def set_status_def
      intro!: ig_update_documents ig_insert_instance ig_insert_stages ig_insert_signoff ig_instances ig_stages)

end
