(* ===== verification/Service_Laws.thy ===== *)
theory Service_Laws
  imports Store_Laws Decision_Service Lifecycle_Services Route_Admin
begin

text \<open>
  Every transaction of the approval services keeps every frame relation of the store: proved once, inside the
  contract \<open>store_frame\<close>, by following the code statement by statement. The freeze invoker is only
  required to leave the modelled columns alone.
\<close>

definition freeze_frame :: "freeze_invoker \<Rightarrow> bool" where
  "freeze_frame freeze \<longleftrightarrow>
     (\<forall>fz tenant doc approver s u s'. freeze = Some fz \<longrightarrow> fz tenant doc approver s = Inr (u, s') \<longrightarrow> tx_db s' = tx_db s)"

context doc_frame
begin

lemma keeps_freeze: "freeze_frame freeze \<Longrightarrow> freeze = Some fz \<Longrightarrow> keepsT R (fz t d a)"
  by (auto simp: keepsT_def freeze_frame_def intro: same_tables)

lemma keeps_publish_body: "keepsT R (publish_body env preq)"
  unfolding publish_body_def load_approved_def by (intro keeps_doc_ops)

lemma keeps_schedule_body: "keepsT R (schedule_body env sreq)"
proof -
  have e: "(\<lambda>d. set_status st d\<lparr>d_effective_date := Some t\<rparr>) = write_status st (\<lambda>_. Some t)" for st t
    by (rule ext) (simp add: write_status_def)
  show ?thesis unfolding schedule_body_def load_approved_def e by (intro keeps_doc_ops)
qed

lemma keeps_supersede_body: "keepsT R (supersede_body env ureq)"
  unfolding supersede_body_def by (intro keeps_doc_ops)

lemma keeps_process_body: "keepsT R (process_body env row)"
  unfolding process_body_def by (intro keeps_doc_ops)

lemma keeps_insert_route: "keepsT R (insert_route r)"
  unfolding insert_route_def by (intro keeps_doc_ops keeps_modify routes)

lemma keeps_insertRouteStages: "keepsT R (insertRouteStages env rid ss)"
  unfolding insertRouteStages_def insert_route_stage_def by (intro keeps_doc_ops keeps_modify route_stages)

lemma keeps_update_routes: "keepsT R (update_routes P f)"
  by (auto simp: keepsT_def update_routes_def Let_def routes split: if_splits)

lemma keeps_authorize: "keepsT R (authorize_route_admin env op t a)"
  unfolding authorize_route_admin_def by (intro keeps_doc_ops)

lemma keeps_create_route_body: "keepsT R (create_route_body env cinp)"
  unfolding create_route_body_def Let_def
  by (intro keeps_doc_ops keeps_authorize keeps_insert_route keeps_insertRouteStages)

lemma keeps_update_route_body: "keepsT R (update_route_body env uinp)"
  unfolding update_route_body_def lockRouteForUpdate_def
  by (intro keeps_doc_ops keeps_authorize keeps_update_routes keeps_insertRouteStages keeps_modify route_stages)

lemma keeps_deactivate_route_body: "keepsT R (deactivate_route_body env dinp)"
  unfolding deactivate_route_body_def lockRouteForUpdate_def
  by (intro keeps_doc_ops keeps_authorize keeps_update_routes)

end

context store_frame
begin

lemma keeps_loadRoute: "keepsT R (loadRoute env t r)"
  unfolding loadRoute_def by (intro keeps_ops)

lemma keeps_submit_body: "keepsT R (submit_body env req h k)"
  unfolding submit_body_def Let_def by (intro keeps_ops keeps_loadRoute)

lemma keeps_load_for_signoff: "keepsT R (load_for_signoff env req)"
  unfolding load_for_signoff_def loadPriorSignoffs_def by (intro keeps_ops)

lemma keeps_approve_instance:
  assumes "freeze_frame freeze"
  shows "keepsT R (approve_instance env freeze req inst now)"
proof (cases freeze)
  case None
  then show ?thesis unfolding approve_instance_def
    by (auto intro!: keeps_ops keeps_UpdateInstanceStatus)
next
  case (Some fz)
  with assms have "keepsT R (fz t d a)" for t d a by (rule keeps_freeze)
  with Some show ?thesis unfolding approve_instance_def
    by (auto intro!: keeps_ops keeps_UpdateInstanceStatus)
qed

lemma keeps_apply_outcome:
  assumes "freeze_frame freeze"
  shows "keepsT R (apply_outcome env freeze req inst st now outcome)"
  using assms unfolding apply_outcome_def
  by (cases outcome)
    (auto intro!: keeps_ops keeps_UpdateStageStatus keeps_UpdateInstanceStatus keeps_approve_instance)

lemma keeps_signoff_body:
  assumes "freeze_frame freeze"
  shows "keepsT R (signoff_body env freeze req h)"
  unfolding signoff_body_def decide_stage_def loadStageSignoffs_def Let_def
  by (intro keeps_ops keeps_load_for_signoff keeps_apply_outcome assms)

lemma keeps_obsolete_body: "keepsT R (obsolete_body env oreq)"
proof -
  have "(\<lambda>i. i\<lparr>in_status := InstanceCancelled, in_completed := c\<rparr>) = close_instance InstanceCancelled c" for c
    by (rule ext) (simp add: close_instance_def)
  then have "keepsT R (cancel_document_instances env d)" for d
    unfolding cancel_document_instances_def by (auto intro!: keeps_ops keeps_modify instances)
  then show ?thesis unfolding obsolete_body_def load_obsolete_source_def by (intro keeps_ops)
qed

lemma keeps_cancel_body: "keepsT R (cancel_body env inp)"
proof -
  have "(\<lambda>s. s\<lparr>si_status := StageCancelled\<rparr>) = move_stage StageCancelled si_opened si_completed"
    by (rule ext) (simp add: move_stage_def)
  then have "keepsT R (cancel_stages env i)" for i
    unfolding cancel_stages_def by (auto intro!: keeps_ops keeps_modify stages)
  then show ?thesis
    unfolding cancel_body_def load_for_cancel_def fetch_area_for_update_def Let_def
    by (intro keeps_ops keeps_local keeps_UpdateInstanceStatus) simp_all
qed

end

end
