(* ===== verification/Store_Effects.thy ===== *)
theory Store_Effects
  imports Service_Base
begin

text \<open>
  What a successful statement did: inversion rules for the operations of the repository and of the shared
  service code. With them a successful run of a service unfolds into the guards it passed and the
  tables it left.
\<close>

named_theorems effects \<open>what a successful operation did\<close>

lemma setAuthzGUC_Inr [effects]:
  "setAuthzGUC env t a s = Inr (u, s') \<Longrightarrow> s' = s\<lparr>guc_tenant := Some t, guc_actor := Some a\<rparr>"
  by (auto simp: setAuthzGUC_def seq_simps)

lemma WithCapCache_Inr [effects]: "WithCapCache s = Inr (u, s') \<Longrightarrow> s' = s\<lparr>tx_cache := Some []\<rparr>"
  by (auto simp: WithCapCache_def)

lemma appendAssertedCap_Inr:
  "appendAssertedCap env c a s = Inr (u, s') \<Longrightarrow> s' = s\<lparr>tx_caps := tx_caps s @ [(c, a)]\<rparr>"
  by (auto simp: appendAssertedCap_def seq_simps)

lemma current_setting_Inr: "current_setting n g s = Inr (x, s') \<Longrightarrow> g s = Some x \<and> s' = s"
  by (auto simp: current_setting_def seq_simps split: option.splits)

text \<open>Every pass of \<^verbatim>\<open>Require\<close> leaves the capability asserted and changes nothing else but the cache.\<close>

lemma Require_Inr:
  assumes "Require env c a s = Inr (u, s')" and "\<not> cacheGranted c a s"
  shows "\<exists>t act. guc_tenant s = Some t \<and> guc_actor s = Some act \<and> has_capability (tx_db s) t act c a \<and>
    s' = s\<lparr>tx_cache := map_option (\<lambda>ks. cacheKey c a # ks) (tx_cache s), tx_caps := tx_caps s @ [(c, a)]\<rparr>"
  using assms
  by (auto simp: Require_def storeGranted_def actorIDFromTx_def seq_simps split: if_splits
      dest!: appendAssertedCap_Inr current_setting_Inr)

lemma Require_effect [effects]:
  "Require env c a s = Inr (u, s') \<Longrightarrow> \<not> cacheGranted c a s \<longrightarrow>
    (\<exists>t act. guc_tenant s = Some t \<and> guc_actor s = Some act \<and> has_capability (tx_db s) t act c a \<and>
      s' = s\<lparr>tx_cache := map_option (\<lambda>ks. cacheKey c a # ks) (tx_cache s), tx_caps := tx_caps s @ [(c, a)]\<rparr>)"
  using Require_Inr by blast

lemma cacheGranted_empty [simp]:
  "tx_cache s = None \<Longrightarrow> \<not> cacheGranted c a s"
  "tx_cache s = Some [] \<Longrightarrow> \<not> cacheGranted c a s"
  by (simp_all add: cacheGranted_def)

lemma enforce_capability_Inr:
  assumes "enforce_capability_asserted env tab cap tenant rowid s = Inr (u, s')" and "guc_bypass s = None"
  shows "s' = s \<and> cap \<in> fst ` set (tx_caps s)"
  using assms by (auto simp: enforce_capability_asserted_def split: if_splits)

definition doc_area_code :: "database \<Rightarrow> string \<Rightarrow> string \<Rightarrow> string" where
  "doc_area_code db tenantID documentID =
     (case List.find (\<lambda>d. d_id d = documentID \<and> d_tenant d = tenantID) (db_documents db) of
        None \<Rightarrow> ''tenant''
      | Some d \<Rightarrow> if doc_area db d = [] then ''tenant'' else doc_area db d)"

lemma loadDocumentAreaCode_Inr [effects]:
  "loadDocumentAreaCode env t d s = Inr (a, s') \<Longrightarrow> s' = s \<and> a = doc_area_code (tx_db s) t d"
  by (auto simp: loadDocumentAreaCode_def doc_area_code_def seq_simps split: option.splits)

definition stages_of :: "database \<Rightarrow> string \<Rightarrow> StageInstance list" where
  "stages_of db iid = sort_key si_order (filter (\<lambda>s. si_instance s = iid) (db_stages db))"

lemma LoadInstance_Inr [effects]:
  "LoadInstance env t i s = Inr (inst, s') \<Longrightarrow>
     s' = s \<and> (\<exists>row. row \<in> set (db_instances (tx_db s)) \<and> in_id row = i \<and> in_tenant row = t \<and>
       inst = row\<lparr>in_stages := stages_of (tx_db s) i\<rparr>)"
  by (auto simp: LoadInstance_def loadStageInstances_def stages_of_def seq_simps split: option.splits
      dest!: find_SomeD)

lemma InsertInstance_Inr [effects]:
  assumes "InsertInstance env inst s = Inr (u, s')"
  shows "guc_bypass s = None \<longrightarrow> s' = s\<lparr>tx_db := (tx_db s)\<lparr>db_instances := db_instances (tx_db s) @
        [inst\<lparr>in_completed := None, in_revision := 0, in_stages := []\<rparr>]\<rparr>\<rparr> \<and>
      ''doc.submit'' \<in> fst ` set (tx_caps s) \<and>
      in_id inst \<notin> in_id ` set (db_instances (tx_db s)) \<and>
      in_document inst \<in> d_id ` set (db_documents (tx_db s)) \<and>
      (\<forall>i \<in> set (db_instances (tx_db s)). in_document i = in_document inst \<longrightarrow> in_idem_key i \<noteq> in_idem_key inst) \<and>
      (in_status inst = InstanceInProgress \<longrightarrow>
        (\<forall>i \<in> set (db_instances (tx_db s)). in_document i = in_document inst \<longrightarrow> in_status i \<noteq> InstanceInProgress))"
  using assms
  by (auto simp: InsertInstance_def insert_instance_def seq_simps dest!: enforce_capability_Inr)

lemma InsertStageInstances_Inr [effects]:
  assumes "InsertStageInstances env ss s = Inr (u, s')"
  shows "ss \<noteq> [] \<longrightarrow> s' = s\<lparr>tx_db := (tx_db s)\<lparr>db_stages := db_stages (tx_db s) @
      map (\<lambda>x. x\<lparr>si_opened := None, si_completed := None, si_skip_reason := []\<rparr>) ss\<rparr>\<rparr> \<and>
    list_all stage_checks ss"
  using assms by (auto simp: InsertStageInstances_def insert_stages_def seq_simps list_all_iff stage_checks_def)

lemma update_documents_Inr [effects]:
  "update_documents P f s = Inr (n, s') \<Longrightarrow>
     n = rows_affected P (db_documents (tx_db s)) \<and>
     s' = s\<lparr>tx_db := (tx_db s)\<lparr>db_documents := update_where P f (db_documents (tx_db s))\<rparr>\<rparr>"
  by (auto simp: update_documents_def Let_def split: if_splits)

lemma RowsAffected_Inr [effects]: "RowsAffected env site n s = Inr (m, s') \<Longrightarrow> m = n \<and> s' = s"
  by (auto simp: RowsAffected_def seq_simps)

lemma Emit_Inr [effects]:
  "Emit env e s = Inr (u, s') \<Longrightarrow> s' = s\<lparr>tx_db := (tx_db s)\<lparr>db_events := db_events (tx_db s) @
     [stored_event env e]\<rparr>\<rparr>"
  by (auto simp: Emit_def seq_simps)

lemma UpdateStageStatus_Inr [effects]:
  "UpdateStageStatus env tenant sid new old s = Inr (u, s') \<Longrightarrow>
     (\<exists>r \<in> set (db_stages (tx_db s)). si_id r = sid \<and> si_status r = old) \<and>
     s' = s\<lparr>tx_db := (tx_db s)\<lparr>db_stages := update_where
       (\<lambda>r. si_id r = sid \<and> si_status r = old \<and>
          (\<exists>i \<in> set (db_instances (tx_db s)). in_id i = si_instance r \<and> in_tenant i = tenant))
       (stage_transition (ev_dbnow env) new) (db_stages (tx_db s))\<rparr>\<rparr>"
  by (auto simp: UpdateStageStatus_def seq_simps Let_def split: if_splits)

lemma UpdateInstanceStatus_Inr [effects]:
  "UpdateInstanceStatus env tenant iid new old c s = Inr (u, s') \<Longrightarrow>
     (\<exists>i \<in> set (db_instances (tx_db s)). in_id i = iid \<and> in_tenant i = tenant \<and> in_status i = old) \<and>
     s' = s\<lparr>tx_db := (tx_db s)\<lparr>db_instances := update_where
       (\<lambda>i. in_id i = iid \<and> in_tenant i = tenant \<and> in_status i = old)
       (\<lambda>i. i\<lparr>in_status := new, in_completed := c\<rparr>) (db_instances (tx_db s))\<rparr>\<rparr>"
  by (auto simp: UpdateInstanceStatus_def seq_simps Let_def split: if_splits)

text \<open>A signoff is stored, or one of the same actor for the same instance is already there.\<close>

lemma InsertSignoff_Inr [effects]:
  assumes "InsertSignoff env g s = Inr (r, s')"
  shows "guc_bypass s = None \<longrightarrow> (if ir_replay r
    then s' = s \<and> (\<exists>x \<in> set (db_signoffs (tx_db s)). sg_instance x = sg_instance g \<and> sg_actor x = sg_actor g)
    else s' = s\<lparr>tx_db := (tx_db s)\<lparr>db_signoffs := db_signoffs (tx_db s) @ [g]\<rparr>\<rparr> \<and>
      (\<forall>x \<in> set (db_signoffs (tx_db s)). \<not> (sg_instance x = sg_instance g \<and> sg_actor x = sg_actor g)) \<and>
      signoff_author (tx_db s) (sg_instance g) \<noteq> Some (sg_actor g))"
  using assms
  by (auto simp: InsertSignoff_def insert_signoff_def LoadSignoffByActor_def seq_simps
      split: if_splits option.splits dest!: enforce_capability_Inr)

section \<open>Runs without faults\<close>

text \<open>When no statement fails for an outside reason, the operations compute.\<close>

abbreviation calm :: "env \<Rightarrow> bool" where
  "calm env \<equiv> ev_fault env = (\<lambda>_. None)"

lemma stmt_calm [simp]: "calm env \<Longrightarrow> stmt env site m = m"
  by (rule ext) (simp add: stmt_def)

lemma setAuthzGUC_calm: "calm env \<Longrightarrow> setAuthzGUC env t a s = Inr ((), s\<lparr>guc_tenant := Some t, guc_actor := Some a\<rparr>)"
  by (simp add: setAuthzGUC_def run_eqs)

lemma WithCapCache_calm: "WithCapCache s = Inr ((), s\<lparr>tx_cache := Some []\<rparr>)"
  by (simp add: WithCapCache_def)

lemma appendAssertedCap_calm:
  "calm env \<Longrightarrow> appendAssertedCap env c a s = Inr ((), s\<lparr>tx_caps := tx_caps s @ [(c, a)]\<rparr>)"
  by (simp add: appendAssertedCap_def run_eqs)

lemma Require_calm:
  assumes "calm env" and "\<not> cacheGranted c a s" and "guc_tenant s = Some t" and "guc_actor s = Some act"
  shows "Require env c a s =
    (if has_capability (tx_db s) t act c a
     then Inr ((), s\<lparr>tx_cache := map_option (\<lambda>ks. cacheKey c a # ks) (tx_cache s), tx_caps := tx_caps s @ [(c, a)]\<rparr>)
     else Inl (ErrCapabilityDenied c a act))"
  using assms
  by (simp add: Require_def run_eqs current_setting_def actorIDFromTx_def storeGranted_def appendAssertedCap_calm)

lemma loadDocumentAreaCode_calm:
  "calm env \<Longrightarrow> loadDocumentAreaCode env t d s = Inr (doc_area_code (tx_db s) t d, s)"
  by (simp add: loadDocumentAreaCode_def doc_area_code_def run_eqs split: option.split)

lemma Emit_calm:
  "calm env \<Longrightarrow> Emit env e s = Inr ((), s\<lparr>tx_db := (tx_db s)\<lparr>db_events := db_events (tx_db s) @ [stored_event env e]\<rparr>\<rparr>)"
  by (simp add: Emit_def)

lemma RowsAffected_calm: "calm env \<Longrightarrow> RowsAffected env site n s = Inr (n, s)"
  by (simp add: RowsAffected_def)

lemma enforce_capability_calm:
  "guc_bypass s = None \<Longrightarrow> cap \<in> fst ` set (tx_caps s) \<Longrightarrow> enforce_capability_asserted env tab cap t i s = Inr ((), s)"
  by (simp add: enforce_capability_asserted_def)

lemma LoadInstance_calm:
  assumes "calm env" and "row \<in> set (db_instances (tx_db s))" and "in_id row = i" and "in_tenant row = t"
    and "distinct (map in_id (db_instances (tx_db s)))"
  shows "LoadInstance env t i s = Inr (row\<lparr>in_stages := stages_of (tx_db s) i\<rparr>, s)"
proof -
  have "List.find (\<lambda>r. in_id r = i \<and> in_tenant r = t) (db_instances (tx_db s)) = Some row"
    using assms(2-5)
  proof (induction "db_instances (tx_db s)" arbitrary: s)
    case (Cons r rs)
    have "List.find (\<lambda>r. in_id r = i \<and> in_tenant r = t) xs = Some row"
      if "row \<in> set xs" "distinct (map in_id xs)" for xs
      using that Cons.prems(2,3) by (induction xs) auto
    with Cons.prems show ?case by blast
  qed simp
  with assms(1,3) show ?thesis by (simp add: LoadInstance_def loadStageInstances_def stages_of_def run_eqs)
qed

lemmas calm_runs = setAuthzGUC_calm WithCapCache_calm Require_calm loadDocumentAreaCode_calm Emit_calm RowsAffected_calm
  enforce_capability_calm

text \<open>Payloads of plain values can always be marshalled.\<close>

fun plain :: "any \<Rightarrow> bool" where
  "plain (AnyStr s) = True"
| "plain (AnyInt n) = True"
| "plain (AnyBool b) = True"
| "plain _ = False"

lemma marshal_plain:
  assumes "list_all (\<lambda>(k, v). plain v) m"
  shows "\<exists>b. marshal_map env m = Inr b"
proof -
  have "plain v \<Longrightarrow> \<exists>b. json_marshal ff v = Inr b" for v ff by (cases v) auto
  then have "\<forall>(k, r) \<in> set (sort_by_key (map (map_prod id (json_marshal (ev_float env))) m)). \<exists>b. r = Inr b"
    using assms by (auto simp: list_all_iff)
  then have "list_all (\<lambda>r. \<exists>x. r = Inr x) (map (\<lambda>(k, r). bindR r (\<lambda>vb. Inr (json_string k @ '':'' @ vb)))
      (sort_by_key (map (map_prod id (json_marshal (ev_float env))) m)))"
    by (fastforce simp: list_all_iff)
  then show ?thesis by (auto simp: marshal_map_def bindR_Inr seqR_ok [symmetric])
qed

section \<open>Authorisation decides\<close>

text \<open>
  C18. The capability check grants exactly the members: with the tenant and the actor set for the transaction and no failing
  statement, \<^verbatim>\<open>Require\<close> succeeds if and only if the actor has a current membership of that tenant, in the
  area (or in any area when the area is \<^verbatim>\<open>tenant\<close>), with a role that has the capability; it then records the capability
  as asserted. Otherwise it returns \<^verbatim>\<open>ErrCapabilityDenied\<close> with the capability, the area and the actor.
\<close>

theorem Require_decides:
  assumes "calm env" and "tx_cache s = Some []" and "guc_tenant s = Some tenant" and "guc_actor s = Some actor"
  shows "Require env cap area s =
    (if \<exists>ua \<in> set (db_user_areas (tx_db s)). ua_tenant ua = tenant \<and> ua_user ua = actor \<and> ua_effective_to ua = None \<and>
          (area = ''tenant'' \<or> ua_area ua = area) \<and> (ua_role ua, cap) \<in> set (db_role_caps (tx_db s))
     then Inr ((), s\<lparr>tx_cache := Some [cacheKey cap area], tx_caps := tx_caps s @ [(cap, area)]\<rparr>)
     else Inl (ErrCapabilityDenied cap area actor))"
proof -
  have h: "has_capability (tx_db s) tenant actor cap area \<longleftrightarrow>
    (\<exists>ua \<in> set (db_user_areas (tx_db s)). ua_tenant ua = tenant \<and> ua_user ua = actor \<and> ua_effective_to ua = None \<and>
          (area = ''tenant'' \<or> ua_area ua = area) \<and> (ua_role ua, cap) \<in> set (db_role_caps (tx_db s)))"
    by (force simp: has_capability_def)
  have r: "Require env cap area s = (if has_capability (tx_db s) tenant actor cap area
     then Inr ((), s\<lparr>tx_cache := Some [cacheKey cap area], tx_caps := tx_caps s @ [(cap, area)]\<rparr>)
     else Inl (ErrCapabilityDenied cap area actor))"
    using Require_calm [OF assms(1) _ assms(3,4)] assms(2) by simp
  show ?thesis unfolding r h ..
qed

section \<open>A sample database\<close>

text \<open>
  One tenant with a draft document by \<^verbatim>\<open>ana\<close>, a route with one stage, and three users: \<^verbatim>\<open>ana\<close> may submit, \<^verbatim>\<open>bob\<close> may
  sign, \<^verbatim>\<open>qia\<close> administers. Used by the concrete instances of the theorems.
\<close>

definition sample_env :: env where
  "sample_env = \<lparr>ev_fault = (\<lambda>_. None), ev_now = (\<lambda>n. 63000000000000000000 + int n), ev_dbnow = 63000000000000000009,
     ev_uuid = (\<lambda>n. replicate (Suc n) (CHR ''u'')), ev_nfc = id, ev_float = (\<lambda>_. Inr ''1.5''), ev_effective_date = True\<rparr>"

definition sample_doc :: doc_row where
  "sample_doc = \<lparr>d_id = ''d1'', d_tenant = ''t1'', d_status = ''draft'', d_revision = 0, d_created_by = ''ana'',
     d_area = Some ''prod'', d_controlled = None, d_effective_from = None, d_effective_date = None\<rparr>"

definition sample_route_stage :: Stage where
  "sample_route_stage = \<lparr>st_order = 1, st_name = ''quality'', st_role = ''reviewer'', st_capability = ''doc.signoff'',
     st_area = ''prod'', st_quorum = QuorumAny1Of, st_quorum_m = None, st_drift = DriftKeepSnapshot\<rparr>"

definition member :: "string \<Rightarrow> string \<Rightarrow> user_area_row" where
  "member u r = \<lparr>ua_tenant = ''t1'', ua_user = u, ua_area = ''prod'', ua_role = r, ua_effective_to = None\<rparr>"

definition sample_db :: database where
  "sample_db = \<lparr>db_documents = [sample_doc], db_controlled = [], db_instances = [], db_stages = [], db_signoffs = [],
     db_routes = [\<lparr>rr_id = ''r1'', rr_tenant = ''t1'', rr_profile = ''po'', rr_name = ''PO'', rr_version = 1,
       rr_created_by = ''qia'', rr_active = True\<rparr>],
     db_route_stages = [(''r1'', sample_route_stage)], db_events = [],
     db_role_caps = [(''author'', ''doc.submit''), (''reviewer'', ''doc.signoff''), (''qms_admin'', ''doc.publish''),
       (''qms_admin'', ''doc.supersede''), (''qms_admin'', ''doc.obsolete''), (''qms_admin'', ''workflow.instance.cancel''),
       (''qms_admin'', ''route.admin'')],
     db_user_areas = [member ''ana'' ''author'', member ''bob'' ''reviewer'', member ''qia'' ''qms_admin'']\<rparr>"

lemmas sample_db_simps = sample_db_def sample_doc_def sample_route_stage_def member_def

lemma calm_sample: "calm sample_env"
  by (simp add: sample_env_def)

theorem Require_decides_witness:
  "\<exists>s'. Require sample_env ''doc.signoff'' ''prod''
     ((fresh_tx sample_db)\<lparr>tx_cache := Some [], guc_tenant := Some ''t1'', guc_actor := Some ''bob''\<rparr>) = Inr ((), s')"
  using Require_decides [OF calm_sample,
      of "(fresh_tx sample_db)\<lparr>tx_cache := Some [], guc_tenant := Some ''t1'', guc_actor := Some ''bob''\<rparr>"
        "''t1''" "''bob''" "''doc.signoff''" "''prod''"]
  by (simp add: fresh_tx_def sample_db_simps)

end
