(* ===== verification/Submit_Props.thy ===== *)
theory Submit_Props
  imports Store_Laws Store_Effects Submit_Service
begin

text \<open>
  What \<^verbatim>\<open>SubmitRevisionForReview\<close> does: the guards it enforces, the tables it leaves, the shape of the instance it
  opens, and that it succeeds when the guards hold and no statement fails.
\<close>

section \<open>The new stages\<close>

abbreviation stored_stage :: "StageInstance \<Rightarrow> StageInstance" where
  "stored_stage x \<equiv> x\<lparr>si_opened := None, si_completed := None, si_skip_reason := []\<rparr>"

lemma new_stages_Cons:
  "new_stage_instances env i now (st # sts) = stage_instance_of env i now 0 st #
     map (\<lambda>(k, x). stage_instance_of env i now k x) (enumerate 1 sts)"
  by (simp add: new_stage_instances_def)

lemma new_stages_shape:
  assumes "stages \<noteq> []"
  shows "shape_at StageActive (map stored_stage (new_stage_instances env i now stages))"
proof -
  obtain st sts where s: "stages = st # sts" using assms by (cases stages) auto
  have "list_all (\<lambda>(k, x). 0 < k) (enumerate 1 sts)"
    by (auto simp: list_all_iff in_set_enumerate_eq)
  then have "list_all stage_pending (map stored_stage (map (\<lambda>(k, x). stage_instance_of env i now k x) (enumerate 1 sts)))"
    by (auto simp: list_all_iff stage_pending_def stage_instance_of_def)
  then show ?thesis by (simp add: s new_stages_Cons stage_instance_of_def stage_done_def)
qed

lemma new_stages_fields:
  "map si_order (new_stage_instances env i now stages) = map st_order stages"
  "list_all (\<lambda>x. si_instance x = i \<and> si_eligible x = []) (new_stage_instances env i now stages)"
  "length (new_stage_instances env i now stages) = length stages"
proof -
  have "map si_order (map (\<lambda>(k, x). stage_instance_of env i now k x) (enumerate n stages)) = map st_order stages" for n
    by (induction stages arbitrary: n) (auto simp: stage_instance_of_def)
  then show "map si_order (new_stage_instances env i now stages) = map st_order stages"
    by (simp add: new_stage_instances_def)
qed (auto simp: new_stage_instances_def list_all_iff stage_instance_of_def)

lemma route_wf_sorted: "route_wf ss \<Longrightarrow> sorted (map st_order ss)"
proof -
  assume "route_wf ss"
  then have "map st_order ss = map int [1..<Suc (length ss)]" by (simp add: route_wf_def del: upt_Suc)
  moreover have "sorted (map int [1..<Suc n])" for n by (auto simp: sorted_iff_nth_mono simp del: upt_Suc)
  ultimately show ?thesis by simp
qed

lemma stages_of_new:
  assumes "\<forall>s \<in> set (db_stages db). si_instance s \<noteq> i" and "route_wf stages"
    and "db_stages db' = db_stages db @ map stored_stage (new_stage_instances env i now stages)"
  shows "stages_of db' i = map stored_stage (new_stage_instances env i now stages)"
proof -
  let ?new = "map stored_stage (new_stage_instances env i now stages)"
  have "filter (\<lambda>s. si_instance s = i) (db_stages db) = []" using assms(1) by (auto simp: filter_empty_conv)
  moreover have "filter (\<lambda>s. si_instance s = i) ?new = ?new"
    using new_stages_fields(2) [of i env now stages] by (auto simp: filter_id_conv list_all_iff)
  moreover have "map si_order ?new = map st_order stages"
    using new_stages_fields(1) [of env i now stages] by (simp add: comp_def)
  then have "sorted (map si_order ?new)" using route_wf_sorted [OF assms(2)] by simp
  then have "sort_key si_order ?new = ?new" by (rule sort_key_id_if_sorted)
  ultimately show ?thesis by (simp add: stages_of_def assms(3))
qed

section \<open>A successful submission\<close>

definition stored_instance :: "env \<Rightarrow> SubmitRequest \<Rightarrow> string \<Rightarrow> string \<Rightarrow> Route \<Rightarrow> Instance" where
  "stored_instance env req h k route = (new_instance env req h k (ev_now env 1) route)\<lparr>in_completed := None, in_revision := 0, in_stages := []\<rparr>"

definition submitted_event :: "env \<Rightarrow> SubmitRequest \<Rightarrow> string \<Rightarrow> GovernanceEvent" where
  "submitted_event env req payload = stored_event env
     \<lparr>ge_tenant = sr_tenant req, ge_type = ''approval_submitted'', ge_actor = sr_submitted_by req,
      ge_resource_type = ''document'', ge_resource_id = sr_document req, ge_reason = [],
      ge_payload = payload, ge_occurred = ev_now env 1\<rparr>"

definition route_stages_of :: "database \<Rightarrow> string \<Rightarrow> Stage list" where
  "route_stages_of db rid = sort_key st_order (map snd (filter (\<lambda>(r, st). r = rid) (db_route_stages db)))"

lemma loadRoute_Inr:
  "loadRoute env t r s = Inr (route, s') \<Longrightarrow> s' = s \<and>
     (\<exists>row \<in> set (db_routes (tx_db s)). rr_id row = r \<and> rr_tenant row = t \<and> rt_version route = rr_version row) \<and>
     rt_stages route = route_stages_of (tx_db s) r"
  by (auto simp: loadRoute_def route_stages_of_def seq_simps split: option.splits dest!: find_SomeD)

lemma submit_body_Inr:
  assumes "submit_body env req h k (fresh_tx db) = Inr (iid, s)"
  shows "\<exists>route payload. iid = ev_uuid env 0 \<and> route_wf (rt_stages route) \<and>
    has_capability db (sr_tenant req) (sr_submitted_by req) ''doc.submit'' (doc_area_code db (sr_tenant req) (sr_document req)) \<and>
    (\<exists>row \<in> set (db_routes db). rr_id row = sr_route req \<and> rr_tenant row = sr_tenant req) \<and>
    iid \<notin> in_id ` set (db_instances db) \<and>
    (\<forall>i \<in> set (db_instances db). in_document i = sr_document req \<longrightarrow>
      in_status i \<noteq> InstanceInProgress \<and> in_idem_key i \<noteq> k) \<and>
    rt_stages route = route_stages_of db (sr_route req) \<and>
    list_all stage_checks (new_stage_instances env iid (ev_now env 1) (rt_stages route)) \<and>
    (\<exists>d \<in> set (db_documents db). occ_row (sr_document req) (sr_tenant req) ''draft'' (sr_revision req) d) \<and>
    tx_db s = db\<lparr>
      db_instances := db_instances db @ [stored_instance env req h k route],
      db_stages := db_stages db @ map stored_stage (new_stage_instances env iid (ev_now env 1) (rt_stages route)),
      db_documents := update_where (occ_row (sr_document req) (sr_tenant req) ''draft'' (sr_revision req))
        (set_status ''under_review'') (db_documents db),
      db_events := db_events db @ [submitted_event env req payload]\<rparr>"
proof -
  have ne: "new_stage_instances env i t ss \<noteq> []" if "route_wf ss" for i t ss
    using that new_stages_fields(3) [of env i t ss] by (auto simp: route_wf_def)
  show ?thesis using assms unfolding submit_body_def Let_def
    apply (clarsimp simp: seq_simps Route_Validate_wf fresh_tx_def ne stored_instance_def new_instance_def rows_affected_pos
        submitted_event_def
        simp del: rows_affected_0 dest!: effects loadRoute_Inr)
    subgoal for route row payload
      by (intro exI [of _ route] exI [of _ payload]) auto
    done
qed

lemma SubmitRevisionForReview_Inr:
  assumes "SubmitRevisionForReview env req db = (Inr iid, db')"
  obtains h k s where "submit_body env req h k (fresh_tx db) = Inr (iid, s)" "db' = tx_db s" "hash_ok h" "hash_ok k"
proof -
  from assms obtain h where h: "ComputeContentHash (ev_nfc env)
      \<lparr>ch_tenant = sr_tenant req, ch_document = sr_document req, ch_revision = sr_revision req,
       ch_form = sr_form req, ch_values_hash = [], ch_schema_hash = []\<rparr> = Inr h"
    by (auto simp: SubmitRevisionForReview_def split: sum.splits)
  then have ok: "hash_ok h" by (auto simp: ComputeContentHash_def bindR_Inr sha_hex_ok split: sum.splits)
  have key: "hash_ok (ComputeIdempotencyKey n i)" for n i
    by (simp add: ComputeIdempotencyKey_def Let_def sha_hex_ok)
  from assms h show thesis
    by (auto simp: SubmitRevisionForReview_def Let_def runTx_Inr ok key intro: that split: sum.splits)
qed


section \<open>Submissions that must succeed\<close>

definition submit_key :: "env \<Rightarrow> SubmitRequest \<Rightarrow> string" where
  "submit_key env req = ComputeIdempotencyKey (ev_nfc env)
     \<lparr>ik_actor = sr_submitted_by req, ik_document = sr_document req, ik_stage = [], ik_decision = [],
      ik_timestamp = ev_now env 0\<rparr>"

lemma loadRoute_calm:
  assumes "calm env" and "row \<in> set (db_routes (tx_db s))" and "rr_id row = r" and "rr_tenant row = t"
  shows "\<exists>route. loadRoute env t r s = Inr (route, s) \<and> rt_stages route = route_stages_of (tx_db s) r"
proof -
  have "List.find (\<lambda>x. rr_id x = r \<and> rr_tenant x = t) (db_routes (tx_db s)) \<noteq> None"
    using assms(2-4) by (simp add: find_None_iff_all) blast
  then obtain x where "List.find (\<lambda>x. rr_id x = r \<and> rr_tenant x = t) (db_routes (tx_db s)) = Some x" by blast
  with assms(1) show ?thesis by (simp add: loadRoute_def run_eqs route_stages_of_def)
qed

lemma new_stages_ids:
  "map si_id (new_stage_instances env i now stages) = map (\<lambda>k. ev_uuid env (Suc k)) [0..<length stages]"
proof -
  have "map si_id (map (\<lambda>(k, x). stage_instance_of env i now k x) (enumerate n stages)) =
      map (\<lambda>k. ev_uuid env (Suc k)) [n..<n + length stages]" for n
    by (induction stages arbitrary: n) (auto simp: stage_instance_of_def upt_conv_Cons simp del: upt_Suc)
  then show ?thesis by (simp add: new_stage_instances_def)
qed

definition stage_allowed :: "Stage \<Rightarrow> bool" where
  "stage_allowed st \<longleftrightarrow> st_quorum st \<in> {QuorumAny1Of, QuorumAllOf, QuorumMofN} \<and>
     st_drift st \<in> {DriftReduceQuorum, DriftFailStage, DriftKeepSnapshot}"

lemma insert_stages_calm:
  assumes fresh: "inj (ev_uuid env)" "\<forall>n. ev_uuid env n \<notin> si_id ` set (db_stages (tx_db s))"
    and wf: "route_wf stages" "list_all stage_allowed stages"
    and keys: "distinct (map si_id (db_stages (tx_db s)))" "distinct (map stage_key (db_stages (tx_db s)))"
    and inst: "i \<in> in_id ` set (db_instances (tx_db s))" "\<forall>x \<in> set (db_stages (tx_db s)). si_instance x \<noteq> i"
  shows "insert_stages (map stored_stage (new_stage_instances env i now stages)) s =
    Inr ((), s\<lparr>tx_db := (tx_db s)\<lparr>db_stages := db_stages (tx_db s) @ map stored_stage (new_stage_instances env i now stages)\<rparr>\<rparr>)"
proof -
  let ?new = "map stored_stage (new_stage_instances env i now stages)"
  have ids: "map si_id ?new = map (\<lambda>k. ev_uuid env (Suc k)) [0..<length stages]"
    using new_stages_ids [of env i now stages] by (simp add: comp_def)
  have orders: "map si_order ?new = map int [1..<Suc (length stages)]"
    using new_stages_fields(1) [of env i now stages] wf(1) by (simp add: comp_def route_wf_def del: upt_Suc)
  have d1: "distinct (map si_id (db_stages (tx_db s) @ ?new))"
  proof -
    have "distinct (map si_id ?new)" unfolding ids using fresh(1) by (auto simp: distinct_map inj_on_def inj_def)
    moreover have "set (map si_id ?new) \<subseteq> range (ev_uuid env)" unfolding ids by auto
    then have "set (map si_id (db_stages (tx_db s))) \<inter> set (map si_id ?new) = {}"
      using fresh(2) unfolding set_map [of si_id "db_stages (tx_db s)"] by (rule range_disjoint)
    ultimately show ?thesis using keys(1) unfolding map_append distinct_append by blast
  qed
  have ni: "\<forall>x \<in> set ?new. si_instance x = i"
    using new_stages_fields(2) [of i env now stages] by (auto simp: list_all_iff)
  have d2: "distinct (map stage_key (db_stages (tx_db s) @ ?new))"
  proof -
    have "distinct (map si_order ?new)" unfolding orders by (simp add: distinct_map inj_on_def)
    then have "distinct (map stage_key ?new)" by (auto simp: distinct_map inj_on_def stage_key_def)
    moreover have "stage_key ` set (db_stages (tx_db s)) \<inter> stage_key ` set ?new = {}"
      using ni inst(2) by (fastforce simp: stage_key_def)
    ultimately show ?thesis using keys(2) unfolding map_append distinct_append set_map by blast
  qed
  have c: "list_all stage_checks ?new"
  proof -
    have "set (map si_order ?new) \<subseteq> {1..}" unfolding orders by auto
    moreover have "\<forall>x \<in> set ?new. si_quorum x \<in> {QuorumAny1Of, QuorumAllOf, QuorumMofN} \<and>
        si_drift x \<in> {DriftReduceQuorum, DriftFailStage, DriftKeepSnapshot}"
      using wf(2) by (auto simp: stage_allowed_def new_stage_instances_def stage_instance_of_def list_all_iff in_set_enumerate_eq)
    ultimately show ?thesis by (auto simp: list_all_iff stage_checks_def)
  qed
  have fk: "list_all (\<lambda>r. si_instance r \<in> in_id ` set (db_instances (tx_db s))) ?new"
    using ni inst(1) by (metis (no_types, lifting) Ball_set)
  show ?thesis
    unfolding insert_stages_def by (simp only: run_eqs run_simps c d1 d2 fk id_apply if_True sum.case prod.case)
qed

text \<open>The guards of a submission, as one check on the request and the tables.\<close>

definition submit_ready :: "env \<Rightarrow> SubmitRequest \<Rightarrow> database \<Rightarrow> bool" where
  "submit_ready env req db \<longleftrightarrow>
     \<not> has_float (AnyMap (sr_form req)) \<and> others_ok (AnyMap (sr_form req)) \<and>
     list_ex (occ_row (sr_document req) (sr_tenant req) ''draft'' (sr_revision req)) (db_documents db) \<and>
     has_capability db (sr_tenant req) (sr_submitted_by req) ''doc.submit'' (doc_area_code db (sr_tenant req) (sr_document req)) \<and>
     list_ex (\<lambda>row. rr_id row = sr_route req \<and> rr_tenant row = sr_tenant req) (db_routes db) \<and>
     route_wf (route_stages_of db (sr_route req)) \<and> list_all stage_allowed (route_stages_of db (sr_route req)) \<and>
     list_all (\<lambda>i. in_document i = sr_document req \<longrightarrow>
       in_status i \<noteq> InstanceInProgress \<and> in_idem_key i \<noteq> submit_key env req) (db_instances db)"

definition fresh_ids :: "env \<Rightarrow> database \<Rightarrow> bool" where
  "fresh_ids env db \<longleftrightarrow> inj (ev_uuid env) \<and>
     (\<forall>n. ev_uuid env n \<notin> in_id ` set (db_instances db) \<and> ev_uuid env n \<notin> si_id ` set (db_stages db))"

lemma submit_runs:
  assumes "calm env" and "integrity db" and "fresh_ids env db" and "submit_ready env req db"
  shows "\<exists>db'. SubmitRevisionForReview env req db = (Inr (ev_uuid env 0), db')"
proof -
  have form: "\<not> has_float (AnyMap (sr_form req))" "others_ok (AnyMap (sr_form req))"
    and cap: "has_capability db (sr_tenant req) (sr_submitted_by req) ''doc.submit'' (doc_area_code db (sr_tenant req) (sr_document req))"
    and free: "\<forall>i \<in> set (db_instances db). in_document i = sr_document req \<longrightarrow>
        in_status i \<noteq> InstanceInProgress \<and> in_idem_key i \<noteq> submit_key env req"
    and fresh: "inj (ev_uuid env)"
      "\<forall>n. ev_uuid env n \<notin> in_id ` set (db_instances db) \<and> ev_uuid env n \<notin> si_id ` set (db_stages db)"
    using assms(3,4) by (auto simp: submit_ready_def fresh_ids_def list_all_iff)
  obtain d row where
    doc: "d \<in> set (db_documents db)" "occ_row (sr_document req) (sr_tenant req) ''draft'' (sr_revision req) d"
    and route: "row \<in> set (db_routes db)" "rr_id row = sr_route req" "rr_tenant row = sr_tenant req"
      "route_wf (route_stages_of db (sr_route req))" "list_all stage_allowed (route_stages_of db (sr_route req))"
    using assms(4) by (auto simp: submit_ready_def list_ex_iff)
  let ?inp = "\<lparr>ch_tenant = sr_tenant req, ch_document = sr_document req, ch_revision = sr_revision req,
       ch_form = sr_form req, ch_values_hash = [], ch_schema_hash = []\<rparr>"
  have "\<not> has_float (AnyMap (ch_form ?inp))" "others_ok (AnyMap (ch_form ?inp))" using form by simp_all
  then obtain h where h: "ComputeContentHash (ev_nfc env) ?inp = Inr h" by (rule content_hash_ok)
  have v: "ValidateEventPayload (sr_form req) = Inr ()"
  proof -
    have "is_float v \<Longrightarrow> has_float v" for v by (cases v) auto
    with form(1) show ?thesis by (auto simp: ValidateEventPayload_def list_ex_iff)
  qed
  let ?area = "doc_area_code db (sr_tenant req) (sr_document req)"
  let ?s1 = "(fresh_tx db)\<lparr>guc_tenant := Some (sr_tenant req), guc_actor := Some (sr_submitted_by req),
     tx_caps := [(''doc.submit'', ?area)], tx_cache := Some [cacheKey ''doc.submit'' ?area]\<rparr>"
  obtain rt where rt: "loadRoute env (sr_tenant req) (sr_route req) ?s1 = Inr (rt, ?s1)"
    "rt_stages rt = route_stages_of db (sr_route req)"
    using loadRoute_calm [OF assms(1), of row ?s1 "sr_route req" "sr_tenant req"] route(1-3) by (auto simp: fresh_tx_def)
  have rv: "Route_Validate rt = Inr ()" using route(4) rt(2) by (simp add: Route_Validate_wf)
  let ?inst = "stored_instance env req h (submit_key env req) rt"
  let ?s2 = "?s1\<lparr>tx_db := db\<lparr>db_instances := db_instances db @ [?inst]\<rparr>\<rparr>"
  have ii: "insert_instance env ?inst ?s1 = Inr ((), ?s2)"
    using free fresh(2) doc route(1-3)
    by (auto simp: insert_instance_def run_eqs enforce_capability_calm fresh_tx_def stored_instance_def new_instance_def
        occ_row_def intro: rev_image_eqI)
  let ?new = "map stored_stage (new_stage_instances env (ev_uuid env 0) (ev_now env 1) (route_stages_of db (sr_route req)))"
  let ?s3 = "?s2\<lparr>tx_db := (tx_db ?s2)\<lparr>db_stages := db_stages db @ ?new\<rparr>\<rparr>"
  have nost: "\<forall>x \<in> set (db_stages db). si_instance x \<noteq> ev_uuid env 0"
  proof -
    have "si_instance ` set (db_stages db) \<subseteq> in_id ` set (db_instances db)"
      using assms(2) by (simp add: integrity_def refs_ok_def)
    with fresh(2) show ?thesis by (metis image_subset_iff)
  qed
  have sti: "insert_stages ?new ?s2 = Inr ((), ?s3)"
    using insert_stages_calm [of env ?s2 "route_stages_of db (sr_route req)" "ev_uuid env 0" "ev_now env 1"]
      fresh route(4,5) nost assms(2)
    by (simp add: fresh_tx_def stored_instance_def new_instance_def integrity_defs)
  have iI: "InsertInstance env (new_instance env req h (submit_key env req) (ev_now env 1) rt) ?s1 = Inr ((), ?s2)"
    using ii assms(1) by (simp add: InsertInstance_def mapErrT_def stored_instance_def)
  have sI: "InsertStageInstances env (new_stage_instances env (ev_uuid env 0) (ev_now env 1) (rt_stages rt)) ?s2 = Inr ((), ?s3)"
    using sti assms(1) route(4) new_stages_fields(3) [of env "ev_uuid env 0" "ev_now env 1" "route_stages_of db (sr_route req)"]
    by (auto simp: InsertStageInstances_def mapErrT_def rt(2) route_wf_def)
  have trig: "list_all (\<lambda>r. occ_row (sr_document req) (sr_tenant req) ''draft'' (sr_revision req) r \<longrightarrow>
      doc_triggers c r (set_status ''under_review'' r)) t" for c t
    by (auto simp: list_all_iff occ_row_def doc_triggers_def enforce_document_transition_def trigger_edge_def set_status_def)
  have n: "\<not> (\<forall>r \<in> set (db_documents db). \<not> occ_row (sr_document req) (sr_tenant req) ''draft'' (sr_revision req) r)"
    using doc by blast
  obtain p where p: "marshal_map env [(''instance_id'', AnyStr (ev_uuid env 0)), (''route_id'', AnyStr (sr_route req)),
        (''content_hash'', AnyStr h)] = Inr p"
    using marshal_plain [of "[(''instance_id'', AnyStr (ev_uuid env 0)), (''route_id'', AnyStr (sr_route req)),
        (''content_hash'', AnyStr h)]" env] by auto
  have "\<exists>s. submit_body env req h (submit_key env req) (fresh_tx db) = Inr (ev_uuid env 0, s)"
    using rt(1) rv iI sI trig n p cap assms(1)
    by (simp add: submit_body_def run_eqs calm_runs Let_def fresh_tx_def update_documents_def)
  with v h assms(1) show ?thesis
    by (auto simp: SubmitRevisionForReview_def submit_key_def Let_def runTx_def)
qed

lemma submit_needs:
  assumes "SubmitRevisionForReview env req db = (Inr iid, db')"
  shows "submit_ready env req db"
proof -
  let ?inp = "\<lparr>ch_tenant = sr_tenant req, ch_document = sr_document req, ch_revision = sr_revision req,
       ch_form = sr_form req, ch_values_hash = [], ch_schema_hash = []\<rparr>"
  from assms obtain h s where h: "ComputeContentHash (ev_nfc env) ?inp = Inr h"
    and b: "submit_body env req h (submit_key env req) (fresh_tx db) = Inr (iid, s)"
    by (auto simp: SubmitRevisionForReview_def submit_key_def Let_def runTx_Inr split: sum.splits)
  have "\<exists>b. canonicalize (ev_nfc env) (hash_fields ?inp) = Inr b"
    using h by (auto simp: ComputeContentHash_def bindR_Inr split: sum.splits)
  then have form: "\<not> has_float (AnyMap (sr_form req))" "others_ok (AnyMap (sr_form req))"
    by (simp_all only: canonicalize_ok hash_fields_ok ContentHashInput.select_convs simp_thms)
  have allowed: "list_all stage_allowed stages" if "list_all stage_checks (new_stage_instances env i t stages)" for i t stages
    using that by (force simp: list_all_length new_stage_instances_def stage_instance_of_def stage_checks_def stage_allowed_def
        nth_enumerate_eq)
  show ?thesis using submit_body_Inr [OF b] form allowed
    by (auto simp: submit_ready_def list_ex_iff list_all_iff)
qed


definition sample_submit :: SubmitRequest where
  "sample_submit = \<lparr>sr_tenant = ''t1'', sr_document = ''d1'', sr_route = ''r1'', sr_submitted_by = ''ana'',
     sr_form = [(''title'', AnyStr ''Welding'')], sr_revision = 0\<rparr>"

lemma sample_integrity: "integrity sample_db"
  by (simp add: sample_db_simps integrity_defs)

lemma sample_fresh: "fresh_ids sample_env sample_db"
  by (auto simp: fresh_ids_def sample_env_def sample_db_simps inj_def)

lemma sample_ready: "submit_ready sample_env sample_submit sample_db"
  by (simp add: submit_ready_def sample_submit_def sample_db_simps occ_row_def has_capability_def doc_area_code_def doc_area_def
      route_stages_of_def route_wf_def quorum_m_ok_def stage_allowed_def)

lemma sample_submit_run:
  obtains db' where "SubmitRevisionForReview sample_env sample_submit sample_db = (Inr ''u'', db')"
  using submit_runs [OF calm_sample sample_integrity sample_fresh sample_ready] that
  by (auto simp: sample_env_def)



end
