(* ===== verification/Decision_Props.thy ===== *)
theory Decision_Props
  imports Submit_Props Service_Laws
begin

text \<open>
  What \<^verbatim>\<open>RecordSignoff\<close> does: the guards a stored signoff has passed, the outcome it is evaluated to, and that the
  tables it leaves are those of the domain's \<^verbatim>\<open>Instance\<close> methods: the services refine the aggregate.
\<close>

section \<open>Reading an instance from the tables\<close>

lemma insort_key_map: "insort_key k (f x) (map f xs) = map f (insort_key (k \<circ> f) x xs)"
  by (induction xs) auto

lemma sort_key_map: "sort_key k (map f xs) = map f (sort_key (k \<circ> f) xs)"
  by (induction xs) (auto simp: insort_key_map comp_def)

lemma filter_update_where:
  "(\<And>r. P r \<Longrightarrow> K (f r) = K r) \<Longrightarrow> filter K (update_where P f t) = update_where P f (filter K t)"
  by (induction t) auto

text \<open>An update of stage rows that keeps their instance and order commutes with reading an instance's stages.\<close>

lemma stages_of_update:
  assumes "\<And>r. P r \<Longrightarrow> si_instance (f r) = si_instance r \<and> si_order (f r) = si_order r"
  shows "stages_of (db\<lparr>db_stages := update_where P f (db_stages db)\<rparr>) iid = update_where P f (stages_of db iid)"
proof -
  have "filter (\<lambda>s. si_instance s = iid) (update_where P f (db_stages db)) =
      update_where P f (filter (\<lambda>s. si_instance s = iid) (db_stages db))"
    using assms by (intro filter_update_where) simp
  moreover have "si_order \<circ> (\<lambda>r. if P r then f r else r) = si_order" using assms by auto
  ultimately show ?thesis by (simp add: stages_of_def update_where_def sort_key_map)
qed

lemma stages_of_frame [simp]:
  "stages_of (db\<lparr>db_documents := x1\<rparr>) i = stages_of db i"
  "stages_of (db\<lparr>db_instances := x2\<rparr>) i = stages_of db i"
  "stages_of (db\<lparr>db_signoffs := x3\<rparr>) i = stages_of db i"
  "stages_of (db\<lparr>db_events := x4\<rparr>) i = stages_of db i"
  by (simp_all add: stages_of_def)

lemma set_stages_of: "set (stages_of db iid) = {s \<in> set (db_stages db). si_instance s = iid}"
  by (auto simp: stages_of_def)

lemma distinct_stages_of:
  assumes "integrity db"
  shows "distinct (map si_id (stages_of db iid))"
proof -
  have "distinct (map si_id (filter (\<lambda>s. si_instance s = iid) (db_stages db)))"
    using assms by (auto simp: integrity_defs intro: distinct_map_filter)
  then have "inj_on si_id (set (stages_of db iid))" "distinct (stages_of db iid)"
    by (auto simp: distinct_map stages_of_def)
  then show ?thesis by (simp add: distinct_map)
qed

lemma update_where_one:
  assumes "distinct (ys @ z # zs)" and "\<And>r. r \<in> set (ys @ z # zs) \<Longrightarrow> P r \<longleftrightarrow> r = z"
  shows "update_where P f (ys @ z # zs) = ys @ f z # zs"
proof -
  have "update_where P f xs = xs" if "\<forall>r \<in> set xs. \<not> P r" for xs
    using that by (rule update_where_none)
  with assms have "update_where P f ys = ys" "update_where P f zs = zs" by auto
  moreover have "update_where P f (ys @ z # zs) = update_where P f ys @ update_where P f (z # zs)"
    by (simp add: update_where_def)
  ultimately show ?thesis using assms(2) [of z] by simp
qed

section \<open>The votes of a stage\<close>

abbreviation stage_votes :: "database \<Rightarrow> string \<Rightarrow> string \<Rightarrow> Signoff list" where
  "stage_votes db dec sid \<equiv> filter (\<lambda>g. sg_stage g = sid \<and> sg_decision g = dec) (db_signoffs db)"

definition stage_outcome :: "database \<Rightarrow> StageInstance \<Rightarrow> QuorumOutcome" where
  "stage_outcome db st = EvaluateQuorum st (stage_votes db DecisionApprove (si_id st))
     (stage_votes db DecisionReject (si_id st)) (signoff_denominator st)"

abbreviation low_hash :: "Signoff \<Rightarrow> Signoff" where
  "low_hash g \<equiv> g\<lparr>sg_content_hash := to_lower (sg_content_hash g)\<rparr>"

lemma scanSignoffs_Inr: "scanSignoffs rows = Inr ss \<Longrightarrow> ss = map low_hash rows"
proof (induction rows arbitrary: ss)
  case (Cons r rows)
  then show ?case
    by (auto simp: scanSignoffs_def NewSignoff_ok bindR_Inr split: sum.splits)
qed (simp add: scanSignoffs_def)

lemma counted_scan:
  "counted st (filter (\<lambda>g. sg_decision g = dec) (map low_hash (sort_key sg_signed_at (filter (\<lambda>g. sg_stage g = sid) gs)))) =
     counted st (filter (\<lambda>g. sg_stage g = sid \<and> sg_decision g = dec) gs)"
proof -
  have l: "length (filter Q (sort_key sg_signed_at (filter K gs))) = length (filter (\<lambda>g. K g \<and> Q g) gs)" for Q K
    by (simp add: filter_sort conj_commute)
  show ?thesis
    by (simp add: counted_def filter_map comp_def l conj_assoc)
qed

lemma evaluate_counts:
  assumes "counted st as = counted st as'" and "counted st rs = counted st rs'"
  shows "EvaluateQuorum st as rs d = EvaluateQuorum st as' rs' d"
  using assms by (simp add: EvaluateQuorum_def)

lemma decided_outcome:
  assumes "scanSignoffs (sort_key sg_signed_at (filter (\<lambda>g. sg_stage g = si_id st) (db_signoffs db))) = Inr ss"
    and "splitSignoffs ss = (as, rs)"
  shows "EvaluateQuorum st as rs (signoff_denominator st) = stage_outcome db st"
proof -
  have "ss = map low_hash (sort_key sg_signed_at (filter (\<lambda>g. sg_stage g = si_id st) (db_signoffs db)))"
    using assms(1) by (rule scanSignoffs_Inr)
  with assms(2) show ?thesis unfolding stage_outcome_def
    by (intro evaluate_counts) (auto simp: splitSignoffs_def counted_scan)
qed

text \<open>The approvals a quorum needs at least: the votes behind an approval.\<close>

definition required_approvals :: "StageInstance \<Rightarrow> int" where
  "required_approvals st = (case si_quorum st of QuorumAllOf \<Rightarrow> signoff_denominator st
     | QuorumMofN \<Rightarrow> (case si_quorum_m st of None \<Rightarrow> 1 | Some m \<Rightarrow> m) | _ \<Rightarrow> 1)"

lemma signoff_denominator_pos: "1 \<le> signoff_denominator st"
  by (cases "si_eligible st") (auto simp: signoff_denominator_def ComputeEffectiveDenominator_def Let_def)

lemma counted_le: "counted st ss \<le> int (length ss)"
  by (simp add: counted_def)

lemma outcome_approved:
  assumes "stage_outcome db st = QuorumApprovedStage"
  shows "required_approvals st \<le> int (length (stage_votes db DecisionApprove (si_id st)))"
proof -
  have "required_approvals st \<le> counted st (stage_votes db DecisionApprove (si_id st))"
    using assms
    by (auto simp: stage_outcome_def EvaluateQuorum_def required_approvals_def Let_def
        split: if_splits QuorumPolicy.splits option.splits)
  also have "\<dots> \<le> int (length (stage_votes db DecisionApprove (si_id st)))" by (rule counted_le)
  finally show ?thesis .
qed


section \<open>A recorded signoff\<close>

text \<open>The guards of steps 4 to 6.\<close>

definition may_sign :: "database \<Rightarrow> SignoffRequest \<Rightarrow> Instance \<Rightarrow> StageInstance \<Rightarrow> bool" where
  "may_sign db req row st \<longleftrightarrow> row \<in> set (db_instances db) \<and> in_id row = sq_instance req \<and> in_tenant row = sq_tenant req \<and>
     in_status row = InstanceInProgress \<and> in_submitted_by row \<noteq> sq_actor req \<and>
     has_capability db (sq_tenant req) (sq_actor req) ''doc.signoff'' (doc_area_code db (sq_tenant req) (in_document row)) \<and>
     Active (row\<lparr>in_stages := stages_of db (sq_instance req)\<rparr>) = Some st \<and> (sq_stage req = [] \<or> sq_stage req = si_id st)"

lemma loadPriorSignoffs_Inr: "loadPriorSignoffs env t i a s = Inr (gs, s') \<Longrightarrow> s' = s"
  by (auto simp: loadPriorSignoffs_def seq_simps)

lemma load_for_signoff_Inr:
  assumes "load_for_signoff env req (fresh_tx db) = Inr ((inst, st), s)"
  shows "tx_db s = db \<and> guc_bypass s = None \<and>
    (\<exists>row. may_sign db req row st \<and> inst = row\<lparr>in_stages := stages_of db (sq_instance req)\<rparr>)"
  using assms unfolding load_for_signoff_def
  apply (clarsimp simp: seq_simps fresh_tx_def simp del: CheckSoD.simps split: option.splits
      dest!: effects loadPriorSignoffs_Inr)
  subgoal for row prior
    by (intro exI [of _ row]) (auto simp: may_sign_def CheckSoD_ok simp del: CheckSoD.simps)
  done


text \<open>The writes of step 11, as functions on the tables.\<close>

definition set_stage :: "env \<Rightarrow> string \<Rightarrow> string \<Rightarrow> StageStatus \<Rightarrow> StageStatus \<Rightarrow> database \<Rightarrow> database" where
  "set_stage env tenant sid new old db = db\<lparr>db_stages := update_where
     (\<lambda>r. si_id r = sid \<and> si_status r = old \<and> (\<exists>i \<in> set (db_instances db). in_id i = si_instance r \<and> in_tenant i = tenant))
     (stage_transition (ev_dbnow env) new) (db_stages db)\<rparr>"

definition close_row :: "string \<Rightarrow> string \<Rightarrow> InstanceStatus \<Rightarrow> time \<Rightarrow> database \<Rightarrow> database" where
  "close_row tenant iid new now db = db\<lparr>db_instances := update_where
     (\<lambda>i. in_id i = iid \<and> in_tenant i = tenant \<and> in_status i = InstanceInProgress)
     (\<lambda>i. i\<lparr>in_status := new, in_completed := Some now\<rparr>) (db_instances db)\<rparr>"

definition approve_doc :: "string \<Rightarrow> string \<Rightarrow> database \<Rightarrow> database" where
  "approve_doc tenant doc db = db\<lparr>db_documents := update_where
     (\<lambda>d. d_id d = doc \<and> d_tenant d = tenant \<and> d_status d = ''under_review'') (set_status ''approved'') (db_documents db)\<rparr>"

definition outcome_tables :: "env \<Rightarrow> SignoffRequest \<Rightarrow> Instance \<Rightarrow> StageInstance \<Rightarrow> QuorumOutcome \<Rightarrow> database \<Rightarrow> database" where
  "outcome_tables env req inst st outcome db =
     (let tenant = sq_tenant req; now = ev_now env 0 in
      case outcome of
        QuorumPending \<Rightarrow> db
      | QuorumRejectedStage \<Rightarrow>
          close_row tenant (sq_instance req) InstanceRejected now (set_stage env tenant (si_id st) StageRejectedHere StageActive db)
      | QuorumApprovedStage \<Rightarrow>
          (let db1 = set_stage env tenant (si_id st) StageCompleted StageActive db in
           case AdvanceStage now inst of
             Inl e \<Rightarrow> db1
           | Inr inst' \<Rightarrow>
               if in_status inst' = InstanceApproved
               then approve_doc tenant (in_document inst) (close_row tenant (sq_instance req) InstanceApproved now db1)
               else (case Active inst' of None \<Rightarrow> db1
                     | Some next \<Rightarrow> set_stage env tenant (si_id next) StageActive StagePending db1)))"

lemmas table_writes = set_stage_def close_row_def approve_doc_def

lemma UpdateStageStatus_set: "UpdateStageStatus env t sid new old s = Inr (u, s') \<Longrightarrow> tx_db s' = set_stage env t sid new old (tx_db s)"
  by (auto simp: set_stage_def dest!: UpdateStageStatus_Inr)

lemma UpdateInstanceStatus_set:
  "UpdateInstanceStatus env t iid new InstanceInProgress (Some c) s = Inr (u, s') \<Longrightarrow> tx_db s' = close_row t iid new c (tx_db s)"
  by (auto simp: close_row_def dest!: UpdateInstanceStatus_Inr)

lemma approve_instance_Inr:
  assumes "approve_instance env freeze req inst now s = Inr (u, s')" and "freeze_frame freeze"
  shows "tx_db s' = approve_doc (sq_tenant req) (in_document inst) (close_row (sq_tenant req) (sq_instance req) InstanceApproved now (tx_db s))"
  using assms unfolding approve_instance_def
  by (auto simp: seq_simps table_writes freeze_frame_def split: option.splits dest!: effects)

lemma AdvanceStage_document: "AdvanceStage now inst = Inr inst' \<Longrightarrow> in_document inst' = in_document inst"
  by (auto simp: AdvanceStage_def Let_def split: option.splits prod.splits if_splits)

text \<open>What the caller is told.\<close>

definition outcome_result :: "SignoffRequest \<Rightarrow> Instance \<Rightarrow> QuorumOutcome \<Rightarrow> time \<Rightarrow> SignoffResult \<times> (string \<times> string) option" where
  "outcome_result req inst outcome now =
     (case outcome of
        QuorumPending \<Rightarrow> (no_result, None)
      | QuorumRejectedStage \<Rightarrow> (no_result\<lparr>re_rejected := True\<rparr>, None)
      | QuorumApprovedStage \<Rightarrow>
          if \<exists>inst'. AdvanceStage now inst = Inr inst' \<and> in_status inst' = InstanceApproved
          then (no_result\<lparr>re_stage_completed := True, re_approved := True\<rparr>, Some (sq_tenant req, in_document inst))
          else (no_result\<lparr>re_stage_completed := True\<rparr>, None))"

lemma apply_outcome_Inr:
  assumes "apply_outcome env freeze req inst st (ev_now env 0) outcome s = Inr (r, s')" and "freeze_frame freeze"
  shows "tx_db s' = outcome_tables env req inst st outcome (tx_db s) \<and> r = outcome_result req inst outcome (ev_now env 0)"
proof (cases outcome)
  case QuorumApprovedStage
  with assms show ?thesis unfolding apply_outcome_def
    by (auto simp: seq_simps outcome_tables_def outcome_result_def Let_def AdvanceStage_document
        split: option.splits if_splits dest!: UpdateStageStatus_set approve_instance_Inr)
next
  case QuorumRejectedStage
  with assms show ?thesis unfolding apply_outcome_def
    by (auto simp: seq_simps outcome_tables_def outcome_result_def Let_def dest!: UpdateStageStatus_set UpdateInstanceStatus_set)
next
  case QuorumPending
  with assms show ?thesis unfolding apply_outcome_def by (auto simp: outcome_tables_def outcome_result_def)
qed

definition new_vote :: "env \<Rightarrow> SignoffRequest \<Rightarrow> database \<Rightarrow> StageInstance \<Rightarrow> Signoff \<Rightarrow> bool" where
  "new_vote env req db st g \<longleftrightarrow> sg_id g = ev_uuid env 0 \<and> sg_instance g = sq_instance req \<and> sg_stage g = si_id st \<and>
     sg_actor g = sq_actor req \<and> sg_tenant g = sq_tenant req \<and> sg_decision g = sq_decision req \<and>
     sg_decision g \<in> {DecisionApprove, DecisionReject} \<and> sg_signed_at g = ev_now env 0 \<and>
     (\<forall>x \<in> set (db_signoffs db). \<not> (sg_instance x = sg_instance g \<and> sg_actor x = sg_actor g)) \<and>
     signoff_author db (sg_instance g) \<noteq> Some (sg_actor g) \<and> marshalSignaturePayload env (sq_payload req) = Inr (sg_payload g)"

lemma loadStageSignoffs_Inr: "loadStageSignoffs env sid s = Inr (gs, s') \<Longrightarrow> s' = s \<and>
    scanSignoffs (sort_key sg_signed_at (filter (\<lambda>g. sg_stage g = sid) (db_signoffs (tx_db s)))) = Inr gs"
  by (auto simp: loadStageSignoffs_def seq_simps)

lemma decide_stage_Inr:
  assumes "decide_stage env freeze req inst st (ev_now env 0) h s = Inr (r, s')" and "freeze_frame freeze"
  shows "\<exists>e. tx_db s' = (outcome_tables env req inst st (stage_outcome (tx_db s) st) (tx_db s))\<lparr>db_events :=
      db_events (outcome_tables env req inst st (stage_outcome (tx_db s) st) (tx_db s)) @ [e]\<rparr> \<and>
    r = outcome_result req inst (stage_outcome (tx_db s) st) (ev_now env 0)"
proof -
  from assms(1) obtain gs s1 s2 e where
    l: "loadStageSignoffs env (si_id st) s = Inr (gs, s1)" and
    a: "apply_outcome env freeze req inst st (ev_now env 0)
      (EvaluateQuorum st (fst (splitSignoffs gs)) (snd (splitSignoffs gs)) (signoff_denominator st)) s1 = Inr (r, s2)" and
    e: "Emit env e s2 = Inr ((), s')"
    unfolding decide_stage_def by (auto simp: seq_simps Let_def case_prod_beta)
  have s1: "s1 = s" using loadStageSignoffs_Inr [OF l] by simp
  have q: "EvaluateQuorum st (fst (splitSignoffs gs)) (snd (splitSignoffs gs)) (signoff_denominator st) = stage_outcome (tx_db s) st"
    using loadStageSignoffs_Inr [OF l] by (intro decided_outcome [of _ _ gs]) simp_all
  show ?thesis using apply_outcome_Inr [OF a assms(2)] Emit_Inr [OF e] unfolding s1 q by auto
qed


abbreviation with_signoff :: "database \<Rightarrow> Signoff \<Rightarrow> database" where
  "with_signoff db g \<equiv> db\<lparr>db_signoffs := db_signoffs db @ [g]\<rparr>"

abbreviation with_event :: "database \<Rightarrow> GovernanceEvent \<Rightarrow> database" where
  "with_event db e \<equiv> db\<lparr>db_events := db_events db @ [e]\<rparr>"

definition voted_tables :: "env \<Rightarrow> SignoffRequest \<Rightarrow> Instance \<Rightarrow> StageInstance \<Rightarrow> Signoff \<Rightarrow> database \<Rightarrow> database" where
  "voted_tables env req inst st g db = outcome_tables env req inst st (stage_outcome (with_signoff db g) st) (with_signoff db g)"

lemma signoff_body_Inr:
  assumes "signoff_body env freeze req h (fresh_tx db) = Inr (r, s)" and "freeze_frame freeze"
  shows "\<exists>row st. may_sign db req row st \<and>
    (tx_db s = db \<and> r = (no_result, None) \<and> (\<exists>x \<in> set (db_signoffs db). sg_instance x = sq_instance req \<and> sg_actor x = sq_actor req) \<or>
     (\<exists>g e. let inst = row\<lparr>in_stages := stages_of db (sq_instance req)\<rparr> in new_vote env req db st g \<and>
        tx_db s = with_event (voted_tables env req inst st g db) e \<and>
        r = outcome_result req inst (stage_outcome (with_signoff db g) st) (ev_now env 0)))"
proof -
  from assms(1) obtain inst st s1 p g i s2 where
    l: "load_for_signoff env req (fresh_tx db) = Inr ((inst, st), s1)" and
    p: "marshalSignaturePayload env (sq_payload req) = Inr p" and
    n: "NewSignoff \<lparr>sg_id = ev_uuid env 0, sg_instance = sq_instance req, sg_stage = si_id st,
        sg_actor = sq_actor req, sg_tenant = sq_tenant req, sg_decision = sq_decision req,
        sg_comment = sq_comment req, sg_signed_at = ev_now env 0, sg_method = sq_method req,
        sg_payload = p, sg_content_hash = h\<rparr> = Inr g" and
    i: "InsertSignoff env g s1 = Inr (i, s2)" and
    d: "(if ir_replay i then returnT (no_result, None) else decide_stage env freeze req inst st (ev_now env 0) h) s2 = Inr (r, s)"
    unfolding signoff_body_def by (fastforce simp: seq_simps Let_def)
  obtain row where m: "may_sign db req row st" "inst = row\<lparr>in_stages := stages_of db (sq_instance req)\<rparr>"
    and s1: "tx_db s1 = db" "guc_bypass s1 = None"
    using load_for_signoff_Inr [OF l] by blast
  note ins = InsertSignoff_Inr [OF i, THEN mp, OF s1(2)]
  show ?thesis
  proof (cases "ir_replay i")
    case True
    with ins d s1 n have "tx_db s = db \<and> r = (no_result, None) \<and>
        (\<exists>x \<in> set (db_signoffs db). sg_instance x = sq_instance req \<and> sg_actor x = sq_actor req)"
      by (auto simp: NewSignoff_ok)
    with m(1) show ?thesis by blast
  next
    case False
    with ins s1 have s2: "tx_db s2 = with_signoff db g" by simp
    have v: "new_vote env req db st g" using False ins s1 n p by (auto simp: new_vote_def NewSignoff_ok)
    from False d have "decide_stage env freeze req inst st (ev_now env 0) h s2 = Inr (r, s)" by simp
    from decide_stage_Inr [OF this assms(2)] v m show ?thesis unfolding s2 voted_tables_def Let_def by blast
  qed
qed

lemma RecordSignoff_cases:
  assumes "RecordSignoff env freeze req db = (Inr r, db')" and "freeze_frame freeze"
  obtains (replayed) row st x where "may_sign db req row st" "db' = db" "r = (no_result, None)"
      "x \<in> set (db_signoffs db)" "sg_instance x = sq_instance req" "sg_actor x = sq_actor req"
  | (voted) row st g e inst where "may_sign db req row st" "inst = row\<lparr>in_stages := stages_of db (sq_instance req)\<rparr>"
      "new_vote env req db st g" "db' = with_event (voted_tables env req inst st g db) e"
      "r = outcome_result req inst (stage_outcome (with_signoff db g) st) (ev_now env 0)"
proof -
  from assms(1) obtain h s where "signoff_body env freeze req h (fresh_tx db) = Inr (r, s)" "db' = tx_db s"
    by (auto simp: RecordSignoff_def runTx_Inr split: sum.splits)
  with signoff_body_Inr [OF this(1) assms(2)] that show thesis by (auto simp: Let_def)
qed


section \<open>The tables implement the aggregate\<close>

lemma transition_fields [simp]:
  "si_id (stage_transition t new r) = si_id r" "si_instance (stage_transition t new r) = si_instance r"
  "si_order (stage_transition t new r) = si_order r" "si_status (stage_transition t new r) = new"
  "si_quorum (stage_transition t new r) = si_quorum r" "si_quorum_m (stage_transition t new r) = si_quorum_m r"
  "si_eligible (stage_transition t new r) = si_eligible r"
  by (simp_all add: stage_transition_def)

lemma set_stage_frame [simp]:
  "db_instances (set_stage env t sid new old db) = db_instances db" "db_documents (set_stage env t sid new old db) = db_documents db"
  "db_signoffs (set_stage env t sid new old db) = db_signoffs db"
  "map si_id (db_stages (set_stage env t sid new old db)) = map si_id (db_stages db)"
  by (simp_all add: set_stage_def map_update_where)

lemma close_row_frame [simp]:
  "db_documents (close_row t iid new now db) = db_documents db" "db_stages (close_row t iid new now db) = db_stages db"
  "db_signoffs (close_row t iid new now db) = db_signoffs db" "stages_of (close_row t iid new now db) i = stages_of db i"
  by (simp_all add: close_row_def)

lemma approve_doc_frame [simp]:
  "db_instances (approve_doc t d db) = db_instances db" "db_stages (approve_doc t d db) = db_stages db"
  "db_signoffs (approve_doc t d db) = db_signoffs db" "stages_of (approve_doc t d db) i = stages_of db i"
  by (simp_all add: approve_doc_def)

lemma stages_of_set_stage:
  "stages_of (set_stage env t sid new old db) iid = update_where
     (\<lambda>r. si_id r = sid \<and> si_status r = old \<and> (\<exists>i \<in> set (db_instances db). in_id i = si_instance r \<and> in_tenant i = t))
     (stage_transition (ev_dbnow env) new) (stages_of db iid)"
  unfolding set_stage_def by (rule stages_of_update) simp

lemma set_stage_at:
  assumes "distinct (map si_id (db_stages db))" and st: "stages_of db iid = ys @ z # zs" and "si_status z = old"
    and "\<exists>i \<in> set (db_instances db). in_id i = iid \<and> in_tenant i = t"
  shows "stages_of (set_stage env t (si_id z) new old db) iid = ys @ stage_transition (ev_dbnow env) new z # zs"
proof -
  have sub: "set (ys @ z # zs) \<subseteq> set (db_stages db)" "\<forall>r \<in> set (ys @ z # zs). si_instance r = iid"
    using set_stages_of [of db iid] unfolding st by blast+
  have d: "distinct (ys @ z # zs)" using assms(1) unfolding st [symmetric] by (simp add: stages_of_def distinct_map)
  have "si_id r = si_id z \<longleftrightarrow> r = z" if "r \<in> set (ys @ z # zs)" for r
  proof -
    have "r \<in> set (db_stages db)" "z \<in> set (db_stages db)" using sub(1) that by (blast, simp)
    with distinct_map_key [OF assms(1)] show ?thesis by blast
  qed
  moreover have "si_instance z = iid" using sub(2) by simp
  ultimately show ?thesis using assms(3,4) unfolding stages_of_set_stage st
    by (intro update_where_one [OF d]) metis
qed

lemma set_stage_other:
  assumes "distinct (map si_id (db_stages db))" and "z \<in> set (db_stages db)" and "si_instance z \<noteq> iid"
  shows "stages_of (set_stage env t (si_id z) new old db) iid = stages_of db iid"
proof -
  have "si_id r \<noteq> si_id z" if "r \<in> set (stages_of db iid)" for r
    using distinct_map_key [OF assms(1), of r z] assms(2,3) that by (auto simp: set_stages_of)
  then show ?thesis unfolding stages_of_set_stage by (intro update_where_none) blast
qed

text \<open>An instance as \<^verbatim>\<open>LoadInstance\<close> reads it.\<close>

definition view :: "database \<Rightarrow> string \<Rightarrow> Instance option" where
  "view db iid = map_option (\<lambda>row. row\<lparr>in_stages := stages_of db iid\<rparr>) (List.find (\<lambda>i. in_id i = iid) (db_instances db))"

text \<open>Two instances that differ only in the clock readings and the reason of a stage.\<close>

definition untimed :: "Instance \<Rightarrow> Instance" where
  "untimed inst = inst\<lparr>in_stages := map stored_stage (in_stages inst)\<rparr>"

lemma view_row:
  assumes "distinct (map in_id (db_instances db))" and "row \<in> set (db_instances db)"
  shows "view db (in_id row) = Some (row\<lparr>in_stages := stages_of db (in_id row)\<rparr>)"
  using find_unique_key [OF assms] by (simp add: view_def)

lemma view_close_row:
  assumes "distinct (map in_id (db_instances db))" and "row \<in> set (db_instances db)" and "in_id row = iid"
    and "in_tenant row = t" and "in_status row = InstanceInProgress"
  shows "view (close_row t iid new now db) iid =
    Some (row\<lparr>in_status := new, in_completed := Some now, in_stages := stages_of db iid\<rparr>)"
proof -
  have "List.find (\<lambda>i. in_id i = iid) (db_instances db) = Some row"
    using find_unique_key [OF assms(1,2)] assms(3) by simp
  then show ?thesis using assms(3-5) by (simp add: view_def close_row_def find_update_where)
qed

lemma view_frame [simp]:
  "view (db\<lparr>db_events := x4\<rparr>) i = view db i" "view (db\<lparr>db_signoffs := x3\<rparr>) i = view db i"
  "view (approve_doc t d db) i = view db i"
  by (simp_all add: view_def)


text \<open>Where the active stage stands.\<close>

lemma active_split:
  assumes "shape_at StageActive ss" and "List.find is_active ss = Some st"
  obtains ys zs where "ss = ys @ st # zs" "list_all stage_done ys" "is_active st" "list_all stage_pending zs"
proof -
  obtain ys z zs where s: "ss = ys @ z # zs" "list_all stage_done ys" "is_active z" "list_all stage_pending zs"
    using assms(1) by (auto elim: shape_atE)
  have "List.find is_active (ys @ z # zs) = Some z"
    using s(2,3) by (induction ys) (auto simp: stage_done_def)
  with assms(2) s that show thesis by simp
qed

text \<open>A vote that is stored: the instance it is cast on and the place of the active stage.\<close>

definition vote_cast :: "env \<Rightarrow> SignoffRequest \<Rightarrow> database \<Rightarrow> Instance \<Rightarrow> StageInstance \<Rightarrow> Signoff \<Rightarrow>
  StageInstance list \<Rightarrow> StageInstance list \<Rightarrow> bool" where
  "vote_cast env req db row st g ys zs \<longleftrightarrow> integrity db \<and> may_sign db req row st \<and> new_vote env req db st g \<and>
     stages_of db (sq_instance req) = ys @ st # zs \<and> list_all stage_done ys \<and> is_active st \<and> list_all stage_pending zs"

abbreviation loaded :: "database \<Rightarrow> SignoffRequest \<Rightarrow> Instance \<Rightarrow> Instance" where
  "loaded db req row \<equiv> row\<lparr>in_stages := stages_of db (sq_instance req)\<rparr>"

abbreviation cast_outcome :: "database \<Rightarrow> StageInstance \<Rightarrow> Signoff \<Rightarrow> QuorumOutcome" where
  "cast_outcome db st g \<equiv> stage_outcome (with_signoff db g) st"

abbreviation vote_tables :: "env \<Rightarrow> SignoffRequest \<Rightarrow> database \<Rightarrow> Instance \<Rightarrow> StageInstance \<Rightarrow> Signoff \<Rightarrow> database" where
  "vote_tables env req db row st g \<equiv> voted_tables env req (loaded db req row) st g db"

lemma vote_facts:
  assumes "vote_cast env req db row st g ys zs"
  shows "row \<in> set (db_instances db)" "in_id row = sq_instance req" "in_tenant row = sq_tenant req"
    "in_status row = InstanceInProgress" "st \<in> set (db_stages db)" "si_instance st = sq_instance req"
    "distinct (map si_id (db_stages db))" "distinct (map in_id (db_instances db))"
    "\<exists>i \<in> set (db_instances db). in_id i = sq_instance req \<and> in_tenant i = sq_tenant req"
    "stages_of db (sq_instance req) = ys @ st # zs" "list_all stage_done ys" "is_active st" "list_all stage_pending zs"
proof -
  have "st \<in> set (stages_of db (sq_instance req))" using assms by (simp add: vote_cast_def)
  then show "st \<in> set (db_stages db)" "si_instance st = sq_instance req" by (simp_all add: set_stages_of)
qed (use assms in \<open>auto simp: vote_cast_def may_sign_def integrity_defs\<close>)

lemma complete_at:
  assumes "vote_cast env req db row st g ys zs"
  shows "stages_of (set_stage env (sq_tenant req) (si_id st) new StageActive (with_signoff db g)) (sq_instance req) =
    ys @ stage_transition (ev_dbnow env) new st # zs"
  using set_stage_at [of "with_signoff db g"] vote_facts [OF assms] by simp

lemma tables_pending: "cast_outcome db st g = QuorumPending \<Longrightarrow> vote_tables env req db row st g = with_signoff db g"
  by (simp add: voted_tables_def outcome_tables_def)

lemma tables_rejected:
  assumes "cast_outcome db st g = QuorumRejectedStage"
  shows "vote_tables env req db row st g = close_row (sq_tenant req) (sq_instance req) InstanceRejected (ev_now env 0)
    (set_stage env (sq_tenant req) (si_id st) StageRejectedHere StageActive (with_signoff db g))"
  using assms by (simp add: voted_tables_def outcome_tables_def Let_def)

lemma vote_advance:
  assumes "vote_cast env req db row st g ys zs"
  shows "AdvanceStage now (loaded db req row) =
    (let done = st\<lparr>si_status := StageCompleted, si_completed := Some now\<rparr> in
     case zs of
       [] \<Rightarrow> Inr (row\<lparr>in_stages := ys @ [done], in_status := InstanceApproved, in_completed := Some now\<rparr>)
     | y # zs' \<Rightarrow> Inr (row\<lparr>in_stages := ys @ done # y\<lparr>si_status := StageActive, si_opened := Some now\<rparr> # zs'\<rparr>))"
  using vote_facts [OF assms] AdvanceStage_at [of "loaded db req row" ys st zs now] by (simp add: Let_def cong: list.case_cong)

lemma tables_last:
  assumes "vote_cast env req db row st g ys []" and "cast_outcome db st g = QuorumApprovedStage"
  shows "vote_tables env req db row st g = approve_doc (sq_tenant req) (in_document row)
    (close_row (sq_tenant req) (sq_instance req) InstanceApproved (ev_now env 0)
      (set_stage env (sq_tenant req) (si_id st) StageCompleted StageActive (with_signoff db g)))"
  using assms(2) by (simp add: voted_tables_def outcome_tables_def Let_def vote_advance [OF assms(1)])

lemma next_active:
  assumes "list_all stage_done ys"
  shows "Active (row\<lparr>in_stages := ys @ st\<lparr>si_status := StageCompleted, si_completed := Some now\<rparr> #
      y\<lparr>si_status := StageActive, si_opened := Some now\<rparr> # zs\<rparr>) = Some (y\<lparr>si_status := StageActive, si_opened := Some now\<rparr>)"
  using assms by (induction ys) (auto simp: Active_def stage_done_def)

lemma tables_next:
  assumes "vote_cast env req db row st g ys (y # zs)" and "cast_outcome db st g = QuorumApprovedStage"
  shows "vote_tables env req db row st g = set_stage env (sq_tenant req) (si_id y) StageActive StagePending
    (set_stage env (sq_tenant req) (si_id st) StageCompleted StageActive (with_signoff db g))"
  using assms(2) vote_facts(4,11) [OF assms(1)]
  by (simp add: voted_tables_def outcome_tables_def Let_def vote_advance [OF assms(1)] next_active)

lemmas vote_tables_eqs = tables_pending tables_rejected tables_last tables_next

lemma next_at:
  assumes "vote_cast env req db row st g ys (y # zs)"
  shows "stages_of (set_stage env (sq_tenant req) (si_id y) StageActive StagePending
      (set_stage env (sq_tenant req) (si_id st) StageCompleted StageActive (with_signoff db g))) (sq_instance req) =
    ys @ stage_transition (ev_dbnow env) StageCompleted st # stage_transition (ev_dbnow env) StageActive y # zs"
  using set_stage_at [of "set_stage env (sq_tenant req) (si_id st) StageCompleted StageActive (with_signoff db g)"
      "sq_instance req" "ys @ [stage_transition (ev_dbnow env) StageCompleted st]" y zs StagePending "sq_tenant req" env StageActive]
    vote_facts [OF assms] complete_at [OF assms, of StageCompleted]
  by (simp add: stage_pending_def)

lemma view_vote:
  assumes v: "vote_cast env req db row st g ys zs"
  shows "view (vote_tables env req db row st g) (sq_instance req) = Some (case cast_outcome db st g of
     QuorumPending \<Rightarrow> loaded db req row
   | QuorumRejectedStage \<Rightarrow> row\<lparr>in_status := InstanceRejected, in_completed := Some (ev_now env 0),
       in_stages := ys @ stage_transition (ev_dbnow env) StageRejectedHere st # zs\<rparr>
   | QuorumApprovedStage \<Rightarrow> (case zs of
       [] \<Rightarrow> row\<lparr>in_status := InstanceApproved, in_completed := Some (ev_now env 0),
         in_stages := ys @ [stage_transition (ev_dbnow env) StageCompleted st]\<rparr>
     | y # zs' \<Rightarrow> row\<lparr>in_stages := ys @ stage_transition (ev_dbnow env) StageCompleted st #
         stage_transition (ev_dbnow env) StageActive y # zs'\<rparr>))"
proof -
  note facts = vote_facts [OF v]
  have s: "view (set_stage env t sid new old d) i = map_option (\<lambda>r. r\<lparr>in_stages := stages_of (set_stage env t sid new old d) i\<rparr>)
      (List.find (\<lambda>r. in_id r = i) (db_instances d))" for t sid new old d i
    by (simp add: view_def)
  have f: "List.find (\<lambda>r. in_id r = sq_instance req) (db_instances db) = Some row"
    using find_unique_key [OF facts(8,1)] facts(2) by simp
  show ?thesis
  proof (cases "cast_outcome db st g")
    case QuorumPending
    then show ?thesis by (simp add: tables_pending) (simp add: view_def f)
  next
    case QuorumRejectedStage
    then show ?thesis using facts(1-8) complete_at [OF v, of StageRejectedHere]
      by (simp add: tables_rejected) (subst view_close_row [of _ row], simp_all)
  next
    case QuorumApprovedStage
    then show ?thesis
    proof (cases zs)
      case Nil
      note v' = v [unfolded Nil]
      from Nil show ?thesis using QuorumApprovedStage facts(1-8) complete_at [OF v', of StageCompleted]
        by (simp add: tables_last [OF v']) (subst view_close_row [of _ row], simp_all)
    next
      case (Cons y zs')
      note v' = v [unfolded Cons]
      from Cons show ?thesis using QuorumApprovedStage next_at [OF v'] by (simp add: tables_next [OF v'] s f)
    qed
  qed
qed


lemma stored_transition:
  "stored_stage (stage_transition t new r) = stored_stage (r\<lparr>si_status := new\<rparr>)"
  by (simp add: stage_transition_def)

lemma RecordSignoff_view:
  assumes "RecordSignoff env freeze req db = (Inr r, db')" and "freeze_frame freeze" and "integrity db"
    and "view db (sq_instance req) = Some inst" and "instance_wf inst"
  obtains (same) "db' = db" "r = (no_result, None)"
  | (cast) row st g e ys zs where "vote_cast env req db row st g ys zs" "inst = loaded db req row"
      "db' = with_event (vote_tables env req db row st g) e"
      "r = outcome_result req inst (cast_outcome db st g) (ev_now env 0)"
  using assms(1,2)
proof (cases rule: RecordSignoff_cases)
  case (voted row st g e i)
  have "in_id row = sq_instance req" "row \<in> set (db_instances db)" "in_status row = InstanceInProgress"
    using voted(1) by (simp_all add: may_sign_def)
  moreover have "distinct (map in_id (db_instances db))" using assms(3) by (simp add: integrity_defs)
  ultimately have i: "inst = i" "in_status i = InstanceInProgress"
    using view_row [of db row] assms(4) voted(2) by simp_all
  then have "shape_at StageActive (stages_of db (sq_instance req))"
    using assms(5) voted(2) by (simp add: instance_wf_def)
  moreover have "List.find is_active (stages_of db (sq_instance req)) = Some st"
    using voted(1) by (simp add: may_sign_def Active_def)
  ultimately obtain ys zs where "stages_of db (sq_instance req) = ys @ st # zs" "list_all stage_done ys" "is_active st"
    "list_all stage_pending zs" by (rule active_split)
  with assms(3) voted(1,3) have "vote_cast env req db row st g ys zs" by (simp add: vote_cast_def)
  with voted i that(2) show thesis by blast
qed (use that(1) in blast)

text \<open>
  C3. The signoff service refines the domain's instance. What \<^verbatim>\<open>LoadInstance\<close> reads after a successful \<^verbatim>\<open>RecordSignoff\<close> is what it read before,
  moved by the domain's own method: by \<^verbatim>\<open>AdvanceStage\<close> when the answer says the stage is completed, by \<^verbatim>\<open>RejectHere\<close> when it says
  the instance is rejected, and not at all otherwise (clock readings of the stages aside); the answer says that the instance is approved
  exactly when it is; and the instance stays well-formed.
\<close>

theorem signoff_refines_instance:
  assumes "RecordSignoff env freeze req db = (Inr (res, pdf), db')" and "freeze_frame freeze" and "integrity db"
    and "view db (sq_instance req) = Some inst" and "instance_wf inst" and "in_status inst = InstanceInProgress"
  shows "\<exists>inst'. view db' (sq_instance req) = Some inst' \<and> instance_wf inst' \<and>
    map_sum id untimed (if re_stage_completed res then AdvanceStage (ev_now env 0) inst
       else if re_rejected res then RejectHere (ev_now env 0) [] inst
       else Inr inst) = Inr (untimed inst') \<and>
    (re_approved res \<longleftrightarrow> in_status inst' = InstanceApproved)"
  using assms(1-5)
proof (cases rule: RecordSignoff_view)
  case same
  then show ?thesis using assms(4,5,6) by (simp add: no_result_def)
next
  case (cast row st g e ys zs)
  note f = vote_facts [OF cast(1)]
  have i: "in_stages inst = ys @ st # zs" "in_status inst = InstanceInProgress" using f by (simp_all add: cast(2))
  note moves = AdvanceStage_at [OF i(1) f(11-13)] RejectHere_at [OF i(1) f(11,12)]
  have vw: "view db' (sq_instance req) = view (vote_tables env req db row st g) (sq_instance req)" by (simp add: cast(3))
  have r: "(res, pdf) = outcome_result req inst (cast_outcome db st g) (ev_now env 0)" by (rule cast(4))
  show ?thesis
  proof (cases "cast_outcome db st g")
    case QuorumPending
    with view_vote [OF cast(1)] r have "view db' (sq_instance req) = Some inst" "res = no_result"
      by (simp_all add: vw outcome_result_def cast(2))
    with assms(5) i(2) show ?thesis by (simp add: no_result_def)
  next
    case QuorumRejectedStage
    with view_vote [OF cast(1)] have "view db' (sq_instance req) = Some (inst\<lparr>in_status := InstanceRejected,
        in_completed := Some (ev_now env 0), in_stages := ys @ stage_transition (ev_dbnow env) StageRejectedHere st # zs\<rparr>)"
      by (simp add: vw cast(2))
    moreover have "res = no_result\<lparr>re_rejected := True\<rparr>" using r QuorumRejectedStage by (simp add: outcome_result_def)
    ultimately show ?thesis using f(11-13)
      by (simp add: moves no_result_def untimed_def stored_transition instance_wf_def)
  next
    case QuorumApprovedStage
    show ?thesis
    proof (cases zs)
      case Nil
      with view_vote [OF cast(1)] QuorumApprovedStage have "view db' (sq_instance req) = Some (inst\<lparr>in_status := InstanceApproved,
          in_completed := Some (ev_now env 0), in_stages := ys @ [stage_transition (ev_dbnow env) StageCompleted st]\<rparr>)"
        by (simp add: vw cast(2))
      moreover have "res = no_result\<lparr>re_stage_completed := True, re_approved := True\<rparr>"
        using r QuorumApprovedStage Nil by (simp add: outcome_result_def moves)
      ultimately show ?thesis using f(11) Nil
        by (simp add: moves no_result_def untimed_def stored_transition instance_wf_def stage_done_def)
    next
      case (Cons y zs')
      with view_vote [OF cast(1)] QuorumApprovedStage have "view db' (sq_instance req) = Some (inst\<lparr>in_stages :=
          ys @ stage_transition (ev_dbnow env) StageCompleted st # stage_transition (ev_dbnow env) StageActive y # zs'\<rparr>)"
        by (simp add: vw cast(2))
      moreover have "res = no_result\<lparr>re_stage_completed := True\<rparr>"
        using r QuorumApprovedStage Cons i(2) by (simp add: outcome_result_def moves)
      ultimately show ?thesis using f(11,13) Cons i(2)
        by (simp add: moves no_result_def untimed_def stored_transition instance_wf_def stage_done_def)
    qed
  qed
qed


section \<open>Signoffs that must succeed\<close>

definition signoffs_valid :: "database \<Rightarrow> bool" where
  "signoffs_valid db \<longleftrightarrow> list_all (\<lambda>g. \<exists>x. NewSignoff g = Inr x) (db_signoffs db)"

lemma scanSignoffs_valid: "list_all (\<lambda>g. \<exists>x. NewSignoff g = Inr x) rows \<Longrightarrow> \<exists>ss. scanSignoffs rows = Inr ss"
  by (auto simp: scanSignoffs_def seqR_ok list_all_iff split: sum.splits)

lemma scan_filtered:
  assumes "signoffs_valid db"
  obtains ss where "scanSignoffs (sort_key sg_signed_at (filter K (db_signoffs db))) = Inr ss"
  using assms scanSignoffs_valid [of "sort_key sg_signed_at (filter K (db_signoffs db))"]
  by (auto simp: signoffs_valid_def list_all_iff)

lemma load_for_signoff_calm:
  assumes "calm env" and m: "may_sign db req row st" and "signoffs_valid db" and "integrity db"
    and "\<forall>x \<in> set (db_signoffs db). \<not> (sg_instance x = sq_instance req \<and> sg_actor x = sq_actor req)"
  shows "\<exists>s. load_for_signoff env req (fresh_tx db) = Inr ((loaded db req row, st), s) \<and> tx_db s = db \<and> guc_bypass s = None \<and>
    guc_cancel s = None \<and> ''doc.signoff'' \<in> fst ` set (tx_caps s)"
proof -
  let ?area = "doc_area_code db (sq_tenant req) (in_document row)"
  let ?s1 = "(fresh_tx db)\<lparr>guc_tenant := Some (sq_tenant req), guc_actor := Some (sq_actor req)\<rparr>"
  let ?s2 = "?s1\<lparr>tx_caps := [(''doc.signoff'', ?area)]\<rparr>"
  have d: "distinct (map in_id (db_instances (tx_db ?s1)))" using assms(4) by (simp add: integrity_defs)
  have l: "LoadInstance env (sq_tenant req) (sq_instance req) ?s1 = Inr (loaded db req row, ?s1)"
    using LoadInstance_calm [OF assms(1) _ _ _ d, of row "sq_instance req" "sq_tenant req"] m by (simp add: may_sign_def)
  have q: "Require env ''doc.signoff'' ?area ?s1 = Inr ((), ?s2)"
    using Require_calm [OF assms(1), of "''doc.signoff''" ?area ?s1 "sq_tenant req" "sq_actor req"] m
    by (simp add: may_sign_def fresh_tx_def)
  obtain ss where ss: "scanSignoffs (sort_key sg_signed_at (filter (\<lambda>x. sg_instance x = sq_instance req \<and> sg_stage x \<noteq> si_id st \<and>
      sg_tenant x = sq_tenant req) (db_signoffs db))) = Inr ss" using assms(3) by (rule scan_filtered)
  then have pr: "loadPriorSignoffs env (sq_tenant req) (sq_instance req) (si_id st) ?s2 = Inr (ss, ?s2)"
    using assms(1) by (simp add: loadPriorSignoffs_def run_eqs fresh_tx_def)
  have c: "CheckSoD (in_submitted_by row) (sq_actor req) ss = Inr ()"
    using scanSignoffs_Inr [OF ss] assms(5) m unfolding CheckSoD_ok by (auto simp: may_sign_def)
  have "load_for_signoff env req (fresh_tx db) = Inr ((loaded db req row, st), ?s2)"
    using l q pr c m assms(1)
    by (auto simp: load_for_signoff_def run_eqs calm_runs may_sign_def simp del: CheckSoD.simps)
  then show ?thesis by (intro exI [of _ ?s2]) (simp add: fresh_tx_def)
qed

lemma InsertSignoff_calm:
  assumes "calm env" and "guc_bypass s = None" and "''doc.signoff'' \<in> fst ` set (tx_caps s)"
    and i: "integrity (tx_db s)" and row: "row \<in> set (db_instances (tx_db s))" "in_id row = sg_instance g" "in_tenant row = sg_tenant g"
    and st: "st \<in> set (db_stages (tx_db s))" "si_id st = sg_stage g" "si_instance st = sg_instance g"
    and free: "\<forall>x \<in> set (db_signoffs (tx_db s)). \<not> (sg_instance x = sg_instance g \<and> sg_actor x = sg_actor g)"
    and "signoff_author (tx_db s) (sg_instance g) \<noteq> Some (sg_actor g)" and "sg_id g \<notin> sg_id ` set (db_signoffs (tx_db s))"
  shows "InsertSignoff env g s = Inr (\<lparr>ir_id = sg_id g, ir_replay = False\<rparr>, s\<lparr>tx_db := with_signoff (tx_db s) g\<rparr>)"
proof -
  have "List.find (\<lambda>i. in_id i = sg_instance g) (db_instances (tx_db s)) = Some row"
    using find_unique_key [of in_id "db_instances (tx_db s)" row] i row by (simp add: integrity_defs)
  moreover have "\<forall>x \<in> set (db_signoffs (tx_db s)). \<not> (sg_stage x = sg_stage g \<and> sg_actor x = sg_actor g)"
  proof (intro ballI notI)
    fix x assume x: "x \<in> set (db_signoffs (tx_db s))" "sg_stage x = sg_stage g \<and> sg_actor x = sg_actor g"
    have "(sg_stage x, sg_instance x) \<in> (\<lambda>s. (si_id s, si_instance s)) ` set (db_stages (tx_db s))"
      using i x(1) by (auto simp: integrity_def refs_ok_def)
    then obtain z where z: "z \<in> set (db_stages (tx_db s))" "si_id z = sg_stage x" "si_instance z = sg_instance x" by auto
    have "z = st" using distinct_map_key [of si_id "db_stages (tx_db s)" z st] i z st x(2) by (auto simp: integrity_defs)
    with z st x free show False by auto
  qed
  ultimately show ?thesis using assms
    by (auto simp: InsertSignoff_def insert_signoff_def run_eqs enforce_capability_calm)
qed

lemma UpdateStageStatus_calm:
  assumes "calm env" and "z \<in> set (db_stages (tx_db s))" and "si_status z = old"
    and "\<exists>i \<in> set (db_instances (tx_db s)). in_id i = si_instance z \<and> in_tenant i = t"
  shows "UpdateStageStatus env t (si_id z) new old s = Inr ((), s\<lparr>tx_db := set_stage env t (si_id z) new old (tx_db s)\<rparr>)"
  using assms by (auto simp: UpdateStageStatus_def run_eqs Let_def set_stage_def)

lemma UpdateInstanceStatus_calm:
  assumes "calm env" and "\<exists>i \<in> set (db_instances (tx_db s)). in_id i = iid \<and> in_tenant i = t \<and> in_status i = InstanceInProgress"
  shows "UpdateInstanceStatus env t iid new InstanceInProgress (Some c) s = Inr ((), s\<lparr>tx_db := close_row t iid new c (tx_db s)\<rparr>)"
  using assms by (auto simp: UpdateInstanceStatus_def run_eqs Let_def close_row_def)

lemma approve_documents_calm:
  "update_documents (\<lambda>d. d_id d = doc \<and> d_tenant d = t \<and> d_status d = ''under_review'') (set_status ''approved'') s =
     Inr (rows_affected (\<lambda>d. d_id d = doc \<and> d_tenant d = t \<and> d_status d = ''under_review'') (db_documents (tx_db s)),
       s\<lparr>tx_db := approve_doc t doc (tx_db s)\<rparr>)"
  by (auto simp: update_documents_def approve_doc_def Let_def list_all_iff doc_triggers_def enforce_document_transition_def
      trigger_edge_def set_status_def)

text \<open>A freeze that succeeds and leaves the tables alone.\<close>

definition freeze_ok :: "freeze_invoker \<Rightarrow> bool" where
  "freeze_ok freeze \<longleftrightarrow> (\<exists>fz. freeze = Some fz \<and> (\<forall>t d a s. \<exists>s'. fz t d a s = Inr ((), s') \<and> tx_db s' = tx_db s))"

lemma freeze_ok_frame: "freeze_ok freeze \<Longrightarrow> freeze_frame freeze"
  unfolding freeze_ok_def freeze_frame_def by (metis Pair_inject option.inject sum.inject(2))

lemma apply_outcome_runs:
  assumes c: "calm env" and v: "vote_cast env req db row st g ys zs" and "freeze_ok freeze" and s: "tx_db s = with_signoff db g"
  shows "\<exists>r s'. apply_outcome env freeze req (loaded db req row) st (ev_now env 0) outcome s = Inr (r, s')"
proof -
  note f = vote_facts [OF v]
  have o: "\<exists>i \<in> set (db_instances (tx_db s)). in_id i = si_instance st \<and> in_tenant i = sq_tenant req"
    and o': "\<exists>i \<in> set (db_instances db). in_id i = sq_instance req \<and> in_tenant i = sq_tenant req \<and> in_status i = InstanceInProgress"
    using f(1-6) by (auto simp: s)
  have up: "UpdateStageStatus env (sq_tenant req) (si_id st) new StageActive s =
      Inr ((), s\<lparr>tx_db := set_stage env (sq_tenant req) (si_id st) new StageActive (tx_db s)\<rparr>)" for new
    using f(5,12) o by (intro UpdateStageStatus_calm [OF c]) (simp_all add: s)
  have close: "UpdateInstanceStatus env (sq_tenant req) (sq_instance req) new InstanceInProgress (Some now) s' =
      Inr ((), s'\<lparr>tx_db := close_row (sq_tenant req) (sq_instance req) new now (tx_db s')\<rparr>)"
    if "db_instances (tx_db s') = db_instances db" for s' new now
    using o' that by (intro UpdateInstanceStatus_calm [OF c]) simp
  obtain fz where fz: "freeze = Some fz" "\<And>t d a x. \<exists>s'. fz t d a x = Inr ((), s')"
    using assms(3) unfolding freeze_ok_def by metis
  show ?thesis
  proof (cases outcome)
    case QuorumPending
    then show ?thesis by (simp add: apply_outcome_def)
  next
    case QuorumRejectedStage
    then show ?thesis using close by (simp add: apply_outcome_def run_eqs up s)
  next
    case QuorumApprovedStage
    show ?thesis
    proof (cases zs)
      case Nil
      let ?s1 = "s\<lparr>tx_db := close_row (sq_tenant req) (sq_instance req) InstanceApproved (ev_now env 0)
        (set_stage env (sq_tenant req) (si_id st) StageCompleted StageActive (tx_db s))\<rparr>"
      obtain s2 where s2: "fz (sq_tenant req) (in_document row) \<lparr>ac_user = sq_actor req, ac_capabilities = sq_capabilities req\<rparr> ?s1 = Inr ((), s2)"
        using fz(2) by blast
      with Nil QuorumApprovedStage show ?thesis using close c fz(1)
        by (simp add: apply_outcome_def approve_instance_def run_eqs up s vote_advance [OF v] Let_def approve_documents_calm)
    next
      case (Cons y zs')
      note v' = v [unfolded Cons]
      let ?d1 = "set_stage env (sq_tenant req) (si_id st) StageCompleted StageActive (with_signoff db g)"
      have "y \<in> set (stages_of ?d1 (sq_instance req))" using complete_at [OF v'] by simp
      then have y: "y \<in> set (db_stages ?d1)" "si_instance y = sq_instance req" by (simp_all add: set_stages_of)
      have ny: "UpdateStageStatus env (sq_tenant req) (si_id y) StageActive StagePending (s\<lparr>tx_db := ?d1\<rparr>) =
          Inr ((), s\<lparr>tx_db := set_stage env (sq_tenant req) (si_id y) StageActive StagePending ?d1\<rparr>)"
        using UpdateStageStatus_calm [OF c, of y "s\<lparr>tx_db := ?d1\<rparr>" StagePending "sq_tenant req" StageActive]
          y f(9,13) Cons by (simp add: stage_pending_def)
      show ?thesis using QuorumApprovedStage Cons ny f(4,11)
        by (simp add: apply_outcome_def run_eqs up s vote_advance [OF v] Let_def next_active)
    qed
  qed
qed


text \<open>The request itself: payload and form data without floats, a decision, every identifier set.\<close>

definition request_ok :: "env \<Rightarrow> SignoffRequest \<Rightarrow> bool" where
  "request_ok env req \<longleftrightarrow> ValidateEventPayload (sq_payload req) = Inr () \<and>
     (case marshalSignaturePayload env (sq_payload req) of Inl _ \<Rightarrow> False | Inr _ \<Rightarrow> True) \<and>
     \<not> has_float (AnyMap (sq_form req)) \<and> others_ok (AnyMap (sq_form req)) \<and>
     sq_decision req \<in> {DecisionApprove, DecisionReject} \<and> sq_instance req \<noteq> [] \<and> sq_actor req \<noteq> [] \<and> sq_tenant req \<noteq> []"

definition signoff_ready :: "env \<Rightarrow> SignoffRequest \<Rightarrow> database \<Rightarrow> bool" where
  "signoff_ready env req db \<longleftrightarrow> request_ok env req \<and>
     list_ex (\<lambda>row. case Active (loaded db req row) of None \<Rightarrow> False | Some st \<Rightarrow> may_sign db req row st \<and> si_id st \<noteq> [])
       (db_instances db) \<and>
     list_all (\<lambda>x. \<not> (sg_instance x = sq_instance req \<and> sg_actor x = sq_actor req)) (db_signoffs db) \<and>
     signoff_author db (sq_instance req) \<noteq> Some (sq_actor req)"

definition shapes_ok :: "database \<Rightarrow> bool" where
  "shapes_ok db \<longleftrightarrow> list_all (\<lambda>i. in_status i = InstanceInProgress \<longrightarrow> shape_at StageActive (stages_of db (in_id i))) (db_instances db)"

definition signoff_env :: "env \<Rightarrow> database \<Rightarrow> bool" where
  "signoff_env env db \<longleftrightarrow> calm env \<and> ev_now env 0 \<noteq> 0 \<and> ev_uuid env 0 \<noteq> [] \<and> ev_uuid env 0 \<notin> sg_id ` set (db_signoffs db)"

abbreviation signoff_hash_input :: "SignoffRequest \<Rightarrow> ContentHashInput" where
  "signoff_hash_input req \<equiv> \<lparr>ch_tenant = sq_tenant req, ch_document = sq_instance req, ch_revision = 0,
     ch_form = sq_form req, ch_values_hash = [], ch_schema_hash = []\<rparr>"

lemma hash_ok_lowercase: "hash_ok h \<Longrightarrow> to_lower h = h"
  by (simp add: hash_ok_def)


lemma signoff_hash:
  assumes "ComputeContentHash nfc inp = Inr h"
  shows "hash_ok h" "\<not> has_float (AnyMap (ch_form inp))" "others_ok (AnyMap (ch_form inp))"
proof -
  show "hash_ok h" using assms by (auto simp: ComputeContentHash_def bindR_Inr sha_hex_ok split: sum.splits)
  have "\<exists>b. canonicalize nfc (hash_fields inp) = Inr b"
    using assms by (auto simp: ComputeContentHash_def bindR_Inr split: sum.splits)
  then show "\<not> has_float (AnyMap (ch_form inp))" "others_ok (AnyMap (ch_form inp))"
    by (simp_all only: canonicalize_ok hash_fields_ok simp_thms)
qed

lemma signoff_runs:
  assumes e: "signoff_env env db" and i: "integrity db" and "shapes_ok db" and va: "signoffs_valid db" and "freeze_ok freeze"
    and r: "signoff_ready env req db"
  shows "\<exists>res db'. RecordSignoff env freeze req db = (Inr res, db') \<and> db_signoffs db' \<noteq> db_signoffs db"
proof -
  have c: "calm env" and rq: "request_ok env req" using e r by (simp_all add: signoff_env_def signoff_ready_def)
  obtain row st where row: "row \<in> set (db_instances db)" "Active (loaded db req row) = Some st" and m: "may_sign db req row st" and
    id: "si_id st \<noteq> []"
    using r by (auto simp: signoff_ready_def list_ex_iff split: option.splits)
  have free: "\<forall>x \<in> set (db_signoffs db). \<not> (sg_instance x = sq_instance req \<and> sg_actor x = sq_actor req)"
    and au: "signoff_author db (sq_instance req) \<noteq> Some (sq_actor req)"
    using r by (auto simp: signoff_ready_def list_all_iff)
  obtain p where p: "marshalSignaturePayload env (sq_payload req) = Inr p"
    using rq by (auto simp: request_ok_def split: sum.splits)
  have "\<not> has_float (AnyMap (ch_form (signoff_hash_input req)))" "others_ok (AnyMap (ch_form (signoff_hash_input req)))"
    using rq by (simp_all add: request_ok_def)
  then obtain h where h: "ComputeContentHash (ev_nfc env) (signoff_hash_input req) = Inr h" by (rule content_hash_ok)
  let ?g = "\<lparr>sg_id = ev_uuid env 0, sg_instance = sq_instance req, sg_stage = si_id st, sg_actor = sq_actor req,
    sg_tenant = sq_tenant req, sg_decision = sq_decision req, sg_comment = sq_comment req, sg_signed_at = ev_now env 0,
    sg_method = sq_method req, sg_payload = p, sg_content_hash = h\<rparr>"
  have n: "NewSignoff ?g = Inr ?g"
    using e rq id signoff_hash(1) [OF h] by (simp add: NewSignoff_ok signoff_env_def request_ok_def hash_ok_lowercase)
  have nv: "new_vote env req db st ?g" using free au rq p by (simp add: new_vote_def request_ok_def)
  have "shape_at StageActive (stages_of db (sq_instance req))"
    using assms(3) m by (auto simp: shapes_ok_def list_all_iff may_sign_def)
  moreover have "List.find is_active (stages_of db (sq_instance req)) = Some st" using m by (simp add: may_sign_def Active_def)
  ultimately obtain ys zs where "stages_of db (sq_instance req) = ys @ st # zs" "list_all stage_done ys" "is_active st"
    "list_all stage_pending zs" by (rule active_split)
  with i m nv have v: "vote_cast env req db row st ?g ys zs" by (simp add: vote_cast_def)
  note f = vote_facts [OF v]
  obtain s where s: "load_for_signoff env req (fresh_tx db) = Inr ((loaded db req row, st), s)" "tx_db s = db" "guc_bypass s = None"
    "''doc.signoff'' \<in> fst ` set (tx_caps s)" using load_for_signoff_calm [OF c m va i free] by blast
  let ?s1 = "s\<lparr>tx_db := with_signoff db ?g\<rparr>"
  have ins: "InsertSignoff env ?g s = Inr (\<lparr>ir_id = ev_uuid env 0, ir_replay = False\<rparr>, ?s1)"
    using InsertSignoff_calm [OF c s(3,4), of row ?g st] e i f(1-3,5,6) free au s(2) by (simp add: signoff_env_def)
  have "signoffs_valid (with_signoff db ?g)" using va n by (auto simp: signoffs_valid_def)
  then obtain ss where "scanSignoffs (sort_key sg_signed_at (filter (\<lambda>x. sg_stage x = si_id st) (db_signoffs (with_signoff db ?g)))) = Inr ss"
    by (rule scan_filtered)
  then have ls: "loadStageSignoffs env (si_id st) ?s1 = Inr (ss, ?s1)" using c by (simp add: loadStageSignoffs_def run_eqs)
  have t1: "tx_db ?s1 = with_signoff db ?g" by simp
  obtain res s2 where ao: "apply_outcome env freeze req (loaded db req row) st (ev_now env 0)
      (EvaluateQuorum st (fst (splitSignoffs ss)) (snd (splitSignoffs ss)) (signoff_denominator st)) ?s1 = Inr (res, s2)"
    using apply_outcome_runs [OF c v assms(5) t1] by blast
  obtain b where b: "marshal_map env [(''instance_id'', AnyStr (sq_instance req)), (''stage_instance_id'', AnyStr (si_id st)),
        (''decision'', AnyStr (sq_decision req)), (''content_hash'', AnyStr h)] = Inr b"
    using marshal_plain [of "[(''instance_id'', AnyStr (sq_instance req)), (''stage_instance_id'', AnyStr (si_id st)),
        (''decision'', AnyStr (sq_decision req)), (''content_hash'', AnyStr h)]" env] by auto
  have ds: "\<exists>s'. decide_stage env freeze req (loaded db req row) st (ev_now env 0) h ?s1 = Inr (res, s')"
    using ls ao b c by (simp add: decide_stage_def run_eqs case_prod_beta Let_def Emit_calm)
  then obtain s' where ds: "decide_stage env freeze req (loaded db req row) st (ev_now env 0) h ?s1 = Inr (res, s')" by blast
  have "signoff_body env freeze req h (fresh_tx db) = Inr (res, s')"
    using s(1) p n ins ds by (simp add: signoff_body_def run_eqs Let_def)
  with h rq c have rec: "RecordSignoff env freeze req db = (Inr res, tx_db s')"
    by (simp add: RecordSignoff_def request_ok_def runTx_def)
  have ff: "freeze_frame freeze" using assms(5) by (rule freeze_ok_frame)
  have "db_signoffs (tx_db s') = db_signoffs (with_signoff db ?g)"
    using decide_stage_Inr [OF ds ff]
    by (auto simp: outcome_tables_def Let_def split: QuorumOutcome.splits sum.splits option.splits)
  with rec show ?thesis by auto
qed


lemma voted_signoffs: "db_signoffs (voted_tables env req inst st g db) = db_signoffs db @ [g]"
  by (simp add: voted_tables_def outcome_tables_def Let_def split: QuorumOutcome.splits sum.splits option.splits)

lemma signoff_needs:
  assumes "RecordSignoff env freeze req db = (Inr res, db')" and "db_signoffs db' \<noteq> db_signoffs db" and "freeze_frame freeze"
  shows "signoff_ready env req db"
proof -
  obtain h s where h: "ComputeContentHash (ev_nfc env) (signoff_hash_input req) = Inr h"
    and b: "signoff_body env freeze req h (fresh_tx db) = Inr (res, s)" and d: "db' = tx_db s"
    and v: "ValidateEventPayload (sq_payload req) = Inr ()"
    using assms(1) by (auto simp: RecordSignoff_def runTx_Inr split: sum.splits)
  obtain inst st p g s1 where l: "load_for_signoff env req (fresh_tx db) = Inr ((inst, st), s1)"
    and p: "marshalSignaturePayload env (sq_payload req) = Inr p"
    and n: "NewSignoff \<lparr>sg_id = ev_uuid env 0, sg_instance = sq_instance req, sg_stage = si_id st,
        sg_actor = sq_actor req, sg_tenant = sq_tenant req, sg_decision = sq_decision req,
        sg_comment = sq_comment req, sg_signed_at = ev_now env 0, sg_method = sq_method req,
        sg_payload = p, sg_content_hash = h\<rparr> = Inr g"
    using b unfolding signoff_body_def by (fastforce simp: seq_simps Let_def)
  have "request_ok env req" using v p n signoff_hash [OF h] by (auto simp: request_ok_def NewSignoff_ok)
  moreover obtain row where m: "may_sign db req row st" using load_for_signoff_Inr [OF l] by blast
  then have "list_ex (\<lambda>row. case Active (loaded db req row) of None \<Rightarrow> False | Some st \<Rightarrow> may_sign db req row st \<and> si_id st \<noteq> [])
      (db_instances db)"
    using n by (force simp: list_ex_iff may_sign_def NewSignoff_ok)
  moreover have "\<exists>g st. new_vote env req db st g" using assms(1,3) by (cases rule: RecordSignoff_cases) (use assms(2) in auto)
  ultimately show ?thesis by (auto simp: signoff_ready_def new_vote_def list_all_iff)
qed


section \<open>A vote on a sample instance\<close>

text \<open>The sample document under review, with two stages.\<close>

definition sample_stage :: "nat \<Rightarrow> StageStatus \<Rightarrow> StageInstance" where
  "sample_stage n stat = \<lparr>si_id = replicate (Suc n) (CHR ''s''), si_instance = ''i1'', si_order = int (Suc n), si_name = ''quality'',
     si_role = ''reviewer'', si_capability = ''doc.signoff'', si_area = ''prod'', si_quorum = QuorumAny1Of, si_quorum_m = None,
     si_drift = DriftKeepSnapshot, si_eligible = [], si_denominator = None, si_status = stat, si_opened = None, si_completed = None,
     si_skip_reason = []\<rparr>"

definition review_instance :: Instance where
  "review_instance = \<lparr>in_id = ''i1'', in_tenant = ''t1'', in_document = ''d1'', in_route = ''r1'', in_route_version = 1,
     in_status = InstanceInProgress, in_submitted_by = ''ana'', in_submitted_at = 5, in_completed = None,
     in_content_hash = replicate 64 (CHR ''a''), in_idem_key = replicate 64 (CHR ''b''), in_revision = 0, in_stages = []\<rparr>"

definition review_db :: database where
  "review_db = sample_db\<lparr>db_documents := [sample_doc\<lparr>d_status := ''under_review'', d_revision := 1\<rparr>],
     db_instances := [review_instance], db_stages := [sample_stage 0 StageActive, sample_stage 1 StagePending]\<rparr>"

definition sample_vote :: SignoffRequest where
  "sample_vote = \<lparr>sq_tenant = ''t1'', sq_instance = ''i1'', sq_stage = [], sq_actor = ''bob'', sq_decision = ''approve'',
     sq_comment = [], sq_method = ''password'', sq_payload = [], sq_form = [(''title'', AnyStr ''Welding'')],
     sq_capabilities = [''doc.signoff'']\<rparr>"

definition sample_freeze :: freeze_invoker where
  "sample_freeze = Some (\<lambda>_ _ _. returnT ())"

lemma sample_freeze_frame: "freeze_frame sample_freeze"
  by (simp add: freeze_frame_def sample_freeze_def)

lemma sample_freeze_ok: "freeze_ok sample_freeze"
  by (simp add: freeze_ok_def sample_freeze_def)

lemmas review_simps = review_db_def sample_stage_def review_instance_def sample_db_simps

lemma review_stages: "stages_of review_db ''i1'' = [sample_stage 0 StageActive, sample_stage 1 StagePending]"
  by (simp add: stages_of_def review_simps)

lemma review_sound:
  "integrity review_db" "shapes_ok review_db" "signoffs_valid review_db" "signoff_env sample_env review_db"
  by (simp_all add: integrity_defs shapes_ok_def signoffs_valid_def signoff_env_def calm_sample sample_env_def stages_of_def
      review_simps stage_key_def stage_done_def stage_pending_def)

lemma ready_at:
  assumes "stages_of db ''i1'' = st # rest" and "is_active st" and "si_id st \<noteq> []" and "db = review_db\<lparr>db_stages := ss\<rparr>"
    and "dec \<in> {DecisionApprove, DecisionReject}"
  shows "signoff_ready sample_env (sample_vote\<lparr>sq_decision := dec\<rparr>) db"
proof -
  let ?req = "sample_vote\<lparr>sq_decision := dec\<rparr>"
  have a: "Active (loaded db ?req review_instance) = Some st"
    using assms(1,2) by (simp add: Active_def sample_vote_def)
  have "may_sign db ?req review_instance st"
    unfolding may_sign_def a
    by (simp add: assms(4) sample_vote_def has_capability_def doc_area_code_def doc_area_def review_simps)
  moreover have "request_ok sample_env ?req" using assms(5)
    by (simp add: request_ok_def sample_vote_def ValidateEventPayload_def marshalSignaturePayload_def)
  moreover have "signoff_author db ''i1'' \<noteq> Some ''bob''" by (simp add: assms(4) signoff_author_def review_simps)
  ultimately show ?thesis using a assms(3,4)
    by (auto simp: signoff_ready_def sample_vote_def review_db_def sample_db_def)
qed

lemma review_ready: "signoff_ready sample_env sample_vote review_db"
  using ready_at [OF review_stages, of _ DecisionApprove] by (simp add: sample_stage_def sample_vote_def DecisionApprove_def review_db_def)



theorem signoff_refines_instance_witness:
  "\<exists>res db' inst'. RecordSignoff sample_env sample_freeze sample_vote review_db = (Inr res, db') \<and>
     view db' ''i1'' = Some inst' \<and> instance_wf inst'"
proof -
  obtain res db' where r: "RecordSignoff sample_env sample_freeze sample_vote review_db = (Inr res, db')"
    using signoff_runs [OF review_sound(4,1,2,3) sample_freeze_ok review_ready] by blast
  let ?inst = "review_instance\<lparr>in_stages := [sample_stage 0 StageActive, sample_stage 1 StagePending]\<rparr>"
  have v: "view review_db (sq_instance sample_vote) = Some ?inst"
    using review_stages by (simp add: view_def sample_vote_def) (simp add: review_db_def review_instance_def)
  have w: "instance_wf ?inst" "in_status ?inst = InstanceInProgress"
    by (simp_all add: instance_wf_def review_instance_def sample_stage_def stage_done_def stage_pending_def)
  obtain a b where ab: "res = (a, b)" by (cases res)
  from signoff_refines_instance [OF r [unfolded ab] sample_freeze_frame review_sound(1) v w] r show ?thesis
    by (auto simp: sample_vote_def)
qed


section \<open>What a signoff does not do\<close>

lemma voted_documents:
  "outcome = QuorumApprovedStage \<longrightarrow> \<not> (\<exists>i. AdvanceStage (ev_now env 0) inst = Inr i \<and> in_status i = InstanceApproved) \<Longrightarrow>
   db_documents (outcome_tables env req inst st outcome db) = db_documents db"
  by (auto simp: outcome_tables_def Let_def split: QuorumOutcome.splits sum.splits option.splits)

text \<open>
  C5. A signoff touches documents only by approving: unless the answer says that the instance is approved, no document changes. In
  particular a signoff that rejects the instance leaves the document under review, although the life cycle has a state for it.
\<close>

theorem signoff_documents:
  assumes "RecordSignoff env freeze req db = (Inr (res, pdf), db')" and "freeze_frame freeze" and "integrity db"
    and "view db (sq_instance req) = Some inst"
  shows "db_documents db' = (if re_approved res
      then update_where (\<lambda>d. d_id d = in_document inst \<and> d_tenant d = sq_tenant req \<and> d_status d = ''under_review'')
        (set_status ''approved'') (db_documents db)
      else db_documents db)"
  using assms(1,2)
proof (cases rule: RecordSignoff_cases)
  case (voted row st g e i)
  have "in_document inst = in_document i"
    using view_row [of db row] assms(3,4) voted(1,2) by (auto simp: may_sign_def integrity_defs)
  with voted(4,5) show ?thesis
    by (auto simp: voted_tables_def outcome_result_def no_result_def outcome_tables_def Let_def approve_doc_def close_row_def
        split: QuorumOutcome.splits sum.splits option.splits if_splits)
qed (simp add: no_result_def)

definition sample_reject :: SignoffRequest where
  "sample_reject = sample_vote\<lparr>sq_decision := ''reject''\<rparr>"

lemma reject_ready: "signoff_ready sample_env sample_reject review_db"
  using ready_at [OF review_stages, of _ DecisionReject] by (simp add: sample_stage_def sample_reject_def DecisionReject_def review_db_def)

theorem signoff_documents_witness:
  "\<exists>res pdf db'. RecordSignoff sample_env sample_freeze sample_reject review_db = (Inr (res, pdf), db') \<and>
     (\<not> re_approved res \<longrightarrow> db_documents db' = db_documents review_db)"
proof -
  obtain r db' where r: "RecordSignoff sample_env sample_freeze sample_reject review_db = (Inr r, db')"
    using signoff_runs [OF review_sound(4,1,2,3) sample_freeze_ok reject_ready] by blast
  obtain a b where ab: "r = (a, b)" by (cases r)
  have "view review_db (sq_instance sample_reject) = Some (loaded review_db sample_reject review_instance)"
    by (simp add: view_def sample_reject_def sample_vote_def review_db_def review_instance_def)
  from signoff_documents [OF r [unfolded ab] sample_freeze_frame review_sound(1) this] r ab show ?thesis by auto
qed

text \<open>
  C10. A stage with the policy m of n, m at least two, is rejected by its very first vote, even by an approval: the stages a submission
  stores have no eligible actors, so the denominator is 1, and the test for an early rejection compares no rejection at all
  with a negative number.
\<close>

theorem m_of_n_first_vote_rejects:
  assumes "RecordSignoff env freeze req db = (Inr (res, pdf), db')" and "freeze_frame freeze" and "db_signoffs db' \<noteq> db_signoffs db"
    and "integrity db" and "view db (sq_instance req) = Some inst" and "Active inst = Some st"
    and "si_quorum st = QuorumMofN" and "si_quorum_m st = Some m" and "2 \<le> m" and "si_eligible st = []"
    and "\<forall>g \<in> set (db_signoffs db). sg_stage g \<noteq> si_id st"
  shows "re_rejected res \<and> \<not> re_stage_completed res \<and>
    (\<exists>inst'. view db' (sq_instance req) = Some inst' \<and> in_status inst' = InstanceRejected)"
  using assms(1,2)
proof (cases rule: RecordSignoff_cases)
  case (voted row st' g e i)
  have row: "row \<in> set (db_instances db)" "in_id row = sq_instance req" "in_tenant row = sq_tenant req"
    "in_status row = InstanceInProgress" using voted(1) by (simp_all add: may_sign_def)
  have d: "distinct (map in_id (db_instances db))" using assms(4) by (simp add: integrity_defs)
  have "inst = i" using view_row [OF d row(1)] assms(5) row(2) voted(2) by simp
  with assms(6) voted(1,2) have st: "st' = st" by (simp add: may_sign_def)
  have none: "filter (\<lambda>x. sg_stage x = si_id st \<and> sg_decision x = dec) (db_signoffs db) = []" for dec
    using assms(11) by (auto simp: filter_empty_conv)
  have o: "stage_outcome (with_signoff db g) st = QuorumRejectedStage"
    using voted(3) assms(7-10) none
    by (auto simp: st stage_outcome_def EvaluateQuorum_def counted_def signoff_denominator_def ComputeEffectiveDenominator_def
        new_vote_def DecisionApprove_def DecisionReject_def)
  have "view (close_row (sq_tenant req) (sq_instance req) InstanceRejected (ev_now env 0)
      (set_stage env (sq_tenant req) (si_id st) StageRejectedHere StageActive (with_signoff db g))) (sq_instance req) =
    Some (row\<lparr>in_status := InstanceRejected, in_completed := Some (ev_now env 0), in_stages :=
      stages_of (set_stage env (sq_tenant req) (si_id st) StageRejectedHere StageActive (with_signoff db g)) (sq_instance req)\<rparr>)"
    using row d by (intro view_close_row) simp_all
  with voted(4,5) o st show ?thesis
    by (simp add: outcome_result_def no_result_def voted_tables_def outcome_tables_def Let_def)
qed (use assms(3) in simp)

definition mofn_db :: database where
  "mofn_db = review_db\<lparr>db_stages := [(sample_stage 0 StageActive)\<lparr>si_quorum := QuorumMofN, si_quorum_m := Some 2\<rparr>]\<rparr>"

lemma mofn_stages: "stages_of mofn_db ''i1'' = [(sample_stage 0 StageActive)\<lparr>si_quorum := QuorumMofN, si_quorum_m := Some 2\<rparr>]"
  by (simp add: stages_of_def mofn_db_def sample_stage_def)

lemma mofn_sound: "integrity mofn_db" "shapes_ok mofn_db" "signoffs_valid mofn_db" "signoff_env sample_env mofn_db"
  by (simp_all add: integrity_defs shapes_ok_def signoffs_valid_def signoff_env_def calm_sample sample_env_def stages_of_def
      mofn_db_def review_simps stage_key_def stage_done_def)

lemma mofn_ready: "signoff_ready sample_env sample_vote mofn_db"
  using ready_at [OF mofn_stages, of _ DecisionApprove] by (simp add: sample_stage_def sample_vote_def DecisionApprove_def mofn_db_def)

theorem m_of_n_first_vote_rejects_witness:
  "\<exists>res pdf db'. RecordSignoff sample_env sample_freeze sample_vote mofn_db = (Inr (res, pdf), db') \<and>
     sq_decision sample_vote = ''approve'' \<and> re_rejected res"
proof -
  obtain r db' where r: "RecordSignoff sample_env sample_freeze sample_vote mofn_db = (Inr r, db')"
    and n: "db_signoffs db' \<noteq> db_signoffs mofn_db"
    using signoff_runs [OF mofn_sound(4,1,2,3) sample_freeze_ok mofn_ready] by blast
  obtain a b where ab: "r = (a, b)" by (cases r)
  let ?st = "(sample_stage 0 StageActive)\<lparr>si_quorum := QuorumMofN, si_quorum_m := Some 2\<rparr>"
  have v: "view mofn_db (sq_instance sample_vote) = Some (review_instance\<lparr>in_stages := [?st]\<rparr>)"
    using mofn_stages by (simp add: view_def sample_vote_def) (simp add: mofn_db_def review_db_def review_instance_def)
  have "re_rejected a"
    using m_of_n_first_vote_rejects [OF r [unfolded ab] sample_freeze_frame n mofn_sound(1) v, of ?st 2]
    by (simp add: Active_def sample_stage_def mofn_db_def review_db_def sample_db_def)
  with r ab show ?thesis by (auto simp: sample_vote_def)
qed

end
