(* ===== verification/Approval_System.thy ===== *)
theory Approval_System
  imports Service_Laws Decision_Props
begin

text \<open>
  The approval subsystem as a whole: the requests the services accept, one step of the system for each
  request (with any clock, any identifiers and any pattern of failing statements), and what holds
  along every run: failed requests change nothing, the tables only evolve, and the keys and
  references stay intact.
\<close>

section \<open>Requests and runs\<close>

datatype request =
    ReqSubmit SubmitRequest | ReqSignoff SignoffRequest | ReqPublish PublishRequest
  | ReqSchedule SchedulePublishRequest | ReqSupersede SupersedeRequest | ReqObsolete MarkObsoleteRequest
  | ReqCancel CancelInput | ReqRunDue | ReqCreateRoute CreateRouteInput | ReqUpdateRoute UpdateRouteInput
  | ReqDeactivateRoute DeactivateRouteInput

definition forget :: "(gerr + 'a) \<times> database \<Rightarrow> (gerr + unit) \<times> database" where
  "forget r = map_prod (map_sum id (\<lambda>_. ())) id r"

fun serve :: "env \<Rightarrow> freeze_invoker \<Rightarrow> request \<Rightarrow> database \<Rightarrow> (gerr + unit) \<times> database" where
  "serve env freeze (ReqSubmit r) db = forget (SubmitRevisionForReview env r db)"
| "serve env freeze (ReqSignoff r) db = forget (RecordSignoff env freeze r db)"
| "serve env freeze (ReqPublish r) db = forget (PublishApproved env r db)"
| "serve env freeze (ReqSchedule r) db = forget (SchedulePublish env r db)"
| "serve env freeze (ReqSupersede r) db = forget (PublishSuperseding env r db)"
| "serve env freeze (ReqObsolete r) db = forget (MarkObsolete env r db)"
| "serve env freeze (ReqCancel r) db = forget (CancelInstance env r db)"
| "serve env freeze ReqRunDue db = forget (RunDuePublishes env db)"
| "serve env freeze (ReqCreateRoute r) db = forget (Route_Create env r db)"
| "serve env freeze (ReqUpdateRoute r) db = forget (Route_Update env r db)"
| "serve env freeze (ReqDeactivateRoute r) db = forget (Route_Deactivate env r db)"

inductive reach :: "freeze_invoker \<Rightarrow> database \<Rightarrow> database \<Rightarrow> bool" for freeze db0 where
  reach_start: "reach freeze db0 db0"
| reach_step: "reach freeze db0 db \<Longrightarrow> serve env freeze r db = (res, db') \<Longrightarrow> reach freeze db0 db'"

inductive_simps reach_start_simps: "reach freeze db0 db"

lemma forget_eqs:
  "forget x = (Inl e, db') \<longleftrightarrow> x = (Inl e, db')"
  "forget x = (Inr (), db') \<longleftrightarrow> (\<exists>y. x = (Inr y, db'))"
  by (cases x; cases "fst x"; auto simp: forget_def)+

section \<open>What a service owes the system\<close>

text \<open>
  The contract of a service, and what the system gets from it: an error leaves the tables as they
  were, a success lets them evolve and keeps their integrity.
\<close>

locale service =
  fixes svc :: "database \<Rightarrow> (gerr + 'a) \<times> database"
  assumes rolls_back: "svc db = (Inl e, db') \<Longrightarrow> db' = db"
    and commits: "svc db = (Inr x, db') \<Longrightarrow> db_evolves db db' \<and> (integrity db \<longrightarrow> integrity db')"
begin

lemma step_evolves: "svc db = (r, db') \<Longrightarrow> db_evolves db db'"
  by (cases r) (auto dest: rolls_back commits intro: db_evolves_refl)

lemma step_integrity: "svc db = (r, db') \<Longrightarrow> integrity db \<Longrightarrow> integrity db'"
  by (cases r) (auto dest: rolls_back commits)

lemma forget_step:
  "forget (svc db) = (r, db') \<Longrightarrow> db_evolves db db' \<and> (integrity db \<longrightarrow> integrity db')"
  using step_evolves step_integrity by (cases "svc db") (auto simp: forget_def)

end

lemma runTx_service:
  assumes "keepsT evolves body" and "keeps_integrity body"
  shows "service (runTx env bm cm body)"
proof
  fix db e db' assume "runTx env bm cm body db = (Inl e, db')"
  then show "db' = db" by (rule runTx_Inl)
next
  fix db x db' assume "runTx env bm cm body db = (Inr x, db')"
  then obtain s where "body (fresh_tx db) = Inr (x, s)" "db' = tx_db s" by (auto simp: runTx_Inr)
  with keepsT_D [OF assms(1)] keepsT_D [OF assms(2)] show "db_evolves db db' \<and> (integrity db \<longrightarrow> integrity db')"
    by fastforce
qed

lemma service_cong: "(\<And>db. svc db = svc' db) \<Longrightarrow> service svc \<Longrightarrow> service svc'"
  by (metis ext)

lemma failing_service: "service (\<lambda>db. (Inl e, db))"
  by unfold_locales auto

lemma guarded_service: "service svc \<Longrightarrow> service (\<lambda>db. if b then (Inl e, db) else svc db)"
  using failing_service by (cases b) simp_all

interpretation submit: service "SubmitRevisionForReview env req"
proof (cases "ValidateEventPayload (sr_form req)")
  case (Inl e)
  then show "service (SubmitRevisionForReview env req)"
    by (intro service_cong [OF _ failing_service]) (simp add: SubmitRevisionForReview_def)
next
  case (Inr u)
  let ?h = "ComputeContentHash (ev_nfc env)
    \<lparr>ch_tenant = sr_tenant req, ch_document = sr_document req, ch_revision = sr_revision req,
     ch_form = sr_form req, ch_values_hash = [], ch_schema_hash = []\<rparr>"
  show "service (SubmitRevisionForReview env req)"
  proof (cases ?h)
    case Inl': (Inl e)
    show ?thesis
      by (rule service_cong [OF _ failing_service]) (simp add: SubmitRevisionForReview_def Inr Inl')
  next
    case Inr': (Inr h)
    show ?thesis
      by (rule service_cong [OF _ runTx_service [OF ev.keeps_submit_body ig.keeps_submit_body]])
        (simp add: SubmitRevisionForReview_def Inr Inr' Let_def)
  qed
qed

interpretation publish: service "PublishApproved env preq"
  using runTx_service [OF ev.keeps_publish_body ig.keeps_publish_body]
  by (rule service_cong [rotated]) (simp add: PublishApproved_def)

interpretation supersede: service "PublishSuperseding env ureq"
  using runTx_service [OF ev.keeps_supersede_body ig.keeps_supersede_body]
  by (rule service_cong [rotated]) (simp add: PublishSuperseding_def)

interpretation obsolete: service "MarkObsolete env oreq"
  using runTx_service [OF ev.keeps_obsolete_body ig.keeps_obsolete_body]
  by (rule service_cong [rotated]) (simp add: MarkObsolete_def)

interpretation create_route: service "Route_Create env cinp"
  using runTx_service [OF ev.keeps_create_route_body ig.keeps_create_route_body]
  by (rule service_cong [rotated]) (simp add: Route_Create_def)

interpretation update_route: service "Route_Update env uinp"
  using runTx_service [OF ev.keeps_update_route_body ig.keeps_update_route_body]
  by (rule service_cong [rotated]) (simp add: Route_Update_def)

interpretation deactivate_route: service "Route_Deactivate env dinp"
  using runTx_service [OF ev.keeps_deactivate_route_body ig.keeps_deactivate_route_body]
  by (rule service_cong [rotated]) (simp add: Route_Deactivate_def)

interpretation schedule: service "SchedulePublish env sreq"
  unfolding SchedulePublish_def [abs_def]
  by (rule guarded_service [OF runTx_service [OF ev.keeps_schedule_body ig.keeps_schedule_body]])

interpretation cancel: service "CancelInstance env inp"
  unfolding CancelInstance_def [abs_def]
  by (rule guarded_service [OF runTx_service [OF ev.keeps_cancel_body ig.keeps_cancel_body]])

text \<open>The signoff service keeps the contract when its freeze invoker leaves the modelled columns alone.\<close>

lemma signoff_service:
  assumes "freeze_frame freeze"
  shows "service (RecordSignoff env freeze req)"
proof (cases "ValidateEventPayload (sq_payload req)")
  case (Inl e)
  show ?thesis by (rule service_cong [OF _ failing_service]) (simp add: RecordSignoff_def Inl)
next
  case (Inr u)
  let ?h = "ComputeContentHash (ev_nfc env)
    \<lparr>ch_tenant = sq_tenant req, ch_document = sq_instance req, ch_revision = 0,
     ch_form = sq_form req, ch_values_hash = [], ch_schema_hash = []\<rparr>"
  show ?thesis
  proof (cases ?h)
    case Inl': (Inl e)
    show ?thesis by (rule service_cong [OF _ failing_service]) (simp add: RecordSignoff_def Inr Inl')
  next
    case Inr': (Inr h)
    show ?thesis
      by (rule service_cong [OF _ runTx_service [OF ev.keeps_signoff_body [OF assms] ig.keeps_signoff_body [OF assms]]])
        (simp add: RecordSignoff_def Inr Inr')
  qed
qed

text \<open>The scheduler runs one transaction per due document.\<close>

lemma processRow_step:
  assumes "processRow env row db = (r, db')"
  shows "db_evolves db db' \<and> (integrity db \<longrightarrow> integrity db')"
proof -
  consider "db' = db" | published s where "process_body env row (fresh_tx db) = Inr (published, s)" "db' = tx_db s"
    using assms by (auto simp: processRow_def Let_def split: option.splits sum.splits)
  then show ?thesis
  proof cases
    case 1
    then show ?thesis by (simp add: db_evolves_refl)
  next
    case 2
    with keepsT_D [OF ev.keeps_process_body 2(1)] keepsT_D [OF ig.keeps_process_body 2(1)] show ?thesis by simp
  qed
qed

lemma process_rows_step:
  "process_rows env rows db = (r, db') \<Longrightarrow> db_evolves db db' \<and> (integrity db \<longrightarrow> integrity db')"
proof (induction rows arbitrary: db r db')
  case (Cons row rows)
  obtain x mid where m: "processRow env row db = (x, mid)" by fastforce
  obtain y last where l: "process_rows env rows mid = (y, last)" by fastforce
  have "last = db'" using Cons.prems m l by (cases y; cases x) (auto simp: Let_def)
  with Cons.IH [OF l] processRow_step [OF m] show ?case by (blast intro: db_evolves_trans)
qed (simp add: db_evolves_refl)

interpretation run_due: service "RunDuePublishes env"
proof
  fix db e db' assume "RunDuePublishes env db = (Inl e, db')"
  then show "db' = db" by (auto simp: RunDuePublishes_def split: prod.splits sum.splits dest: runTx_Inl)
next
  fix db x db' assume "RunDuePublishes env db = (Inr x, db')"
  then obtain rows mid r where m: "runTx env ''scheduler: begin fetch tx'' ''scheduler: commit fetch tx''
      (wrapT ''scheduler: fetch due publishes'' (ListScheduledDue env (ev_now env 0) schedulerBatchLimit)) db = (Inr rows, mid)"
    and p: "process_rows env rows mid = (r, db')"
    by (auto simp: RunDuePublishes_def split: prod.splits sum.splits)
  have "mid = db" using m by (auto simp: runTx_Inr ListScheduledDue_def seq_simps)
  with process_rows_step [OF p] show "db_evolves db db' \<and> (integrity db \<longrightarrow> integrity db')" by simp
qed

section \<open>Properties\<close>

lemma serve_step:
  assumes "freeze_frame freeze" and "serve env freeze r db = (res, db')"
  shows "db_evolves db db' \<and> (integrity db \<longrightarrow> integrity db')"
  using assms(2)
proof (cases r)
  case (ReqSignoff q)
  with assms service.forget_step [OF signoff_service [OF assms(1)]] show ?thesis by auto
qed (auto dest: submit.forget_step publish.forget_step schedule.forget_step supersede.forget_step
    obsolete.forget_step cancel.forget_step run_due.forget_step create_route.forget_step
    update_route.forget_step deactivate_route.forget_step)

lemma reach_step_facts:
  assumes "reach freeze db0 db" and "freeze_frame freeze"
  shows "db_evolves db0 db \<and> (integrity db0 \<longrightarrow> integrity db)"
  using assms
proof (induction rule: reach.induct)
  case (reach_step db env r res db')
  with serve_step [OF reach_step.prems reach_step.hyps(2)] show ?case by (blast intro: db_evolves_trans)
qed (simp add: db_evolves_refl)

lemma RecordSignoff_rolls_back: "RecordSignoff env freeze req db = (Inl e, db') \<Longrightarrow> db' = db"
  by (auto simp: RecordSignoff_def split: sum.splits dest: runTx_Inl)


text \<open>The sample system: one submission.\<close>

lemma sample_reach:
  obtains db where "reach sample_freeze sample_db db"
    "SubmitRevisionForReview sample_env sample_submit sample_db = (Inr ''u'', db)"
proof -
  obtain db where r: "SubmitRevisionForReview sample_env sample_submit sample_db = (Inr ''u'', db)"
    by (rule sample_submit_run)
  then have "serve sample_env sample_freeze (ReqSubmit sample_submit) sample_db = (Inr (), db)"
    by (simp add: forget_def)
  then have "reach sample_freeze sample_db db" by (rule reach_step [OF reach_start])
  with r show thesis by (rule that[rotated])
qed


text \<open>
  C2. Along every run of the system a document moves only on the edges of the life cycle (with the way back to
  draft that a cancellation takes), its revision version strictly increases whenever its status
  changes, no document disappears, and its identity, tenant and author never change.
\<close>

theorem reach_lifecycle:
  assumes "freeze_frame freeze" and "reach freeze db0 db" and "d \<in> set (db_documents db0)"
  shows "\<exists>d' \<in> set (db_documents db). d_id d' = d_id d \<and> d_tenant d' = d_tenant d \<and>
    d_created_by d' = d_created_by d \<and>
    (d_status d' = d_status d \<and> d_revision d' = d_revision d \<or>
     d_revision d < d_revision d' \<and> life_edge\<^sup>*\<^sup>* (d_status d) (d_status d'))"
proof -
  have "grows doc_evolves (db_documents db0) (db_documents db)"
    using reach_step_facts [OF assms(2,1)] by (simp add: db_evolves_def)
  then obtain d' where "d' \<in> set (db_documents db)" "doc_evolves d d'" using assms(3) by (rule grows_memberD)
  then show ?thesis by (intro bexI [of _ d']) (auto simp: doc_evolves_def split: if_splits)
qed

theorem reach_lifecycle_witness:
  "\<exists>db d'. reach sample_freeze sample_db db \<and> d' \<in> set (db_documents db) \<and> d_id d' = ''d1''"
proof -
  obtain db where r: "reach sample_freeze sample_db db" by (rule sample_reach)
  have "sample_doc \<in> set (db_documents sample_db)" by (simp add: sample_db_def)
  with reach_lifecycle [OF sample_freeze_frame r] have "\<exists>d' \<in> set (db_documents db). d_id d' = d_id sample_doc" by blast
  with r show ?thesis by (auto simp: sample_doc_def)
qed

text \<open>
  C16. The audit trail is append-only along every run: signoffs and governance events are never changed, removed or
  reordered, and an instance that has been approved, rejected or cancelled keeps that status for ever.
\<close>

theorem reach_audit_trail:
  assumes "freeze_frame freeze" and "reach freeze db0 db"
  shows "prefix (db_signoffs db0) (db_signoffs db) \<and> prefix (db_events db0) (db_events db) \<and>
    (\<forall>i. i \<in> set (db_instances db0) \<and> in_status i \<noteq> InstanceInProgress \<longrightarrow>
      (\<exists>i' \<in> set (db_instances db). same_row i i' \<and> in_status i' = in_status i))"
proof -
  have e: "db_evolves db0 db" using reach_step_facts [OF assms(2,1)] by simp
  then have g: "grows inst_evolves (db_instances db0) (db_instances db)" by (simp add: db_evolves_def)
  have "\<exists>i' \<in> set (db_instances db). same_row i i' \<and> in_status i' = in_status i"
    if "i \<in> set (db_instances db0)" "in_status i \<noteq> InstanceInProgress" for i
    using grows_memberD [OF g that(1)] that(2) by (auto simp: inst_evolves_def)
  with e show ?thesis by (simp add: db_evolves_def)
qed

theorem reach_audit_trail_witness:
  "\<exists>db. reach sample_freeze sample_db db \<and> length (db_events db) = 1 \<and> prefix (db_events sample_db) (db_events db)"
proof -
  obtain db where r: "reach sample_freeze sample_db db"
    "SubmitRevisionForReview sample_env sample_submit sample_db = (Inr ''u'', db)" by (rule sample_reach)
  obtain h k s where b: "submit_body sample_env sample_submit h k (fresh_tx sample_db) = Inr (''u'', s)" "db = tx_db s"
    using r(2) by (rule SubmitRevisionForReview_Inr)
  from submit_body_Inr [OF b(1)] b(2) have "length (db_events db) = 1" by (auto simp: sample_db_def)
  with r(1) reach_audit_trail [OF sample_freeze_frame r(1)] show ?thesis by blast
qed

text \<open>
  C15. Along every run the keys hold: a document never has two approval instances in progress, an actor never has two
  signoffs in one instance (whatever the stages), and every signoff belongs to a stage of its own instance.
\<close>

theorem reach_keys:
  assumes "freeze_frame freeze" and "reach freeze db0 db" and "integrity db0"
  shows "distinct (map in_document (filter (\<lambda>i. in_status i = InstanceInProgress) (db_instances db))) \<and>
    distinct (map (\<lambda>g. (sg_instance g, sg_actor g)) (db_signoffs db)) \<and>
    (\<forall>g \<in> set (db_signoffs db). \<exists>st \<in> set (db_stages db). si_id st = sg_stage g \<and> si_instance st = sg_instance g)"
proof -
  have i: "integrity db" using reach_step_facts [OF assms(2,1)] assms(3) by simp
  have "\<exists>st \<in> set (db_stages db). si_id st = sg_stage g \<and> si_instance st = sg_instance g"
    if "g \<in> set (db_signoffs db)" for g
  proof -
    have "(sg_stage g, sg_instance g) \<in> (\<lambda>s. (si_id s, si_instance s)) ` set (db_stages db)"
      using i that by (auto simp: integrity_defs)
    then show ?thesis by auto
  qed
  with i show ?thesis by (simp add: integrity_defs)
qed

theorem reach_keys_witness:
  "\<exists>db. reach sample_freeze sample_db db \<and>
     distinct (map in_document (filter (\<lambda>i. in_status i = InstanceInProgress) (db_instances db)))"
proof -
  obtain db where r: "reach sample_freeze sample_db db" by (rule sample_reach)
  with reach_keys [OF sample_freeze_frame r sample_integrity] show ?thesis by blast
qed

text \<open>
  C23. The transition trigger of the database and the domain's \<^verbatim>\<open>IsLegalTransition\<close> allow the same changes of
  state, except that the trigger also lets a running cancellation take a document from review back to draft.
\<close>

theorem trigger_matches_domain:
  "enforce_document_transition cancel (DocState_String a) (DocState_String b) \<longleftrightarrow>
     a = b \<or> IsLegalTransition a b \<or>
     a = StateUnderReview \<and> b = StateDraft \<and> cancel \<noteq> None \<and> cancel \<noteq> Some []"
  by (cases a; cases b)
    (simp_all add: enforce_document_transition_def trigger_edge_def IsLegalTransition_def legalTransitions_def
      split: option.splits)

end
