(* ===== verification/Release_Safety.thy ===== *)
theory Release_Safety
  imports Approval_System
begin

text \<open>
  What the approval process is for: no document is released without an approval. An invariant of the tables ties the
  status of a document to its instance, the instance to its stages, the stages to their signoffs, and the signoffs to
  actors other than the submitter and the author; every request keeps it.
\<close>

section \<open>The invariant\<close>

text \<open>The statuses behind an approval.\<close>

definition cleared :: "string \<Rightarrow> bool" where
  "cleared s \<longleftrightarrow> s \<in> {''approved'', ''scheduled'', ''published'', ''superseded'', ''obsolete''}"

definition documents_ok :: "database \<Rightarrow> bool" where
  "documents_ok db \<longleftrightarrow> (\<forall>d \<in> set (db_documents db). cleared (d_status d) \<longrightarrow>
     (\<exists>i \<in> set (db_instances db). in_document i = d_id d \<and> in_tenant i = d_tenant d \<and> in_status i = InstanceApproved))"

definition review_ok :: "database \<Rightarrow> Instance \<Rightarrow> bool" where
  "review_ok db i \<longleftrightarrow> shape_at StageActive (stages_of db (in_id i)) \<and>
     (\<exists>d \<in> set (db_documents db). d_id d = in_document i \<and> d_tenant d = in_tenant i \<and> d_status d = ''under_review'')"

definition approved_ok :: "database \<Rightarrow> Instance \<Rightarrow> bool" where
  "approved_ok db i \<longleftrightarrow> stages_of db (in_id i) \<noteq> [] \<and> (\<forall>s \<in> set (stages_of db (in_id i)). si_status s = StageCompleted)"

definition instances_ok :: "database \<Rightarrow> bool" where
  "instances_ok db \<longleftrightarrow> (\<forall>i \<in> set (db_instances db). in_revision i = 0 \<and>
     (in_status i = InstanceInProgress \<longrightarrow> review_ok db i) \<and> (in_status i = InstanceApproved \<longrightarrow> approved_ok db i))"

definition stage_ok :: "database \<Rightarrow> StageInstance \<Rightarrow> bool" where
  "stage_ok db s \<longleftrightarrow> si_status s \<noteq> StageSkipped \<and> 1 \<le> required_approvals s \<and> si_eligible s = [] \<and>
     (si_status s = StageCompleted \<longrightarrow> required_approvals s \<le> int (length (stage_votes db DecisionApprove (si_id s))))"

definition duties_ok :: "database \<Rightarrow> bool" where
  "duties_ok db \<longleftrightarrow> (\<forall>g \<in> set (db_signoffs db). \<exists>i \<in> set (db_instances db). in_id i = sg_instance g \<and>
     in_submitted_by i \<noteq> sg_actor g \<and> (\<forall>d \<in> set (db_documents db). d_id d = in_document i \<longrightarrow> d_created_by d \<noteq> sg_actor g))"

definition governed :: "database \<Rightarrow> bool" where
  "governed db \<longleftrightarrow> documents_ok db \<and> instances_ok db \<and> (\<forall>s \<in> set (db_stages db). stage_ok db s) \<and> duties_ok db"

lemmas governed_defs = governed_def documents_ok_def instances_ok_def duties_ok_def

lemma governed_events [simp]: "governed (db\<lparr>db_events := es\<rparr>) = governed db"
  by (simp add: governed_defs review_ok_def approved_ok_def stage_ok_def)

text \<open>Duties do not change while signoffs, instance owners and authors stay.\<close>

lemma duties_keep:
  assumes "duties_ok db" and "db_signoffs db' = db_signoffs db"
    and "\<And>i. i \<in> set (db_instances db) \<Longrightarrow> \<exists>i' \<in> set (db_instances db'). in_id i' = in_id i \<and>
      in_submitted_by i' = in_submitted_by i \<and> in_document i' = in_document i"
    and "\<And>d'. d' \<in> set (db_documents db') \<Longrightarrow> \<exists>d \<in> set (db_documents db). d_id d = d_id d' \<and> d_created_by d = d_created_by d'"
  shows "duties_ok db'"
  unfolding duties_ok_def assms(2)
proof
  fix x assume "x \<in> set (db_signoffs db)"
  with assms(1) obtain i where i: "i \<in> set (db_instances db)" "in_id i = sg_instance x" "in_submitted_by i \<noteq> sg_actor x"
    "\<forall>d \<in> set (db_documents db). d_id d = in_document i \<longrightarrow> d_created_by d \<noteq> sg_actor x" by (auto simp: duties_ok_def)
  from assms(3) [OF i(1)] obtain i' where i': "i' \<in> set (db_instances db')" "in_id i' = in_id i"
      "in_submitted_by i' = in_submitted_by i" "in_document i' = in_document i" by blast
  have "\<forall>d' \<in> set (db_documents db'). d_id d' = in_document i \<longrightarrow> d_created_by d' \<noteq> sg_actor x"
    using assms(4) i(4) by metis
  with i i' show "\<exists>i \<in> set (db_instances db'). in_id i = sg_instance x \<and> in_submitted_by i \<noteq> sg_actor x \<and>
      (\<forall>d \<in> set (db_documents db'). d_id d = in_document i \<longrightarrow> d_created_by d \<noteq> sg_actor x)" by (intro bexI [of _ i']) auto
qed

section \<open>Requests that only move cleared documents\<close>

definition doc_quiet :: "doc_row \<Rightarrow> doc_row \<Rightarrow> bool" where
  "doc_quiet d d' \<longleftrightarrow> d_id d' = d_id d \<and> d_tenant d' = d_tenant d \<and> d_created_by d' = d_created_by d \<and>
     (d_status d' = d_status d \<or> cleared (d_status d) \<and> cleared (d_status d'))"

definition quiet :: "database \<Rightarrow> database \<Rightarrow> bool" where
  "quiet db db' \<longleftrightarrow> db_instances db' = db_instances db \<and> db_stages db' = db_stages db \<and> db_signoffs db' = db_signoffs db \<and>
     list_all2 doc_quiet (db_documents db) (db_documents db')"

lemma doc_quiet_refl: "doc_quiet d d"
  by (simp add: doc_quiet_def)

lemma doc_quiet_trans: "doc_quiet a b \<Longrightarrow> doc_quiet b c \<Longrightarrow> doc_quiet a c"
  by (auto simp: doc_quiet_def)

lemma quiet_refl: "quiet db db"
  by (simp add: quiet_def list.rel_refl doc_quiet_refl)

lemma quiet_trans: "quiet a b \<Longrightarrow> quiet b c \<Longrightarrow> quiet a c"
  using list_all2_trans [of doc_quiet doc_quiet doc_quiet "db_documents a" "db_documents b" "db_documents c"] doc_quiet_trans
  by (simp add: quiet_def)

lemma list_all2_update_where:
  "list_all (\<lambda>r. P r \<longrightarrow> R r (f r)) t \<Longrightarrow> (\<And>r. R r r) \<Longrightarrow> list_all2 R t (update_where P f t)"
  by (induction t) auto

lemma quiet_documents:
  assumes "st \<in> {''published'', ''scheduled'', ''superseded'', ''obsolete''}"
  shows "keepsT (\<lambda>s s'. quiet (tx_db s) (tx_db s')) (update_documents P (write_status st ed))"
proof -
  have t: "doc_quiet d (write_status st ed d)" if "doc_triggers c d (write_status st ed d)" for c d
    using that assms
    by (auto simp: doc_quiet_def doc_triggers_def enforce_document_transition_def trigger_edge_def write_status_def
        set_status_def cleared_def split: if_splits)
  have "list_all2 doc_quiet docs (update_where P (write_status st ed) docs)"
    if "list_all (\<lambda>r. P r \<longrightarrow> doc_triggers c r (write_status st ed r)) docs" for c docs
    using that t by (intro list_all2_update_where) (auto simp: list_all_iff doc_quiet_refl)
  then show ?thesis
    by (auto simp: keepsT_def update_documents_def Let_def quiet_def split: if_splits)
qed

lemma quiet_frame:
  "quiet db (db\<lparr>db_events := es\<rparr>)" "quiet db (db\<lparr>db_routes := rs\<rparr>)" "quiet db (db\<lparr>db_route_stages := ts\<rparr>)"
  by (simp_all add: quiet_def list.rel_refl doc_quiet_refl)

interpretation qt: doc_frame "\<lambda>s s'. quiet (tx_db s) (tx_db s')" "{''published'', ''scheduled'', ''superseded'', ''obsolete''}"
  by unfold_locales
    (auto simp: quiet_refl quiet_frame intro: quiet_documents quiet_trans)

lemma list_all2_member:
  "list_all2 R xs ys \<Longrightarrow> y \<in> set ys \<Longrightarrow> \<exists>x \<in> set xs. R x y"
  "list_all2 R xs ys \<Longrightarrow> x \<in> set xs \<Longrightarrow> \<exists>y \<in> set ys. R x y"
  by (induction rule: list_all2_induct) auto

lemma quiet_memberD:
  assumes "quiet db db'" and "d' \<in> set (db_documents db')"
  obtains d where "d \<in> set (db_documents db)" "doc_quiet d d'"
  using assms list_all2_member(1) [of doc_quiet "db_documents db" "db_documents db'"] by (auto simp: quiet_def)

lemma quiet_memberI:
  assumes "quiet db db'" and "d \<in> set (db_documents db)"
  obtains d' where "d' \<in> set (db_documents db')" "doc_quiet d d'"
  using assms list_all2_member(2) [of doc_quiet "db_documents db" "db_documents db'"] by (auto simp: quiet_def)

lemma governed_quiet:
  assumes q: "quiet db db'" and g: "governed db"
  shows "governed db'"
proof -
  have same: "db_instances db' = db_instances db" "db_stages db' = db_stages db" "db_signoffs db' = db_signoffs db"
    and so: "stages_of db' i = stages_of db i" for i
    using q by (simp_all add: quiet_def stages_of_def)
  have "documents_ok db'" unfolding documents_ok_def same
  proof (intro ballI impI)
    fix d' assume d': "d' \<in> set (db_documents db')" "cleared (d_status d')"
    obtain d where d: "d \<in> set (db_documents db)" "doc_quiet d d'" using q d'(1) by (rule quiet_memberD)
    with d'(2) g show "\<exists>i \<in> set (db_instances db). in_document i = d_id d' \<and> in_tenant i = d_tenant d' \<and> in_status i = InstanceApproved"
      by (auto simp: governed_defs doc_quiet_def)
  qed
  moreover have "review_ok db' i" if "review_ok db i" for i
  proof -
    from that obtain d where d: "d \<in> set (db_documents db)" "d_id d = in_document i" "d_tenant d = in_tenant i" "d_status d = ''under_review''"
      by (auto simp: review_ok_def)
    obtain d' where "d' \<in> set (db_documents db')" "doc_quiet d d'" using q d(1) by (rule quiet_memberI)
    with d that show ?thesis by (auto simp: review_ok_def so doc_quiet_def cleared_def)
  qed
  moreover have "duties_ok db'"
  proof (rule duties_keep)
    show "duties_ok db" using g by (simp add: governed_def)
    fix d' assume d': "d' \<in> set (db_documents db')"
    obtain d where "d \<in> set (db_documents db)" "doc_quiet d d'" using q d' by (rule quiet_memberD)
    then show "\<exists>d \<in> set (db_documents db). d_id d = d_id d' \<and> d_created_by d = d_created_by d'" by (auto simp: doc_quiet_def)
  qed (auto simp: same)
  ultimately show ?thesis using g
    by (auto simp: governed_def instances_ok_def approved_ok_def stage_ok_def same so)
qed


section \<open>Submissions\<close>

lemma required_pos:
  assumes "route_wf stages" and "x \<in> set (new_stage_instances env i now stages)"
  shows "1 \<le> required_approvals x"
proof -
  from assms(2) obtain k st where "(k, st) \<in> set (enumerate 0 stages)" and x: "x = stage_instance_of env i now k st"
    by (auto simp: new_stage_instances_def)
  then have m: "st \<in> set stages" by (auto simp: in_set_enumerate_eq)
  have "quorum_m_ok st" using assms(1) m by (simp add: route_wf_def list_all_iff)
  moreover have q: "si_quorum x = st_quorum st" "si_quorum_m x = st_quorum_m st" by (simp_all add: x stage_instance_of_def)
  ultimately show ?thesis using signoff_denominator_pos [of x]
    by (auto simp: required_approvals_def quorum_m_ok_def q split: QuorumPolicy.splits option.splits)
qed

lemma new_stage_status:
  "x \<in> set (new_stage_instances env i now stages) \<Longrightarrow> si_status x \<in> {StageActive, StagePending} \<and> si_eligible x = []"
  by (auto simp: new_stage_instances_def stage_instance_of_def split: if_splits)

lemma required_stored [simp]: "required_approvals (stored_stage x) = required_approvals x"
  by (simp add: required_approvals_def signoff_denominator_def ComputeEffectiveDenominator_def cong: QuorumPolicy.case_cong)

lemma governed_submit:
  assumes "submit_body env req h k (fresh_tx db) = Inr (iid, s)" and g: "governed db" and ig: "integrity db"
  shows "governed (tx_db s)"
proof -
  let ?occ = "occ_row (sr_document req) (sr_tenant req) ''draft'' (sr_revision req)"
  from submit_body_Inr [OF assms(1)] obtain route payload where
    i: "route_wf (rt_stages route)" "iid \<notin> in_id ` set (db_instances db)" "iid = ev_uuid env 0" and
    d: "\<exists>d \<in> set (db_documents db). ?occ d" and
    t: "tx_db s = db\<lparr>
      db_instances := db_instances db @ [stored_instance env req h k route],
      db_stages := db_stages db @ map stored_stage (new_stage_instances env iid (ev_now env 1) (rt_stages route)),
      db_documents := update_where ?occ (set_status ''under_review'') (db_documents db),
      db_events := db_events db @ [submitted_event env req payload]\<rparr>" by blast
  let ?new = "map stored_stage (new_stage_instances env iid (ev_now env 1) (rt_stages route))"
  have docs: "d' \<in> set (db_documents (tx_db s)) \<longleftrightarrow> (\<exists>d \<in> set (db_documents db). d' = (if ?occ d then set_status ''under_review'' d else d))" for d'
    by (auto simp: t set_update_where)
  have "\<forall>x \<in> set (db_stages db). si_instance x \<noteq> iid" using ig i(2) by (auto simp: integrity_defs)
  then have new: "stages_of (tx_db s) iid = ?new" using i(1) by (rule stages_of_new) (simp add: t)
  have old: "stages_of (tx_db s) j = stages_of db j" if "j \<noteq> iid" for j
  proof -
    have "filter (\<lambda>x. si_instance x = j) ?new = []"
      using new_stages_fields(2) [of iid env "ev_now env 1" "rt_stages route"] that by (auto simp: filter_empty_conv list_all_iff)
    then show ?thesis by (simp add: stages_of_def t)
  qed
  have rev: "review_ok (tx_db s) j" if "j \<in> set (db_instances db)" "review_ok db j" for j
  proof -
    from that(2) obtain d where "d \<in> set (db_documents db)" "d_id d = in_document j" "d_tenant d = in_tenant j" "d_status d = ''under_review''"
      by (auto simp: review_ok_def)
    moreover from this have "d \<in> set (db_documents (tx_db s))" unfolding docs by (intro bexI [of _ d]) (auto simp: occ_row_def)
    moreover have "in_id j \<noteq> iid" using that(1) i(2) by blast
    ultimately show ?thesis using that old [of "in_id j"] by (auto simp: review_ok_def)
  qed
  have app: "approved_ok (tx_db s) j" if "j \<in> set (db_instances db)" "approved_ok db j" for j
  proof -
    have "in_id j \<noteq> iid" using that(1) i(2) by blast
    with that(2) old show ?thesis by (auto simp: approved_ok_def)
  qed
  have mine: "review_ok (tx_db s) (stored_instance env req h k route)"
  proof -
    obtain d0 where "d0 \<in> set (db_documents db)" "?occ d0" using d by blast
    then have "set_status ''under_review'' d0 \<in> set (db_documents (tx_db s))" unfolding docs by (intro bexI [of _ d0]) auto
    moreover have "shape_at StageActive ?new" using i(1) by (intro new_stages_shape) (simp add: route_wf_def)
    ultimately show ?thesis using \<open>?occ d0\<close> new i(3)
      by (auto simp: review_ok_def stored_instance_def new_instance_def occ_row_def set_status_def intro!: bexI [of _ "set_status ''under_review'' d0"])
  qed
  have "stage_ok (tx_db s) x" if "x \<in> set ?new" for x
    using that required_pos [OF i(1)] new_stage_status by (fastforce simp: stage_ok_def)
  moreover have "stage_ok (tx_db s) x" if "stage_ok db x" for x using that by (simp add: stage_ok_def t)
  ultimately have "\<forall>x \<in> set (db_stages (tx_db s)). stage_ok (tx_db s) x" using g by (auto simp: t governed_def)
  moreover have "instances_ok (tx_db s)" using g rev app mine
    by (auto simp: instances_ok_def governed_def t stored_instance_def new_instance_def)
  moreover have "documents_ok (tx_db s)" unfolding documents_ok_def
  proof (intro ballI impI)
    fix d' assume d': "d' \<in> set (db_documents (tx_db s))" "cleared (d_status d')"
    then obtain d where "d \<in> set (db_documents db)" "d' = (if ?occ d then set_status ''under_review'' d else d)" unfolding docs by blast
    with d'(2) have "d' \<in> set (db_documents db)" by (auto simp: set_status_def cleared_def split: if_splits)
    with d'(2) g show "\<exists>i \<in> set (db_instances (tx_db s)). in_document i = d_id d' \<and> in_tenant i = d_tenant d' \<and> in_status i = InstanceApproved"
      by (auto simp: governed_def documents_ok_def t)
  qed
  moreover have "duties_ok (tx_db s)"
  proof (rule duties_keep)
    show "duties_ok db" using g by (simp add: governed_def)
    fix d' assume "d' \<in> set (db_documents (tx_db s))"
    then show "\<exists>d \<in> set (db_documents db). d_id d = d_id d' \<and> d_created_by d = d_created_by d'"
      unfolding docs by (auto simp: set_status_def)
  qed (auto simp: t)
  ultimately show ?thesis by (simp add: governed_def)
qed


section \<open>Signoffs\<close>

lemma required_transition [simp]: "required_approvals (stage_transition t new s) = required_approvals s"
  by (simp add: required_approvals_def signoff_denominator_def ComputeEffectiveDenominator_def cong: QuorumPolicy.case_cong)

lemma governed_with_signoff:
  assumes v: "vote_cast env req db row st g ys zs" and g: "governed db"
  shows "governed (with_signoff db g)"
proof -
  have n: "new_vote env req db st g" and m: "may_sign db req row st" and ig: "integrity db" using v by (simp_all add: vote_cast_def)
  note f = vote_facts [OF v]
  have "d_created_by d \<noteq> sg_actor g" if d: "d \<in> set (db_documents db)" "d_id d = in_document row" for d
  proof -
    have "List.find (\<lambda>i. in_id i = sq_instance req) (db_instances db) = Some row"
      using find_unique_key [OF f(8,1)] f(2) by simp
    moreover have "List.find (\<lambda>x. d_id x = in_document row) (db_documents db) = Some d"
      using find_unique_key [of d_id "db_documents db" d] ig d by (simp add: integrity_defs)
    ultimately show ?thesis using n by (auto simp: new_vote_def signoff_author_def)
  qed
  moreover have "in_submitted_by row \<noteq> sg_actor g" "in_id row = sg_instance g"
    using m n by (auto simp: may_sign_def new_vote_def)
  ultimately have "duties_ok (with_signoff db g)" using g f(1) by (auto simp: governed_def duties_ok_def)
  moreover have "stage_ok (with_signoff db g) s" if "stage_ok db s" for s using that by (auto simp: stage_ok_def)
  ultimately show ?thesis using g
    by (auto simp: governed_def documents_ok_def instances_ok_def review_ok_def approved_ok_def)
qed

lemma set_stage_ok:
  assumes "\<forall>s \<in> set (db_stages db). stage_ok db s" and "new \<noteq> StageSkipped"
    and "\<And>s. s \<in> set (db_stages db) \<Longrightarrow> si_id s = sid \<Longrightarrow> new = StageCompleted \<Longrightarrow>
      required_approvals s \<le> int (length (stage_votes db DecisionApprove sid))"
  shows "\<forall>s \<in> set (db_stages (set_stage env t sid new old db)). stage_ok (set_stage env t sid new old db) s"
proof
  fix s assume "s \<in> set (db_stages (set_stage env t sid new old db))"
  then obtain s0 where s0: "s0 \<in> set (db_stages db)" "s = s0 \<or> s = stage_transition (ev_dbnow env) new s0 \<and> si_id s0 = sid"
    by (auto simp: set_stage_def set_update_where split: if_splits)
  have "stage_ok db s0" using assms(1) s0(1) by blast
  with s0 assms(2,3) show "stage_ok (set_stage env t sid new old db) s" by (auto simp: stage_ok_def)
qed

text \<open>Only one instance of a document is in progress.\<close>

lemma active_unique:
  assumes "integrity db" and "i \<in> set (db_instances db)" "j \<in> set (db_instances db)"
    and "in_status i = InstanceInProgress" "in_status j = InstanceInProgress" and "in_document i = in_document j"
  shows "i = j"
proof -
  have "distinct (map in_document (filter (\<lambda>i. in_status i = InstanceInProgress) (db_instances db)))"
    using assms(1) by (simp add: integrity_defs)
  from distinct_map_key [OF this, of i j] assms show ?thesis by simp
qed

lemma governed_votes_frame:
  assumes g: "governed db" and "db_documents db' = db_documents db" and "db_instances db' = db_instances db"
    and "db_signoffs db' = db_signoffs db" and "\<forall>s \<in> set (db_stages db'). stage_ok db' s"
    and "\<And>i. i \<in> set (db_instances db) \<Longrightarrow> in_id i \<noteq> iid \<Longrightarrow> stages_of db' (in_id i) = stages_of db (in_id i)"
    and "\<And>i. i \<in> set (db_instances db) \<Longrightarrow> in_id i = iid \<Longrightarrow> in_status i = InstanceInProgress \<and> shape_at StageActive (stages_of db' iid)"
  shows "governed db'"
proof -
  have "(in_status i = InstanceInProgress \<longrightarrow> review_ok db' i) \<and> (in_status i = InstanceApproved \<longrightarrow> approved_ok db' i)"
    if "i \<in> set (db_instances db)" for i
    using that assms(2,6,7) g by (cases "in_id i = iid") (auto simp: governed_def instances_ok_def review_ok_def approved_ok_def)
  then show ?thesis using g assms(2-5) by (auto simp: governed_defs)
qed

lemma completed_ok:
  assumes v: "vote_cast env req db row st g ys zs" and o: "cast_outcome db st g = QuorumApprovedStage" and g: "governed db"
  defines "d1 \<equiv> set_stage env (sq_tenant req) (si_id st) StageCompleted StageActive (with_signoff db g)"
  shows "\<forall>s \<in> set (db_stages d1). stage_ok d1 s"
  unfolding d1_def
proof (rule set_stage_ok)
  show "\<forall>s \<in> set (db_stages (with_signoff db g)). stage_ok (with_signoff db g) s"
    using governed_with_signoff [OF v g] by (simp add: governed_def)
  fix s assume "s \<in> set (db_stages (with_signoff db g))" "si_id s = si_id st"
  then have "s = st" using distinct_map_key [OF vote_facts(7) [OF v], of s st] vote_facts(5) [OF v] by simp
  with outcome_approved [OF o] show "required_approvals s \<le> int (length (stage_votes (with_signoff db g) DecisionApprove (si_id st)))"
    by simp
qed simp

lemma governed_next:
  assumes v: "vote_cast env req db row st g ys (y # zs)" and o: "cast_outcome db st g = QuorumApprovedStage" and g: "governed db"
  shows "governed (vote_tables env req db row st g)"
proof -
  let ?d0 = "with_signoff db g"
  let ?d1 = "set_stage env (sq_tenant req) (si_id st) StageCompleted StageActive ?d0"
  let ?d2 = "set_stage env (sq_tenant req) (si_id y) StageActive StagePending ?d1"
  note f = vote_facts [OF v]
  have g0: "governed ?d0" using v g by (rule governed_with_signoff)
  have "\<forall>s \<in> set (db_stages ?d1). stage_ok ?d1 s" using v o g by (rule completed_ok)
  then have ok: "\<forall>s \<in> set (db_stages ?d2). stage_ok ?d2 s" by (rule set_stage_ok) auto
  have "y \<in> set (stages_of db (sq_instance req))" using f(10) by simp
  then have y: "y \<in> set (db_stages db)" "si_instance y = sq_instance req" by (simp_all add: set_stages_of)
  have "y \<in> set (stages_of ?d1 (sq_instance req))" using complete_at [OF v] by simp
  then have y1: "y \<in> set (db_stages ?d1)" by (simp add: set_stages_of)
  have other: "stages_of ?d2 j = stages_of ?d0 j" if "j \<noteq> sq_instance req" for j
  proof -
    have "stages_of ?d2 j = stages_of ?d1 j" using f(7) y y1 that by (intro set_stage_other) auto
    also have "\<dots> = stages_of ?d0 j" using f(5-7) that by (intro set_stage_other) auto
    finally show ?thesis .
  qed
  have "in_status i = InstanceInProgress" if "i \<in> set (db_instances db)" "in_id i = sq_instance req" for i
    using distinct_map_key [OF f(8) that(1) f(1)] that(2) f(2,4) by simp
  moreover have "shape_at StageActive (stages_of ?d2 (sq_instance req))"
    using next_at [OF v] f(11,13) by (simp add: stage_done_def)
  ultimately show ?thesis unfolding tables_next [OF v o]
    using ok other by (intro governed_votes_frame [OF g0, of _ "sq_instance req"]) auto
qed


text \<open>Closing an instance that is in progress: the other instances are not concerned.\<close>

lemma close_row_members:
  "i \<in> set (db_instances (close_row t iid new now db)) \<longleftrightarrow> (\<exists>i0 \<in> set (db_instances db).
     i = (if in_id i0 = iid \<and> in_tenant i0 = t \<and> in_status i0 = InstanceInProgress then i0\<lparr>in_status := new, in_completed := Some now\<rparr> else i0))"
proof -
  have "db_instances (close_row t iid new now db) = update_where (\<lambda>i. in_id i = iid \<and> in_tenant i = t \<and> in_status i = InstanceInProgress)
      (\<lambda>i. i\<lparr>in_status := new, in_completed := Some now\<rparr>) (db_instances db)"
    by (simp add: close_row_def)
  then show ?thesis by (simp only: in_update_where)
qed

lemma replaced_member: "r \<in> A \<Longrightarrow> (\<exists>x \<in> A. i = (if x = r then r' else x)) \<longleftrightarrow> i = r' \<or> i \<in> A \<and> i \<noteq> r"
  by auto

lemma governed_close:
  assumes g: "governed db" and ig: "integrity db" and row: "row \<in> set (db_instances db)" "in_id row = iid" "in_tenant row = t"
      "in_status row = InstanceInProgress"
    and new: "new \<noteq> InstanceInProgress" "new = InstanceApproved \<Longrightarrow> approved_ok db' row"
    and tables: "db_instances db' = db_instances (close_row t iid new now db)" "db_signoffs db' = db_signoffs db"
      "\<forall>s \<in> set (db_stages db'). stage_ok db' s"
      "\<And>j. j \<noteq> iid \<Longrightarrow> stages_of db' j = stages_of db j"
    and docs: "db_documents db' = update_where (\<lambda>d. d_id d = in_document row \<and> d_tenant d = in_tenant row \<and> P d) (set_status st) (db_documents db)"
      "cleared st \<longrightarrow> new = InstanceApproved"
  shows "governed db'"
proof -
  let ?U = "\<lambda>d. d_id d = in_document row \<and> d_tenant d = in_tenant row \<and> P d"
  let ?row = "row\<lparr>in_status := new, in_completed := Some now\<rparr>"
  have mem: "d' \<in> set (db_documents db') \<longleftrightarrow> (\<exists>d \<in> set (db_documents db). d' = (if ?U d then set_status st d else d))" for d'
    unfolding docs(1) by (rule in_update_where)
  have one: "i = row" if "i \<in> set (db_instances db)" "in_id i = iid" for i
    using distinct_map_key [of in_id "db_instances db" i row] ig that row(1,2) by (simp add: integrity_defs)
  have inst: "i \<in> set (db_instances db') \<longleftrightarrow> i = ?row \<or> i \<in> set (db_instances db) \<and> i \<noteq> row" for i
  proof -
    have c: "(if in_id i0 = iid \<and> in_tenant i0 = t \<and> in_status i0 = InstanceInProgress then i0\<lparr>in_status := new, in_completed := Some now\<rparr> else i0) =
        (if i0 = row then ?row else i0)" if "i0 \<in> set (db_instances db)" for i0
    proof (cases "i0 = row")
      case False
      then have "in_id i0 \<noteq> iid" using one [OF that] by blast
      with False show ?thesis by simp
    qed (simp add: row(2-4))
    have "i \<in> set (db_instances db') \<longleftrightarrow> (\<exists>i0 \<in> set (db_instances db). i = (if i0 = row then ?row else i0))"
      unfolding tables(1) close_row_members by (rule bex_cong [OF refl]) (simp only: c)
    then show ?thesis unfolding replaced_member [OF row(1)] .
  qed
  have "documents_ok db'" unfolding documents_ok_def
  proof (intro ballI impI)
    fix d' assume d': "d' \<in> set (db_documents db')" "cleared (d_status d')"
    then obtain d where d: "d \<in> set (db_documents db)" "d' = (if ?U d then set_status st d else d)" unfolding mem by blast
    show "\<exists>i \<in> set (db_instances db'). in_document i = d_id d' \<and> in_tenant i = d_tenant d' \<and> in_status i = InstanceApproved"
    proof (cases "?U d")
      case True
      with d d'(2) docs(2) have "new = InstanceApproved" "d_id d' = in_document row" "d_tenant d' = in_tenant row"
        by (auto simp: set_status_def)
      then show ?thesis using inst by (intro bexI [of _ ?row]) auto
    next
      case False
      with d d'(2) g obtain i where "i \<in> set (db_instances db)" "in_document i = d_id d'" "in_tenant i = d_tenant d'" "in_status i = InstanceApproved"
        by (auto simp: governed_defs)
      moreover from this row(4) have "i \<noteq> row" by auto
      ultimately show ?thesis using inst by blast
    qed
  qed
  moreover have "instances_ok db'" unfolding instances_ok_def
  proof (intro ballI)
    fix i assume i: "i \<in> set (db_instances db')"
    show "in_revision i = 0 \<and> (in_status i = InstanceInProgress \<longrightarrow> review_ok db' i) \<and> (in_status i = InstanceApproved \<longrightarrow> approved_ok db' i)"
    proof (cases "i = ?row")
      case True
      moreover have "in_revision row = 0" using g row(1) by (auto simp: governed_def instances_ok_def)
      ultimately show ?thesis using new by (auto simp: approved_ok_def)
    next
      case False
      with i have m: "i \<in> set (db_instances db)" "i \<noteq> row" by (auto simp: inst)
      then have "in_id i \<noteq> iid" using one by blast
      then have so: "stages_of db' (in_id i) = stages_of db (in_id i)" by (rule tables(4))
      have "review_ok db' i" if p: "in_status i = InstanceInProgress" "review_ok db i"
      proof -
        have "in_document i \<noteq> in_document row" using active_unique [OF ig m(1) row(1) p(1) row(4)] m(2) by blast
        then have "d \<in> set (db_documents db')" if "d \<in> set (db_documents db)" "d_id d = in_document i" for d
          unfolding mem using that by (intro bexI [of _ d]) auto
        then show ?thesis using p(2) by (auto simp: review_ok_def so)
      qed
      with m g show ?thesis by (auto simp: governed_def instances_ok_def approved_ok_def so)
    qed
  qed
  moreover have "duties_ok db'"
  proof (rule duties_keep)
    show "duties_ok db" using g by (simp add: governed_def)
    fix i assume "i \<in> set (db_instances db)"
    then have "(if i = row then ?row else i) \<in> set (db_instances db')" unfolding inst by simp
    then show "\<exists>i' \<in> set (db_instances db'). in_id i' = in_id i \<and> in_submitted_by i' = in_submitted_by i \<and> in_document i' = in_document i"
      by (rule bexI [rotated]) simp
  next
    fix d' assume "d' \<in> set (db_documents db')"
    then show "\<exists>d \<in> set (db_documents db). d_id d = d_id d' \<and> d_created_by d = d_created_by d'"
      unfolding mem by (auto simp: set_status_def)
  qed (rule tables(2))
  ultimately show ?thesis using tables(3) by (simp add: governed_def)
qed


lemma governed_rejected:
  assumes v: "vote_cast env req db row st g ys zs" and o: "cast_outcome db st g = QuorumRejectedStage" and g: "governed db"
    and ig: "integrity (with_signoff db g)"
  shows "governed (vote_tables env req db row st g)"
proof -
  let ?d0 = "with_signoff db g"
  let ?d1 = "set_stage env (sq_tenant req) (si_id st) StageRejectedHere StageActive ?d0"
  note f = vote_facts [OF v]
  have g0: "governed ?d0" using v g by (rule governed_with_signoff)
  then have ok: "\<forall>s \<in> set (db_stages ?d1). stage_ok ?d1 s" by (intro set_stage_ok) (auto simp: governed_def)
  have "stages_of ?d1 j = stages_of ?d0 j" if "j \<noteq> sq_instance req" for j
    using f(5-7) that by (intro set_stage_other) auto
  with ok f(1-4) show ?thesis unfolding tables_rejected [OF o]
    by (intro governed_close [OF g0 ig, of row _ _ InstanceRejected _ _ "\<lambda>_. False" "''rejected''"])
      (auto simp: close_row_def cleared_def update_where_none stage_ok_def)
qed

lemma governed_last:
  assumes v: "vote_cast env req db row st g ys []" and o: "cast_outcome db st g = QuorumApprovedStage" and g: "governed db"
    and ig: "integrity (with_signoff db g)"
  shows "governed (vote_tables env req db row st g)"
proof -
  let ?d0 = "with_signoff db g"
  let ?d1 = "set_stage env (sq_tenant req) (si_id st) StageCompleted StageActive ?d0"
  let ?d2 = "approve_doc (sq_tenant req) (in_document row) (close_row (sq_tenant req) (sq_instance req) InstanceApproved (ev_now env 0) ?d1)"
  note f = vote_facts [OF v]
  have g0: "governed ?d0" using v g by (rule governed_with_signoff)
  have ok: "\<forall>s \<in> set (db_stages ?d1). stage_ok ?d1 s" using v o g by (rule completed_ok)
  have other: "stages_of ?d1 j = stages_of ?d0 j" if "j \<noteq> sq_instance req" for j
    using f(5-7) that by (intro set_stage_other) auto
  have "si_status s = StageCompleted" if "s \<in> set ys" for s
  proof -
    have "s \<in> set (stages_of db (sq_instance req))" using that f(10) by simp
    then have "stage_ok db s" using g by (simp add: set_stages_of governed_def)
    with f(11) that show ?thesis by (auto simp: list_all_iff stage_done_def stage_ok_def)
  qed
  then have "approved_ok ?d2 row" using complete_at [OF v, of StageCompleted] f(2) by (auto simp: approved_ok_def)
  with ok other f(1-4) show ?thesis unfolding tables_last [OF v o]
    by (intro governed_close [OF g0 ig, of row "sq_instance req" "sq_tenant req" InstanceApproved _ "ev_now env 0"
          "\<lambda>d. d_status d = ''under_review''" "''approved''"])
      (auto simp: close_row_def stage_ok_def approve_doc_def)
qed

lemma governed_vote:
  assumes v: "vote_cast env req db row st g ys zs" and g: "governed db" and ig: "integrity (with_signoff db g)"
  shows "governed (vote_tables env req db row st g)"
proof (cases "cast_outcome db st g")
  case QuorumPending
  then show ?thesis using governed_with_signoff [OF v g] by (simp add: tables_pending)
next
  case QuorumRejectedStage
  then show ?thesis using governed_rejected v g ig by blast
next
  case QuorumApprovedStage
  then show ?thesis using governed_last governed_next v g ig by (cases zs) blast+
qed


lemma vote_integrity:
  assumes "integrity db" and v: "vote_cast env req db row st g ys zs" and "sg_id g \<notin> sg_id ` set (db_signoffs db)"
  shows "integrity (with_signoff db g)"
proof -
  have n: "new_vote env req db st g" using v by (simp add: vote_cast_def)
  have "(sg_stage g, sg_instance g) \<in> (\<lambda>s. (si_id s, si_instance s)) ` set (db_stages db)"
    using vote_facts(5,6) [OF v] n by (auto simp: new_vote_def intro: rev_image_eqI)
  with assms(1,3) n show ?thesis by (auto simp: integrity_defs new_vote_def)
qed

lemma governed_signoff:
  assumes r: "RecordSignoff env freeze req db = (Inr res, db')" and ff: "freeze_frame freeze" and ig: "integrity db" and g: "governed db"
  shows "governed db'"
proof -
  have ig': "integrity db'" using r service.commits [OF signoff_service [OF ff]] ig by blast
  show ?thesis using r ff
  proof (cases rule: RecordSignoff_cases)
    case (voted row st x e inst)
    have row: "row \<in> set (db_instances db)" "in_id row = sq_instance req" "in_status row = InstanceInProgress"
      using voted(1) by (simp_all add: may_sign_def)
    have "shape_at StageActive (stages_of db (sq_instance req))"
      using g row by (auto simp: governed_def instances_ok_def review_ok_def)
    moreover have "List.find is_active (stages_of db (sq_instance req)) = Some st"
      using voted(1) by (simp add: may_sign_def Active_def)
    ultimately obtain ys zs where "stages_of db (sq_instance req) = ys @ st # zs" "list_all stage_done ys" "is_active st"
      "list_all stage_pending zs" by (rule active_split)
    with ig voted(1,3) have v: "vote_cast env req db row st x ys zs" by (simp add: vote_cast_def)
    have "db_signoffs db' = db_signoffs db @ [x]" by (simp add: voted(4) voted_signoffs)
    then have "sg_id x \<notin> sg_id ` set (db_signoffs db)" using ig' by (auto simp: integrity_defs)
    with vote_integrity [OF ig v] have "integrity (with_signoff db x)" by blast
    with governed_vote [OF v g] voted(2,4) show ?thesis by simp
  qed (use g in simp)
qed

section \<open>Cancellation\<close>

definition cancelled_tables :: "CancelInput \<Rightarrow> Instance \<Rightarrow> time \<Rightarrow> database \<Rightarrow> database" where
  "cancelled_tables inp row now db = (close_row (ci_tenant inp) (ci_instance inp) InstanceCancelled now db)\<lparr>
     db_stages := update_where (\<lambda>s. si_instance s = ci_instance inp \<and> si_status s \<in> {StageActive, StagePending})
       (\<lambda>s. s\<lparr>si_status := StageCancelled\<rparr>) (db_stages db),
     db_documents := update_where (occ_row (in_document row) (ci_tenant inp) ''under_review'' (ci_expected_revision inp))
       (set_status ''draft'') (db_documents db)\<rparr>"

lemma load_for_cancel_Inr:
  assumes "load_for_cancel env inp (fresh_tx db) = Inr (inst, s)"
  shows "tx_db s = db \<and> \<not> ci_bypass inp \<and> (\<exists>row \<in> set (db_instances db). in_id row = ci_instance inp \<and> in_tenant row = ci_tenant inp \<and>
    in_status row = InstanceInProgress \<and> in_document inst = in_document row)"
  using assms unfolding load_for_cancel_def fetch_area_for_update_def
  by (auto simp: seq_simps fresh_tx_def split: option.splits if_splits dest!: effects) blast

lemma cancel_body_Inr:
  assumes "cancel_body env inp (fresh_tx db) = Inr (docID, s)"
  shows "\<exists>row e. row \<in> set (db_instances db) \<and> in_id row = ci_instance inp \<and> in_tenant row = ci_tenant inp \<and>
    in_status row = InstanceInProgress \<and> docID = in_document row \<and> \<not> ci_bypass inp \<and>
    (\<exists>d \<in> set (db_documents db). occ_row docID (ci_tenant inp) ''under_review'' (ci_expected_revision inp) d) \<and>
    tx_db s = with_event (cancelled_tables inp row (ev_now env 0) db) e"
proof -
  obtain inst s1 where l: "load_for_cancel env inp (fresh_tx db) = Inr (inst, s1)"
    using assms by (auto simp: cancel_body_def seq_simps)
  obtain row where row: "row \<in> set (db_instances db)" "in_id row = ci_instance inp" "in_tenant row = ci_tenant inp"
    "in_status row = InstanceInProgress" "in_document inst = in_document row" and s1: "tx_db s1 = db" "\<not> ci_bypass inp"
    using load_for_cancel_Inr [OF l] by blast
  show ?thesis using assms l row s1
    by (auto simp: cancel_body_def cancel_stages_def seq_simps Let_def cancelled_tables_def close_row_def rows_affected_pos
        simp del: rows_affected_0 dest!: effects intro!: exI [of _ row])
qed


lemma governed_cancel:
  assumes b: "cancel_body env inp (fresh_tx db) = Inr (docID, s)" and g: "governed db" and ig: "integrity db"
  shows "governed (tx_db s)"
proof -
  obtain row e where row: "row \<in> set (db_instances db)" "in_id row = ci_instance inp" "in_tenant row = ci_tenant inp"
    "in_status row = InstanceInProgress" and t: "tx_db s = with_event (cancelled_tables inp row (ev_now env 0) db) e"
    using cancel_body_Inr [OF b] by blast
  let ?t = "cancelled_tables inp row (ev_now env 0) db"
  let ?P = "\<lambda>s. si_instance s = ci_instance inp \<and> si_status s \<in> {StageActive, StagePending}"
  have st: "db_stages ?t = update_where ?P (\<lambda>s. s\<lparr>si_status := StageCancelled\<rparr>) (db_stages db)"
    by (simp add: cancelled_tables_def)
  have ok: "\<forall>s \<in> set (db_stages ?t). stage_ok ?t s"
  proof
    fix s assume "s \<in> set (db_stages ?t)"
    then obtain s0 where s0: "s0 \<in> set (db_stages db)" "s = (if ?P s0 then s0\<lparr>si_status := StageCancelled\<rparr> else s0)"
      unfolding st in_update_where by blast
    have "required_approvals (s0\<lparr>si_status := StageCancelled\<rparr>) = required_approvals s0"
      by (simp add: required_approvals_def signoff_denominator_def ComputeEffectiveDenominator_def cong: QuorumPolicy.case_cong)
    moreover have "stage_ok db s0" using g s0(1) by (simp add: governed_def)
    ultimately show "stage_ok ?t s" using s0(2) by (simp add: stage_ok_def cancelled_tables_def)
  qed
  have other: "stages_of ?t j = stages_of db j" if "j \<noteq> ci_instance inp" for j
  proof -
    have "filter (\<lambda>s. si_instance s = j) (update_where ?P (\<lambda>s. s\<lparr>si_status := StageCancelled\<rparr>) xs) = filter (\<lambda>s. si_instance s = j) xs" for xs :: "StageInstance list"
      using that by (induction xs) auto
    then show ?thesis by (simp add: stages_of_def st)
  qed
  have "governed ?t"
  proof (rule governed_close [OF g ig row, of InstanceCancelled])
    show "db_documents ?t = update_where (\<lambda>d. d_id d = in_document row \<and> d_tenant d = in_tenant row \<and>
        (d_status d = ''under_review'' \<and> d_revision d = ci_expected_revision inp)) (set_status ''draft'') (db_documents db)"
      by (simp add: cancelled_tables_def occ_row_def row(3) update_where_def)
  qed (use ok other in \<open>auto simp: cancelled_tables_def close_row_def cleared_def\<close>)
  then show ?thesis by (simp add: t)
qed

section \<open>Obsoleting\<close>

text \<open>
  The statement that cancels the approval of an obsolete document never finds a row: an instance in progress belongs to a
  document under review.
\<close>

lemma obsolete_body_Inr:
  assumes "obsolete_body env req (fresh_tx db) = Inr (prior, s)"
  shows "\<exists>d e. d \<in> set (db_documents db) \<and> d_id d = mo_document req \<and> d_tenant d = mo_tenant req \<and> d_status d = prior \<and>
    prior \<in> {''published'', ''superseded''} \<and>
    tx_db s = with_event (db\<lparr>
      db_documents := update_where (occ_row (mo_document req) (mo_tenant req) prior (mo_revision req)) (set_status ''obsolete'') (db_documents db),
      db_instances := update_where (\<lambda>i. in_document i = mo_document req \<and> in_status i = InstanceInProgress)
        (\<lambda>i. i\<lparr>in_status := InstanceCancelled, in_completed := Some (ev_dbnow env)\<rparr>) (db_instances db)\<rparr>) e"
  using assms unfolding obsolete_body_def load_obsolete_source_def cancel_document_instances_def
  by (auto simp: seq_simps fresh_tx_def split: option.splits dest!: effects find_SomeD)
    ((rule exI conjI | assumption | rule refl)+)

lemma obsolete_quiet:
  assumes b: "obsolete_body env req (fresh_tx db) = Inr (prior, s)" and g: "governed db" and ig: "integrity db"
  shows "quiet db (tx_db s)"
proof -
  obtain d e where d: "d \<in> set (db_documents db)" "d_id d = mo_document req" "d_status d = prior" "prior \<in> {''published'', ''superseded''}"
    and t: "tx_db s = with_event (db\<lparr>
      db_documents := update_where (occ_row (mo_document req) (mo_tenant req) prior (mo_revision req)) (set_status ''obsolete'') (db_documents db),
      db_instances := update_where (\<lambda>i. in_document i = mo_document req \<and> in_status i = InstanceInProgress)
        (\<lambda>i. i\<lparr>in_status := InstanceCancelled, in_completed := Some (ev_dbnow env)\<rparr>) (db_instances db)\<rparr>) e"
    using obsolete_body_Inr [OF b] by blast
  have "\<not> (in_document i = mo_document req \<and> in_status i = InstanceInProgress)" if i: "i \<in> set (db_instances db)" for i
  proof
    assume p: "in_document i = mo_document req \<and> in_status i = InstanceInProgress"
    with i g obtain d' where d': "d' \<in> set (db_documents db)" "d_id d' = in_document i" "d_status d' = ''under_review''"
      by (auto simp: governed_def instances_ok_def review_ok_def)
    then have "d' = d" using distinct_map_key [of d_id "db_documents db" d' d] ig d p by (simp add: integrity_defs)
    with d d' show False by auto
  qed
  then have "update_where (\<lambda>i. in_document i = mo_document req \<and> in_status i = InstanceInProgress) f (db_instances db) = db_instances db" for f
    by (intro update_where_none) blast
  moreover have "list_all2 doc_quiet docs (update_where (occ_row (mo_document req) (mo_tenant req) prior (mo_revision req)) (set_status ''obsolete'') docs)" for docs
    using d(4) by (intro list_all2_update_where)
      (auto simp: list_all_iff doc_quiet_def occ_row_def set_status_def cleared_def)
  ultimately show ?thesis by (simp add: quiet_def t)
qed


lemma governed_obsolete:
  "obsolete_body env req (fresh_tx db) = Inr (prior, s) \<Longrightarrow> governed db \<Longrightarrow> integrity db \<Longrightarrow> governed (tx_db s)"
  using obsolete_quiet governed_quiet by blast

section \<open>Every request keeps the invariant\<close>

lemma runTx_governed:
  assumes "runTx env bm cm body db = (r, db')" and "governed db"
    and "\<And>x s. body (fresh_tx db) = Inr (x, s) \<Longrightarrow> governed (tx_db s)"
  shows "governed db'"
  using assms(1,2) by (cases r) (auto simp: runTx_Inr dest!: runTx_Inl assms(3))

lemma runTx_quiet:
  assumes "runTx env bm cm body db = (r, db')" and "keepsT (\<lambda>s s'. quiet (tx_db s) (tx_db s')) body" and "governed db"
  shows "governed db'"
  using assms(1,3) by (rule runTx_governed) (use keepsT_D [OF assms(2)] governed_quiet assms(3) in fastforce)

lemma process_rows_governed:
  "process_rows env rows db = (r, db') \<Longrightarrow> governed db \<Longrightarrow> governed db'"
proof (induction rows arbitrary: db r db')
  case (Cons row rows)
  obtain x mid where m: "processRow env row db = (x, mid)" by fastforce
  obtain y last where l: "process_rows env rows mid = (y, last)" by fastforce
  have "last = db'" using Cons.prems m l by (cases y; cases x) (auto simp: Let_def)
  moreover have "mid = db \<or> (\<exists>p s. process_body env row (fresh_tx db) = Inr (p, s) \<and> mid = tx_db s)"
    using m by (auto simp: processRow_def Let_def split: option.splits sum.splits)
  then have "quiet db mid" using keepsT_D [OF qt.keeps_process_body] quiet_refl by fastforce
  ultimately show ?case using Cons.IH [OF l] Cons.prems(2) governed_quiet by blast
qed simp

lemma governed_run_due:
  assumes "RunDuePublishes env db = (r, db')" and "governed db"
  shows "governed db'"
proof -
  let ?f = "runTx env ''scheduler: begin fetch tx'' ''scheduler: commit fetch tx''
      (wrapT ''scheduler: fetch due publishes'' (ListScheduledDue env (ev_now env 0) schedulerBatchLimit)) db"
  obtain x mid where m: "?f = (x, mid)" by fastforce
  have "governed mid" using m assms(2) by (rule runTx_governed) (use assms(2) in \<open>auto simp: ListScheduledDue_def seq_simps\<close>)
  with assms(1) m show ?thesis
    by (auto simp: RunDuePublishes_def split: sum.splits prod.splits dest: process_rows_governed)
qed

lemma forget_snd: "forget x = (r, db') \<Longrightarrow> \<exists>y. x = (y, db')"
  by (cases x) (auto simp: forget_def)

lemma governed_serve:
  assumes ff: "freeze_frame freeze" and sv: "serve env freeze r db = (res, db')" and ig: "integrity db" and g: "governed db"
  shows "governed db'"
proof (cases r)
    case (ReqSubmit q)
    obtain y where y: "SubmitRevisionForReview env q db = (y, db')" using sv ReqSubmit by (auto dest: forget_snd)
    show ?thesis
    proof (cases y)
      case (Inr iid)
      then show ?thesis using y governed_submit g ig by (auto elim!: SubmitRevisionForReview_Inr)
    qed (use y g in \<open>auto dest: submit.rolls_back\<close>)
  next
    case (ReqSignoff q)
    obtain y where y: "RecordSignoff env freeze q db = (y, db')" using sv ReqSignoff by (auto dest: forget_snd)
    show ?thesis
    proof (cases y)
      case (Inr res')
      then show ?thesis using y governed_signoff [OF _ ff ig g] by blast
    qed (use y g in \<open>auto dest: RecordSignoff_rolls_back\<close>)
  next
    case (ReqPublish q)
    then show ?thesis using sv g runTx_quiet [OF _ qt.keeps_publish_body]
      by (auto simp: PublishApproved_def dest!: forget_snd)
  next
    case (ReqSchedule q)
    then show ?thesis using sv g runTx_quiet [OF _ qt.keeps_schedule_body]
      by (auto simp: SchedulePublish_def split: if_splits dest!: forget_snd)
  next
    case (ReqSupersede q)
    then show ?thesis using sv g runTx_quiet [OF _ qt.keeps_supersede_body]
      by (auto simp: PublishSuperseding_def dest!: forget_snd)
  next
    case (ReqObsolete q)
    then show ?thesis using sv g runTx_governed [of env _ _ "obsolete_body env q" db _ db'] governed_obsolete [OF _ g ig]
      by (auto simp: MarkObsolete_def dest!: forget_snd)
  next
    case (ReqCancel q)
    then show ?thesis using sv g runTx_governed [of env _ _ "cancel_body env q" db _ db'] governed_cancel [OF _ g ig]
      by (auto simp: CancelInstance_def split: if_splits dest!: forget_snd)
  next
    case ReqRunDue
    then show ?thesis using sv g governed_run_due by (auto dest: forget_snd)
  next
    case (ReqCreateRoute q)
    then show ?thesis using sv g runTx_quiet [OF _ qt.keeps_create_route_body]
      by (auto simp: Route_Create_def dest!: forget_snd)
  next
    case (ReqUpdateRoute q)
    then show ?thesis using sv g runTx_quiet [OF _ qt.keeps_update_route_body]
      by (auto simp: Route_Update_def dest!: forget_snd)
  next
    case (ReqDeactivateRoute q)
    then show ?thesis using sv g runTx_quiet [OF _ qt.keeps_deactivate_route_body]
      by (auto simp: Route_Deactivate_def dest!: forget_snd)
qed

lemma reach_governed:
  assumes "reach freeze db0 db" and "freeze_frame freeze" and "integrity db0" and "governed db0"
  shows "governed db"
  using assms
proof (induction rule: reach.induct)
  case (reach_step db env r res db')
  have "integrity db" using reach_step_facts [OF reach_step.hyps(1) reach_step.prems(1)] reach_step.prems(2) by simp
  with reach_step governed_serve show ?case by blast
qed simp

text \<open>A system that starts: documents that are drafts or were rejected, and no approval yet.\<close>

definition clean_start :: "database \<Rightarrow> bool" where
  "clean_start db \<longleftrightarrow> integrity db \<and> db_instances db = [] \<and> list_all (\<lambda>d. d_status d \<in> {''draft'', ''rejected''}) (db_documents db)"

lemma clean_governed: "clean_start db \<Longrightarrow> governed db"
  by (auto simp: clean_start_def integrity_defs governed_defs cleared_def list_all_iff)


section \<open>No release without approval\<close>

lemma governed_release:
  assumes g: "governed db" and ig: "integrity db" and d: "d \<in> set (db_documents db)" "cleared (d_status d)"
  shows "\<exists>i \<in> set (db_instances db). in_document i = d_id d \<and> in_tenant i = d_tenant d \<and> in_status i = InstanceApproved \<and>
    stages_of db (in_id i) \<noteq> [] \<and>
    (\<forall>st \<in> set (stages_of db (in_id i)). si_status st = StageCompleted \<and>
      (\<exists>x \<in> set (db_signoffs db). sg_instance x = in_id i \<and> sg_stage x = si_id st \<and> sg_decision x = DecisionApprove \<and>
        sg_actor x \<noteq> in_submitted_by i \<and> sg_actor x \<noteq> d_created_by d))"
proof -
  obtain i where i: "i \<in> set (db_instances db)" "in_document i = d_id d" "in_tenant i = d_tenant d" "in_status i = InstanceApproved"
    using g d by (auto simp: governed_defs)
  then have a: "approved_ok db i" using g by (auto simp: governed_defs)
  have "\<exists>x \<in> set (db_signoffs db). sg_instance x = in_id i \<and> sg_stage x = si_id st \<and> sg_decision x = DecisionApprove \<and>
        sg_actor x \<noteq> in_submitted_by i \<and> sg_actor x \<noteq> d_created_by d" if st: "st \<in> set (stages_of db (in_id i))" for st
  proof -
    have s: "st \<in> set (db_stages db)" "si_instance st = in_id i" using st by (simp_all add: set_stages_of)
    have "stage_ok db st" "si_status st = StageCompleted" using g s(1) a st by (auto simp: governed_def approved_ok_def)
    then have "stage_votes db DecisionApprove (si_id st) \<noteq> []" by (auto simp: stage_ok_def)
    then obtain x where x: "x \<in> set (db_signoffs db)" "sg_stage x = si_id st" "sg_decision x = DecisionApprove"
      by (auto simp: filter_empty_conv)
    have "(sg_stage x, sg_instance x) \<in> (\<lambda>s. (si_id s, si_instance s)) ` set (db_stages db)"
      using ig x(1) by (auto simp: integrity_def refs_ok_def)
    then obtain z where z: "z \<in> set (db_stages db)" "si_id z = sg_stage x" "si_instance z = sg_instance x" by auto
    have "z = st" using distinct_map_key [of si_id "db_stages db" z st] ig z s(1) x(2) by (simp add: integrity_defs)
    with z s have xi: "sg_instance x = in_id i" by simp
    obtain j where j: "j \<in> set (db_instances db)" "in_id j = sg_instance x" "in_submitted_by j \<noteq> sg_actor x"
      "\<forall>d \<in> set (db_documents db). d_id d = in_document j \<longrightarrow> d_created_by d \<noteq> sg_actor x"
      using g x(1) by (auto simp: governed_def duties_ok_def)
    have "j = i" using distinct_map_key [of in_id "db_instances db" j i] ig i(1) j(1,2) xi by (simp add: integrity_defs)
    with j x xi i(2) d(1) show ?thesis by (intro bexI [of _ x]) auto
  qed
  with i a show ?thesis by (auto simp: approved_ok_def intro!: bexI [of _ i])
qed

text \<open>
  C1. No document is released without approval. In every state the system can reach from a start without approvals, a document that is approved,
  scheduled, published, superseded or obsolete has an approved instance of its own tenant, every stage of that instance is completed,
  and each of these stages carries an approval signed by somebody who is neither the submitter of the instance nor the author of the document.
\<close>

theorem no_release_without_approval:
  assumes "freeze_frame freeze" and "clean_start db0" and "reach freeze db0 db"
    and "d \<in> set (db_documents db)" and "cleared (d_status d)"
  shows "\<exists>i \<in> set (db_instances db). in_document i = d_id d \<and> in_tenant i = d_tenant d \<and> in_status i = InstanceApproved \<and>
    stages_of db (in_id i) \<noteq> [] \<and>
    (\<forall>st \<in> set (stages_of db (in_id i)). si_status st = StageCompleted \<and>
      (\<exists>x \<in> set (db_signoffs db). sg_instance x = in_id i \<and> sg_stage x = si_id st \<and> sg_decision x = DecisionApprove \<and>
        sg_actor x \<noteq> in_submitted_by i \<and> sg_actor x \<noteq> d_created_by d))"
proof -
  have ig: "integrity db0" using assms(2) by (simp add: clean_start_def)
  show ?thesis
  proof (rule governed_release [OF _ _ assms(4,5)])
    show "governed db" using assms(3,1) ig clean_governed [OF assms(2)] by (rule reach_governed)
    show "integrity db" using reach_step_facts [OF assms(3,1)] ig by simp
  qed
qed


section \<open>A sample run: submitted, signed, approved\<close>

definition submitted_stage :: StageInstance where
  "submitted_stage = \<lparr>si_id = ''uu'', si_instance = ''u'', si_order = 1, si_name = ''quality'', si_role = ''reviewer'',
     si_capability = ''doc.signoff'', si_area = ''prod'', si_quorum = QuorumAny1Of, si_quorum_m = None, si_drift = DriftKeepSnapshot,
     si_eligible = [], si_denominator = None, si_status = StageActive, si_opened = None, si_completed = None, si_skip_reason = []\<rparr>"

definition bob_vote :: SignoffRequest where
  "bob_vote = sample_vote\<lparr>sq_instance := ''u''\<rparr>"

lemma sample_submitted:
  obtains db i e where "reach sample_freeze sample_db db"
    "db = sample_db\<lparr>db_instances := [i], db_stages := [submitted_stage],
       db_documents := [sample_doc\<lparr>d_status := ''under_review'', d_revision := 1\<rparr>], db_events := [e]\<rparr>"
    "in_id i = ''u''" "in_tenant i = ''t1''" "in_document i = ''d1''" "in_submitted_by i = ''ana''" "in_status i = InstanceInProgress"
proof -
  obtain db where r: "reach sample_freeze sample_db db"
    "SubmitRevisionForReview sample_env sample_submit sample_db = (Inr ''u'', db)" by (rule sample_reach)
  obtain h k s where b: "submit_body sample_env sample_submit h k (fresh_tx sample_db) = Inr (''u'', s)" "db = tx_db s"
    using r(2) by (rule SubmitRevisionForReview_Inr)
  obtain route payload where rt: "rt_stages route = route_stages_of sample_db ''r1''" and
    t: "tx_db s = sample_db\<lparr>
      db_instances := [stored_instance sample_env sample_submit h k route],
      db_stages := map stored_stage (new_stage_instances sample_env ''u'' (ev_now sample_env 1) (rt_stages route)),
      db_documents := update_where (occ_row ''d1'' ''t1'' ''draft'' 0) (set_status ''under_review'') [sample_doc],
      db_events := [submitted_event sample_env sample_submit payload]\<rparr>"
    using submit_body_Inr [OF b(1)] by (auto simp: sample_submit_def sample_db_def)
  have "rt_stages route = [sample_route_stage]" by (simp add: rt route_stages_of_def sample_db_def)
  then have st: "map stored_stage (new_stage_instances sample_env ''u'' (ev_now sample_env 1) (rt_stages route)) = [submitted_stage]"
    by (simp add: new_stage_instances_def stage_instance_of_def submitted_stage_def sample_route_stage_def sample_env_def)
  have dc: "update_where (occ_row ''d1'' ''t1'' ''draft'' 0) (set_status ''under_review'') [sample_doc] =
      [sample_doc\<lparr>d_status := ''under_review'', d_revision := 1\<rparr>]"
    by (simp add: occ_row_def sample_doc_def set_status_def)
  have eq: "db = sample_db\<lparr>db_instances := [stored_instance sample_env sample_submit h k route], db_stages := [submitted_stage],
       db_documents := [sample_doc\<lparr>d_status := ''under_review'', d_revision := 1\<rparr>],
       db_events := [submitted_event sample_env sample_submit payload]\<rparr>"
    unfolding b(2) t st dc ..
  show thesis
    by (rule that [OF r(1) eq])
      (simp_all add: stored_instance_def new_instance_def sample_submit_def sample_env_def)
qed

lemma sample_approved:
  obtains db d where "reach sample_freeze sample_db db" "d \<in> set (db_documents db)" "d_id d = ''d1''" "d_status d = ''approved''"
proof -
  obtain db i e where r: "reach sample_freeze sample_db db" and
    db: "db = sample_db\<lparr>db_instances := [i], db_stages := [submitted_stage],
       db_documents := [sample_doc\<lparr>d_status := ''under_review'', d_revision := 1\<rparr>], db_events := [e]\<rparr>" and
    i: "in_id i = ''u''" "in_tenant i = ''t1''" "in_document i = ''d1''" "in_submitted_by i = ''ana''" "in_status i = InstanceInProgress"
    by (rule sample_submitted)
  have so: "stages_of db ''u'' = [submitted_stage]" by (simp add: stages_of_def db submitted_stage_def)
  have ig: "integrity db" using reach_step_facts [OF r sample_freeze_frame] sample_integrity by simp
  have env: "signoff_env sample_env db" "shapes_ok db" "signoffs_valid db"
    by (simp_all add: signoff_env_def sample_env_def shapes_ok_def signoffs_valid_def db sample_db_def i stages_of_def
        submitted_stage_def stage_done_def)
  have act: "Active (loaded db bob_vote i) = Some submitted_stage"
    using so by (simp add: Active_def bob_vote_def submitted_stage_def)
  have m: "may_sign db bob_vote i submitted_stage"
    unfolding may_sign_def act
    using i by (simp add: db bob_vote_def sample_vote_def has_capability_def doc_area_code_def doc_area_def sample_db_simps)
  have "request_ok sample_env bob_vote"
    by (simp add: request_ok_def bob_vote_def sample_vote_def ValidateEventPayload_def marshalSignaturePayload_def DecisionApprove_def)
  then have rd: "signoff_ready sample_env bob_vote db"
    using m act i by (auto simp: signoff_ready_def db bob_vote_def sample_vote_def sample_db_simps signoff_author_def submitted_stage_def)
  obtain res db' where v: "RecordSignoff sample_env sample_freeze bob_vote db = (Inr res, db')" "db_signoffs db' \<noteq> db_signoffs db"
    using signoff_runs [OF env(1) ig env(2,3) sample_freeze_ok rd] by blast
  have r': "reach sample_freeze sample_db db'"
    using r by (rule reach_step [where env = sample_env and r = "ReqSignoff bob_vote" and res = "Inr ()"]) (simp add: forget_def v(1))
  obtain row st g ev where c: "may_sign db bob_vote row st" "new_vote sample_env bob_vote db st g"
    "db' = with_event (voted_tables sample_env bob_vote (loaded db bob_vote row) st g db) ev"
    using v sample_freeze_frame by (auto elim!: RecordSignoff_cases)
  have row: "row = i" "st = submitted_stage" using c(1) act by (auto simp: may_sign_def db)
  have vc: "vote_cast sample_env bob_vote db i submitted_stage g [] []"
    using ig c(1,2) so by (simp add: vote_cast_def row bob_vote_def sample_vote_def submitted_stage_def)
  have "cast_outcome db submitted_stage g = QuorumApprovedStage"
    using c(2) by (simp add: row stage_outcome_def EvaluateQuorum_def new_vote_def bob_vote_def sample_vote_def counted_def
        signoff_denominator_def ComputeEffectiveDenominator_def submitted_stage_def db sample_db_def DecisionApprove_def)
  from tables_last [OF vc this] have "db_documents db' = [sample_doc\<lparr>d_status := ''approved'', d_revision := 2\<rparr>]"
    by (simp add: c(3) row approve_doc_def db i bob_vote_def sample_vote_def sample_doc_def set_status_def)
  then show thesis
    by (intro that [OF r', of "sample_doc\<lparr>d_status := ''approved'', d_revision := 2\<rparr>"]) (simp_all add: sample_doc_def)
qed

theorem no_release_without_approval_witness:
  "\<exists>db. reach sample_freeze sample_db db \<and> (\<exists>d \<in> set (db_documents db). d_status d = ''approved'') \<and>
     (\<exists>x \<in> set (db_signoffs db). sg_decision x = DecisionApprove \<and> sg_actor x \<noteq> ''ana'')"
proof -
  obtain db d where r: "reach sample_freeze sample_db db" "d \<in> set (db_documents db)" "d_id d = ''d1''" "d_status d = ''approved''"
    by (rule sample_approved)
  have cs: "clean_start sample_db" using sample_integrity by (simp add: clean_start_def sample_db_simps)
  have cl: "cleared (d_status d)" by (simp add: r(4) cleared_def)
  obtain d' where d': "d' \<in> set (db_documents db)" "doc_evolves sample_doc d'"
    using reach_step_facts [OF r(1) sample_freeze_frame] by (auto simp: db_evolves_def sample_db_def elim!: grows_memberD)
  have "d' = d" using distinct_map_key [of d_id "db_documents db" d' d] reach_step_facts [OF r(1) sample_freeze_frame] sample_integrity r d'
    by (auto simp: integrity_defs doc_evolves_def sample_doc_def)
  with d'(2) have "d_created_by d = ''ana''" by (simp add: doc_evolves_def sample_doc_def)
  moreover obtain i where i: "i \<in> set (db_instances db)" "stages_of db (in_id i) \<noteq> []"
    "\<forall>st \<in> set (stages_of db (in_id i)). \<exists>x \<in> set (db_signoffs db). sg_decision x = DecisionApprove \<and> sg_actor x \<noteq> d_created_by d"
    using no_release_without_approval [OF sample_freeze_frame cs r(1,2) cl] by blast
  from i(2) obtain st where "st \<in> set (stages_of db (in_id i))" by (cases "stages_of db (in_id i)") auto
  with i(3) obtain x where "x \<in> set (db_signoffs db)" "sg_decision x = DecisionApprove" "sg_actor x \<noteq> d_created_by d" by blast
  ultimately show ?thesis using r by (intro exI [of _ db]) auto
qed

end
