(* ===== verification/Lifecycle_Props.thy ===== *)
theory Lifecycle_Props
  imports Release_Safety
begin

text \<open>
  The services that act on approved documents: when publishing succeeds and what it writes, what superseding and the
  scheduler do, and three operations that the rest of the system keeps from ever having an effect: scheduling a publication, a
  cancellation that bypasses authorisation, and the approver's inbox.
\<close>

section \<open>Publishing\<close>

definition publish_ready :: "PublishRequest \<Rightarrow> database \<Rightarrow> bool" where
  "publish_ready req db \<longleftrightarrow> list_ex (\<lambda>i. in_id i = pq_instance req \<and> in_tenant i = pq_tenant req \<and> in_status i = InstanceApproved \<and>
     has_capability db (pq_tenant req) (pq_published_by req) ''doc.publish'' (doc_area_code db (pq_tenant req) (in_document i)) \<and>
     list_ex (\<lambda>d. d_id d = in_document i \<and> d_tenant d = pq_tenant req \<and> d_status d = ''approved'') (db_documents db)) (db_instances db)"

lemma load_approved_Inr:
  assumes "load_approved env op t i a (fresh_tx db) = Inr (inst, s)"
  shows "tx_db s = db \<and> (\<exists>row \<in> set (db_instances db). in_id row = i \<and> in_tenant row = t \<and> in_status row = InstanceApproved \<and>
    inst = row\<lparr>in_stages := stages_of db i\<rparr> \<and> has_capability db t a ''doc.publish'' (doc_area_code db t (in_document row)))"
  using assms unfolding load_approved_def
  by (auto simp: seq_simps fresh_tx_def dest!: effects)

lemma load_approved_calm:
  assumes "calm env" and "integrity db" and "row \<in> set (db_instances db)" and "in_id row = i" and "in_tenant row = t"
    and "in_status row = InstanceApproved" and "has_capability db t a ''doc.publish'' (doc_area_code db t (in_document row))"
  shows "\<exists>s. load_approved env op t i a (fresh_tx db) = Inr (row\<lparr>in_stages := stages_of db i\<rparr>, s) \<and> tx_db s = db"
proof -
  have "LoadInstance env t i (fresh_tx db) = Inr (row\<lparr>in_stages := stages_of db i\<rparr>, fresh_tx db)"
    using LoadInstance_calm [OF assms(1), of row "fresh_tx db" i t] assms(2-5) by (simp add: integrity_defs)
  with assms show ?thesis
    by (simp add: load_approved_def run_eqs calm_runs fresh_tx_def)
qed

text \<open>
  C8. Publishing succeeds exactly when the instance is approved, the caller may publish in the document's area and the document is still
  approved; it then publishes that document, bumping its revision version, and touches no other document, no
  instance and no signoff.
\<close>

theorem publish_iff_ready:
  assumes "calm env" and "integrity db"
  shows "(\<exists>r db'. PublishApproved env req db = (Inr r, db')) = publish_ready req db \<and>
    (\<forall>doc status db'. PublishApproved env req db = (Inr (doc, status), db') \<longrightarrow>
       status = ''published'' \<and> db_instances db' = db_instances db \<and> db_stages db' = db_stages db \<and> db_signoffs db' = db_signoffs db \<and>
       db_documents db' = update_where (\<lambda>d. d_id d = doc \<and> d_tenant d = pq_tenant req \<and> d_status d = ''approved'')
         (set_status ''published'') (db_documents db))"
proof (intro conjI iffI allI impI)
  have inv: "\<exists>row e. row \<in> set (db_instances db) \<and> in_id row = pq_instance req \<and> in_tenant row = pq_tenant req \<and>
      in_status row = InstanceApproved \<and> in_document row = doc \<and> status = ''published'' \<and>
      has_capability db (pq_tenant req) (pq_published_by req) ''doc.publish'' (doc_area_code db (pq_tenant req) doc) \<and>
      (\<exists>d \<in> set (db_documents db). d_id d = doc \<and> d_tenant d = pq_tenant req \<and> d_status d = ''approved'') \<and>
      db' = with_event (db\<lparr>db_documents := update_where (\<lambda>d. d_id d = doc \<and> d_tenant d = pq_tenant req \<and> d_status d = ''approved'')
         (set_status ''published'') (db_documents db)\<rparr>) e"
    if "PublishApproved env req db = (Inr (doc, status), db')" for doc status db'
    using that unfolding PublishApproved_def publish_body_def
    by (auto simp: seq_simps rows_affected_pos simp del: rows_affected_0 dest!: effects load_approved_Inr)
      ((rule exI conjI | assumption | rule refl)+)
  { assume "\<exists>r db'. PublishApproved env req db = (Inr r, db')"
    then obtain doc status db' where "PublishApproved env req db = (Inr (doc, status), db')" by auto
    from inv [OF this] show "publish_ready req db" by (auto simp: publish_ready_def list_ex_iff) }
  { fix doc status db' assume p: "PublishApproved env req db = (Inr (doc, status), db')"
    from inv [OF this] show "status = ''published''" "db_instances db' = db_instances db" "db_stages db' = db_stages db"
      "db_signoffs db' = db_signoffs db"
      "db_documents db' = update_where (\<lambda>d. d_id d = doc \<and> d_tenant d = pq_tenant req \<and> d_status d = ''approved'')
         (set_status ''published'') (db_documents db)" by auto }
  assume "publish_ready req db"
  then obtain row d where row: "row \<in> set (db_instances db)" "in_id row = pq_instance req" "in_tenant row = pq_tenant req"
      "in_status row = InstanceApproved"
      "has_capability db (pq_tenant req) (pq_published_by req) ''doc.publish'' (doc_area_code db (pq_tenant req) (in_document row))"
    and d: "d \<in> set (db_documents db)" "d_id d = in_document row" "d_tenant d = pq_tenant req" "d_status d = ''approved''"
    by (auto simp: publish_ready_def list_ex_iff)
  obtain s where l: "load_approved env ''publishApproved'' (pq_tenant req) (pq_instance req) (pq_published_by req) (fresh_tx db) =
      Inr (row\<lparr>in_stages := stages_of db (pq_instance req)\<rparr>, s)" "tx_db s = db"
    using load_approved_calm [OF assms row] by blast
  have t: "list_all (\<lambda>r. d_id r = in_document row \<and> d_tenant r = pq_tenant req \<and> d_status r = ''approved'' \<longrightarrow>
      doc_triggers (guc_cancel s) r (set_status ''published'' r)) (db_documents db)"
    by (auto simp: list_all_iff doc_triggers_def enforce_document_transition_def trigger_edge_def set_status_def)
  obtain p where p: "marshal_map env [(''instance_id'', AnyStr (pq_instance req)), (''revision_version'', AnyInt (in_revision row))] = Inr p"
    using marshal_plain [of "[(''instance_id'', AnyStr (pq_instance req)), (''revision_version'', AnyInt (in_revision row))]" env] by auto
  have "\<exists>x s'. publish_body env req (fresh_tx db) = Inr (x, s')"
    using l t p d assms(1)
    by (auto simp: publish_body_def run_eqs update_documents_def Let_def RowsAffected_calm Emit_calm)
  with assms(1) show "\<exists>r db'. PublishApproved env req db = (Inr r, db')"
    by (auto simp: PublishApproved_def runTx_def)
qed


text \<open>The sample document after its approval, next to a published one.\<close>

definition approved_db :: database where
  "approved_db = review_db\<lparr>db_documents := [sample_doc\<lparr>d_status := ''approved'', d_revision := 2\<rparr>,
       sample_doc\<lparr>d_id := ''d0'', d_status := ''published'', d_revision := 3\<rparr>],
     db_instances := [review_instance\<lparr>in_status := InstanceApproved\<rparr>],
     db_stages := [sample_stage 0 StageCompleted, sample_stage 1 StageCompleted]\<rparr>"

lemmas approved_simps = approved_db_def review_simps

lemma approved_integrity: "integrity approved_db"
  by (simp add: integrity_defs approved_simps stage_key_def)

definition sample_publish :: PublishRequest where
  "sample_publish = \<lparr>pq_tenant = ''t1'', pq_instance = ''i1'', pq_published_by = ''qia''\<rparr>"

theorem publish_iff_ready_witness:
  "\<exists>r db'. PublishApproved sample_env sample_publish approved_db = (Inr r, db')"
proof -
  have "publish_ready sample_publish approved_db"
    by (simp add: publish_ready_def sample_publish_def approved_simps has_capability_def doc_area_code_def doc_area_def)
  with publish_iff_ready [OF calm_sample approved_integrity, of sample_publish] show ?thesis by blast
qed

section \<open>Superseding\<close>

lemma supersede_body_Inr:
  assumes "supersede_body env req (fresh_tx db) = Inr (r, s)"
  defines "N \<equiv> occ_row (su_new req) (su_tenant req) ''approved'' (su_new_revision req)"
    and "P \<equiv> occ_row (su_prior req) (su_tenant req) ''published'' (su_prior_revision req)"
  shows "has_capability db (su_tenant req) (su_by req) ''doc.supersede'' (doc_area_code db (su_tenant req) (su_new req)) \<and>
    rows_affected N (db_documents db) \<noteq> 0 \<and> rows_affected P (update_where N (set_status ''published'') (db_documents db)) \<noteq> 0 \<and>
    (\<exists>e. tx_db s = db\<lparr>db_documents := update_where P (set_status ''superseded'') (update_where N (set_status ''published'') (db_documents db)),
       db_events := db_events db @ [e]\<rparr>)"
  using assms(1) unfolding supersede_body_def N_def [symmetric] P_def [symmetric]
  by (clarsimp simp: seq_simps fresh_tx_def simp del: rows_affected_0 dest!: effects)
    ((rule exI conjI | assumption | rule refl)+)

lemma supersede_runs:
  assumes c: "calm env"
    and cap: "has_capability db (su_tenant req) (su_by req) ''doc.supersede'' (doc_area_code db (su_tenant req) (su_new req))"
  defines "N \<equiv> occ_row (su_new req) (su_tenant req) ''approved'' (su_new_revision req)"
    and "P \<equiv> occ_row (su_prior req) (su_tenant req) ''published'' (su_prior_revision req)"
  assumes n: "rows_affected N (db_documents db) \<noteq> 0"
    and p: "rows_affected P (update_where N (set_status ''published'') (db_documents db)) \<noteq> 0"
  shows "\<exists>r db'. PublishSuperseding env req db = (Inr r, db')"
proof -
  let ?docs = "update_where N (set_status ''published'') (db_documents db)"
  have t: "list_all (\<lambda>r. N r \<longrightarrow> doc_triggers k r (set_status ''published'' r)) ds"
    "list_all (\<lambda>r. P r \<longrightarrow> doc_triggers k r (set_status ''superseded'' r)) ds" for k ds
    by (auto simp: N_def P_def occ_row_def list_all_iff doc_triggers_def enforce_document_transition_def trigger_edge_def set_status_def)
  obtain b where b: "marshal_map env [(''new_document_id'', AnyStr (su_new req)), (''prior_document_id'', AnyStr (su_prior req))] = Inr b"
    using marshal_plain [of "[(''new_document_id'', AnyStr (su_new req)), (''prior_document_id'', AnyStr (su_prior req))]" env] by auto
  have u: "update_documents N (set_status ''published'') s =
      Inr (rows_affected N (db_documents (tx_db s)), s\<lparr>tx_db := (tx_db s)\<lparr>db_documents := update_where N (set_status ''published'') (db_documents (tx_db s))\<rparr>\<rparr>)"
    "update_documents P (set_status ''superseded'') s =
      Inr (rows_affected P (db_documents (tx_db s)), s\<lparr>tx_db := (tx_db s)\<lparr>db_documents := update_where P (set_status ''superseded'') (db_documents (tx_db s))\<rparr>\<rparr>)" for s
    using t by (simp_all add: update_documents_def Let_def)
  have "\<exists>r s. supersede_body env req (fresh_tx db) = Inr (r, s)"
    unfolding supersede_body_def N_def [symmetric] P_def [symmetric]
    using c cap b n p by (simp add: run_eqs calm_runs fresh_tx_def u del: rows_affected_0)
  with c show ?thesis by (auto simp: PublishSuperseding_def runTx_def)
qed

text \<open>
  C9. Superseding replaces a document as one step: it succeeds only for an approved document and a different published one of the same tenant, both
  at the revision versions the caller saw, for a caller with the capability; the new document is then published, the prior one superseded, each
  with the next revision version, and nothing else changes but one more event. (The two requests of a caller that
  names the same document twice cannot both meet the revision it saw.)
\<close>

theorem supersede_effect:
  assumes "PublishSuperseding env req db = (Inr r, db')" and "integrity db"
    and "su_new req = su_prior req \<longrightarrow> su_prior_revision req \<le> su_new_revision req"
  shows "\<exists>dn dp e. dn \<in> set (db_documents db) \<and> dp \<in> set (db_documents db) \<and> dn \<noteq> dp \<and>
    occ_row (su_new req) (su_tenant req) ''approved'' (su_new_revision req) dn \<and>
    occ_row (su_prior req) (su_tenant req) ''published'' (su_prior_revision req) dp \<and>
    has_capability db (su_tenant req) (su_by req) ''doc.supersede'' (doc_area_code db (su_tenant req) (su_new req)) \<and>
    db' = db\<lparr>db_documents := map (\<lambda>d. if d = dn then set_status ''published'' d else if d = dp then set_status ''superseded'' d else d)
      (db_documents db), db_events := db_events db @ [e]\<rparr>"
proof -
  let ?N = "occ_row (su_new req) (su_tenant req) ''approved'' (su_new_revision req)"
  let ?P = "occ_row (su_prior req) (su_tenant req) ''published'' (su_prior_revision req)"
  let ?docs = "update_where ?N (set_status ''published'') (db_documents db)"
  obtain s where b: "supersede_body env req (fresh_tx db) = Inr (r, s)" and d: "db' = tx_db s"
    using assms(1) by (auto simp: PublishSuperseding_def runTx_Inr)
  from supersede_body_Inr [OF b] obtain e where
    c: "has_capability db (su_tenant req) (su_by req) ''doc.supersede'' (doc_area_code db (su_tenant req) (su_new req))"
    and n: "\<exists>d \<in> set (db_documents db). ?N d" and p: "\<exists>d \<in> set ?docs. ?P d"
    and t: "db' = db\<lparr>db_documents := update_where ?P (set_status ''superseded'') ?docs, db_events := db_events db @ [e]\<rparr>"
    unfolding d by auto
  obtain dn where dn: "dn \<in> set (db_documents db)" "?N dn" using n by blast
  obtain d0 where d0: "d0 \<in> set ?docs" "?P d0" using p by blast
  obtain dp where dp: "dp \<in> set (db_documents db)" "?P (if ?N dp then set_status ''published'' dp else dp)"
    using d0(1) [unfolded in_update_where] d0(2) by blast
  have key: "d = d'" if "d \<in> set (db_documents db)" "d' \<in> set (db_documents db)" "d_id d = d_id d'" for d d'
    using distinct_map_key [of d_id "db_documents db" d d'] assms(2) that by (simp add: integrity_defs)
  have "\<not> ?N dp" using dp(2) assms(3) by (auto simp: occ_row_def set_status_def)
  with dp have P: "?P dp" by simp
  have ne: "dn \<noteq> dp" using dn P by (auto simp: occ_row_def)
  have "?N d \<longleftrightarrow> d = dn" "?P d \<longleftrightarrow> d = dp" if "d \<in> set (db_documents db)" for d
    using that dn dp(1) P key by (auto simp: occ_row_def)
  moreover have "\<not> ?P (set_status ''published'' dn)"
  proof
    assume "?P (set_status ''published'' dn)"
    then have "d_id dn = d_id dp" using P by (simp add: occ_row_def set_status_def)
    with key dn(1) dp(1) ne show False by blast
  qed
  ultimately have "update_where ?P (set_status ''superseded'') ?docs =
      map (\<lambda>d. if d = dn then set_status ''published'' d else if d = dp then set_status ''superseded'' d else d) (db_documents db)"
    using ne by (auto simp: update_where_def)
  with c t dn dp(1) P ne show ?thesis by (intro exI [of _ dn] exI [of _ dp] exI [of _ e]) simp
qed

definition sample_supersede :: SupersedeRequest where
  "sample_supersede = \<lparr>su_tenant = ''t1'', su_new = ''d1'', su_prior = ''d0'', su_by = ''qia'', su_new_revision = 2, su_prior_revision = 3\<rparr>"

lemma sample_supersede_run: "\<exists>r db'. PublishSuperseding sample_env sample_supersede approved_db = (Inr r, db')"
  by (rule supersede_runs [OF calm_sample])
    (simp_all add: sample_supersede_def approved_simps has_capability_def doc_area_code_def doc_area_def occ_row_def set_status_def)

theorem supersede_effect_witness:
  "\<exists>r db'. PublishSuperseding sample_env sample_supersede approved_db = (Inr r, db') \<and>
     map d_status (db_documents db') = [''published'', ''superseded'']"
proof -
  obtain r db' where r: "PublishSuperseding sample_env sample_supersede approved_db = (Inr r, db')" using sample_supersede_run by blast
  have "su_new sample_supersede = su_prior sample_supersede \<longrightarrow> su_prior_revision sample_supersede \<le> su_new_revision sample_supersede"
    by (simp add: sample_supersede_def)
  from supersede_effect [OF r approved_integrity this] obtain dn dp where
    m: "dn \<in> set (db_documents approved_db)" "dp \<in> set (db_documents approved_db)" "d_status dn = ''approved''" "d_status dp = ''published''"
    and t: "db_documents db' = map (\<lambda>d. if d = dn then set_status ''published'' d else if d = dp then set_status ''superseded'' d else d)
      (db_documents approved_db)" by (auto simp: occ_row_def)
  let ?a = "sample_doc\<lparr>d_status := ''approved'', d_revision := 2\<rparr>" and ?b = "sample_doc\<lparr>d_id := ''d0'', d_status := ''published'', d_revision := 3\<rparr>"
  have docs: "db_documents approved_db = [?a, ?b]" by (simp add: approved_db_def)
  have "dn = ?a" "dp = ?b" using m unfolding docs by (auto simp: sample_doc_def)
  moreover have "?b \<noteq> ?a" by (simp add: sample_doc_def)
  ultimately have "map d_status (db_documents db') = [''published'', ''superseded'']" by (simp add: t docs set_status_def)
  with r show ?thesis by (intro exI [of _ r] exI [of _ db']) simp
qed

end
