(* ===== verification/Http_Props.thy ===== *)
theory Http_Props
  imports Approval_Http Lifecycle_Props Release_Safety
begin

text \<open>
  Properties of the HTTP layer: error responses change nothing and tell nothing of the inside, the entity tag of a submission is the
  revision the next request has to name, what a signoff stores of the password, and the endpoints that cannot do their work.
\<close>

section \<open>Error responses\<close>

lemma error_case_status: "400 \<le> fst (error_case e)"
proof -
  have "400 \<le> fst r" if "List.find P sentinel_cases = Some (t, r)" for P t r
    using find_SomeD [OF that] by (auto simp: sentinel_cases_def)
  moreover have "400 \<le> fst r" if "List.find P default_cases = Some (Q, r)" for P Q r
    using find_SomeD [OF that] by (auto simp: default_cases_def)
  ultimately show ?thesis by (auto simp: error_case_def split: option.splits prod.splits)
qed

lemma WriteError_body:
  "WriteError reqID e = WriteJSON (fst (error_case e)) (ErrorContent \<lparr>er_code = snd (error_case e),
     er_message = responseMessage e (fst (error_case e)), er_request_id = reqID\<rparr>)"
  by (simp add: WriteError_def MapErrorToResponse_def split: prod.splits)

lemma WriteError_status: "400 \<le> rs_status (WriteError reqID e)"
  using error_case_status [of e] by (simp add: WriteError_body WriteJSON_def)

lemma WriteJSON_status [simp]: "rs_status (WriteJSON s c) = s"
  by (simp add: WriteJSON_def)

text \<open>
  A handler in good order: an error response is \<^verbatim>\<open>WriteError\<close> of some error under the request's identifier, and it leaves the tables alone. The
  combinators of the handlers keep it.
\<close>

definition safe :: "string \<Rightarrow> database \<Rightarrow> response \<times> database \<Rightarrow> bool" where
  "safe reqID db out \<longleftrightarrow> (case out of (resp, db') \<Rightarrow> 400 \<le> rs_status resp \<longrightarrow> db' = db \<and> (\<exists>e. resp = WriteError reqID e))"

lemma safe_check: "(\<And>x. r = Inr x \<Longrightarrow> safe reqID db (k x)) \<Longrightarrow> safe reqID db (check reqID db r k)"
  by (auto simp: check_def safe_def split: sum.splits)

lemma safe_call:
  assumes "\<And>e db'. r = (Inl e, db') \<Longrightarrow> db' = db" and "\<And>x db'. r = (Inr x, db') \<Longrightarrow> safe reqID db (k x db')"
  shows "safe reqID db (call reqID r k)"
  using assms by (auto simp: call_def safe_def split: prod.splits sum.splits)

lemma safe_ok: "rs_status resp < 400 \<Longrightarrow> safe reqID db (resp, db')"
  by (simp add: safe_def)

lemma safe_same [simp]: "safe reqID db (WriteError reqID e, db)"
  by (auto simp: safe_def)

lemma safe_json [simp]: "s < 400 \<Longrightarrow> safe reqID db (WriteJSON s c, db')"
  by (simp add: safe_def)

lemma LoadActive_Inr:
  "LoadActiveInstanceByDocument env t d s = Inr (inst, s') \<Longrightarrow> s' = s \<and> (\<exists>row \<in> set (db_instances (tx_db s)). in_id row = in_id inst \<and>
     in_tenant row = t \<and> in_document row = d \<and> in_document inst = d)"
proof -
  assume a: "LoadActiveInstanceByDocument env t d s = Inr (inst, s')"
  let ?rs = "sort_key (\<lambda>i. - in_submitted_at i) (filter (\<lambda>i. in_document i = d \<and> in_tenant i = t \<and>
    in_status i \<in> {InstanceInProgress, InstanceApproved}) (db_instances (tx_db s)))"
  obtain i0 is0 where rs: "?rs = i0 # is0"
    using a by (cases ?rs) (simp_all add: LoadActiveInstanceByDocument_def seq_simps)
  then have "i0 \<in> set ?rs" by simp
  then have "i0 \<in> set (db_instances (tx_db s))" "in_document i0 = d" "in_tenant i0 = t" by auto
  moreover have "s' = s" "in_id inst = in_id i0" "in_document inst = in_document i0"
    using a rs by (auto simp: LoadActiveInstanceByDocument_def loadStageInstances_def seq_simps)
  ultimately show ?thesis by auto
qed

lemma read_same:
  "Read_LoadActiveInstanceByDocument env t d db = (r, db') \<Longrightarrow> db' = db"
  "Read_LoadInstance env t i db = (r', db') \<Longrightarrow> db' = db"
  by (cases r; auto simp: Read_LoadActiveInstanceByDocument_def seq_simps dest: runTx_Inl LoadActive_Inr)
    (cases r'; auto simp: Read_LoadInstance_def seq_simps dest: runTx_Inl LoadInstance_Inr)

lemma active_instance_same: "active_instance hx rq db = (r, db') \<Longrightarrow> db' = db"
  using read_same by (fastforce simp: active_instance_def split: prod.splits sum.splits)

lemma load_all_same: "load_all env t ids s = Inr (insts, s') \<Longrightarrow> s' = s"
  by (induction ids arbitrary: insts s') (auto simp: seq_simps dest!: LoadInstance_Inr)

lemma ListPending_same: "ListPendingForActor env t a area limit offset db = (r, db') \<Longrightarrow> db' = db"
  by (cases r) (auto simp: ListPendingForActor_def seq_simps Let_def dest: runTx_Inl load_all_same split: if_splits)

lemmas rollbacks = submit.rolls_back RecordSignoff_rolls_back publish.rolls_back schedule.rolls_back supersede.rolls_back
  obsolete.rolls_back cancel.rolls_back create_route.rolls_back update_route.rolls_back deactivate_route.rolls_back

lemma safe_handler: "safe (requestID hx rq) db (handler ep hx rq db)"
proof (cases ep)
  case POST_submit
  then show ?thesis
    by (auto simp: SubmitHandler_def Let_def intro!: safe_check safe_call safe_ok dest: rollbacks)
next
  case POST_stage_signoffs
  then show ?thesis
    by (auto simp: SignoffHandler_def Let_def intro!: safe_check safe_call safe_ok dest: rollbacks)
next
  case POST_document_signoff
  then show ?thesis
    by (auto simp: SignoffByDocumentHandler_def Let_def intro!: safe_check safe_call split: option.splits
        dest!: active_instance_same) (auto dest: rollbacks)
next
  case POST_publish
  then show ?thesis
    by (auto simp: PublishHandler_def Let_def intro!: safe_check safe_call safe_ok dest: rollbacks read_same)
next
  case POST_document_cancel
  then show ?thesis
    by (auto simp: CancelByDocumentHandler_def Let_def intro!: safe_check safe_call safe_ok dest: rollbacks active_instance_same)
next
  case GET_instance
  then show ?thesis
    by (auto simp: GetInstanceHandler_def safe_def instance_response_def split: prod.splits sum.splits dest: read_same)
next
  case GET_inbox
  then show ?thesis
    by (auto simp: InboxHandler_def Let_def intro!: safe_check safe_call safe_ok dest: ListPending_same)
next
  case GET_document_instance
  then show ?thesis
    by (auto simp: GetInstanceByDocumentHandler_def instance_response_def intro!: safe_call safe_ok dest: active_instance_same)
next
  case GET_routes
  then show ?thesis
    by (auto simp: ListRoutesHandler_def Let_def intro: safe_same split: option.splits)
qed (auto simp: SchedulePublishHandler_def SupersedeHandler_def ObsoleteHandler_def CancelHandler_def CreateRouteHandler_def
      UpdateRouteHandler_def DeactivateRouteHandler_def Let_def intro!: safe_check safe_call safe_ok dest: rollbacks)

text \<open>
  C32. An error response has changed nothing and tells nothing of the inside. Whichever endpoint is called with whichever request, an answer with a status of
  400 or more leaves every table as it was, carries the identifier of the request and the code of an error, and from 500 on its message is
  the same for every error.
\<close>

theorem error_responses:
  assumes "handler ep hx rq db = (resp, db')" and "400 \<le> rs_status resp"
  shows "db' = db \<and> rs_etag resp = None \<and>
    (\<exists>e. (rs_status resp, rs_content resp) = (fst (error_case e), ErrorContent \<lparr>er_code = snd (error_case e),
       er_message = (if 500 \<le> rs_status resp then ''internal error'' else err_text e), er_request_id = requestID hx rq\<rparr>))"
  using safe_handler [of hx rq db ep] assms
  by (auto simp: safe_def WriteError_body WriteJSON_def responseMessage_def)

definition sample_http_env :: http_env where
  "sample_http_env = \<lparr>hx_env = sample_env, hx_read = sample_env, hx_nano = 7, hx_parse = \<lambda>_. None, hx_freeze = sample_freeze\<rparr>"

definition plain_request :: http_request where
  "plain_request = \<lparr>rq_header = \<lambda>_. [], rq_path = \<lambda>_. [], rq_query = \<lambda>_. [], rq_user = ''ana'', rq_body = None\<rparr>"

theorem error_responses_witness:
  "\<exists>resp. handler POST_submit sample_http_env plain_request sample_db = (resp, sample_db) \<and> rs_status resp = 400"
proof -
  have "trim_space [] = []" by code_simp
  then have r: "handler POST_submit sample_http_env plain_request sample_db =
      (WriteError (requestID sample_http_env plain_request) ErrIdempotencyRequired, snd (handler POST_submit sample_http_env plain_request sample_db))"
    by (simp add: SubmitHandler_def check_def idempotency_def plain_request_def)
  have s: "rs_status (WriteError i ErrIdempotencyRequired) = 400" for i
    by (simp add: WriteError_body error_case_def sentinel_cases_def)
  show ?thesis using error_responses [OF r] r s by simp
qed

section \<open>Entity tags\<close>

definition printable :: "char \<Rightarrow> bool" where
  "printable c \<longleftrightarrow> 32 < byte c \<and> byte c < 127"

lemma white_space_ends: "list_all (\<lambda>w. w \<noteq> [] \<and> \<not> printable (hd w) \<and> \<not> printable (last w)) white_space"
  by code_simp

lemma strip_front_stays: "list_all (\<lambda>w. w \<noteq> [] \<and> \<not> printable (hd w)) ws \<Longrightarrow> printable (hd s) \<Longrightarrow> s \<noteq> [] \<Longrightarrow> strip_front n ws s = s"
proof (cases n)
  case (Suc m)
  assume a: "list_all (\<lambda>w. w \<noteq> [] \<and> \<not> printable (hd w)) ws" "printable (hd s)" "s \<noteq> []"
  have "List.find (\<lambda>w. prefix w s) ws = None"
    using a by (cases s) (auto simp: find_None_iff list_all_iff prefix_Cons)
  with Suc show ?thesis by simp
qed simp

lemma trim_space_printable: "s \<noteq> [] \<Longrightarrow> printable (hd s) \<Longrightarrow> printable (last s) \<Longrightarrow> trim_space s = s"
proof -
  assume a: "s \<noteq> []" "printable (hd s)" "printable (last s)"
  have f: "list_all (\<lambda>w. w \<noteq> [] \<and> \<not> printable (hd w)) white_space"
    and b: "list_all (\<lambda>w. w \<noteq> [] \<and> \<not> printable (hd w)) (map rev white_space)"
    using white_space_ends by (auto simp: list_all_iff hd_rev)
  show ?thesis using a strip_front_stays [OF f] strip_front_stays [OF b] by (simp add: trim_space_def Let_def hd_rev)
qed

lemma trim_space_quoted [simp]: "trim_space (go_quote s) = go_quote s"
  by (rule trim_space_printable) (simp_all add: go_quote_def printable_def)

lemma trim_char_quoted:
  assumes "s \<noteq> []" and "hd s \<noteq> CHR 0x22" and "last s \<noteq> CHR 0x22"
  shows "trim_char (CHR 0x22) (go_quote s) = s"
proof -
  have d: "dropWhile (\<lambda>x. x = CHR 0x22) (s @ [CHR 0x22]) = s @ [CHR 0x22]" using assms by (cases s) auto
  have "dropWhile (\<lambda>x. x = CHR 0x22) (rev s) = rev s" using assms(1,3) by (cases s rule: rev_cases) auto
  with d show ?thesis by (simp add: trim_char_def go_quote_def)
qed

lemma nat_dec_ends: "is_digit_char (hd (nat_dec n))" "is_digit_char (last (nat_dec n))"
  using nat_dec_digits [of n] nat_dec_ne [of n] by (simp_all add: list_all_iff)

lemma atoi_nat_dec: "n < 2 ^ 63 \<Longrightarrow> atoi (nat_dec n) = Some (int n)"
proof -
  assume n: "n < 2 ^ 63"
  obtain c cs where c: "nat_dec n = c # cs" using nat_dec_ne by (cases "nat_dec n") auto
  have "is_digit_char c" using nat_dec_ends(1) [of n] c by simp
  then have "c \<noteq> CHR ''-''" "c \<noteq> CHR ''+''" by (auto simp: is_digit_char_def)
  moreover have "dec_val (c # cs) = n" using dec_val_nat_dec [of n] c by simp
  moreover have "list_all is_digit_char (c # cs)" using nat_dec_digits [of n] c by simp
  ultimately show ?thesis using n by (simp add: atoi_def c Let_def)
qed

lemma parseIfMatch_etag: "0 \<le> n \<Longrightarrow> n < 2 ^ 63 \<Longrightarrow> parseIfMatch (etag n) = Inr n"
proof -
  assume n: "0 \<le> n" "n < 2 ^ 63"
  have d: "int_dec n = nat_dec (nat n)" using n by (simp add: int_dec_def)
  have "last (nat_dec (nat n)) \<noteq> CHR 0x22" using nat_dec_ends(2) [of "nat n"] by (auto simp: is_digit_char_def)
  then have t: "trim_char (CHR 0x22) (etag n) = ''v'' @ nat_dec (nat n)"
    unfolding etag_def d by (intro trim_char_quoted) auto
  have "nat n < 2 ^ 63" using n by simp
  from atoi_nat_dec [OF this] n show ?thesis
    using t by (simp add: parseIfMatch_def Let_def etag_def) (simp add: go_quote_def)
qed

lemma parseIfMatch_nonneg: "parseIfMatch h = Inr n \<Longrightarrow> 0 \<le> n"
  by (auto simp: parseIfMatch_def Let_def split: if_splits option.splits)


lemma check_done:
  assumes "check reqID db r k = (resp, db')" and "rs_status resp < 400"
  obtains x where "r = Inr x" "k x = (resp, db')"
  using assms WriteError_status [of reqID] by (cases r) (auto simp: check_def not_le [symmetric])

lemma call_done:
  assumes "call reqID r k = (resp, db')" and "rs_status resp < 400"
  obtains x db1 where "r = (Inr x, db1)" "k x db1 = (resp, db')"
  using assms WriteError_status [of reqID] by (cases r; cases "fst r") (auto simp: call_def not_le [symmetric])

text \<open>
  C33. The entity tag of a submission names the revision the next request has to give. When a submission is answered with 201, the document was a draft
  at the revision of the \<^verbatim>\<open>If-Match\<close> header, it is under review now, and reading the answered tag as an \<^verbatim>\<open>If-Match\<close> header gives exactly its
  new revision (for revisions below the greatest 64-bit integer).
\<close>

theorem submit_etag_chain:
  assumes "SubmitHandler hx rq db = (resp, db')" and "rs_status resp = 201" and "integrity db"
    and "\<forall>d \<in> set (db_documents db). d_revision d < 2 ^ 63 - 1"
  shows "\<exists>d tag. d \<in> set (db_documents db) \<and> d_id d = rq_path rq ''id'' \<and> d_tenant d = tenantIDFromReq rq \<and> d_status d = ''draft'' \<and>
    parseIfMatch (rq_header rq ''If-Match'') = Inr (d_revision d) \<and> rs_etag resp = Some tag \<and>
    (\<forall>d' \<in> set (db_documents db'). d_id d' = d_id d \<longrightarrow> d_status d' = ''under_review'' \<and> parseIfMatch tag = Inr (d_revision d'))"
proof -
  obtain expected req sreq iid where m: "parseIfMatch (rq_header rq ''If-Match'') = Inr expected"
    and s: "SubmitRevisionForReview (hx_env hx) sreq db = (Inr iid, db')"
    and sr: "sr_tenant sreq = tenantIDFromReq rq" "sr_document sreq = rq_path rq ''id''" "sr_revision sreq = expected"
    and t: "rs_etag resp = Some (etag (expected + 1))"
    using assms(1,2) unfolding SubmitHandler_def Let_def
    by (elim check_done call_done) (auto simp: Let_def)
  obtain h k tx where b: "submit_body (hx_env hx) sreq h k (fresh_tx db) = Inr (iid, tx)" "db' = tx_db tx"
    using s by (rule SubmitRevisionForReview_Inr)
  let ?P = "occ_row (rq_path rq ''id'') (tenantIDFromReq rq) ''draft'' expected"
  have docs: "db_documents db' = update_where ?P (set_status ''under_review'') (db_documents db)"
    and "\<exists>d \<in> set (db_documents db). ?P d"
    using submit_body_Inr [OF b(1)] b(2) sr by auto
  then obtain d where d: "d \<in> set (db_documents db)" "?P d" by blast
  have "d_revision d = expected" using d(2) by (simp add: occ_row_def)
  then have p: "parseIfMatch (etag (expected + 1)) = Inr (expected + 1)"
    using assms(4) d(1) parseIfMatch_nonneg [OF m] by (intro parseIfMatch_etag) auto
  have "d_status d' = ''under_review'' \<and> d_revision d' = expected + 1"
    if d': "d' \<in> set (db_documents db')" "d_id d' = d_id d" for d'
  proof -
    obtain d0 where d0: "d0 \<in> set (db_documents db)" "d' = (if ?P d0 then set_status ''under_review'' d0 else d0)"
      using d'(1) unfolding docs in_update_where by blast
    then have "d_id d0 = d_id d" using d'(2) by (auto simp: set_status_def split: if_splits)
    then have "d0 = d" using d0(1) d(1) assms(3) by (auto simp: integrity_defs dest: distinct_map_key)
    with d0(2) d(2) show ?thesis by (auto simp: set_status_def occ_row_def)
  qed
  with d m t p show ?thesis
    by (intro exI [of _ d] exI [of _ "etag (expected + 1)"]) (auto simp: occ_row_def)
qed


subsection \<open>A sample submission\<close>

definition http_route :: string where
  "http_route = ''0d9f4a52-6c1e-4b7a-9f3d-2a5b8c7e1f60''"

definition http_hash :: string where
  "http_hash = replicate 64 (CHR ''a'')"

definition http_db :: database where
  "http_db = sample_db\<lparr>db_routes := [\<lparr>rr_id = http_route, rr_tenant = ''t1'', rr_profile = ''po'', rr_name = ''PO'', rr_version = 1,
     rr_created_by = ''qia'', rr_active = True\<rparr>], db_route_stages := [(http_route, sample_route_stage)]\<rparr>"

definition json_body :: "(string \<times> json) list \<Rightarrow> body" where
  "json_body kvs = \<lparr>bd_media = Some ''application/json'', bd_size = 200, bd_blank = False, bd_read_error = None,
     bd_values = [JObj kvs], bd_end = IoEOF\<rparr>"

definition http_submit :: http_request where
  "http_submit = \<lparr>rq_header = (\<lambda>_. [])(''Idempotency-Key'' := ''k1'', ''If-Match'' := etag 0, ''X-Tenant-ID'' := ''t1''),
     rq_path = (\<lambda>_. [])(''id'' := ''d1''), rq_query = \<lambda>_. [], rq_user = ''ana'',
     rq_body = Some (json_body [(''route_id'', JStr http_route), (''content_hash'', JStr http_hash)])\<rparr>"

definition http_submission :: SubmitRequest where
  "http_submission = \<lparr>sr_tenant = ''t1'', sr_document = ''d1'', sr_route = http_route, sr_submitted_by = ''ana'',
     sr_form = [(''_content_hash'', AnyStr http_hash)], sr_revision = 0\<rparr>"

lemma http_texts: "trim_space ''k1'' = ''k1''" "trim_space ''t1'' = ''t1''" "trim_space ''pw'' = ''pw''" "trim_space http_route = http_route" "trim_space http_hash = http_hash"
  "http_route \<noteq> []" "http_hash \<noteq> []"
  by (simp_all add: trim_space_printable printable_def http_route_def http_hash_def last_replicate)

lemma http_patterns: "uuidPattern http_route" "sha256Pattern http_hash"
proof -
  have "list_all (\<lambda>i. if i \<in> {8, 13, 18, 23} then http_route ! i = CHR ''-'' else is_hex_char (http_route ! i)) [0..<36]"
    by code_simp
  moreover have "length http_route = 36" by (simp add: http_route_def)
  ultimately show "uuidPattern http_route" unfolding uuidPattern_def by (auto simp: list_all_iff)
  have "is_hex_char (CHR ''a'')" by code_simp
  then show "sha256Pattern http_hash" by (simp add: sha256Pattern_def http_hash_def list_all_iff)
qed

lemma http_tenant [simp]: "rq_header rq ''X-Tenant-ID'' = ''t1'' \<Longrightarrow> tenantIDFromReq rq = ''t1''"
  by (simp add: tenantIDFromReq_def http_texts)

lemma http_submit_decode: "Decode submit_fields (rq_body http_submit) \<lparr>sb_route = [], sb_hash = []\<rparr> = Inr \<lparr>sb_route = http_route, sb_hash = http_hash\<rparr>"
  by (simp add: Decode_def http_submit_def json_body_def maxRequestBodyBytes_def find_field_def submit_fields_def set_string_def)

lemma http_submit_runs: "\<exists>iid db' resp. SubmitRevisionForReview sample_env http_submission http_db = (Inr iid, db') \<and>
  SubmitHandler sample_http_env http_submit http_db = (resp, db') \<and> rs_status resp = 201"
proof -
  have ig: "integrity http_db" using sample_integrity by (simp add: http_db_def integrity_defs)
  have fr: "fresh_ids sample_env http_db" using sample_fresh by (simp add: http_db_def fresh_ids_def)
  have rd: "submit_ready sample_env http_submission http_db"
    by (simp add: submit_ready_def http_submission_def http_db_def sample_db_simps occ_row_def has_capability_def doc_area_code_def doc_area_def
        route_stages_of_def route_wf_def quorum_m_ok_def stage_allowed_def)
  obtain iid db' where run: "SubmitRevisionForReview sample_env http_submission http_db = (Inr iid, db')"
    using submit_runs [OF calm_sample ig fr rd] by blast
  have t: "tenantIDFromReq http_submit = ''t1''" "idempotency http_submit = Inr ()" "parseIfMatch (rq_header http_submit ''If-Match'') = Inr 0"
    using parseIfMatch_etag [of 0] by (simp_all add: http_submit_def idempotency_def http_texts)
  have v: "Submit_Validate \<lparr>sb_route = http_route, sb_hash = http_hash\<rparr> = Inr ()"
    by (simp add: Submit_Validate_def validateUUID_def validateSHA256Hex_def http_texts http_patterns)
  have rq: "rq_path http_submit ''id'' = ''d1''" "rq_user http_submit = ''ana''" by (simp_all add: http_submit_def)
  show ?thesis using run
    by (auto simp: SubmitHandler_def check_def call_def t v http_submit_decode rq http_submission_def sample_http_env_def Let_def)
qed

theorem submit_etag_chain_witness:
  "\<exists>resp db' tag. SubmitHandler sample_http_env http_submit http_db = (resp, db') \<and> rs_etag resp = Some tag \<and>
     (\<forall>d \<in> set (db_documents db'). d_id d = ''d1'' \<longrightarrow> parseIfMatch tag = Inr (d_revision d))"
proof -
  obtain resp db' where r: "SubmitHandler sample_http_env http_submit http_db = (resp, db')" "rs_status resp = 201"
    using http_submit_runs by blast
  have "integrity http_db" "\<forall>d \<in> set (db_documents http_db). d_revision d < 2 ^ 63 - 1"
    using sample_integrity by (simp_all add: http_db_def integrity_defs sample_db_simps)
  from submit_etag_chain [OF r this] show ?thesis using r(1) by (auto simp: http_submit_def)
qed

section \<open>The password of a signoff\<close>

lemma password_payload:
  "marshalSignaturePayload env [(k, AnyStr v)] = Inr (''{'' @ json_string k @ '':'' @ json_string v @ ''}'')"
  by (simp add: marshalSignaturePayload_def marshal_map_def sort_by_key_def)

text \<open>
  C35. The signoff by document stores the password. A request that records a new signoff has put the password of its body, in clear, into the signature payload of the
  stored row; no signature provider is asked, so any password does.
\<close>

theorem doc_signoff_stores_password:
  assumes "SignoffByDocumentHandler hx rq db = (resp, db')" and "rs_status resp = 200" and "db_signoffs db' \<noteq> db_signoffs db"
    and "freeze_frame (hx_freeze hx)"
  shows "\<exists>b g. Decode doc_signoff_fields (rq_body rq) empty_signoff = Inr b \<and> db_signoffs db' = db_signoffs db @ [g] \<and> sg_actor g = rq_user rq \<and>
    sg_payload g = ''{'' @ json_string ''password_token'' @ '':'' @ json_string (gb_password b) @ ''}''"
proof -
  let ?reqID = "requestID hx rq"
  obtain b inst db1 where b: "Decode doc_signoff_fields (rq_body rq) empty_signoff = Inr b"
    and i: "active_instance hx rq db = (Inr inst, db1)"
    and k: "(case Active inst of None \<Rightarrow> (WriteError ?reqID (NewError ''no active stage in this approval instance''), db1)
      | Some st \<Rightarrow> call ?reqID (RecordSignoff (hx_env hx) (hx_freeze hx)
            (signoff_request (tenantIDFromReq rq) (in_id inst) (si_id st) (rq_user rq) b) db1) (\<lambda>(result, pdf) db'.
          (WriteJSON 200 (SignoffContent [] False (signoffOutcome result)), db'))) = (resp, db')"
    using assms(1,2) unfolding SignoffByDocumentHandler_def Let_def
    by (elim check_done call_done) (auto elim!: check_done call_done)
  have "db1 = db" using i by (rule active_instance_same)
  moreover obtain st where st: "Active inst = Some st"
    using k assms(2) WriteError_status [of ?reqID "NewError ''no active stage in this approval instance''"] by (cases "Active inst") auto
  ultimately obtain r where r: "RecordSignoff (hx_env hx) (hx_freeze hx)
      (signoff_request (tenantIDFromReq rq) (in_id inst) (si_id st) (rq_user rq) b) db = (Inr r, db')"
    using k assms(2) by (auto elim!: call_done split: prod.splits)
  from r assms(4) show ?thesis
  proof (cases rule: RecordSignoff_cases)
    case replayed
    with assms(3) show ?thesis by simp
  next
    case (voted row st' g e inst')
    with b show ?thesis
      by (auto simp: new_vote_def signoff_request_def password_payload voted_signoffs)
  qed
qed

definition http_signoff :: http_request where
  "http_signoff = \<lparr>rq_header = (\<lambda>_. [])(''Idempotency-Key'' := ''k1'', ''X-Tenant-ID'' := ''t1''),
     rq_path = (\<lambda>_. [])(''id'' := ''d1''), rq_query = \<lambda>_. [], rq_user = ''bob'',
     rq_body = Some (json_body [(''decision'', JStr ''approve''), (''password'', JStr ''pw'')])\<rparr>"

lemma http_signoff_decode:
  "Decode doc_signoff_fields (rq_body http_signoff) empty_signoff = Inr (empty_signoff\<lparr>gb_decision := ''approve'', gb_password := ''pw''\<rparr>)"
  by (simp add: Decode_def http_signoff_def json_body_def maxRequestBodyBytes_def find_field_def doc_signoff_fields_def set_string_def)

lemma http_signoff_runs: "\<exists>resp db'. SignoffByDocumentHandler sample_http_env http_signoff review_db = (resp, db') \<and> rs_status resp = 200 \<and>
  db_signoffs db' \<noteq> db_signoffs review_db"
proof -
  let ?b = "empty_signoff\<lparr>gb_decision := ''approve'', gb_password := ''pw''\<rparr>"
  let ?inst = "review_instance\<lparr>in_stages := stages_of review_db ''i1''\<rparr>"
  let ?req = "signoff_request ''t1'' ''i1'' ''s'' ''bob'' ?b"
  have a: "Active (loaded review_db ?req review_instance) = Some (sample_stage 0 StageActive)"
    using review_stages by (simp add: Active_def signoff_request_def sample_stage_def)
  have "may_sign review_db ?req review_instance (sample_stage 0 StageActive)"
    unfolding may_sign_def a
    by (simp add: signoff_request_def has_capability_def doc_area_code_def doc_area_def review_simps)
  then have rd: "signoff_ready sample_env ?req review_db"
    using a by (simp add: signoff_ready_def request_ok_def signoff_request_def ValidateEventPayload_def password_payload signoff_author_def
        review_simps empty_signoff_def DecisionApprove_def)
  obtain r db' where run: "RecordSignoff sample_env sample_freeze ?req review_db = (Inr r, db')" "db_signoffs db' \<noteq> db_signoffs review_db"
    using signoff_runs [OF review_sound(4,1,2,3) sample_freeze_ok rd] by blast
  have t: "tenantIDFromReq http_signoff = ''t1''" "idempotency http_signoff = Inr ()" "check_doc_signoff ?b = Inr ()"
    by (simp_all add: http_signoff_def idempotency_def http_texts check_doc_signoff_def empty_signoff_def)
  have i: "active_instance sample_http_env http_signoff review_db = (Inr ?inst, review_db)"
    by (simp add: active_instance_def t Read_LoadActiveInstanceByDocument_def LoadActiveInstanceByDocument_def loadStageInstances_def runTx_def run_eqs
        stmt_def sample_http_env_def sample_env_def http_signoff_def fresh_tx_def stages_of_def review_simps insort_key_def)
  have rq: "rq_user http_signoff = ''bob''" "hx_env sample_http_env = sample_env" "hx_freeze sample_http_env = sample_freeze"
    "in_id ?inst = ''i1''" by (simp_all add: http_signoff_def sample_http_env_def review_instance_def)
  have "Active ?inst = Some (sample_stage 0 StageActive)" "si_id (sample_stage 0 StageActive) = ''s''"
    using a by (simp_all add: signoff_request_def sample_stage_def)
  then show ?thesis using run
    by (auto simp: SignoffByDocumentHandler_def check_def call_def Let_def t http_signoff_decode i rq split: prod.splits)
qed


theorem doc_signoff_stores_password_witness:
  "\<exists>resp db' g. SignoffByDocumentHandler sample_http_env http_signoff review_db = (resp, db') \<and> db_signoffs db' = [g] \<and>
     sg_payload g = ''{'' @ json_string ''password_token'' @ '':'' @ json_string ''pw'' @ ''}''"
proof -
  obtain resp db' where r: "SignoffByDocumentHandler sample_http_env http_signoff review_db = (resp, db')" "rs_status resp = 200"
    "db_signoffs db' \<noteq> db_signoffs review_db" using http_signoff_runs by blast
  have "freeze_frame (hx_freeze sample_http_env)" using sample_freeze_frame by (simp add: sample_http_env_def)
  from doc_signoff_stores_password [OF r this] obtain b g where
    "Decode doc_signoff_fields (rq_body http_signoff) empty_signoff = Inr b" "db_signoffs db' = db_signoffs review_db @ [g]"
    "sg_payload g = ''{'' @ json_string ''password_token'' @ '':'' @ json_string (gb_password b) @ ''}''" by blast
  then show ?thesis using r(1)
    by (auto simp: http_signoff_decode) (auto simp: review_db_def sample_db_def)
qed

section \<open>Endpoints that cannot work\<close>

lemma started_revision:
  assumes "db_evolves db0 db" and "clean_start db0" and "\<forall>d \<in> set (db_documents db0). 0 \<le> d_revision d"
    and "d \<in> set (db_documents db)" and "d_status d \<notin> {''draft'', ''rejected''}"
  shows "0 < d_revision d"
proof -
  from assms(4) obtain k where k: "k < length (db_documents db)" "db_documents db ! k = d" by (auto simp: in_set_conv_nth)
  with assms(1) have "doc_evolves (db_documents db0 ! k) d" "k < length (db_documents db0)" by (auto simp: db_evolves_def grows_def)
  moreover from this have "db_documents db0 ! k \<in> set (db_documents db0)" by simp
  ultimately show ?thesis using assms(2,3,5)
    by (fastforce simp: doc_evolves_def clean_start_def list_all_iff split: if_splits)
qed

lemma inbox_empty:
  assumes "governed db" and "ListPendingForActor env t a area limit offset db = (Inr items, db')"
  shows "items = []"
proof -
  have no: "\<not> list_ex (inbox_stage j a area) (db_stages db)" for j
    using assms(1) by (auto simp: list_ex_iff governed_def stage_ok_def inbox_stage_def)
  have "pending_ids t a area db = []" by (simp add: pending_ids_def no)
  with assms(2) show ?thesis by (auto simp: ListPendingForActor_def seq_simps Let_def split: if_splits)
qed

lemma schedule_stale:
  assumes "governed db" and "\<forall>d \<in> set (db_documents db). d_status d = ''approved'' \<longrightarrow> 0 < d_revision d"
    and "SchedulePublish env req db = (Inr r, db')"
  shows False
proof -
  obtain inst s1 where l: "load_approved env ''schedulePublish'' (ps_tenant req) (ps_instance req) (ps_scheduled_by req) (fresh_tx db) = Inr (inst, s1)"
    and u: "\<exists>d \<in> set (db_documents (tx_db s1)). occ_row (in_document inst) (ps_tenant req) ''approved'' (in_revision inst) d"
    using assms(3) unfolding SchedulePublish_def schedule_body_def
    by (auto simp: seq_simps rows_affected_pos simp del: rows_affected_0 split: if_splits dest!: effects)
  then have "in_revision inst = 0" "tx_db s1 = db"
    using load_approved_Inr [OF l] assms(1) by (auto simp: governed_defs)
  with u assms(2) show False by (auto simp: occ_row_def)
qed

lemma cancel_stale:
  assumes "\<forall>d \<in> set (db_documents db). d_status d = ''under_review'' \<longrightarrow> 0 < d_revision d"
    and "CancelInstance env inp db = (Inr r, db')" and "ci_expected_revision inp = 0"
  shows False
proof -
  obtain s where "cancel_body env inp (fresh_tx db) = Inr (r, s)"
    using assms(2) by (auto simp: CancelInstance_def runTx_Inr split: if_splits)
  from cancel_body_Inr [OF this] assms(1,3) show False by (auto simp: occ_row_def)
qed

text \<open>
  C34. Three endpoints never do their work. Starting from drafts with revisions from 0 on, in every state the services can reach: a page of the inbox is empty, because submissions store no eligible actors;
  cancelling by document fails, because it expects revision 0 and a document under review has a greater one; scheduling a publication fails, because it
  compares the revision of the document with the instance's, which is never loaded.
\<close>

theorem dead_endpoints:
  assumes "freeze_frame freeze" and "clean_start db0" and "\<forall>d \<in> set (db_documents db0). 0 \<le> d_revision d" and "reach freeze db0 db"
  shows "(\<forall>hx rq resp db'. handler GET_inbox hx rq db = (resp, db') \<and> rs_status resp < 400 \<longrightarrow> rs_content resp = InboxContent [] 0) \<and>
    (\<forall>hx rq. 400 \<le> rs_status (fst (handler POST_document_cancel hx rq db))) \<and>
    (\<forall>hx rq. 400 \<le> rs_status (fst (handler POST_schedule_publish hx rq db)))"
proof (intro conjI allI impI)
  have ev: "db_evolves db0 db" using reach_step_facts [OF assms(4,1)] by simp
  have g: "governed db" using reach_governed [OF assms(4,1)] assms(2) clean_governed by (auto simp: clean_start_def)
  have rev: "\<forall>d \<in> set (db_documents db). d_status d = st \<longrightarrow> 0 < d_revision d" if "st \<notin> {''draft'', ''rejected''}" for st
    using started_revision [OF ev assms(2,3)] that by blast
  { fix hx rq resp db' assume "handler GET_inbox hx rq db = (resp, db') \<and> rs_status resp < 400"
    then show "rs_content resp = InboxContent [] 0"
      by (auto simp: InboxHandler_def Let_def WriteJSON_def elim!: check_done call_done dest!: inbox_empty [OF g]) }
  { fix hx rq
    show "400 \<le> rs_status (fst (handler POST_document_cancel hx rq db))"
    proof (rule ccontr)
      obtain resp db' where r: "handler POST_document_cancel hx rq db = (resp, db')" by fastforce
      assume "\<not> 400 \<le> rs_status (fst (handler POST_document_cancel hx rq db))"
      with r have "rs_status resp < 400" by simp
      with r show False
        by (auto simp: CancelByDocumentHandler_def Let_def cancel_input_def elim!: check_done call_done dest!: active_instance_same
            intro: cancel_stale [OF rev [of "''under_review''"]])
    qed }
  { fix hx rq
    show "400 \<le> rs_status (fst (handler POST_schedule_publish hx rq db))"
    proof (rule ccontr)
      obtain resp db' where r: "handler POST_schedule_publish hx rq db = (resp, db')" by fastforce
      assume "\<not> 400 \<le> rs_status (fst (handler POST_schedule_publish hx rq db))"
      with r have "rs_status resp < 400" by simp
      with r show False
        by (auto simp: SchedulePublishHandler_def Let_def elim!: check_done call_done intro: schedule_stale [OF g rev [of "''approved''"]])
    qed }
qed

theorem dead_endpoints_witness:
  "\<exists>db. reach sample_freeze sample_db db \<and> (\<exists>d \<in> set (db_documents db). d_status d = ''approved'') \<and>
     400 \<le> rs_status (fst (handler POST_schedule_publish sample_http_env http_submit db))"
proof -
  obtain db d where r: "reach sample_freeze sample_db db" "d \<in> set (db_documents db)" "d_id d = ''d1''" "d_status d = ''approved''"
    by (rule sample_approved)
  have "clean_start sample_db" "\<forall>d \<in> set (db_documents sample_db). 0 \<le> d_revision d"
    using sample_integrity by (simp_all add: clean_start_def sample_db_simps)
  from dead_endpoints [OF sample_freeze_frame this r(1)] r show ?thesis by blast
qed

end
