(* ===== verification/Job_Scheduler.thy ===== *)
theory Job_Scheduler
  imports Service_Base
begin

text \<open>
  The background scheduler of \<^verbatim>\<open>internal/modules/jobs/scheduler\<close>: back-pressure with hysteresis, the decision of one
  tick of a job loop, and the job leases of migrations 0148 and 0149, on which several processes compete for a job.
  A lease carries an epoch, the fencing token of the run it was granted for. The processes are
  interleaved at the granularity of their database calls by the step relation \<open>lease_step\<close>.
\<close>

section \<open>Back-pressure\<close>

datatype BackpressurePolicy = SkipOnPressure | DegradeOnPressure | OtherPolicy int

text \<open>\<^verbatim>\<open>JobConfig\<close>, less the interval and the function; \<open>jc_valid\<close> is the test of \<^verbatim>\<open>Start\<close> on the two.\<close>

record JobConfig =
  jc_name :: string
  jc_valid :: bool
  jc_policy :: BackpressurePolicy

record inFlightJob =
  fl_job :: string
  fl_epoch :: int
  fl_cancelled :: bool

record Metrics =
  mt_runs :: "string \<Rightarrow> int"
  mt_errors :: "string \<Rightarrow> int"
  mt_skips :: "string \<Rightarrow> int"

record Scheduler =
  sc_leader :: string
  sc_jobs :: "JobConfig list"
  sc_pressure_count :: int
  sc_in_pressure :: bool
  sc_quiet_count :: int
  sc_metrics :: Metrics
  sc_in_flight :: "inFlightJob list"

definition newMetrics :: Metrics where
  "newMetrics = \<lparr>mt_runs = \<lambda>_. 0, mt_errors = \<lambda>_. 0, mt_skips = \<lambda>_. 0\<rparr>"

definition incRun :: "string \<Rightarrow> Metrics \<Rightarrow> Metrics" where
  "incRun job m = m\<lparr>mt_runs := (mt_runs m)(job := mt_runs m job + 1)\<rparr>"

definition incError :: "string \<Rightarrow> Metrics \<Rightarrow> Metrics" where
  "incError job m = m\<lparr>mt_errors := (mt_errors m)(job := mt_errors m job + 1)\<rparr>"

definition incSkip :: "string \<Rightarrow> Metrics \<Rightarrow> Metrics" where
  "incSkip job m = m\<lparr>mt_skips := (mt_skips m)(job := mt_skips m job + 1)\<rparr>"

definition Scheduler_New :: "string \<Rightarrow> Scheduler" where
  "Scheduler_New leaderID = \<lparr>sc_leader = leaderID, sc_jobs = [], sc_pressure_count = 0, sc_in_pressure = False,
     sc_quiet_count = 0, sc_metrics = newMetrics, sc_in_flight = []\<rparr>"

definition Register :: "JobConfig \<Rightarrow> Scheduler \<Rightarrow> Scheduler" where
  "Register cfg s = s\<lparr>sc_jobs := sc_jobs s @ [cfg]\<rparr>"

text \<open>The loops \<^verbatim>\<open>Start\<close> spawns.\<close>

definition started_jobs :: "Scheduler \<Rightarrow> JobConfig list" where
  "started_jobs s = filter (\<lambda>cfg. jc_name cfg \<noteq> [] \<and> jc_valid cfg) (sc_jobs s)"

text \<open>
  A probe is the pair of active and maximal connections, or \<open>None\<close> when the query failed. The thresholds are exact here: a quotient of two
  connection counts that differs from \<open>0.7\<close> or \<open>0.6\<close> differs by far more than the precision of \<^verbatim>\<open>float64\<close>, and division rounds to the same
  number as the constant when it does not.
\<close>

type_synonym probe = "(int \<times> int) option"

definition high_load :: "int \<times> int \<Rightarrow> bool" where
  "high_load p \<longleftrightarrow> 10 * fst p > 7 * (if snd p \<le> 0 then 1 else snd p)"

definition low_load :: "int \<times> int \<Rightarrow> bool" where
  "low_load p \<longleftrightarrow> 10 * fst p < 6 * (if snd p \<le> 0 then 1 else snd p)"

definition probePressure :: "probe \<Rightarrow> Scheduler \<Rightarrow> bool \<times> Scheduler" where
  "probePressure probe s =
     (case probe of
        None \<Rightarrow> (sc_in_pressure s, s)
      | Some p \<Rightarrow>
          let s' =
            (if high_load p then
               let t = s\<lparr>sc_pressure_count := sc_pressure_count s + 1, sc_quiet_count := 0\<rparr> in
               if \<not> sc_in_pressure t \<and> sc_pressure_count t \<ge> 3
               then t\<lparr>sc_in_pressure := True, sc_pressure_count := 0\<rparr> else t
             else if low_load p then
               let t = s\<lparr>sc_quiet_count := sc_quiet_count s + 1, sc_pressure_count := 0\<rparr> in
               if sc_in_pressure t \<and> sc_quiet_count t \<ge> 3
               then t\<lparr>sc_in_pressure := False, sc_quiet_count := 0\<rparr> else t
             else s\<lparr>sc_pressure_count := 0, sc_quiet_count := 0\<rparr>)
          in (sc_in_pressure s', s'))"

text \<open>The local variables of \<^verbatim>\<open>runJobLoop\<close>, and its decision to skip a tick.\<close>

record loop_state =
  lp_skip_next :: bool
  lp_skip_streak :: int

definition loop_init :: loop_state where
  "loop_init = \<lparr>lp_skip_next = False, lp_skip_streak = 0\<rparr>"

definition backpressure :: "BackpressurePolicy \<Rightarrow> bool \<Rightarrow> loop_state \<Rightarrow> bool \<times> loop_state" where
  "backpressure policy inPressure l =
     (if \<not> inPressure then (False, \<lparr>lp_skip_next = False, lp_skip_streak = 0\<rparr>)
      else
        let (shouldSkip, l') =
          (case policy of
             SkipOnPressure \<Rightarrow> (True, l)
           | DegradeOnPressure \<Rightarrow> if lp_skip_next l then (True, l\<lparr>lp_skip_next := False\<rparr>) else (False, l\<lparr>lp_skip_next := True\<rparr>)
           | OtherPolicy _ \<Rightarrow> (False, l))
        in (shouldSkip, if shouldSkip then l'\<lparr>lp_skip_streak := lp_skip_streak l' + 1\<rparr> else l'))"

section \<open>Leases\<close>

record lease =
  le_job :: string
  le_leader :: string
  le_epoch :: int
  le_acquired :: time
  le_heartbeat :: time
  le_expires :: time

abbreviation minute :: duration where
  "minute \<equiv> 60 * second"

text \<open>
  \<^verbatim>\<open>metaldocs.acquire_lease\<close>. \<open>busy\<close> says that another transaction holds the lock of the row or is
  just inserting it: the call does not wait and gives up.
\<close>

definition acquire_lease :: "bool \<Rightarrow> time \<Rightarrow> string \<Rightarrow> string \<Rightarrow> duration \<Rightarrow> lease list \<Rightarrow> (bool \<times> int) \<times> lease list" where
  "acquire_lease busy now job leader ttl ls =
     (if busy then ((False, -1), ls)
      else case List.find (\<lambda>r. le_job r = job) ls of
        None \<Rightarrow> ((True, 1), ls @ [\<lparr>le_job = job, le_leader = leader, le_epoch = 1, le_acquired = now, le_heartbeat = now,
                  le_expires = now + ttl\<rparr>])
      | Some v \<Rightarrow>
          if le_expires v < now then
            ((True, le_epoch v + 1), update_where (\<lambda>r. le_job r = job) (\<lambda>r. r\<lparr>le_leader := leader, le_epoch := le_epoch v + 1,
               le_acquired := now, le_heartbeat := now, le_expires := now + ttl\<rparr>) ls)
          else if le_leader v = leader then
            ((True, le_epoch v), update_where (\<lambda>r. le_job r = job) (\<lambda>r. r\<lparr>le_heartbeat := now, le_expires := now + ttl\<rparr>) ls)
          else ((False, -1), ls))"

definition held_by :: "string \<Rightarrow> string \<Rightarrow> int \<Rightarrow> lease \<Rightarrow> bool" where
  "held_by job leader epoch r \<longleftrightarrow> le_job r = job \<and> le_leader r = leader \<and> le_epoch r = epoch"

definition heartbeat_lease :: "time \<Rightarrow> string \<Rightarrow> string \<Rightarrow> int \<Rightarrow> lease list \<Rightarrow> bool \<times> lease list" where
  "heartbeat_lease now job leader epoch ls =
     (rows_affected (held_by job leader epoch) ls \<noteq> 0,
      update_where (held_by job leader epoch) (\<lambda>r. r\<lparr>le_heartbeat := now, le_expires := now + 5 * minute\<rparr>) ls)"

text \<open>\<^verbatim>\<open>metaldocs.release_lease\<close> as of migration 0149: the row is expired, not deleted.\<close>

definition release_lease :: "time \<Rightarrow> string \<Rightarrow> string \<Rightarrow> int \<Rightarrow> lease list \<Rightarrow> lease list" where
  "release_lease now job leader epoch ls =
     update_where (held_by job leader epoch) (\<lambda>r. r\<lparr>le_expires := now - second\<rparr>) ls"

definition assert_lease_epoch :: "string \<Rightarrow> int \<Rightarrow> lease list \<Rightarrow> gerr + unit" where
  "assert_lease_epoch job epoch ls =
     (if \<exists>r \<in> set ls. le_job r = job \<and> le_epoch r = epoch then Inr ()
      else Inl (PgError ''P0001'' [] (''ErrLeaseEpochStale: job '' @ job @ '' epoch '' @ int_dec epoch @ '' no longer current'')))"

section \<open>The lease reaper\<close>

text \<open>
  \<^verbatim>\<open>RunLeaseReaper\<close> deletes the leases that expired ten minutes ago and stores an event for each of them, all in one transaction. Its
  \<^verbatim>\<open>INSERT\<close> names the column \<^verbatim>\<open>occurred_at\<close> and gives the text \<^verbatim>\<open>system\<close> for the tenant. \<open>deployed_schema\<close> is the
  table as migrations 0125 and 0141 leave it; the schema is a parameter so that the effect the job was meant to have can be stated, too.
\<close>

record event_schema =
  es_columns :: "string list"
  es_uuid_tenant :: bool

definition deployed_schema :: event_schema where
  "deployed_schema = \<lparr>es_columns = [''id'', ''tenant_id'', ''event_type'', ''actor_user_id'', ''resource_type'', ''resource_id'', ''reason'',
     ''payload_json'', ''created_at'', ''dedupe_key'', ''correlation_id''], es_uuid_tenant = True\<rparr>"

definition reaper_columns :: "string list" where
  "reaper_columns = [''tenant_id'', ''event_type'', ''actor_user_id'', ''resource_type'', ''resource_id'', ''reason'', ''payload_json'',
     ''occurred_at'']"

record lease_store =
  ls_leases :: "lease list"
  ls_events :: "GovernanceEvent list"

definition reaped_event :: "env \<Rightarrow> event_schema \<Rightarrow> lease \<Rightarrow> gerr + GovernanceEvent" where
  "reaped_event env sch r =
     bindR (marshal_map env [(''job_name'', AnyStr (le_job r)), (''leader_id'', AnyStr (le_leader r)),
       (''lease_epoch'', AnyInt64 (le_epoch r))]) (\<lambda>payload.
     case ev_fault env ''reaper insert'' of
       Some e \<Rightarrow> Inl e
     | None \<Rightarrow>
         if \<not> list_all (\<lambda>c. c \<in> set (es_columns sch)) reaper_columns then Inl (PgError ''42703'' [] ''column does not exist'')
         else if es_uuid_tenant sch then Inl (PgError ''22P02'' [] ''invalid input syntax for type uuid'')
         else Inr \<lparr>ge_tenant = ''system'', ge_type = ''lease.reaped'', ge_actor = ''system:reaper'', ge_resource_type = ''job_lease'',
           ge_resource_id = le_job r, ge_reason = ''expired_lease_reclaimed'', ge_payload = payload, ge_occurred = ev_dbnow env\<rparr>)"

text \<open>\<open>locked\<close> are the jobs whose rows other transactions hold (\<^verbatim>\<open>SKIP LOCKED\<close>).\<close>

definition reapable :: "(string \<Rightarrow> bool) \<Rightarrow> time \<Rightarrow> lease \<Rightarrow> bool" where
  "reapable locked now r \<longleftrightarrow> le_expires r < now - 10 * minute \<and> \<not> locked (le_job r)"

definition RunLeaseReaper :: "env \<Rightarrow> event_schema \<Rightarrow> (string \<Rightarrow> bool) \<Rightarrow> lease_store \<Rightarrow> (gerr + nat) \<times> lease_store" where
  "RunLeaseReaper env sch locked st =
     (case ev_fault env ''reaper begin'' of Some e \<Rightarrow> (Inl e, st) | None \<Rightarrow>
      case ev_fault env ''reaper delete'' of Some e \<Rightarrow> (Inl e, st) | None \<Rightarrow>
      let reaped = filter (reapable locked (ev_dbnow env)) (ls_leases st) in
      case seqR (map (reaped_event env sch) reaped) of Inl e \<Rightarrow> (Inl e, st) | Inr evs \<Rightarrow>
      case ev_fault env ''reaper commit'' of Some e \<Rightarrow> (Inl e, st) | None \<Rightarrow>
      (Inr (length reaped), \<lparr>ls_leases = filter (\<lambda>r. \<not> reapable locked (ev_dbnow env) r) (ls_leases st), ls_events = ls_events st @ evs\<rparr>))"

section \<open>Back-pressure as a function of the history\<close>

text \<open>
  The state the counters encode, read off the history of successful probes, the newest first: pressure begins with three high
  loads in a row, ends with three low loads in a row, and stays as it was otherwise.
\<close>

definition three :: "('a \<Rightarrow> bool) \<Rightarrow> 'a list \<Rightarrow> bool" where
  "three P h \<longleftrightarrow> 3 \<le> length (takeWhile P h)"

fun pressure_ref :: "(int \<times> int) list \<Rightarrow> bool" where
  "pressure_ref [] = False"
| "pressure_ref (p # h) = (if three high_load (p # h) then True else if three low_load (p # h) then False else pressure_ref h)"

definition run_probes :: "probe list \<Rightarrow> Scheduler \<Rightarrow> Scheduler" where
  "run_probes ps s = fold (\<lambda>p s. snd (probePressure p s)) ps s"

definition successful :: "probe list \<Rightarrow> (int \<times> int) list" where
  "successful ps = List.map_filter id ps"

definition counters_ok :: "(int \<times> int) list \<Rightarrow> Scheduler \<Rightarrow> bool" where
  "counters_ok h s \<longleftrightarrow> sc_in_pressure s = pressure_ref h \<and>
     (if sc_in_pressure s then sc_quiet_count s = int (length (takeWhile low_load h)) \<and> \<not> three low_load h
      else sc_pressure_count s = int (length (takeWhile high_load h)) \<and> \<not> three high_load h)"

lemma high_not_low: "high_load p \<Longrightarrow> \<not> low_load p"
  by (auto simp: high_load_def low_load_def)

lemma probePressure_counters:
  assumes "counters_ok h s"
  shows "counters_ok (p # h) (snd (probePressure (Some p) s))"
proof -
  consider "high_load p" "\<not> low_load p" | "low_load p" "\<not> high_load p" | "\<not> high_load p" "\<not> low_load p"
    using high_not_low by blast
  then show ?thesis
    by cases (use assms in \<open>auto simp: counters_ok_def probePressure_def Let_def three_def split: if_splits\<close>)
qed

lemma run_probes_counters:
  assumes "counters_ok h s"
  shows "counters_ok (rev (successful ps) @ h) (run_probes ps s)"
  using assms
proof (induction ps arbitrary: h s)
  case (Cons p ps)
  have eq: "run_probes (p # ps) s = run_probes ps (snd (probePressure p s))" by (simp add: run_probes_def)
  show ?case
  proof (cases p)
    case None
    then have "snd (probePressure p s) = s" "successful (p # ps) = successful ps"
      by (simp_all add: probePressure_def successful_def)
    with Cons show ?thesis by (simp add: eq)
  next
    case (Some q)
    then have "rev (successful (p # ps)) @ h = rev (successful ps) @ q # h" by (simp add: successful_def)
    with Cons.IH [OF probePressure_counters [OF Cons.prems]] Some eq show ?thesis by simp
  qed
qed (simp add: run_probes_def successful_def)

text \<open>
  C31. Back-pressure with hysteresis. After any sequence of probes, of which some may fail, the scheduler's counters say exactly what the history says: it
  is under pressure if and only if three high loads in a row have been seen since the last three low ones in a row, failed probes not counted.
\<close>

theorem pressure_hysteresis:
  "sc_in_pressure (run_probes ps (Scheduler_New leader)) = pressure_ref (rev (successful ps))"
proof -
  have "counters_ok [] (Scheduler_New leader)" by (simp add: counters_ok_def Scheduler_New_def three_def)
  from run_probes_counters [OF this, of ps] show ?thesis by (simp add: counters_ok_def)
qed

text \<open>A loop under the degrading policy skips every second tick of a stretch of pressure and never two in a row.\<close>

definition loop_run :: "BackpressurePolicy \<Rightarrow> bool list \<Rightarrow> loop_state" where
  "loop_run policy bs = fold (\<lambda>b l. snd (backpressure policy b l)) bs loop_init"

definition stretch :: "bool list \<Rightarrow> nat" where
  "stretch bs = length (takeWhile id (rev bs))"

lemma loop_run_skip_next: "lp_skip_next (loop_run DegradeOnPressure bs) \<longleftrightarrow> odd (stretch bs)"
  by (induction bs rule: rev_induct)
    (auto simp: loop_run_def loop_init_def stretch_def backpressure_def Let_def split: prod.splits if_splits)

lemma backpressure_decision:
  "fst (backpressure policy b (loop_run policy bs)) \<longleftrightarrow>
     b \<and> (case policy of SkipOnPressure \<Rightarrow> True | DegradeOnPressure \<Rightarrow> even (stretch (bs @ [b])) | OtherPolicy _ \<Rightarrow> False)"
  using loop_run_skip_next [of bs]
  by (auto simp: backpressure_def Let_def stretch_def split: BackpressurePolicy.splits prod.splits)

end
