(* ===== verification/Job_Leases.thy ===== *)
theory Job_Leases
  imports Job_Scheduler
begin

text \<open>
  The processes that share the job leases, interleaved: one step of the system is a passage of time, a tick of a job loop up to the
  acquired lease, a heartbeat, the end of a run, a step of the drain at shutdown, or a run of the lease reaper. The theorems are about the fencing
  tokens: which runs may hold them, and that a stale one never becomes valid again.
\<close>

section \<open>Calls of the scheduler\<close>

text \<open>
  What becomes of a statement: it is answered, it fails without effect, or it takes effect and the answer is lost with the connection.
\<close>

datatype fate = Answered | NotExecuted | AnswerLost

definition lost_connection :: gerr where
  "lost_connection = DriverError ''connection lost''"

definition acquireLease :: "fate \<Rightarrow> bool \<Rightarrow> time \<Rightarrow> string \<Rightarrow> string \<Rightarrow> lease list \<Rightarrow> (gerr + bool \<times> int) \<times> lease list" where
  "acquireLease fate busy now job leader ls =
     (let (r, ls') = acquire_lease busy now job leader (5 * minute) ls in
      case fate of Answered \<Rightarrow> (Inr r, ls') | NotExecuted \<Rightarrow> (Inl lost_connection, ls) | AnswerLost \<Rightarrow> (Inl lost_connection, ls'))"

definition heartbeatLease :: "fate \<Rightarrow> time \<Rightarrow> string \<Rightarrow> string \<Rightarrow> int \<Rightarrow> lease list \<Rightarrow> (gerr + bool) \<times> lease list" where
  "heartbeatLease fate now job leader epoch ls =
     (let (r, ls') = heartbeat_lease now job leader epoch ls in
      case fate of Answered \<Rightarrow> (Inr r, ls') | NotExecuted \<Rightarrow> (Inl lost_connection, ls) | AnswerLost \<Rightarrow> (Inl lost_connection, ls'))"

definition releaseLease :: "fate \<Rightarrow> time \<Rightarrow> string \<Rightarrow> string \<Rightarrow> int \<Rightarrow> lease list \<Rightarrow> lease list" where
  "releaseLease fate now job leader epoch ls =
     (case fate of NotExecuted \<Rightarrow> ls | _ \<Rightarrow> release_lease now job leader epoch ls)"

section \<open>A tick of a job loop\<close>

text \<open>\<^verbatim>\<open>runJobLoop\<close> from the tick to the registered run, with the five ways it may go.\<close>

datatype tick_outcome = TickSkipped | TickLeaseError gerr | TickNotLeader | TickRun inFlightJob

definition addInFlight :: "inFlightJob \<Rightarrow> Scheduler \<Rightarrow> Scheduler" where
  "addInFlight f s = s\<lparr>sc_in_flight := f # sc_in_flight s\<rparr>"

definition removeInFlight :: "inFlightJob \<Rightarrow> Scheduler \<Rightarrow> Scheduler" where
  "removeInFlight f s = s\<lparr>sc_in_flight := filter (\<lambda>g. fl_job g \<noteq> fl_job f) (sc_in_flight s)\<rparr>"

definition tick_begin ::
  "fate \<Rightarrow> bool \<Rightarrow> probe \<Rightarrow> time \<Rightarrow> JobConfig \<Rightarrow> Scheduler \<Rightarrow> loop_state \<Rightarrow> lease list \<Rightarrow>
   tick_outcome \<times> Scheduler \<times> loop_state \<times> lease list" where
  "tick_begin fate busy probe now cfg s l ls =
     (let (inPressure, s1) = probePressure probe s;
          (shouldSkip, l1) = backpressure (jc_policy cfg) inPressure l in
      if shouldSkip then (TickSkipped, s1\<lparr>sc_metrics := incSkip (jc_name cfg) (sc_metrics s1)\<rparr>, l1, ls)
      else (case acquireLease fate busy now (jc_name cfg) (sc_leader s1) ls of
          (Inl e, ls') \<Rightarrow> (TickLeaseError e, s1, l1, ls')
        | (Inr (acquired, epoch), ls') \<Rightarrow>
            if \<not> acquired then (TickNotLeader, s1, l1, ls')
            else let f = \<lparr>fl_job = jc_name cfg, fl_epoch = epoch, fl_cancelled = False\<rparr> in (TickRun f, addInFlight f s1, l1, ls')))"

text \<open>One round of \<^verbatim>\<open>heartbeatLoop\<close>: a stolen lease cancels the run, an error does not.\<close>

definition cancel_run :: "inFlightJob \<Rightarrow> Scheduler \<Rightarrow> Scheduler" where
  "cancel_run f s = s\<lparr>sc_in_flight := map (\<lambda>g. if g = f then g\<lparr>fl_cancelled := True\<rparr> else g) (sc_in_flight s)\<rparr>"

definition heartbeat_round :: "fate \<Rightarrow> time \<Rightarrow> inFlightJob \<Rightarrow> Scheduler \<Rightarrow> lease list \<Rightarrow> Scheduler \<times> lease list" where
  "heartbeat_round fate now f s ls =
     (case heartbeatLease fate now (fl_job f) (sc_leader s) (fl_epoch f) ls of
        (Inl e, ls') \<Rightarrow> (s, ls')
      | (Inr ok, ls') \<Rightarrow> (if ok then s else cancel_run f s, ls'))"

text \<open>The rest of the tick, once the job's function has returned.\<close>

definition tick_end :: "fate \<Rightarrow> time \<Rightarrow> gerr option \<Rightarrow> inFlightJob \<Rightarrow> Scheduler \<Rightarrow> lease list \<Rightarrow> Scheduler \<times> lease list" where
  "tick_end fate now err f s ls =
     (let m = (case err of None \<Rightarrow> sc_metrics s | Some _ \<Rightarrow> incError (fl_job f) (sc_metrics s)) in
      (removeInFlight f (s\<lparr>sc_metrics := incRun (fl_job f) m\<rparr>),
       releaseLease fate now (fl_job f) (sc_leader s) (fl_epoch f) ls))"

text \<open>\<^verbatim>\<open>drain\<close>: after the first wait every run is cancelled, after the second the leases of those left are released, whatever the runs do.\<close>

definition drain_cancel :: "Scheduler \<Rightarrow> Scheduler" where
  "drain_cancel s = s\<lparr>sc_in_flight := map (\<lambda>g. g\<lparr>fl_cancelled := True\<rparr>) (sc_in_flight s)\<rparr>"

definition drain_release :: "(inFlightJob \<Rightarrow> fate) \<Rightarrow> time \<Rightarrow> Scheduler \<Rightarrow> lease list \<Rightarrow> lease list" where
  "drain_release fates now s ls =
     fold (\<lambda>f. releaseLease (fates f) now (fl_job f) (sc_leader s) (fl_epoch f)) (sc_in_flight s) ls"

section \<open>The interleaved processes\<close>

text \<open>
  One scheduler for each leader name; \<open>w_loop\<close> is the local state of each of its loops. A loop runs one tick after the other, so a tick
  starts only when no run of that job is in flight in the same process (\<^verbatim>\<open>main.go\<close> registers every name once).
\<close>

record world =
  w_now :: time
  w_store :: lease_store
  w_sched :: "string \<Rightarrow> Scheduler"
  w_loop :: "string \<Rightarrow> string \<Rightarrow> loop_state"

definition put :: "string \<Rightarrow> Scheduler \<Rightarrow> lease list \<Rightarrow> world \<Rightarrow> world" where
  "put l s ls w = w\<lparr>w_store := (w_store w)\<lparr>ls_leases := ls\<rparr>, w_sched := (w_sched w)(l := s)\<rparr>"

abbreviation w_leases :: "world \<Rightarrow> lease list" where
  "w_leases w \<equiv> ls_leases (w_store w)"

abbreviation in_flight :: "world \<Rightarrow> string \<Rightarrow> inFlightJob list" where
  "in_flight w l \<equiv> sc_in_flight (w_sched w l)"

inductive lease_step :: "event_schema \<Rightarrow> world \<Rightarrow> world \<Rightarrow> bool" for sch where
  clock: "w_now w \<le> t \<Longrightarrow> lease_step sch w (w\<lparr>w_now := t\<rparr>)"
| tick: "cfg \<in> set (started_jobs (w_sched w l)) \<Longrightarrow> jc_name cfg \<notin> fl_job ` set (in_flight w l) \<Longrightarrow>
    tick_begin fate busy probe (w_now w) cfg (w_sched w l) (w_loop w l (jc_name cfg)) (w_leases w) = (out, s, lp, ls) \<Longrightarrow>
    lease_step sch w (put l s ls (w\<lparr>w_loop := (w_loop w)(l := (w_loop w l)(jc_name cfg := lp))\<rparr>))"
| beat: "f \<in> set (in_flight w l) \<Longrightarrow> heartbeat_round fate (w_now w) f (w_sched w l) (w_leases w) = (s, ls) \<Longrightarrow>
    lease_step sch w (put l s ls w)"
| finish: "f \<in> set (in_flight w l) \<Longrightarrow> tick_end fate (w_now w) err f (w_sched w l) (w_leases w) = (s, ls) \<Longrightarrow>
    lease_step sch w (put l s ls w)"
| cancel: "lease_step sch w (put l (drain_cancel (w_sched w l)) (w_leases w) w)"
| force: "lease_step sch w (put l (w_sched w l) (drain_release fates (w_now w) (w_sched w l) (w_leases w)) w)"
| reap: "ev_dbnow env = w_now w \<Longrightarrow> RunLeaseReaper env sch locked (w_store w) = (r, st) \<Longrightarrow>
    lease_step sch w (w\<lparr>w_store := st\<rparr>)"

inductive lease_reach :: "event_schema \<Rightarrow> world \<Rightarrow> world \<Rightarrow> bool" for sch where
  stay: "lease_reach sch w w"
| step: "lease_reach sch w w' \<Longrightarrow> lease_step sch w' w'' \<Longrightarrow> lease_reach sch w w''"

inductive_cases lease_stepE: "lease_step sch w w'"

section \<open>What a call does to the lease table\<close>

text \<open>
  A table may grow by new jobs, and a row may get a new holder only together with a larger epoch: \<open>lease_le\<close>. Every call except the
  deletion of a row respects it.
\<close>

definition lease_le :: "lease \<Rightarrow> lease \<Rightarrow> bool" where
  "lease_le r r' \<longleftrightarrow> le_job r' = le_job r \<and> le_epoch r \<le> le_epoch r' \<and> (le_epoch r' = le_epoch r \<longrightarrow> le_leader r' = le_leader r)"

definition leases_le :: "lease list \<Rightarrow> lease list \<Rightarrow> bool" where
  "leases_le ls ls' \<longleftrightarrow> (distinct (map le_job ls) \<longrightarrow> grows lease_le ls ls' \<and> distinct (map le_job ls'))"

lemma lease_le_refl [simp]: "lease_le r r"
  by (simp add: lease_le_def)

lemma lease_le_trans: "lease_le r s \<Longrightarrow> lease_le s t \<Longrightarrow> lease_le r t"
  by (auto simp: lease_le_def)

interpretation lease_frame: frame_relation leases_le
  by unfold_locales (auto simp: leases_le_def intro: grows_refl grows_trans [OF lease_le_trans])

lemma leases_le_update:
  assumes "\<And>r. distinct (map le_job ls) \<Longrightarrow> P r \<Longrightarrow> r \<in> set ls \<Longrightarrow> lease_le r (f r)"
  shows "leases_le ls (update_where P f ls)"
  unfolding leases_le_def
proof (intro impI conjI)
  assume d: "distinct (map le_job ls)"
  then have le: "P r \<Longrightarrow> r \<in> set ls \<Longrightarrow> lease_le r (f r)" for r using assms by blast
  then have "map le_job (update_where P f ls) = map le_job ls" by (induction ls) (auto simp: lease_le_def)
  with d show "distinct (map le_job (update_where P f ls))" by simp
  show "grows lease_le ls (update_where P f ls)" using le by (auto simp: grows_def update_where_def)
qed

lemma acquire_lease_le: "leases_le ls (snd (acquire_lease busy now job leader ttl ls))"
proof (cases "List.find (\<lambda>r. le_job r = job) ls")
  case None
  then have "\<forall>r \<in> set ls. le_job r \<noteq> job" by (simp add: find_None_iff_all)
  with None show ?thesis by (auto simp: acquire_lease_def leases_le_def intro: grows_refl grows_append)
next
  case (Some v)
  then have v: "v \<in> set ls" "le_job v = job" by (auto dest: find_SomeD)
  have "distinct (map le_job ls) \<Longrightarrow> r \<in> set ls \<Longrightarrow> le_job r = job \<Longrightarrow> r = v" for r using v by (auto dest: distinct_map_key)
  with Some show ?thesis
    by (auto simp: acquire_lease_def lease_frame.frame_refl lease_le_def intro!: leases_le_update)
qed

lemma acquire_lease_row:
  assumes "acquire_lease busy now job leader ttl ls = ((True, epoch), ls')"
  shows "\<exists>r \<in> set ls'. held_by job leader epoch r"
  using assms
  by (auto simp: acquire_lease_def held_by_def bex_update_where split: if_splits option.splits dest!: find_SomeD)

lemma heartbeat_lease_le: "leases_le ls (snd (heartbeat_lease now job leader epoch ls))"
  by (auto simp: heartbeat_lease_def lease_le_def intro!: leases_le_update)

lemma release_lease_le: "leases_le ls (release_lease now job leader epoch ls)"
  by (auto simp: release_lease_def lease_le_def intro!: leases_le_update)

lemma acquireLease_le: "acquireLease fate busy now job leader ls = (r, ls') \<Longrightarrow> leases_le ls ls'"
  using acquire_lease_le [of ls busy now job leader "5 * minute"]
  by (auto simp: acquireLease_def lease_frame.frame_refl split: fate.splits prod.splits)

lemma acquireLease_row:
  "acquireLease fate busy now job leader ls = (Inr (True, epoch), ls') \<Longrightarrow> \<exists>r \<in> set ls'. held_by job leader epoch r"
  by (auto simp: acquireLease_def split: fate.splits prod.splits intro: acquire_lease_row)

lemma heartbeatLease_le: "heartbeatLease fate now job leader epoch ls = (r, ls') \<Longrightarrow> leases_le ls ls'"
  using heartbeat_lease_le [of ls now job leader epoch]
  by (auto simp: heartbeatLease_def lease_frame.frame_refl split: fate.splits prod.splits)

lemma releaseLease_le: "leases_le ls (releaseLease fate now job leader epoch ls)"
  using release_lease_le [of ls now job leader epoch]
  by (auto simp: releaseLease_def lease_frame.frame_refl split: fate.splits)

lemma drain_release_le: "leases_le ls (drain_release fates now s ls)"
proof -
  have "leases_le ls (fold (\<lambda>f. releaseLease (fates f) now (fl_job f) (sc_leader s) (fl_epoch f)) fs ls)" for fs ls
  proof (induction fs arbitrary: ls)
    case (Cons f fs)
    then show ?case by (auto intro: lease_frame.frame_trans [OF releaseLease_le])
  qed (simp add: lease_frame.frame_refl)
  then show ?thesis by (simp add: drain_release_def)
qed

text \<open>The reaper, on the tables the migrations create, fails as soon as it finds an expired lease, so it never deletes a row.\<close>

lemma reaped_event_deployed: "\<exists>e. reaped_event env deployed_schema r = Inl e"
  by (auto simp: reaped_event_def bindR_def deployed_schema_def reaper_columns_def split: sum.splits option.splits)

lemma reaper_inert:
  assumes "RunLeaseReaper env deployed_schema locked st = (r, st')"
  shows "st' = st"
proof (cases "filter (reapable locked (ev_dbnow env)) (ls_leases st)")
  case Nil
  then have "filter (\<lambda>r. \<not> reapable locked (ev_dbnow env) r) (ls_leases st) = ls_leases st"
    by (auto simp: filter_empty_conv filter_id_conv)
  with Nil assms show ?thesis by (auto simp: RunLeaseReaper_def split: option.splits)
next
  case (Cons a as)
  obtain e where "reaped_event env deployed_schema a = Inl e" using reaped_event_deployed by blast
  then have "seqR (map (reaped_event env deployed_schema) (a # as)) = Inl e" by simp
  with Cons assms show ?thesis by (auto simp: RunLeaseReaper_def split: option.splits)
qed

section \<open>Every step\<close>

lemma tick_begin_facts:
  assumes "tick_begin fate busy probe now cfg s l ls = (out, s', l', ls')"
  shows "leases_le ls ls'" and "sc_leader s' = sc_leader s" and "sc_jobs s' = sc_jobs s"
    and "sc_in_flight s' = sc_in_flight s \<or>
      (\<exists>f. sc_in_flight s' = f # sc_in_flight s \<and> fl_job f = jc_name cfg \<and> (\<exists>r \<in> set ls'. held_by (jc_name cfg) (sc_leader s) (fl_epoch f) r))"
proof -
  obtain b s1 where p: "probePressure probe s = (b, s1)" by fastforce
  then have s1: "sc_leader s1 = sc_leader s" "sc_jobs s1 = sc_jobs s" "sc_in_flight s1 = sc_in_flight s"
    by (auto simp: probePressure_def Let_def split: option.splits if_splits)
  note unf = assms [unfolded tick_begin_def p Let_def addInFlight_def, simplified s1]
  show "leases_le ls ls'" "sc_leader s' = sc_leader s" "sc_jobs s' = sc_jobs s"
    using unf s1 by (auto simp: lease_frame.frame_refl split: prod.splits if_splits sum.splits dest: acquireLease_le)
  show "sc_in_flight s' = sc_in_flight s \<or>
      (\<exists>f. sc_in_flight s' = f # sc_in_flight s \<and> fl_job f = jc_name cfg \<and> (\<exists>r \<in> set ls'. held_by (jc_name cfg) (sc_leader s) (fl_epoch f) r))"
    using unf s1 acquireLease_row by (auto split: prod.splits if_splits sum.splits)
qed

lemma heartbeat_round_facts:
  assumes "heartbeat_round fate now f s ls = (s', ls')"
  shows "leases_le ls ls'" and "sc_leader s' = sc_leader s" and "sc_jobs s' = sc_jobs s"
    and "map (\<lambda>f. (fl_job f, fl_epoch f)) (sc_in_flight s') = map (\<lambda>f. (fl_job f, fl_epoch f)) (sc_in_flight s)"
  using assms
  by (auto simp: heartbeat_round_def cancel_run_def split: prod.splits sum.splits if_splits dest: heartbeatLease_le)

lemma tick_end_facts:
  assumes "tick_end fate now err f s ls = (s', ls')"
  shows "leases_le ls ls'" and "sc_leader s' = sc_leader s" and "sc_jobs s' = sc_jobs s"
    and "sc_in_flight s' = filter (\<lambda>g. fl_job g \<noteq> fl_job f) (sc_in_flight s)"
  using assms by (auto simp: tick_end_def Let_def removeInFlight_def releaseLease_le)

subsection \<open>The invariant\<close>

text \<open>
  \<open>token ls l f\<close>: the lease of the run \<open>f\<close> of process \<open>l\<close> exists with at least the run's epoch, and belongs to that process as long as the epoch is the same.
\<close>

definition token :: "lease list \<Rightarrow> string \<Rightarrow> string \<times> int \<Rightarrow> bool" where
  "token ls l = (\<lambda>(job, epoch). \<exists>r \<in> set ls. le_job r = job \<and> epoch \<le> le_epoch r \<and> (le_epoch r = epoch \<longrightarrow> le_leader r = l))"

definition tokens :: "Scheduler \<Rightarrow> (string \<times> int) list" where
  "tokens s = map (\<lambda>f. (fl_job f, fl_epoch f)) (sc_in_flight s)"

definition sched_ok :: "lease list \<Rightarrow> string \<Rightarrow> Scheduler \<Rightarrow> bool" where
  "sched_ok ls l s \<longleftrightarrow> sc_leader s = l \<and> distinct (map fst (tokens s)) \<and> list_all (token ls l) (tokens s)"

definition fenced :: "world \<Rightarrow> bool" where
  "fenced w \<longleftrightarrow> distinct (map le_job (w_leases w)) \<and> (\<forall>l. sched_ok (w_leases w) l (w_sched w l))"

lemma token_mono:
  assumes "leases_le ls ls'" and "distinct (map le_job ls)" and "token ls l t"
  shows "token ls' l t"
proof -
  obtain r where r: "r \<in> set ls" "le_job r = fst t" "snd t \<le> le_epoch r" "le_epoch r = snd t \<longrightarrow> le_leader r = l"
    using assms(3) by (auto simp: token_def)
  have "grows lease_le ls ls'" using assms(1,2) by (simp add: leases_le_def)
  then obtain r' where "r' \<in> set ls'" "lease_le r r'" using r(1) by (rule grows_memberD)
  with r show ?thesis by (cases t) (auto simp: token_def lease_le_def intro!: bexI [of _ r'])
qed

lemma sched_ok_mono:
  assumes "leases_le ls ls'" and "distinct (map le_job ls)" and "sched_ok ls l s" and "sc_leader s' = sc_leader s"
    and "tokens s' = tokens s"
  shows "sched_ok ls' l s'"
  using assms token_mono [OF assms(1,2)] by (auto simp: sched_ok_def list_all_iff)

text \<open>A step that changes the table by \<open>leases_le\<close> and one scheduler keeps the invariant when that scheduler's runs are all right afterwards.\<close>

lemma fenced_put:
  assumes "fenced w" and "leases_le (w_leases w) ls" and "sched_ok ls l s"
  shows "fenced (put l s ls w)"
  using assms sched_ok_mono [OF assms(2)]
  by (auto simp: fenced_def put_def leases_le_def)

lemma sched_ok_tick:
  assumes "sched_ok ls l s" and "distinct (map le_job ls)" and "jc_name cfg \<notin> fl_job ` set (sc_in_flight s)"
    and "tick_begin fate busy probe now cfg s lp ls = (out, s', lp', ls')"
  shows "sched_ok ls' l s'"
proof -
  note f = tick_begin_facts [OF assms(4)]
  from f(4) consider "tokens s' = tokens s" |
    e r where "tokens s' = (jc_name cfg, e) # tokens s" "r \<in> set ls'" "held_by (jc_name cfg) (sc_leader s) e r"
    by (auto simp: tokens_def)
  then show ?thesis
  proof cases
    case 1
    with assms f show ?thesis by (auto intro: sched_ok_mono)
  next
    case 2
    moreover have "sched_ok ls' l s" using assms f by (auto intro: sched_ok_mono)
    moreover have "jc_name cfg \<notin> fst ` set (tokens s)" using assms(3) by (auto simp: tokens_def)
    ultimately show ?thesis using f(2) by (auto simp: sched_ok_def token_def held_by_def)
  qed
qed

lemma sched_ok_end:
  assumes "sched_ok ls l s" and "distinct (map le_job ls)" and "tick_end fate now err f s ls = (s', ls')"
  shows "sched_ok ls' l s'"
proof -
  note f = tick_end_facts [OF assms(3)]
  have t: "tokens s' = filter (\<lambda>t. fst t \<noteq> fl_job f) (tokens s)" using f(4) by (simp add: tokens_def filter_map o_def)
  have "sched_ok ls' l s" using assms f by (auto intro: sched_ok_mono)
  then show ?thesis using f(2) by (auto simp: sched_ok_def t list_all_iff distinct_map_filter)
qed

lemma lease_step_fenced:
  assumes "lease_step deployed_schema w w'" and "fenced w"
  shows "fenced w'"
  using assms(1)
proof cases
  case (tick cfg l fate busy probe out s lp ls)
  have "sched_ok ls l s" using assms(2) sched_ok_tick [OF _ _ tick(3,4)] by (simp add: fenced_def)
  moreover have "fenced (w\<lparr>w_loop := x\<rparr>)" for x using assms(2) by (simp add: fenced_def)
  ultimately show ?thesis using tick_begin_facts(1) [OF tick(4)] by (auto simp: tick(1) intro!: fenced_put)
next
  case (beat f l fate s ls)
  note hb = heartbeat_round_facts [OF beat(3)]
  have "sched_ok ls l s" using assms(2) hb by (auto simp: fenced_def tokens_def intro: sched_ok_mono)
  with assms(2) hb(1) show ?thesis by (auto simp: beat(1) intro!: fenced_put)
next
  case (finish f l fate err s ls)
  have "sched_ok ls l s" using assms(2) sched_ok_end [OF _ _ finish(3)] by (simp add: fenced_def)
  with assms(2) tick_end_facts(1) [OF finish(3)] show ?thesis by (auto simp: finish(1) intro!: fenced_put)
next
  case (cancel l)
  have "sched_ok (w_leases w) l (drain_cancel (w_sched w l))"
    using assms(2) by (auto simp: fenced_def sched_ok_def drain_cancel_def tokens_def o_def)
  with assms(2) show ?thesis by (auto simp: cancel(1) lease_frame.frame_refl intro!: fenced_put)
next
  case (force l fates)
  have "sched_ok (drain_release fates (w_now w) (w_sched w l) (w_leases w)) l (w_sched w l)"
    using assms(2) by (auto simp: fenced_def intro: sched_ok_mono [OF drain_release_le])
  with assms(2) show ?thesis by (auto simp: force(1) drain_release_le intro!: fenced_put)
next
  case (reap env locked r st)
  with assms(2) show ?thesis by (auto simp: fenced_def dest: reaper_inert)
qed (use assms(2) in \<open>auto simp: fenced_def\<close>)

lemma lease_step_le:
  assumes "lease_step deployed_schema w w'"
  shows "leases_le (w_leases w) (w_leases w')"
  using assms
proof cases
  case (reap env locked r st)
  then show ?thesis by (auto simp: lease_frame.frame_refl dest: reaper_inert)
qed (auto simp: put_def lease_frame.frame_refl drain_release_le
      dest: tick_begin_facts(1) heartbeat_round_facts(1) tick_end_facts(1))

lemma lease_reach_facts:
  assumes "lease_reach deployed_schema w w'"
  shows "leases_le (w_leases w) (w_leases w')" and "fenced w \<Longrightarrow> fenced w'"
  using assms
  by (induction rule: lease_reach.induct)
    (auto simp: lease_frame.frame_refl intro: lease_frame.frame_trans lease_step_le lease_step_fenced)

section \<open>Fencing\<close>

lemma fenced_unique:
  assumes "fenced w" and "f \<in> set (in_flight w l)" and "g \<in> set (in_flight w k)"
    and "fl_job f = fl_job g" and "r \<in> set (w_leases w)" and "le_job r = fl_job f" and "le_epoch r = fl_epoch f" and "le_epoch r = fl_epoch g"
  shows "l = k \<and> f = g"
proof -
  have key: "le_leader r = m" if "h \<in> set (in_flight w m)" "fl_job h = fl_job f" "fl_epoch h = le_epoch r" for h m
  proof -
    have "token (w_leases w) m (fl_job h, fl_epoch h)"
      using assms(1) that(1) by (auto simp: fenced_def sched_ok_def tokens_def list_all_iff)
    then obtain r' where r': "r' \<in> set (w_leases w)" "le_job r' = fl_job h" "le_epoch r' = fl_epoch h \<longrightarrow> le_leader r' = m"
      by (auto simp: token_def)
    moreover have "r' = r" using assms(1,5,6) r'(1,2) that(2) by (auto simp: fenced_def dest: distinct_map_key)
    ultimately show ?thesis using that(3) by simp
  qed
  have "l = k" using key [of f l] key [of g k] assms by simp
  moreover have "distinct (map fl_job (in_flight w l))"
    using assms(1) by (auto simp: fenced_def sched_ok_def tokens_def o_def)
  ultimately show ?thesis using assms(2,3,4) by (auto dest: distinct_map_key)
qed

text \<open>A system before its first tick: one scheduler for each leader name, nothing in flight, at most one lease row for each job.\<close>

definition idle :: "world \<Rightarrow> bool" where
  "idle w \<longleftrightarrow> distinct (map le_job (w_leases w)) \<and> (\<forall>l. sc_leader (w_sched w l) = l \<and> in_flight w l = [])"

lemma idle_fenced: "idle w \<Longrightarrow> fenced w"
  by (auto simp: idle_def fenced_def sched_ok_def tokens_def)

text \<open>At most one run in flight passes the check, and a stale epoch stays stale.\<close>

definition sole_token :: "world \<Rightarrow> bool" where
  "sole_token w \<longleftrightarrow> (\<forall>l k f g. f \<in> set (in_flight w l) \<and> g \<in> set (in_flight w k) \<and> fl_job f = fl_job g \<and>
     assert_lease_epoch (fl_job f) (fl_epoch f) (w_leases w) = Inr () \<and> assert_lease_epoch (fl_job g) (fl_epoch g) (w_leases w) = Inr () \<longrightarrow>
     l = k \<and> f = g)"

lemma assert_lease_epoch_Inr: "assert_lease_epoch job epoch ls = Inr () \<longleftrightarrow> (\<exists>r \<in> set ls. le_job r = job \<and> le_epoch r = epoch)"
  by (simp add: assert_lease_epoch_def)

lemma fenced_sole_token:
  assumes "fenced w"
  shows "sole_token w"
  unfolding sole_token_def
proof (intro allI impI, elim conjE)
  fix l k f g
  assume fg: "f \<in> set (in_flight w l)" "g \<in> set (in_flight w k)" "fl_job f = fl_job g"
    and "assert_lease_epoch (fl_job f) (fl_epoch f) (w_leases w) = Inr ()"
      "assert_lease_epoch (fl_job g) (fl_epoch g) (w_leases w) = Inr ()"
  then obtain r r' where r: "r \<in> set (w_leases w)" "le_job r = fl_job f" "le_epoch r = fl_epoch f"
    and r': "r' \<in> set (w_leases w)" "le_job r' = fl_job g" "le_epoch r' = fl_epoch g"
    by (auto simp: assert_lease_epoch_Inr)
  moreover have "r' = r" using assms r r' fg(3) by (auto simp: fenced_def dest: distinct_map_key)
  ultimately show "l = k \<and> f = g" using fenced_unique [OF assms fg r] by simp
qed

lemma stale_forever:
  assumes "lease_reach deployed_schema w w'" and "distinct (map le_job (w_leases w))" and "r \<in> set (w_leases w)" and "epoch < le_epoch r"
  shows "assert_lease_epoch (le_job r) epoch (w_leases w') \<noteq> Inr ()"
proof -
  have g: "grows lease_le (w_leases w) (w_leases w')" "distinct (map le_job (w_leases w'))"
    using lease_reach_facts(1) [OF assms(1)] assms(2) by (auto simp: leases_le_def)
  from g(1) assms(3) obtain r' where "r' \<in> set (w_leases w')" "lease_le r r'" by (rule grows_memberD)
  with g(2) assms(4) show ?thesis by (auto simp: assert_lease_epoch_Inr lease_le_def dest: distinct_map_key)
qed


subsection \<open>A sample run of two processes\<close>

definition sample_job :: JobConfig where
  "sample_job = \<lparr>jc_name = ''publisher'', jc_valid = True, jc_policy = SkipOnPressure\<rparr>"

definition sample_world :: world where
  "sample_world = \<lparr>w_now = 0, w_store = \<lparr>ls_leases = [], ls_events = []\<rparr>,
     w_sched = \<lambda>l. Register sample_job (Scheduler_New l), w_loop = \<lambda>_ _. loop_init\<rparr>"

definition do_tick :: "string \<Rightarrow> world \<Rightarrow> world" where
  "do_tick l w = (case tick_begin Answered False (Some (1, 10)) (w_now w) sample_job (w_sched w l) (w_loop w l (jc_name sample_job)) (w_leases w) of
     (out, s, lp, ls) \<Rightarrow> put l s ls (w\<lparr>w_loop := (w_loop w)(l := (w_loop w l)(jc_name sample_job := lp))\<rparr>))"

lemma do_tick_step:
  assumes "sample_job \<in> set (started_jobs (w_sched w l))" and "jc_name sample_job \<notin> fl_job ` set (in_flight w l)"
  shows "lease_step sch w (do_tick l w)"
  using assms by (auto simp: do_tick_def split: prod.splits intro!: lease_step.tick)

definition sample_flight :: "string \<Rightarrow> int \<Rightarrow> Scheduler" where
  "sample_flight l epoch = (Register sample_job (Scheduler_New l))
     \<lparr>sc_quiet_count := 1, sc_in_flight := [\<lparr>fl_job = ''publisher'', fl_epoch = epoch, fl_cancelled = False\<rparr>]\<rparr>"

lemma sample_tick:
  assumes "w_sched w l = Register sample_job (Scheduler_New l)" and "w_loop w l ''publisher'' = loop_init"
    and "\<forall>r \<in> set (w_leases w). le_job r \<noteq> ''publisher''"
  shows "lease_step sch w (do_tick l w)" and "w_sched (do_tick l w) = (w_sched w)(l := sample_flight l 1)"
    and "w_leases (do_tick l w) = w_leases w @ [\<lparr>le_job = ''publisher'', le_leader = l, le_epoch = 1, le_acquired = w_now w, le_heartbeat = w_now w,
      le_expires = w_now w + 5 * minute\<rparr>]" and "w_now (do_tick l w) = w_now w" and "w_loop (do_tick l w) = w_loop w"
    and "ls_events (w_store (do_tick l w)) = ls_events (w_store w)"
proof -
  have n: "List.find (\<lambda>r. le_job r = ''publisher'') (w_leases w) = None" using assms(3) by (simp add: find_None_iff_all)
  show "lease_step sch w (do_tick l w)"
    by (rule do_tick_step) (simp_all add: assms(1) Register_def Scheduler_New_def started_jobs_def sample_job_def)
  have "tick_begin Answered False (Some (1, 10)) (w_now w) sample_job (w_sched w l) (w_loop w l (jc_name sample_job)) (w_leases w) =
    (TickRun \<lparr>fl_job = ''publisher'', fl_epoch = 1, fl_cancelled = False\<rparr>, sample_flight l 1, loop_init, w_leases w @ [\<lparr>le_job = ''publisher'', le_leader = l, le_epoch = 1,
      le_acquired = w_now w, le_heartbeat = w_now w, le_expires = w_now w + 5 * minute\<rparr>])"
    by (simp add: tick_begin_def assms n probePressure_def high_load_def low_load_def backpressure_def sample_job_def Register_def
        Scheduler_New_def acquireLease_def acquire_lease_def addInFlight_def sample_flight_def loop_init_def Let_def)
  then show "w_sched (do_tick l w) = (w_sched w)(l := sample_flight l 1)"
    "w_leases (do_tick l w) = w_leases w @ [\<lparr>le_job = ''publisher'', le_leader = l, le_epoch = 1, le_acquired = w_now w, le_heartbeat = w_now w,
      le_expires = w_now w + 5 * minute\<rparr>]" "w_now (do_tick l w) = w_now w" "w_loop (do_tick l w) = w_loop w"
    "ls_events (w_store (do_tick l w)) = ls_events (w_store w)"
    using assms(2) by (auto simp: do_tick_def put_def sample_job_def fun_upd_idem)
qed

lemma sample_world_start:
  "w_sched sample_world l = Register sample_job (Scheduler_New l)" "w_loop sample_world l ''publisher'' = loop_init" "w_leases sample_world = []"
  "w_now sample_world = 0"
  by (simp_all add: sample_world_def)

lemma sample_idle: "idle sample_world"
  by (simp add: idle_def sample_world_def Register_def Scheduler_New_def)


text \<open>The schema the reaper was written for, and an environment without faults.\<close>

definition reaper_schema :: event_schema where
  "reaper_schema = \<lparr>es_columns = reaper_columns, es_uuid_tenant = False\<rparr>"

definition reaper_env :: "time \<Rightarrow> env" where
  "reaper_env t = \<lparr>ev_fault = \<lambda>_. None, ev_now = \<lambda>_. t, ev_dbnow = t, ev_uuid = \<lambda>_. [], ev_nfc = id, ev_float = \<lambda>_. Inr [],
     ev_effective_date = False\<rparr>"

lemma reaper_deletes:
  assumes "\<forall>r \<in> set (ls_leases st). reapable (\<lambda>_. False) t r"
  shows "\<exists>n st'. RunLeaseReaper (reaper_env t) reaper_schema (\<lambda>_. False) st = (n, st') \<and> ls_leases st' = []"
proof -
  have ev: "\<exists>e. reaped_event (reaper_env t) reaper_schema r = Inr e" for r
    by (auto simp: reaped_event_def marshal_map_def reaper_env_def reaper_schema_def reaper_columns_def sort_by_key_def)
  have "\<exists>evs. seqR (map (reaped_event (reaper_env t) reaper_schema) rs) = Inr evs" for rs
  proof (induction rs)
    case (Cons r rs)
    with ev [of r] show ?case by auto
  qed simp
  then obtain evs where "seqR (map (reaped_event (reaper_env t) reaper_schema) (ls_leases st)) = Inr evs" by blast
  moreover have "filter (reapable (\<lambda>_. False) t) (ls_leases st) = ls_leases st" using assms by (simp add: filter_id_conv)
  moreover have "ev_dbnow (reaper_env t) = t" "ev_fault (reaper_env t) = (\<lambda>_. None)" by (simp_all add: reaper_env_def)
  ultimately show ?thesis using assms by (simp add: RunLeaseReaper_def filter_empty_conv)
qed


end
