(* ===== verification/Job_Tasks.thy ===== *)
theory Job_Tasks
  imports Release_Safety Job_Leases
begin

text \<open>
  The functions the scheduler runs: the publisher of scheduled documents (\<^verbatim>\<open>jobs/effective_date_publisher\<close>), the watchdog for stuck
  instances (\<^verbatim>\<open>jobs/stuck_instance_watchdog\<close>) and the janitor of idempotency keys (\<^verbatim>\<open>jobs/idempotency_janitor\<close>). Each is a
  function of the tables; log lines are left out.
\<close>

section \<open>Idempotency janitor\<close>

record idem_row =
  ir_key :: "string \<times> string \<times> string \<times> string"
  ir_status :: string
  ir_expires :: time

definition JanitorBatchSize :: nat where
  "JanitorBatchSize = 5000"

definition MaxIterations :: nat where
  "MaxIterations = 10"

definition sweepable :: "time \<Rightarrow> idem_row \<Rightarrow> bool" where
  "sweepable now r \<longleftrightarrow> ir_expires r < now \<and> ir_status r = ''completed''"

text \<open>\<^verbatim>\<open>DELETE ... WHERE ctid IN (SELECT ctid ... LIMIT n)\<close>: the first \<open>n\<close> rows of the table that qualify.\<close>

fun delete_first :: "nat \<Rightarrow> ('a \<Rightarrow> bool) \<Rightarrow> 'a list \<Rightarrow> 'a list" where
  "delete_first 0 P rs = rs"
| "delete_first (Suc n) P [] = []"
| "delete_first (Suc n) P (r # rs) = (if P r then delete_first n P rs else r # delete_first (Suc n) P rs)"

text \<open>
  The loop, with the number of rounds left. \<open>fault\<close> gives the error of the statement of a round, \<open>lost\<close> the rounds whose \<^verbatim>\<open>RowsAffected\<close> fails: that
  error is dropped, and the count is then 0. Every statement commits on its own.
\<close>

fun janitor_rounds :: "(nat \<Rightarrow> gerr option) \<Rightarrow> (nat \<Rightarrow> bool) \<Rightarrow> time \<Rightarrow> nat \<Rightarrow> nat \<Rightarrow> idem_row list \<Rightarrow> (gerr + nat) \<times> idem_row list" where
  "janitor_rounds fault lost now 0 totalDeleted rs = (Inr totalDeleted, rs)"
| "janitor_rounds fault lost now (Suc k) totalDeleted rs =
     (case fault k of
        Some e \<Rightarrow> (Inl e, rs)
      | None \<Rightarrow>
          let rs' = delete_first JanitorBatchSize (sweepable now) rs;
              n = (if lost k then 0 else length rs - length rs') in
          if n = 0 then (Inr totalDeleted, rs') else janitor_rounds fault lost now k (totalDeleted + n) rs')"

definition idempotency_janitor :: "(nat \<Rightarrow> gerr option) \<Rightarrow> (nat \<Rightarrow> bool) \<Rightarrow> time \<Rightarrow> idem_row list \<Rightarrow> (gerr + nat) \<times> idem_row list" where
  "idempotency_janitor fault lost now rs = janitor_rounds fault lost now MaxIterations 0 rs"

section \<open>Stuck-instance watchdog\<close>

record StuckInstance =
  sk_id :: string
  sk_tenant :: string
  sk_document :: string
  sk_submitted_by :: string
  sk_drift :: string

text \<open>
  The query reads a column \<^verbatim>\<open>on_eligibility_drift\<close> of \<^verbatim>\<open>approval_routes\<close>. The migrations create that column in
  \<^verbatim>\<open>approval_route_stages\<close> only: \<open>drift_column\<close> is \<open>None\<close> for the tables as they are, and a function that reads the column for a table that has it.
\<close>

type_synonym drift_column = "(route_row \<Rightarrow> string option) option"

definition StuckAfter :: duration where
  "StuckAfter = 7 * 24 * 60 * 60 * second"

definition WatchdogBatchSize :: nat where
  "WatchdogBatchSize = 50"

definition stuck_row :: "(route_row \<Rightarrow> string option) \<Rightarrow> database \<Rightarrow> Instance \<Rightarrow> StuckInstance" where
  "stuck_row drift db i = \<lparr>sk_id = in_id i, sk_tenant = in_tenant i, sk_document = in_document i, sk_submitted_by = in_submitted_by i,
     sk_drift = (case List.find (\<lambda>r. rr_id r = in_route i) (db_routes db) of
       None \<Rightarrow> [] | Some r \<Rightarrow> (case drift r of None \<Rightarrow> [] | Some d \<Rightarrow> d))\<rparr>"

definition set_watchdog_bypass :: "env \<Rightarrow> unit tx" where
  "set_watchdog_bypass env = stmt env ''watchdog bypass_authz'' (modifyT (\<lambda>s. s\<lparr>guc_bypass := Some ''watchdog''\<rparr>))"

definition list_stuck_body :: "env \<Rightarrow> drift_column \<Rightarrow> StuckInstance list tx" where
  "list_stuck_body env col =
     bindT (set_watchdog_bypass env) (\<lambda>_.
     stmt env ''list stuck instances'' (case col of
       None \<Rightarrow> failT (PgError ''42703'' [] ''column ar.on_eligibility_drift does not exist'')
     | Some drift \<Rightarrow> read_db (\<lambda>db. take WatchdogBatchSize (map (stuck_row drift db)
         (filter (\<lambda>i. in_status i = InstanceInProgress \<and> in_submitted_at i < ev_dbnow env - StuckAfter) (db_instances db))))))"

definition listStuckInstances :: "env \<Rightarrow> drift_column \<Rightarrow> database \<Rightarrow> (gerr + StuckInstance list) \<times> database" where
  "listStuckInstances env col db = runTx env ''watchdog list: begin tx'' ''watchdog list: commit'' (list_stuck_body env col) db"

definition stuck_alert_body :: "env \<Rightarrow> StuckInstance \<Rightarrow> unit tx" where
  "stuck_alert_body env inst =
     bindT (set_watchdog_bypass env) (\<lambda>_.
     bindT (liftT (marshal_map env [(''instance_id'', AnyStr (sk_id inst)), (''document_id'', AnyStr (sk_document inst)),
       (''submitted_by'', AnyStr (sk_submitted_by inst)), (''drift_policy'', AnyStr (sk_drift inst)),
       (''watchdog_rule'', AnyStr ''stuck_instance_7d'')])) (\<lambda>payload.
     Emit env \<lparr>ge_tenant = sk_tenant inst, ge_type = ''approval.instance.stuck_alert'', ge_actor = ''system:watchdog'',
       ge_resource_type = ''approval_instance'', ge_resource_id = sk_id inst, ge_reason = ''stuck_watchdog_alert'',
       ge_payload = payload, ge_occurred = ev_now env 0\<rparr>))"

definition emitStuckAlert :: "env \<Rightarrow> StuckInstance \<Rightarrow> database \<Rightarrow> (gerr + unit) \<times> database" where
  "emitStuckAlert env inst db = runTx env ''watchdog alert: begin tx'' ''watchdog alert: commit'' (stuck_alert_body env inst) db"

definition watchdog_cancel :: "StuckInstance \<Rightarrow> CancelInput" where
  "watchdog_cancel inst = \<lparr>ci_tenant = sk_tenant inst, ci_instance = sk_id inst, ci_expected_revision = 0,
     ci_actor = ''system:watchdog'', ci_reason = ''stuck_watchdog_auto_cancel'', ci_bypass = True\<rparr>"

text \<open>
  The loop over the stuck instances, the environment of each transaction by its number; the result counts the cancelled instances and the
  alerts. Errors are logged and the loop goes on.
\<close>

fun watchdog_rounds :: "(nat \<Rightarrow> env) \<Rightarrow> nat \<Rightarrow> StuckInstance list \<Rightarrow> database \<Rightarrow> (nat \<times> nat) \<times> database" where
  "watchdog_rounds envs k [] db = ((0, 0), db)"
| "watchdog_rounds envs k (inst # insts) db =
     (if sk_drift inst = ''auto_cancel'' then
        (case CancelInstance (envs k) (watchdog_cancel inst) db of
           (Inl e, db') \<Rightarrow> watchdog_rounds envs (Suc k) insts db'
         | (Inr _, db') \<Rightarrow> (let ((c, a), db'') = watchdog_rounds envs (Suc k) insts db' in ((c + 1, a), db'')))
      else
        (case emitStuckAlert (envs k) inst db of
           (Inl e, db') \<Rightarrow> watchdog_rounds envs (Suc k) insts db'
         | (Inr _, db') \<Rightarrow> (let ((c, a), db'') = watchdog_rounds envs (Suc k) insts db' in ((c, a + 1), db''))))"

record watchdog_report =
  wr_detected :: nat
  wr_cancelled :: nat
  wr_alerts :: nat

definition stuck_instance_watchdog :: "(nat \<Rightarrow> env) \<Rightarrow> drift_column \<Rightarrow> database \<Rightarrow> watchdog_report option \<times> database" where
  "stuck_instance_watchdog envs col db =
     (case listStuckInstances (envs 0) col db of
        (Inl e, db') \<Rightarrow> (None, db')
      | (Inr stuck, db') \<Rightarrow>
          (let ((c, a), db'') = watchdog_rounds envs 1 stuck db' in
           (Some \<lparr>wr_detected = length stuck, wr_cancelled = c, wr_alerts = a\<rparr>, db'')))"

section \<open>Publisher of scheduled documents\<close>

definition DefaultBatchSize :: nat where
  "DefaultBatchSize = 100"

text \<open>The result says how many documents were published and whether the warning about a backlog is logged.\<close>

definition effective_date_publisher :: "env \<Rightarrow> database \<Rightarrow> (gerr + nat \<times> bool) \<times> database" where
  "effective_date_publisher env db =
     (case RunDuePublishes env db of
        (Inl e, db') \<Rightarrow> (Inl e, db')
      | (Inr (processed, errs), db') \<Rightarrow> (Inr (processed, DefaultBatchSize \<le> processed), db'))"

section \<open>Properties\<close>

lemma delete_first_kept: "filter (\<lambda>r. \<not> P r) (delete_first n P rs) = filter (\<lambda>r. \<not> P r) rs"
  by (induction n P rs rule: delete_first.induct) auto

lemma delete_first_hit: "length (filter P (delete_first n P rs)) = length (filter P rs) - n"
  by (induction n P rs rule: delete_first.induct) auto

lemma length_delete_first: "length rs = length (delete_first n P rs) + min n (length (filter P rs))"
  by (induction n P rs rule: delete_first.induct) auto

lemma janitor_rounds_spec:
  assumes "\<forall>k. fault k = None" and "\<forall>k. \<not> lost k"
  shows "\<exists>rs'. janitor_rounds fault lost now k totalDeleted rs =
      (Inr (totalDeleted + min (k * JanitorBatchSize) (length (filter (sweepable now) rs))), rs') \<and>
    filter (\<lambda>r. \<not> sweepable now r) rs' = filter (\<lambda>r. \<not> sweepable now r) rs \<and>
    length (filter (sweepable now) rs') = length (filter (sweepable now) rs) - k * JanitorBatchSize"
proof (induction k arbitrary: totalDeleted rs)
  case (Suc k)
  let ?rs = "delete_first JanitorBatchSize (sweepable now) rs" and ?n = "length (filter (sweepable now) rs)"
  have n: "length rs = length ?rs + min JanitorBatchSize ?n" by (rule length_delete_first)
  have hit: "length (filter (sweepable now) ?rs) = ?n - JanitorBatchSize" by (rule delete_first_hit)
  show ?case
  proof (cases "?n = 0")
    case True
    with n hit show ?thesis using assms by (simp add: Let_def delete_first_kept)
  next
    case False
    define n where "n = min JanitorBatchSize ?n"
    with False have "n \<noteq> 0" by (simp add: JanitorBatchSize_def)
    moreover have "length rs - length ?rs = n" using n by (simp add: n_def)
    ultimately have "janitor_rounds fault lost now (Suc k) totalDeleted rs = janitor_rounds fault lost now k (totalDeleted + n) ?rs"
      using assms by (simp add: Let_def del: diff_is_0_eq diff_is_0_eq')
    with Suc.IH [of "totalDeleted + n" ?rs] hit show ?thesis by (auto simp: delete_first_kept min_def n_def)
  qed
qed simp

text \<open>
  C30. The janitor deletes as much as it may and nothing else. When no statement fails, one run deletes all expired and completed keys, or 50000 of them
  when there are more; every other key is kept, in place.
\<close>

theorem janitor_deletes:
  assumes "\<forall>k. fault k = None" and "\<forall>k. \<not> lost k"
  shows "\<exists>rs'. idempotency_janitor fault lost now rs = (Inr (min 50000 (length (filter (sweepable now) rs))), rs') \<and>
    filter (\<lambda>r. \<not> sweepable now r) rs' = filter (\<lambda>r. \<not> sweepable now r) rs \<and>
    length (filter (sweepable now) rs') = length (filter (sweepable now) rs) - 50000"
  using janitor_rounds_spec [OF assms, of now MaxIterations 0 rs]
  by (simp add: idempotency_janitor_def MaxIterations_def JanitorBatchSize_def)

definition sample_keys :: "idem_row list" where
  "sample_keys = [\<lparr>ir_key = (''t1'', ''ana'', ''POST'', ''k1''), ir_status = ''completed'', ir_expires = 5\<rparr>,
     \<lparr>ir_key = (''t1'', ''ana'', ''POST'', ''k2''), ir_status = ''in_flight'', ir_expires = 5\<rparr>]"

theorem janitor_deletes_witness:
  "fst (idempotency_janitor (\<lambda>_. None) (\<lambda>_. False) 9 sample_keys) = Inr 1"
  using janitor_deletes [of "\<lambda>_. None" "\<lambda>_. False" 9 sample_keys] by (auto simp: sample_keys_def sweepable_def)

lemma bypass_cancel_fails:
  assumes "ci_bypass inp"
  shows "\<exists>e. CancelInstance env inp db = (Inl e, db)"
proof (cases "fst (CancelInstance env inp db)")
  case (Inl e)
  then have "CancelInstance env inp db = (Inl e, snd (CancelInstance env inp db))" by (simp add: prod_eq_iff)
  then show ?thesis using runTx_Inl by (fastforce simp: CancelInstance_def split: if_splits)
next
  case (Inr d)
  then have "CancelInstance env inp db = (Inr d, snd (CancelInstance env inp db))" by (simp add: prod_eq_iff)
  then show ?thesis using assms by (auto simp: CancelInstance_def runTx_Inr split: if_splits dest!: cancel_body_Inr)
qed

lemma emitStuckAlert_tables:
  assumes "emitStuckAlert env inst db = (r, db')"
  shows "\<exists>evs. db' = db\<lparr>db_events := db_events db @ evs\<rparr>"
proof (cases r)
  case (Inl e)
  then have "db' = db" using assms by (auto simp: emitStuckAlert_def dest: runTx_Inl)
  then show ?thesis by (intro exI [of _ "[]"]) simp
next
  case (Inr u)
  then show ?thesis using assms
    by (auto simp: emitStuckAlert_def stuck_alert_body_def set_watchdog_bypass_def Emit_def seq_simps)
qed

lemma watchdog_rounds_tables:
  "\<exists>evs a. watchdog_rounds envs k insts db = ((0, a), db\<lparr>db_events := db_events db @ evs\<rparr>)"
proof (induction insts arbitrary: k db)
  case Nil
  show ?case by (intro exI [of _ "[]"]) simp
next
  case (Cons inst insts)
  show ?case
  proof (cases "sk_drift inst = ''auto_cancel''")
    case True
    obtain e where "CancelInstance (envs k) (watchdog_cancel inst) db = (Inl e, db)"
      using bypass_cancel_fails [of "watchdog_cancel inst"] by (auto simp: watchdog_cancel_def)
    with True Cons.IH [of "Suc k" db] show ?thesis by simp
  next
    case False
    obtain r db' where d: "emitStuckAlert (envs k) inst db = (r, db')" by fastforce
    then obtain evs where "db' = db\<lparr>db_events := db_events db @ evs\<rparr>" using emitStuckAlert_tables by blast
    with d False Cons.IH [of "Suc k" db'] show ?thesis by (auto split: sum.splits)
  qed
qed

text \<open>
  C28. The watchdog cancels nothing. Whatever the route table says, a run of the watchdog cancels no instance and changes no table but the events: it asks
  \<^verbatim>\<open>CancelInstance\<close> to bypass the capability check, which that service does not do. And on the tables of the migrations it does not even
  list the stuck instances, since its query names a column that does not exist: nothing is stored at all.
\<close>

theorem watchdog_cancels_nothing:
  assumes "stuck_instance_watchdog envs col db = (report, db')"
  shows "(\<exists>evs. db' = db\<lparr>db_events := db_events db @ evs\<rparr>) \<and> (case report of None \<Rightarrow> db' = db | Some r \<Rightarrow> wr_cancelled r = 0) \<and>
    (col = None \<longrightarrow> report = None \<and> db' = db)"
proof (cases "listStuckInstances (envs 0) col db")
  case (Pair r db1)
  then have db1: "db1 = db"
    by (cases r) (auto simp: listStuckInstances_def list_stuck_body_def set_watchdog_bypass_def seq_simps
        split: option.splits dest: runTx_Inl)
  show ?thesis
  proof (cases r)
    case (Inl e)
    with Pair db1 assms show ?thesis by (auto simp: stuck_instance_watchdog_def intro!: exI [of _ "[]"])
  next
    case (Inr stuck)
    then have "col \<noteq> None" using Pair
      by (auto simp: listStuckInstances_def list_stuck_body_def seq_simps split: option.splits)
    moreover obtain evs a where "watchdog_rounds envs 1 stuck db = ((0, a), db\<lparr>db_events := db_events db @ evs\<rparr>)"
      using watchdog_rounds_tables by blast
    ultimately show ?thesis using Pair Inr db1 assms by (auto simp: stuck_instance_watchdog_def)
  qed
qed

theorem watchdog_cancels_nothing_witness:
  "snd (stuck_instance_watchdog (\<lambda>_. sample_env) None review_db) = review_db"
  using watchdog_cancels_nothing [of "\<lambda>_. sample_env" None review_db] by (cases "stuck_instance_watchdog (\<lambda>_. sample_env) None review_db") auto

section \<open>The batch of the publisher\<close>

lemma process_rows_count: "process_rows env rows db = ((processed, errs), db') \<Longrightarrow> processed + length errs \<le> length rows"
  by (induction rows arbitrary: db processed errs db')
    (fastforce simp: Let_def split: prod.splits sum.splits if_splits)+

text \<open>What a run of the publisher may do to a document.\<close>

definition is_due :: "time \<Rightarrow> doc_row \<Rightarrow> bool" where
  "is_due now d \<longleftrightarrow> d_status d = ''scheduled'' \<and> (case d_effective_from d of None \<Rightarrow> False | Some t \<Rightarrow> t \<le> now)"

definition published_due :: "time \<Rightarrow> doc_row \<Rightarrow> doc_row \<Rightarrow> bool" where
  "published_due now d d' \<longleftrightarrow> d' = d \<or> is_due now d \<and> d' = set_status ''published'' d"

definition due_row :: "time \<Rightarrow> doc_row list \<Rightarrow> ScheduledPublishRow \<Rightarrow> bool" where
  "due_row now docs row \<longleftrightarrow> (\<exists>d \<in> set docs. is_due now d \<and> d_id d = sp_document row)"

abbreviation scheduled_row :: "ScheduledPublishRow \<Rightarrow> doc_row \<Rightarrow> bool" where
  "scheduled_row row \<equiv> occ_row (sp_document row) (sp_tenant row) ''scheduled'' (sp_revision row)"

lemma due_rows_due: "list_all (due_row now docs) (take n (due_rows now docs))"
  by (force simp: list_all_iff due_rows_def due_row_def is_due_def dest!: in_set_takeD)

lemma processRow_documents:
  assumes "processRow env row db = (r, db')"
  shows "db_documents db' = db_documents db \<or>
    db_documents db' = update_where (scheduled_row row) (set_status ''published'') (db_documents db)"
  using assms
  by (auto simp: processRow_def process_body_def BypassSystem_def Emit_def update_documents_def RowsAffected_def Let_def seq_simps
      split: option.splits sum.splits if_splits)

lemma published_due_step:
  assumes "list_all2 (published_due now) docs ds" and "distinct (map d_id docs)" and "due_row now docs row"
  shows "list_all2 (published_due now) docs (update_where (scheduled_row row) (set_status ''published'') ds)"
  unfolding list_all2_conv_all_nth
proof (intro conjI allI impI)
  show "length docs = length (update_where (scheduled_row row) (set_status ''published'') ds)"
    using assms(1) by (simp add: list_all2_lengthD)
  fix i assume i: "i < length docs"
  then have p: "published_due now (docs ! i) (ds ! i)" "i < length ds" using assms(1) by (auto simp: list_all2_conv_all_nth)
  obtain d where d: "d \<in> set docs" "is_due now d" "d_id d = sp_document row" using assms(3) by (auto simp: due_row_def)
  show "published_due now (docs ! i) (update_where (scheduled_row row) (set_status ''published'') ds ! i)"
  proof (cases "scheduled_row row (ds ! i)")
    case True
    then have same: "ds ! i = docs ! i" using p(1) by (auto simp: published_due_def occ_row_def set_status_def)
    with True d have "d_id (docs ! i) = d_id d" by (simp add: occ_row_def)
    with assms(2) nth_mem [OF i] d(1) have "docs ! i = d" by (rule distinct_map_key)
    with same d(2) True p(2) show ?thesis by (simp add: update_where_def published_due_def)
  qed (use p in \<open>simp add: update_where_def\<close>)
qed

lemma process_rows_documents:
  assumes "process_rows env rows db = (r, db')" and "list_all (due_row now docs) rows" and "distinct (map d_id docs)"
    and "list_all2 (published_due now) docs (db_documents db)"
  shows "list_all2 (published_due now) docs (db_documents db')"
  using assms
proof (induction rows arbitrary: db r db')
  case (Cons row rows)
  obtain r1 db1 where p: "processRow env row db = (r1, db1)" by fastforce
  then have "list_all2 (published_due now) docs (db_documents db1)"
    using processRow_documents [OF p] published_due_step Cons.prems by auto
  moreover obtain r2 where "process_rows env rows db1 = (r2, db')"
    using Cons.prems(1) p by (auto simp: Let_def split: prod.splits sum.splits if_splits)
  ultimately show ?case using Cons.IH Cons.prems by simp
qed simp

text \<open>
  C29. A run of the publisher publishes due documents only, and few at a time: every document is left as it was, or it was scheduled for a time
  that has come and is published now, with the next revision version. At most 50 documents are handled, those published and those that
  failed together, so the warning about a backlog, which waits for 100, is never logged.
\<close>

theorem publisher_batch:
  assumes "RunDuePublishes env db = (Inr (processed, errs), db')" and "distinct (map d_id (db_documents db))"
  shows "list_all2 (published_due (ev_now env 0)) (db_documents db) (db_documents db') \<and>
    processed + length errs \<le> 50 \<and> effective_date_publisher env db = (Inr (processed, False), db')"
proof -
  let ?rows = "take schedulerBatchLimit (due_rows (ev_now env 0) (db_documents db))"
  have rows: "process_rows env ?rows db = ((processed, errs), db')"
    using assms(1) by (auto simp: RunDuePublishes_def ListScheduledDue_def seq_simps split: prod.splits sum.splits)
  have "list_all2 (published_due (ev_now env 0)) (db_documents db) (db_documents db)"
    by (simp add: list_all2_same published_due_def)
  with process_rows_documents [OF rows due_rows_due assms(2)]
  have "list_all2 (published_due (ev_now env 0)) (db_documents db) (db_documents db')" .
  moreover have "processed + length errs \<le> 50" using process_rows_count [OF rows] by (simp add: schedulerBatchLimit_def)
  ultimately show ?thesis using assms by (simp add: effective_date_publisher_def DefaultBatchSize_def)
qed

definition scheduled_db :: database where
  "scheduled_db = review_db\<lparr>db_documents := [sample_doc\<lparr>d_status := ''scheduled'', d_revision := 3, d_effective_from := Some 5\<rparr>,
     sample_doc\<lparr>d_id := ''d2''\<rparr>]\<rparr>"

lemma scheduled_run: "\<exists>db'. RunDuePublishes sample_env scheduled_db = (Inr (1, []), db')"
  by (simp add: RunDuePublishes_def ListScheduledDue_def runTx_def run_eqs stmt_def sample_env_def scheduled_db_def due_rows_def sample_doc_def
      schedulerBatchLimit_def processRow_def process_body_def BypassSystem_def Emit_def update_documents_def RowsAffected_def
      rows_affected_def occ_row_def doc_triggers_def enforce_document_transition_def trigger_edge_def set_status_def fresh_tx_def)

theorem publisher_batch_witness:
  "\<exists>db'. effective_date_publisher sample_env scheduled_db = (Inr (1, False), db') \<and>
     list_all2 (published_due (ev_now sample_env 0)) (db_documents scheduled_db) (db_documents db')"
proof -
  have "distinct (map d_id (db_documents scheduled_db))" by (simp add: scheduled_db_def sample_doc_def)
  with publisher_batch scheduled_run show ?thesis by blast
qed

end
