(* ===== verification/Password_Reauth.thy ===== *)
theory Password_Reauth
  imports Service_Base
begin

text \<open>
  The signature providers of \<^verbatim>\<open>approval/infra/signature\<close>: the registry, and re-authentication by password with its limit on failed
  attempts. Each method that takes the mutex is one function on the map of entries; the clock is read once in each of them. \<^verbatim>\<open>bcrypt\<close> and the
  reader of password hashes are parameters.
\<close>

section \<open>Providers\<close>

record SignRequest =
  sn_actor :: string
  sn_tenant :: string
  sn_content_hash :: string
  sn_credentials :: "string \<rightharpoonup> string"

record SignatureResult =
  sg_res_method :: string
  sg_res_payload :: string
  sg_res_signed_at :: time

type_synonym 'p registry = "string \<rightharpoonup> 'p"

definition Registry_Register :: "('p \<Rightarrow> string) \<Rightarrow> 'p \<Rightarrow> 'p registry \<Rightarrow> 'p registry" where
  "Registry_Register meth p r = r(meth p \<mapsto> p)"

definition Registry_Get :: "string \<Rightarrow> 'p registry \<Rightarrow> gerr + 'p" where
  "Registry_Get method r = (case r method of None \<Rightarrow> Inl ErrUnknownSignatureMethod | Some p \<Rightarrow> Inr p)"

lemma Registry_Get_Register:
  "Registry_Get m (Registry_Register meth p r) = (if m = meth p then Inr p else Registry_Get m r)"
  by (simp add: Registry_Get_def Registry_Register_def)

section \<open>Failed attempts\<close>

definition maxFailures :: int where
  "maxFailures = 5"

definition windowDur :: duration where
  "windowDur = 60 * second"

definition entryTTL :: duration where
  "entryTTL = windowDur * 2"

record failEntry =
  fe_count :: int
  fe_oldest :: time
  fe_last :: time

type_synonym entries = "string \<rightharpoonup> failEntry"

definition checkRateLimit :: "time \<Rightarrow> string \<Rightarrow> entries \<Rightarrow> (gerr + unit) \<times> entries" where
  "checkRateLimit now actorID m =
     (case m actorID of
        None \<Rightarrow> (Inr (), m)
      | Some e \<Rightarrow>
          if now - fe_oldest e \<ge> windowDur then (Inr (), m(actorID := None))
          else if fe_count e \<ge> maxFailures then (Inl ErrRateLimited, m)
          else (Inr (), m))"

definition recordFailure :: "time \<Rightarrow> string \<Rightarrow> entries \<Rightarrow> entries" where
  "recordFailure now actorID m =
     (case m actorID of
        None \<Rightarrow> m(actorID \<mapsto> \<lparr>fe_count = 1, fe_oldest = now, fe_last = now\<rparr>)
      | Some e \<Rightarrow>
          if now - fe_oldest e \<ge> windowDur then m(actorID \<mapsto> e\<lparr>fe_count := 1, fe_oldest := now, fe_last := now\<rparr>)
          else m(actorID \<mapsto> e\<lparr>fe_count := fe_count e + 1, fe_last := now\<rparr>))"

definition clearFailure :: "string \<Rightarrow> entries \<Rightarrow> entries" where
  "clearFailure actorID m = m(actorID := None)"

definition sweepExpired :: "time \<Rightarrow> entries \<Rightarrow> entries" where
  "sweepExpired now m = (\<lambda>u. case m u of None \<Rightarrow> None | Some e \<Rightarrow> if now - fe_last e \<ge> entryTTL then None else Some e)"

section \<open>Signing\<close>

text \<open>
  \<open>re_hash\<close> is \<^verbatim>\<open>IamUserReader.GetPasswordHash\<close>, \<open>re_match\<close> is \<^verbatim>\<open>bcrypt.CompareHashAndPassword\<close> (success), \<open>re_cost\<close> is \<^verbatim>\<open>bcrypt.Cost\<close>
  with its error dropped.
\<close>

record reauth_env =
  re_hash :: "string \<Rightarrow> gerr + string"
  re_match :: "string \<Rightarrow> string \<Rightarrow> bool"
  re_cost :: "string \<Rightarrow> int"

text \<open>
  \<open>t\<close> is the time of the check, \<open>t'\<close> the time the outcome is recorded. The result carries the failures reported to the emitter, as pairs of actor and
  reason. The payload holds only a string, an integer and a string, so marshalling it cannot fail.
\<close>

definition reauth_payload :: "env \<Rightarrow> int \<Rightarrow> time \<Rightarrow> string" where
  "reauth_payload env cost now = or_default [] (marshal_map env [(''method'', AnyStr ''password_reauth''), (''bcrypt_cost'', AnyInt cost),
     (''verified_at'', AnyStr (rfc3339 now))])"

definition Sign ::
  "env \<Rightarrow> reauth_env \<Rightarrow> time \<Rightarrow> time \<Rightarrow> SignRequest \<Rightarrow> entries \<Rightarrow> (gerr + SignatureResult) \<times> (string \<times> string) list \<times> entries" where
  "Sign env re t t' req m =
     (let actor = sn_actor req in
      case sn_credentials req ''password'' of
        None \<Rightarrow> (Inl ErrInvalidCredentials, [], m)
      | Some password \<Rightarrow>
          if password = [] then (Inl ErrInvalidCredentials, [], m)
          else case checkRateLimit t actor m of
              (Inl e, m1) \<Rightarrow> (Inl e, [], m1)
            | (Inr _, m1) \<Rightarrow>
                (case re_hash re actor of
                   Inl e \<Rightarrow> (Inl ErrInvalidCredentials, [(actor, ''user_not_found'')], recordFailure t' actor m1)
                 | Inr hash \<Rightarrow>
                     if \<not> re_match re hash password
                     then (Inl ErrInvalidCredentials, [(actor, ''wrong_password'')], recordFailure t' actor m1)
                     else (Inr \<lparr>sg_res_method = ''password_reauth'', sg_res_payload = reauth_payload env (re_cost re hash) t',
                             sg_res_signed_at = t'\<rparr>, [], clearFailure actor m1)))"

section \<open>Properties\<close>

text \<open>An attempt: who, when (check and recording) and whether the credentials are right, absent, or a sweep of the janitor.\<close>

datatype attempt = Attempt time time SignRequest | Sweep time

fun att_time :: "attempt \<Rightarrow> time" where
  "att_time (Attempt t t' req) = t"
| "att_time (Sweep t) = t"

fun att_done :: "attempt \<Rightarrow> time" where
  "att_done (Attempt t t' req) = t'"
| "att_done (Sweep t) = t"

fun run_attempt :: "env \<Rightarrow> reauth_env \<Rightarrow> attempt \<Rightarrow> entries \<Rightarrow> (string \<times> string) list \<times> entries" where
  "run_attempt env re (Attempt t t' req) m = snd (Sign env re t t' req m)"
| "run_attempt env re (Sweep t) m = ([], sweepExpired t m)"

fun run_attempts :: "env \<Rightarrow> reauth_env \<Rightarrow> attempt list \<Rightarrow> entries \<Rightarrow> (string \<times> string) list \<times> entries" where
  "run_attempts env re [] m = ([], m)"
| "run_attempts env re (a # as) m =
     (let (fs, m') = run_attempt env re a m; (fs', m'') = run_attempts env re as m' in (fs @ fs', m''))"

text \<open>Attempts one after the other, all of them between \<open>lo\<close> and \<open>hi\<close>.\<close>

fun in_order :: "time \<Rightarrow> time \<Rightarrow> attempt list \<Rightarrow> bool" where
  "in_order lo hi [] \<longleftrightarrow> lo \<le> hi"
| "in_order lo hi (a # as) \<longleftrightarrow> lo \<le> att_time a \<and> att_time a \<le> att_done a \<and> in_order (att_done a) hi as"

definition failures_of :: "string \<Rightarrow> (string \<times> string) list \<Rightarrow> int" where
  "failures_of u fs = int (length (filter (\<lambda>f. fst f = u) fs))"

text \<open>Nobody has the password: no attempt in the name of \<open>u\<close> gives the right one.\<close>

fun wrong :: "reauth_env \<Rightarrow> string \<Rightarrow> attempt \<Rightarrow> bool" where
  "wrong re u (Attempt t t' req) \<longleftrightarrow> sn_actor req = u \<longrightarrow>
     (case (re_hash re u, sn_credentials req ''password'') of (Inr hash, Some pw) \<Rightarrow> \<not> re_match re hash pw | _ \<Rightarrow> True)"
| "wrong re u (Sweep t) \<longleftrightarrow> True"

text \<open>How many more failures the entry of a user allows until \<open>hi\<close>.\<close>

definition allowance :: "time \<Rightarrow> time \<Rightarrow> failEntry option \<Rightarrow> int" where
  "allowance lo hi entry =
     (case entry of
        None \<Rightarrow> maxFailures * ((hi - lo) div windowDur + 1)
      | Some e \<Rightarrow> maxFailures - fe_count e + maxFailures * ((hi - fe_oldest e) div windowDur))"

definition entry_ok :: "time \<Rightarrow> failEntry option \<Rightarrow> bool" where
  "entry_ok now entry \<longleftrightarrow> (\<forall>e. entry = Some e \<longrightarrow> 1 \<le> fe_count e \<and> fe_count e \<le> maxFailures \<and> fe_oldest e \<le> fe_last e \<and> fe_last e \<le> now)"

lemma window_pos [simp]: "0 < windowDur"
  by (simp add: windowDur_def second_def)

lemma window_later: "a \<le> b \<Longrightarrow> (hi - b) div windowDur \<le> (hi - a) div windowDur"
  by (intro zdiv_mono1) auto

lemma window_over:
  assumes "windowDur \<le> b - a"
  shows "(hi - b) div windowDur + 1 \<le> (hi - a) div windowDur"
proof -
  have "windowDur \<noteq> 0" using window_pos by linarith
  then have "(hi - b) div windowDur + 1 = (hi - b + windowDur) div windowDur" by (rule div_add_self2 [symmetric])
  also have "\<dots> \<le> (hi - a) div windowDur" using assms by (intro zdiv_mono1) auto
  finally show ?thesis .
qed

lemma allowance_later: "lo \<le> lo' \<Longrightarrow> allowance lo' hi entry \<le> allowance lo hi entry"
  using window_later [of lo lo' hi] by (auto simp: allowance_def maxFailures_def split: option.splits)

lemma allowance_nonneg: "entry_ok lo entry \<Longrightarrow> lo \<le> hi \<Longrightarrow> 0 \<le> allowance lo hi entry"
  by (auto simp: allowance_def entry_ok_def maxFailures_def pos_imp_zdiv_nonneg_iff split: option.splits)

text \<open>A recorded failure uses up one of the allowance, provided the check let it pass.\<close>

lemma allowance_failure:
  assumes "entry_ok t (m u)" and "checkRateLimit t u m = (Inr x, m1)" and "t \<le> t'"
  shows "entry_ok t' (recordFailure t' u m1 u) \<and> allowance t' hi (recordFailure t' u m1 u) + 1 \<le> allowance t hi (m u)"
proof (cases "m u")
  case None
  then have m1: "m1 = m" using assms(2) by (simp add: checkRateLimit_def)
  with None window_later [OF assms(3), of hi] show ?thesis
    by (simp add: recordFailure_def allowance_def entry_ok_def maxFailures_def)
next
  case (Some e)
  with assms(1) have e: "1 \<le> fe_count e" "fe_count e \<le> 5" "fe_oldest e \<le> fe_last e" "fe_last e \<le> t" by (auto simp: entry_ok_def maxFailures_def)
  show ?thesis
  proof (cases "windowDur \<le> t' - fe_oldest e")
    case True
    have "m1 u = None \<or> m1 u = Some e" using Some assms(2) by (auto simp: checkRateLimit_def split: if_splits)
    then show ?thesis using True Some e window_over [OF True, of hi]
      by (auto simp: recordFailure_def allowance_def entry_ok_def maxFailures_def)
  next
    case False
    then have "\<not> windowDur \<le> t - fe_oldest e" using assms(3) by simp
    then have "m1 = m" "fe_count e < 5" using Some assms(2) by (auto simp: checkRateLimit_def maxFailures_def split: if_splits)
    then show ?thesis using False Some e assms(3) by (simp add: recordFailure_def allowance_def entry_ok_def maxFailures_def)
  qed
qed

text \<open>An attempt touches the entry of its own actor only; a failed one either leaves the entries or passes the check and is recorded.\<close>

lemma checkRateLimit_other: "checkRateLimit t v m = (r, m1) \<Longrightarrow> u \<noteq> v \<Longrightarrow> m1 u = m u"
  by (auto simp: checkRateLimit_def split: option.splits if_splits)

lemma recordFailure_other: "u \<noteq> v \<Longrightarrow> recordFailure t v m u = m u"
  by (auto simp: recordFailure_def split: option.splits)

lemma Sign_other:
  assumes "snd (Sign env re t t' req m) = (fs, m')" and "u \<noteq> sn_actor req"
  shows "m' u = m u \<and> failures_of u fs = 0"
  using assms
  by (auto simp: Sign_def Let_def failures_of_def recordFailure_other clearFailure_def split: option.splits if_splits prod.splits sum.splits
      dest: checkRateLimit_other)

lemma Sign_wrong:
  assumes "snd (Sign env re t t' req m) = (fs, m')" and "wrong re (sn_actor req) (Attempt t t' req)"
  obtains "m' = m" "fs = []" |
    m1 where "checkRateLimit t (sn_actor req) m = (Inr (), m1)" "m' = recordFailure t' (sn_actor req) m1"
      "failures_of (sn_actor req) fs = 1"
proof -
  have keep: "checkRateLimit t u m = (Inl e, m1) \<Longrightarrow> m1 = m" for u e m1
    by (auto simp: checkRateLimit_def split: option.splits if_splits)
  show thesis using assms that
    by (auto simp: Sign_def Let_def failures_of_def split: option.splits if_splits prod.splits sum.splits dest: keep)
qed

lemma run_attempt_allowance:
  assumes "entry_ok lo (m u)" and "lo \<le> att_time a" and "att_time a \<le> att_done a" and "wrong re u a"
    and "run_attempt env re a m = (fs, m')"
  shows "entry_ok (att_done a) (m' u) \<and> failures_of u fs + allowance (att_done a) hi (m' u) \<le> allowance lo hi (m u)"
proof (cases a)
  case (Sweep t)
  then have m': "m' = sweepExpired t m" "fs = []" using assms(5) by auto
  show ?thesis
  proof (cases "m' u = m u")
    case True
    with assms Sweep m' allowance_later [of lo t hi "m u"] show ?thesis by (auto simp: entry_ok_def failures_of_def)
  next
    case False
    then obtain e where e: "m u = Some e" "m' u = None" "entryTTL \<le> t - fe_last e"
      by (auto simp: m' sweepExpired_def split: option.splits if_splits)
    then have "windowDur \<le> t - fe_oldest e" "fe_count e \<le> 5"
      using assms(1) by (auto simp: entry_ok_def entryTTL_def maxFailures_def windowDur_def second_def)
    with e Sweep m' window_over [of t "fe_oldest e" hi] show ?thesis
      by (auto simp: failures_of_def entry_ok_def allowance_def maxFailures_def)
  qed
next
  case (Attempt t t' req)
  have ok: "entry_ok t (m u)" "allowance t hi (m u) \<le> allowance lo hi (m u)" using assms(1,2) Attempt
    by (auto simp: entry_ok_def allowance_later)
  have stay: ?thesis if "m' u = m u" "failures_of u fs = 0"
    using that ok assms Attempt allowance_later [of t t' hi "m u"] by (auto simp: entry_ok_def)
  show ?thesis
  proof (cases "sn_actor req = u")
    case True
    with assms(4,5) Attempt have *: "snd (Sign env re t t' req m) = (fs, m')" "wrong re (sn_actor req) (Attempt t t' req)" by auto
    from * show ?thesis
    proof (cases rule: Sign_wrong)
      case 1
      then show ?thesis by (intro stay) (auto simp: failures_of_def)
    next
      case (2 m1)
      have "t \<le> t'" using assms(3) Attempt by simp
      with allowance_failure [of t m u "()" m1 t' hi] ok(1) 2 True Attempt ok(2) show ?thesis by auto
    qed
  next
    case False
    with Sign_other [of env re t t' req m fs m' u] assms(5) Attempt show ?thesis by (intro stay) auto
  qed
qed

lemma run_attempts_allowance:
  assumes "entry_ok lo (m u)" and "in_order lo hi as" and "list_all (wrong re u) as" and "run_attempts env re as m = (fs, m')"
  shows "failures_of u fs \<le> allowance lo hi (m u)"
  using assms
proof (induction as arbitrary: lo m fs)
  case Nil
  then show ?case using allowance_nonneg by (auto simp: failures_of_def)
next
  case (Cons a as)
  obtain fs1 m1 fs2 where r: "run_attempt env re a m = (fs1, m1)" "run_attempts env re as m1 = (fs2, m')" "fs = fs1 @ fs2"
    using Cons.prems(4) by (auto split: prod.splits)
  have "wrong re u a" "list_all (wrong re u) as" using Cons.prems(3) by simp_all
  with Cons.prems r run_attempt_allowance [of lo m u a re env fs1 m1 hi]
  have "entry_ok (att_done a) (m1 u)" "failures_of u fs1 + allowance (att_done a) hi (m1 u) \<le> allowance lo hi (m u)" by auto
  moreover from this(1) have "failures_of u fs2 \<le> allowance (att_done a) hi (m1 u)"
    using Cons.IH [of "att_done a" m1 fs2] Cons.prems(2) r(2) \<open>list_all (wrong re u) as\<close> by simp
  moreover have "failures_of u fs = failures_of u fs1 + failures_of u fs2" by (simp add: r(3) failures_of_def)
  ultimately show ?case by linarith
qed


text \<open>
  The bound is for attempts one after the other. The check takes no place in the count, so any number of concurrent attempts passes it before the first of them is
  recorded.
\<close>

lemma check_reserves_nothing:
  "checkRateLimit t u m = (Inr x, m1) \<Longrightarrow> checkRateLimit t u m1 = (Inr x, m1)"
  by (auto simp: checkRateLimit_def split: option.splits if_splits)

definition guess :: "time \<Rightarrow> attempt" where
  "guess t = Attempt t t \<lparr>sn_actor = ''bob'', sn_tenant = ''t1'', sn_content_hash = [], sn_credentials = [''password'' \<mapsto> ''guess'']\<rparr>"

definition locked_env :: reauth_env where
  "locked_env = \<lparr>re_hash = \<lambda>_. Inr ''hash'', re_match = \<lambda>_ _. False, re_cost = \<lambda>_. 10\<rparr>"

definition plain_env :: env where
  "plain_env = \<lparr>ev_fault = \<lambda>_. None, ev_now = \<lambda>_. 0, ev_dbnow = 0, ev_uuid = \<lambda>_. [], ev_nfc = id, ev_float = \<lambda>_. Inr [], ev_effective_date = False\<rparr>"


end
