(* ===== verification/Template_Domain.thy ===== *)
theory Template_Domain
  imports Complex_Main Content_Hash
begin

text \<open>
  The domain of the templates module (\<^verbatim>\<open>src/internal/modules/templates_v2/domain\<close>): templates and their versions, the states of a version,
  segregation of duties, and the schema of placeholders with its validation from \<^verbatim>\<open>application/schema.go\<close> and \<^verbatim>\<open>visibility_graph.go\<close>.
\<close>

section \<open>Errors\<close>

text \<open>
  The sentinels of the module, the errors of the database driver and the object store, and an error wrapped with a text in front (\<^verbatim>\<open>%w\<close> last) or
  behind (\<^verbatim>\<open>%w\<close> first).
\<close>

datatype terr =
    ErrNotFound | ErrKeyConflict | ErrInvalidVisibility | ErrArchived
  | ErrInvalidStateTransition | ErrTemplateHashMismatch | ErrStaleBase
  | ErrISOSegregationViolation | ErrForbidden | ErrForbiddenRole | ErrUploadMissing | ErrInvalidApprovalConfig
  | ErrPlaceholderIDEmpty | ErrDuplicatePlaceholderID | ErrPlaceholderNameInvalid | ErrDuplicatePlaceholderName | ErrInvalidConstraint
  | ErrPlaceholderCycle | ErrUnknownResolver | ErrPlaceholderNotInCatalog | ErrPlaceholderNotComputed
  | TNoRows | TPgError string | TOutside string | TNewError string
  | TWrap string terr | TWrapAfter terr string

text \<open>\<^verbatim>\<open>errors.Is\<close> on sentinels, and the SQLSTATE \<^verbatim>\<open>errors.As\<close> finds.\<close>

fun terr_is :: "terr \<Rightarrow> terr \<Rightarrow> bool" where
  "terr_is (TWrap m e) t = (TWrap m e = t \<or> terr_is e t)"
| "terr_is (TWrapAfter e m) t = (TWrapAfter e m = t \<or> terr_is e t)"
| "terr_is e t = (e = t)"

fun pg_code :: "terr \<Rightarrow> string option" where
  "pg_code (TPgError c) = Some c"
| "pg_code (TWrap m e) = pg_code e"
| "pg_code (TWrapAfter e m) = pg_code e"
| "pg_code e = None"

section \<open>Versions\<close>

datatype VersionStatus = VersionDraft | VersionInReview | VersionApproved | VersionPublished | VersionObsolete

record MetadataSchema =
  ms_pattern :: string
  ms_retention :: int
  ms_distribution :: "string list"
  ms_required :: "string list"

record VisibilityCondition =
  vc_placeholder :: string
  vc_op :: string
  vc_value :: any

text \<open>
  A finite \<^verbatim>\<open>float64\<close> is the rational number it stands for; the bounds come from JSON, which has no others. A nil slice and an empty one are both
  the empty list: no code of the module tells them apart.
\<close>

record Placeholder =
  ph_id :: string
  ph_name :: string
  ph_label :: string
  ph_type :: string
  ph_required :: bool
  ph_default :: any
  ph_options :: "string list"
  ph_regex :: "string option"
  ph_min_number :: "rat option"
  ph_max_number :: "rat option"
  ph_min_date :: "string option"
  ph_max_date :: "string option"
  ph_max_length :: "int option"
  ph_visible_if :: "VisibilityCondition option"
  ph_computed :: bool
  ph_resolver :: "string option"

definition PHSelect :: string where "PHSelect = ''select''"

definition PHComputed :: string where "PHComputed = ''computed''"

record TemplateVersion =
  tv_id :: string
  tv_template :: string
  tv_number :: int
  tv_status :: VersionStatus
  tv_storage_key :: string
  tv_content_hash :: string
  tv_metadata :: MetadataSchema
  tv_placeholders :: "Placeholder list"
  tv_author :: string
  tv_pending_reviewer :: "string option"
  tv_pending_approver :: string
  tv_reviewer :: "string option"
  tv_approver :: "string option"
  tv_submitted_at :: "time option"
  tv_reviewed_at :: "time option"
  tv_approved_at :: "time option"
  tv_published_at :: "time option"
  tv_obsoleted_at :: "time option"
  tv_created_at :: time

definition CanTransition :: "TemplateVersion \<Rightarrow> VersionStatus \<Rightarrow> bool \<Rightarrow> terr + unit" where
  "CanTransition v nxt hasReviewer =
     (case tv_status v of
        VersionDraft \<Rightarrow> if nxt = VersionInReview then Inr () else Inl ErrInvalidStateTransition
      | VersionInReview \<Rightarrow>
          if nxt = VersionDraft then Inr ()
          else if nxt = VersionApproved \<and> hasReviewer then Inr ()
          else if nxt = VersionPublished \<and> \<not> hasReviewer then Inr ()
          else Inl ErrInvalidStateTransition
      | VersionApproved \<Rightarrow> if nxt = VersionPublished \<or> nxt = VersionDraft then Inr () else Inl ErrInvalidStateTransition
      | VersionPublished \<Rightarrow> if nxt = VersionObsolete then Inr () else Inl ErrInvalidStateTransition
      | VersionObsolete \<Rightarrow> Inl ErrInvalidStateTransition)"

section \<open>Templates\<close>

definition VisibilityPublic :: string where "VisibilityPublic = ''public''"

definition VisibilityInternal :: string where "VisibilityInternal = ''internal''"

definition VisibilitySpecific :: string where "VisibilitySpecific = ''specific''"

record Template =
  tp_id :: string
  tp_tenant :: string
  tp_doc_type :: string
  tp_key :: string
  tp_name :: string
  tp_description :: string
  tp_areas :: "string list"
  tp_visibility :: string
  tp_specific_areas :: "string list"
  tp_latest :: int
  tp_published :: "string option"
  tp_created_by :: string
  tp_created_at :: time
  tp_archived_at :: "time option"

definition IsArchived :: "Template \<Rightarrow> bool" where
  "IsArchived t \<longleftrightarrow> tp_archived_at t \<noteq> None"

record ApprovalConfig =
  ac_template :: string
  ac_reviewer :: "string option"
  ac_approver :: string

definition HasReviewer :: "ApprovalConfig \<Rightarrow> bool" where
  "HasReviewer c \<longleftrightarrow> ac_reviewer c \<noteq> None \<and> ac_reviewer c \<noteq> Some []"

definition CheckSegregation :: "string \<Rightarrow> string \<Rightarrow> string \<Rightarrow> string option \<Rightarrow> terr + unit" where
  "CheckSegregation role actorID authorID reviewerID =
     (if role = ''reviewer'' then (if actorID = authorID then Inl ErrISOSegregationViolation else Inr ())
      else if role = ''approver'' then
        (if actorID = authorID then Inl ErrISOSegregationViolation
         else if reviewerID = Some actorID then Inl ErrISOSegregationViolation
         else Inr ())
      else Inl ErrForbiddenRole)"

datatype AuditAction =
    AuditCreated | AuditSaved | AuditSubmitted | AuditReviewed | AuditApproved | AuditRejected | AuditPublished | AuditObsoleted
  | AuditArchived | AuditRestored | AuditApprovalConfigUpdated

record AuditEvent =
  au_tenant :: string
  au_template :: string
  au_version :: "string option"
  au_actor :: string
  au_action :: AuditAction
  au_details :: "(string \<times> any) list"
  au_occurred :: time

section \<open>Placeholders\<close>

text \<open>\<^verbatim>\<open>^[a-z][a-z0-9_]{0,49}$\<close>.\<close>

definition is_name_char :: "char \<Rightarrow> bool" where
  "is_name_char c \<longleftrightarrow> 97 \<le> byte c \<and> byte c \<le> 122"

definition placeholderNameRe :: "string \<Rightarrow> bool" where
  "placeholderNameRe s \<longleftrightarrow> s \<noteq> [] \<and> is_name_char (hd s) \<and> length (tl s) \<le> 49 \<and>
     list_all (\<lambda>c. is_name_char c \<or> is_digit_char c \<or> c = CHR ''_'') (tl s)"

definition placeholderCatalogSet :: "string list" where
  "placeholderCatalogSet = [''doc_code'', ''doc_title'', ''revision_number'', ''author'', ''effective_date'', ''approvers'', ''controlled_by_area'']"

text \<open>\<^verbatim>\<open>time.Parse\<close> with the layout \<^verbatim>\<open>2006-01-02\<close> succeeds: four digits, a month, a day of that month.\<close>

definition days_in :: "nat \<Rightarrow> nat \<Rightarrow> nat" where
  "days_in y m = (if m = 2 then (if is_leap y then 29 else 28) else if m \<in> {4, 6, 9, 11} then 30 else 31)"

definition date_ok :: "string \<Rightarrow> bool" where
  "date_ok s \<longleftrightarrow> length s = 10 \<and> s ! 4 = CHR ''-'' \<and> s ! 7 = CHR ''-'' \<and>
     list_all is_digit_char (take 4 s @ take 2 (drop 5 s) @ drop 8 s) \<and>
     (let y = dec_val (take 4 s); m = dec_val (take 2 (drop 5 s)); d = dec_val (drop 8 s) in
      1 \<le> m \<and> m \<le> 12 \<and> 1 \<le> d \<and> d \<le> days_in y m)"

definition placeholder_msg :: "string \<Rightarrow> string \<Rightarrow> string" where
  "placeholder_msg i m = ''placeholder['' @ i @ '']'' @ m"

definition check_name :: "Placeholder \<Rightarrow> string list \<Rightarrow> terr + string list" where
  "check_name p seenNames =
     (if ph_name p = [] then Inr seenNames
      else if \<not> placeholderNameRe (ph_name p) then Inl (TWrap (placeholder_msg (ph_id p) '' name invalid'') ErrPlaceholderNameInvalid)
      else if ph_name p \<in> set seenNames then Inl (TWrap (''duplicate_placeholder_name: '' @ ph_name p) ErrDuplicatePlaceholderName)
      else if ph_name p \<notin> set placeholderCatalogSet
      then Inl (TWrap (placeholder_msg (ph_id p) ('' name '' @ go_quote (ph_name p))) ErrPlaceholderNotInCatalog)
      else if ph_type p \<noteq> PHComputed \<or> ph_resolver p \<noteq> Some (ph_name p)
      then Inl (TWrap (placeholder_msg (ph_id p) ('' '' @ go_quote (ph_name p))) ErrPlaceholderNotComputed)
      else Inr (ph_name p # seenNames))"

text \<open>\<open>compiles\<close> says of a text whether \<^verbatim>\<open>regexp.Compile\<close> accepts it.\<close>

definition constraint_error :: "Placeholder \<Rightarrow> string \<Rightarrow> terr" where
  "constraint_error p m = TWrap (placeholder_msg (ph_id p) ('' '' @ m)) ErrInvalidConstraint"

definition check_constraints :: "(string \<Rightarrow> bool) \<Rightarrow> Placeholder \<Rightarrow> terr + unit" where
  "check_constraints compiles p =
     (if (case ph_regex p of None \<Rightarrow> False | Some r \<Rightarrow> \<not> compiles r) then Inl (constraint_error p ''regex'')
      else if (case (ph_min_number p, ph_max_number p) of (Some a, Some b) \<Rightarrow> a > b | _ \<Rightarrow> False)
      then Inl (constraint_error p ''min_number greater than max_number'')
      else if (case ph_min_date p of None \<Rightarrow> False | Some d \<Rightarrow> \<not> date_ok d) then Inl (constraint_error p ''min_date invalid'')
      else if (case ph_max_date p of None \<Rightarrow> False | Some d \<Rightarrow> \<not> date_ok d) then Inl (constraint_error p ''max_date invalid'')
      else if (case (ph_min_date p, ph_max_date p) of (Some a, Some b) \<Rightarrow> a > b | _ \<Rightarrow> False)
      then Inl (constraint_error p ''min_date greater than max_date'')
      else if (case ph_max_length p of None \<Rightarrow> False | Some n \<Rightarrow> n \<le> 0) then Inl (constraint_error p ''max_length must be positive'')
      else if ph_computed p \<and> (ph_resolver p = None \<or> ph_resolver p = Some []) then Inl (constraint_error p ''computed requires resolver_key'')
      else Inr ())"

text \<open>The loop of \<^verbatim>\<open>ValidatePlaceholders\<close> from index \<open>i\<close>, with the identifiers and the names seen so far.\<close>

fun validate_placeholders :: "(string \<Rightarrow> bool) \<Rightarrow> nat \<Rightarrow> string list \<Rightarrow> string list \<Rightarrow> Placeholder list \<Rightarrow> terr + unit" where
  "validate_placeholders compiles i seen seenNames [] = Inr ()"
| "validate_placeholders compiles i seen seenNames (p # ps) =
     (if ph_id p = [] then Inl (TWrap (placeholder_msg (int_dec (int i)) []) ErrPlaceholderIDEmpty)
      else if ph_id p \<in> set seen then Inl (TWrap (''duplicate_placeholder_id: '' @ ph_id p) ErrDuplicatePlaceholderID)
      else
        bindR (check_name p seenNames) (\<lambda>seenNames'.
        bindR (check_constraints compiles p) (\<lambda>_.
        validate_placeholders compiles (Suc i) (ph_id p # seen) seenNames' ps)))"

section \<open>Visibility cycles\<close>

definition nodeWhite :: nat where "nodeWhite = 0"

definition nodeGray :: nat where "nodeGray = 1"

definition nodeBlack :: nat where "nodeBlack = 2"

text \<open>\<^verbatim>\<open>placeholdersByID\<close>: of several placeholders with one identifier the last stays in the map.\<close>

definition by_id :: "Placeholder list \<Rightarrow> string \<Rightarrow> Placeholder option" where
  "by_id phs i = List.find (\<lambda>p. ph_id p = i) (rev phs)"

fun arrows :: "string list \<Rightarrow> string" where
  "arrows [] = []"
| "arrows [s] = s"
| "arrows (s # ss) = s @ '' -> '' @ arrows ss"

text \<open>
  The closure \<^verbatim>\<open>visit\<close>; the map of colours is passed along. A missing identifier has the zero placeholder, which depends on nothing. Each call
  colours a placeholder that was white before, so the recursion ends.
\<close>

function visit :: "Placeholder list \<Rightarrow> (string \<Rightarrow> nat) \<Rightarrow> string \<Rightarrow> string list \<Rightarrow> (terr + unit) \<times> (string \<Rightarrow> nat)" where
  "visit phs color i stack =
     (if color i = nodeGray then (Inl (TWrap (''visibility cycle: '' @ arrows (stack @ [i])) ErrPlaceholderCycle), color)
      else if color i = nodeBlack then (Inr (), color)
      else
        (case by_id phs i of
           None \<Rightarrow> (Inr (), color(i := nodeBlack))
         | Some p \<Rightarrow>
             (case ph_visible_if p of
                None \<Rightarrow> (Inr (), color(i := nodeBlack))
              | Some c \<Rightarrow>
                  if by_id phs (vc_placeholder c) = None
                  then (Inl (TWrap (placeholder_msg (ph_id p) ('' unknown visibility dependency '' @ go_quote (vc_placeholder c))) ErrInvalidConstraint),
                    color(i := nodeGray))
                  else
                    (case visit phs (color(i := nodeGray)) (vc_placeholder c) (stack @ [i]) of
                       (Inl e, color') \<Rightarrow> (Inl e, color')
                     | (Inr _, color') \<Rightarrow> (Inr (), color'(i := nodeBlack))))))"
  by pat_completeness auto

termination
proof (relation "measure (\<lambda>(phs, color, i, stack). length (filter (\<lambda>p. color (ph_id p) \<noteq> nodeGray \<and> color (ph_id p) \<noteq> nodeBlack) phs))", simp, goal_cases)
  case (1 phs color i stack p c)
  let ?open = "\<lambda>k p. k (ph_id p) \<noteq> nodeGray \<and> k (ph_id p) \<noteq> nodeBlack"
  have p: "p \<in> set phs" "ph_id p = i"
    using find_SomeD [OF 1(3) [unfolded by_id_def]] by auto
  have "filter (?open (color(i := nodeGray))) phs = filter (\<lambda>q. ph_id q \<noteq> i) (filter (?open color) phs)"
    by (auto simp: nodeGray_def intro!: filter_cong)
  moreover have "p \<in> set (filter (?open color) phs)" using p 1(1,2) by simp
  ultimately have "length (filter (?open (color(i := nodeGray))) phs) < length (filter (?open color) phs)"
    using p(2) length_filter_less [of p "filter (?open color) phs" "\<lambda>q. ph_id q \<noteq> i"] by simp
  then show ?case by simp
qed

declare visit.simps [simp del]

fun visit_all :: "Placeholder list \<Rightarrow> (string \<Rightarrow> nat) \<Rightarrow> Placeholder list \<Rightarrow> terr + unit" where
  "visit_all phs color [] = Inr ()"
| "visit_all phs color (p # ps) =
     (if color (ph_id p) = nodeWhite
      then (case visit phs color (ph_id p) [] of (Inl e, color') \<Rightarrow> Inl e | (Inr _, color') \<Rightarrow> visit_all phs color' ps)
      else visit_all phs color ps)"

definition DetectVisibilityCycle :: "Placeholder list \<Rightarrow> terr + unit" where
  "DetectVisibilityCycle phs = visit_all phs (\<lambda>_. nodeWhite) phs"

definition ValidatePlaceholders :: "(string \<Rightarrow> bool) \<Rightarrow> Placeholder list \<Rightarrow> terr + unit" where
  "ValidatePlaceholders compiles phs = bindR (validate_placeholders compiles 0 [] [] phs) (\<lambda>_. DetectVisibilityCycle phs)"

end
