(* ===== verification/Template_Schema.thy ===== *)
theory Template_Schema
  imports Template_Domain
begin

text \<open>
  What the validation of a placeholder schema guarantees: the search for visibility cycles succeeds exactly on the schemas whose visibility conditions
  name known placeholders and have no cycle, and a validated schema is well-formed.
\<close>

section \<open>The visibility graph\<close>

definition dep :: "Placeholder list \<Rightarrow> (string \<times> string) set" where
  "dep phs = {(i, j). \<exists>p c. by_id phs i = Some p \<and> ph_visible_if p = Some c \<and> j = vc_placeholder c}"

definition closed :: "Placeholder list \<Rightarrow> bool" where
  "closed phs \<longleftrightarrow> (\<forall>(i, j) \<in> dep phs. by_id phs j \<noteq> None)"

text \<open>The placeholders from which every chain of conditions ends, at known placeholders only.\<close>

inductive grounded :: "Placeholder list \<Rightarrow> string \<Rightarrow> bool" for phs where
  "(\<And>j. (i, j) \<in> dep phs \<Longrightarrow> by_id phs j \<noteq> None \<and> grounded phs j) \<Longrightarrow> grounded phs i"

lemma by_id_SomeD: "by_id phs i = Some p \<Longrightarrow> p \<in> set phs \<and> ph_id p = i"
  by (auto simp: by_id_def dest!: find_SomeD)

lemma by_id_mem: "p \<in> set phs \<Longrightarrow> by_id phs (ph_id p) \<noteq> None"
  by (auto simp: by_id_def find_None_iff)

lemma dep_unique: "(i, j) \<in> dep phs \<Longrightarrow> (i, k) \<in> dep phs \<Longrightarrow> j = k"
  by (auto simp: dep_def)

lemma grounded_acyclic: "grounded phs i \<Longrightarrow> (i, i) \<notin> (dep phs)\<^sup>+"
proof (induction rule: grounded.induct)
  case (1 i)
  show ?case
  proof
    assume "(i, i) \<in> (dep phs)\<^sup>+"
    then obtain j where j: "(i, j) \<in> dep phs" "(j, i) \<in> (dep phs)\<^sup>*" by (meson tranclD)
    then have "(j, j) \<in> (dep phs)\<^sup>+" by (meson rtrancl_into_trancl1)
    with 1 j(1) show False by blast
  qed
qed

lemma finite_dep: "finite (dep phs)"
proof -
  have "dep phs \<subseteq> (\<lambda>p. (ph_id p, vc_placeholder (the (ph_visible_if p)))) ` set phs"
    by (force simp: dep_def dest: by_id_SomeD)
  then show ?thesis by (rule finite_subset) simp
qed

lemma grounded_iff: "(\<forall>p \<in> set phs. grounded phs (ph_id p)) \<longleftrightarrow> closed phs \<and> acyclic (dep phs)"
proof
  assume g: "\<forall>p \<in> set phs. grounded phs (ph_id p)"
  have src: "grounded phs i" if "(i, j) \<in> dep phs" for i j
    using that g by (auto simp: dep_def dest!: by_id_SomeD)
  have "by_id phs j \<noteq> None" if "(i, j) \<in> dep phs" for i j
    using src [OF that] that by (cases rule: grounded.cases) blast
  then have "closed phs" by (auto simp: closed_def)
  moreover have "(i, i) \<notin> (dep phs)\<^sup>+" for i
    using src grounded_acyclic by (meson tranclD)
  ultimately show "closed phs \<and> acyclic (dep phs)" by (simp add: acyclic_def)
next
  assume a: "closed phs \<and> acyclic (dep phs)"
  then have "wf ((dep phs)\<inverse>)" using finite_dep by (blast intro: finite_acyclic_wf_converse)
  then have "grounded phs i" for i
  proof (induction i rule: wf_induct_rule)
    case (less i)
    with a show ?case by (auto simp: closed_def intro: grounded.intros)
  qed
  then show "\<forall>p \<in> set phs. grounded phs (ph_id p)" by simp
qed

subsection \<open>The search\<close>

lemmas colours = nodeWhite_def nodeGray_def nodeBlack_def

lemma visit_sound:
  assumes "visit phs color i stack = (Inr u, color')" and "\<forall>x. color x = nodeBlack \<longrightarrow> grounded phs x"
  shows "(\<forall>x. color' x = nodeBlack \<longrightarrow> grounded phs x) \<and> color' i = nodeBlack \<and> (\<forall>x. color' x = color x \<or> color' x = nodeBlack)"
  using assms
proof (induction phs color i stack arbitrary: u color' rule: visit.induct)
  case (1 phs color i stack)
  show ?case
  proof (cases "color i = nodeBlack")
    case True
    with 1(2,3) show ?thesis by (subst (asm) visit.simps) (auto simp: colours)
  next
    case nb: False
    then have w: "color i \<noteq> nodeGray" using 1(2) by (subst (asm) visit.simps) auto
    show ?thesis
    proof (cases "\<exists>j. (i, j) \<in> dep phs")
      case False
      have "grounded phs i" using False by (blast intro: grounded.intros)
      moreover have "color' = color(i := nodeBlack)"
        using 1(2) nb w False by (subst (asm) visit.simps) (auto simp: dep_def split: option.splits)
      ultimately show ?thesis using 1(3) by auto
    next
      case True
      then obtain p c where p: "by_id phs i = Some p" "ph_visible_if p = Some c" by (auto simp: dep_def)
      let ?j = "vc_placeholder c"
      have k: "by_id phs ?j \<noteq> None" using 1(2) nb w p by (subst (asm) visit.simps) (auto split: if_splits)
      obtain color2 where v: "visit phs (color(i := nodeGray)) ?j (stack @ [i]) = (Inr (), color2)" "color' = color2(i := nodeBlack)"
        using 1(2) nb w p k by (subst (asm) visit.simps) (auto split: prod.splits sum.splits if_splits)
      have "\<forall>x. (color(i := nodeGray)) x = nodeBlack \<longrightarrow> grounded phs x" using 1(3) by (simp add: colours)
      from 1(1) [OF w nb p(1) p(2) k v(1) this]
      have c2: "\<forall>x. color2 x = nodeBlack \<longrightarrow> grounded phs x" "color2 ?j = nodeBlack"
        "\<forall>x. color2 x = (color(i := nodeGray)) x \<or> color2 x = nodeBlack" by simp_all
      have "grounded phs i"
        using c2(1,2) k p by (intro grounded.intros) (auto simp: dep_def)
      moreover have "color' x = color x \<or> color' x = nodeBlack" for x
        using spec [OF c2(3), of x] v(2) by (cases "x = i") auto
      ultimately show ?thesis using c2(1) v(2) by auto
    qed
  qed
qed

lemma visit_complete:
  assumes "grounded phs i" and "\<forall>x. color x = nodeGray \<longrightarrow> (x, i) \<in> (dep phs)\<^sup>+"
  shows "\<exists>color'. visit phs color i stack = (Inr (), color') \<and> (\<forall>x. color' x = nodeGray \<longleftrightarrow> color x = nodeGray)"
  using assms
proof (induction phs color i stack rule: visit.induct)
  case (1 phs color i stack)
  have w: "color i \<noteq> nodeGray" using 1(2,3) grounded_acyclic by blast
  show ?case
  proof (cases "color i = nodeBlack")
    case True
    with w show ?thesis by (subst visit.simps) simp
  next
    case nb: False
    show ?thesis
    proof (cases "\<exists>j. (i, j) \<in> dep phs")
      case False
      then have "visit phs color i stack = (Inr (), color(i := nodeBlack))"
        using nb w by (subst visit.simps) (auto simp: dep_def split: option.splits)
      then show ?thesis using w by (auto simp: colours)
    next
      case True
      then obtain p c where p: "by_id phs i = Some p" "ph_visible_if p = Some c" by (auto simp: dep_def)
      let ?j = "vc_placeholder c"
      have d: "(i, ?j) \<in> dep phs" using p by (auto simp: dep_def)
      then have j: "by_id phs ?j \<noteq> None" "grounded phs ?j" using 1(2) by (auto elim: grounded.cases)
      have "\<forall>x. (color(i := nodeGray)) x = nodeGray \<longrightarrow> (x, ?j) \<in> (dep phs)\<^sup>+"
        using 1(3) d by (auto intro: trancl_into_trancl)
      from 1(1) [OF w nb p(1) p(2) j(1) j(2) this] obtain color2 where
        v: "visit phs (color(i := nodeGray)) ?j (stack @ [i]) = (Inr (), color2)" and
        g: "\<forall>x. color2 x = nodeGray \<longleftrightarrow> (color(i := nodeGray)) x = nodeGray" by blast
      have "visit phs color i stack = (Inr (), color2(i := nodeBlack))"
        using nb w p j v by (subst visit.simps) simp
      then show ?thesis using g w by (auto simp: colours)
    qed
  qed
qed

lemma visit_all_sound:
  assumes "visit_all phs color ps = Inr ()" and "\<forall>x. color x = nodeWhite \<or> color x = nodeBlack \<and> grounded phs x"
  shows "\<forall>p \<in> set ps. grounded phs (ph_id p)"
  using assms
proof (induction ps arbitrary: color)
  case (Cons p ps)
  show ?case
  proof (cases "color (ph_id p) = nodeWhite")
    case False
    with Cons show ?thesis by auto
  next
    case True
    then obtain color' where v: "visit phs color (ph_id p) [] = (Inr (), color')" "visit_all phs color' ps = Inr ()"
      using Cons.prems(1) by (auto split: prod.splits sum.splits)
    have "\<forall>x. color x = nodeBlack \<longrightarrow> grounded phs x" using Cons.prems(2) by (metis colours(1,3) zero_neq_numeral)
    from visit_sound [OF v(1) this] Cons.prems(2)
    have "\<forall>x. color' x = nodeWhite \<or> color' x = nodeBlack \<and> grounded phs x" "grounded phs (ph_id p)" by metis+
    with Cons.IH [OF v(2)] show ?thesis by simp
  qed
qed simp

lemma visit_all_complete:
  assumes "\<forall>p \<in> set ps. grounded phs (ph_id p)" and "\<forall>x. color x \<noteq> nodeGray"
  shows "visit_all phs color ps = Inr ()"
  using assms
proof (induction ps arbitrary: color)
  case (Cons p ps)
  have "grounded phs (ph_id p)" "\<forall>x. color x = nodeGray \<longrightarrow> (x, ph_id p) \<in> (dep phs)\<^sup>+" using Cons.prems by simp_all
  from visit_complete [OF this, of "[]"] obtain color' where
    "visit phs color (ph_id p) [] = (Inr (), color')" "\<forall>x. color' x \<noteq> nodeGray" using Cons.prems(2) by blast
  with Cons show ?case by simp
qed simp

lemma detect_iff: "DetectVisibilityCycle phs = Inr () \<longleftrightarrow> (\<forall>p \<in> set phs. grounded phs (ph_id p))"
  using visit_all_sound [of phs "\<lambda>_. nodeWhite" phs] visit_all_complete [of phs phs "\<lambda>_. nodeWhite"]
  by (auto simp: DetectVisibilityCycle_def colours)

text \<open>
  C39. The search for visibility cycles always ends and answers right: it accepts a schema if and only if every visibility condition names a placeholder of the schema
  and no placeholder depends on itself through a chain of conditions.
\<close>

theorem visibility_cycle_correct:
  "DetectVisibilityCycle phs = Inr () \<longleftrightarrow>
     (\<forall>(i, j) \<in> dep phs. by_id phs j \<noteq> None) \<and> acyclic (dep phs)"
  by (simp only: detect_iff grounded_iff closed_def)

definition plain_placeholder :: "string \<Rightarrow> string option \<Rightarrow> Placeholder" where
  "plain_placeholder i d = \<lparr>ph_id = i, ph_name = [], ph_label = [], ph_type = ''text'', ph_required = False, ph_default = AnyNil, ph_options = [],
     ph_regex = None, ph_min_number = None, ph_max_number = None, ph_min_date = None, ph_max_date = None, ph_max_length = None,
     ph_visible_if = map_option (\<lambda>j. \<lparr>vc_placeholder = j, vc_op = ''eq'', vc_value = AnyStr ''x''\<rparr>) d, ph_computed = False, ph_resolver = None\<rparr>"

definition chain_schema :: "Placeholder list" where
  "chain_schema = [plain_placeholder ''a'' (Some ''b''), plain_placeholder ''b'' (Some ''c''), plain_placeholder ''c'' None]"

lemma chain_ok: "DetectVisibilityCycle chain_schema = Inr ()"
  by (simp add: DetectVisibilityCycle_def chain_schema_def plain_placeholder_def visit.simps by_id_def colours)

theorem visibility_cycle_correct_witness: "acyclic (dep chain_schema) \<and> (''a'', ''b'') \<in> dep chain_schema"
proof -
  have "acyclic (dep chain_schema)" using visibility_cycle_correct [of chain_schema] chain_ok by blast
  moreover have "(''a'', ''b'') \<in> dep chain_schema"
    by (auto simp: dep_def by_id_def chain_schema_def plain_placeholder_def)
  ultimately show ?thesis ..
qed

section \<open>Well-formed schemas\<close>

definition option_le :: "'a::linorder option \<Rightarrow> 'a option \<Rightarrow> bool" where
  "option_le a b \<longleftrightarrow> (\<forall>x y. a = Some x \<and> b = Some y \<longrightarrow> x \<le> y)"

definition placeholder_wf :: "Placeholder \<Rightarrow> bool" where
  "placeholder_wf p \<longleftrightarrow> ph_id p \<noteq> [] \<and>
     (ph_name p \<noteq> [] \<longrightarrow> ph_name p \<in> set placeholderCatalogSet \<and> ph_type p = PHComputed \<and> ph_resolver p = Some (ph_name p)) \<and>
     option_le (ph_min_number p) (ph_max_number p) \<and> option_le (ph_min_date p) (ph_max_date p) \<and>
     pred_option date_ok (ph_min_date p) \<and> pred_option date_ok (ph_max_date p) \<and> pred_option (\<lambda>n. 0 < n) (ph_max_length p) \<and>
     (ph_computed p \<longrightarrow> (\<exists>k. ph_resolver p = Some k \<and> k \<noteq> [])) \<and> (ph_type p = PHSelect \<longleftrightarrow> ph_options p \<noteq> [])"

definition names_of :: "Placeholder list \<Rightarrow> string list" where
  "names_of phs = filter (\<lambda>n. n \<noteq> []) (map ph_name phs)"

definition schema_wf :: "Placeholder list \<Rightarrow> bool" where
  "schema_wf phs \<longleftrightarrow> distinct (map ph_id phs) \<and> distinct (names_of phs) \<and> list_all placeholder_wf phs \<and> closed phs \<and> acyclic (dep phs)"

lemma check_name_Inr:
  "check_name p ns = Inr ns' \<longleftrightarrow> (ph_name p = [] \<and> ns' = ns \<or> ph_name p \<noteq> [] \<and> placeholderNameRe (ph_name p) \<and> ph_name p \<notin> set ns \<and>
     ph_name p \<in> set placeholderCatalogSet \<and> ph_type p = PHComputed \<and> ph_resolver p = Some (ph_name p) \<and> ns' = ph_name p # ns)"
  by (auto simp: check_name_def)

lemma check_constraints_Inr:
  assumes "check_constraints compiles p = Inr ()" and "ph_id p \<noteq> []" and "check_name p ns = Inr ns'" and "ph_type p = PHSelect \<longleftrightarrow> ph_options p \<noteq> []"
  shows "placeholder_wf p"
  using assms unfolding check_name_Inr
  by (auto simp: check_constraints_def placeholder_wf_def option_le_def option.pred_set not_less split: if_splits option.splits)

lemma validate_placeholders_Inr:
  assumes "validate_placeholders compiles i seen ns phs = Inr ()" and "\<forall>p \<in> set phs. ph_type p = PHSelect \<longleftrightarrow> ph_options p \<noteq> []"
  shows "distinct (map ph_id phs) \<and> set (map ph_id phs) \<inter> set seen = {} \<and> distinct (names_of phs) \<and> set (names_of phs) \<inter> set ns = {} \<and>
    list_all placeholder_wf phs"
  using assms
proof (induction compiles i seen ns phs rule: validate_placeholders.induct)
  case (2 compiles i seen ns p ps)
  then obtain ns' where n: "check_name p ns = Inr ns'" and c: "check_constraints compiles p = Inr ()" and
    i: "ph_id p \<noteq> []" "ph_id p \<notin> set seen" and v: "validate_placeholders compiles (Suc i) (ph_id p # seen) ns' ps = Inr ()"
    by (auto simp: bindR_Inr split: if_splits)
  have "placeholder_wf p" using check_constraints_Inr [OF c i(1) n] 2(3) by simp
  moreover have "distinct (map ph_id ps) \<and> set (map ph_id ps) \<inter> set (ph_id p # seen) = {} \<and> distinct (names_of ps) \<and> set (names_of ps) \<inter> set ns' = {} \<and>
    list_all placeholder_wf ps"
    using 2(1) [OF i(1) i(2) v] 2(3) by simp
  ultimately show ?case using n i unfolding check_name_Inr by (auto simp: names_of_def)
qed (simp add: names_of_def)

lemma schema_wf_valid:
  assumes "ValidatePlaceholders compiles phs = Inr ()" and "\<forall>p \<in> set phs. ph_type p = PHSelect \<longleftrightarrow> ph_options p \<noteq> []"
  shows "schema_wf phs"
proof -
  have "validate_placeholders compiles 0 [] [] phs = Inr ()" "DetectVisibilityCycle phs = Inr ()"
    using assms(1) by (auto simp: ValidatePlaceholders_def bindR_Inr)
  with validate_placeholders_Inr [OF this(1) assms(2)] detect_iff show ?thesis by (simp add: schema_wf_def grounded_iff)
qed

lemma schema_wf_Nil: "schema_wf []"
  by (simp add: schema_wf_def names_of_def closed_def dep_def by_id_def acyclic_def)

end
