(* ===== verification/Template_Store.thy ===== *)
theory Template_Store
  imports Template_Domain
begin

text \<open>
  The repository of the templates module (\<^verbatim>\<open>repository/postgres.go\<close>, \<^verbatim>\<open>mappers.go\<close>) over the tables of migration 0120. The repository works on the
  connection pool, not in a transaction: every statement commits for itself, and an error later in a service does not take back the statements before it. A computation
  therefore yields its result or error together with the tables it leaves.
\<close>

section \<open>Computations\<close>

record tstore =
  ts_templates :: "Template list"
  ts_versions :: "TemplateVersion list"
  ts_configs :: "ApprovalConfig list"
  ts_audit :: "AuditEvent list"
  ts_deleted :: "string list"

text \<open>
  \<open>ts_deleted\<close> lists the keys of the object store the service has asked to delete. The outside: \<open>te_fault\<close> names the statements that return an
  error, and says whether the statement took effect nevertheless (its answer was lost); the clock of the service and of the database, the identifiers, the
  object store's answers, the resolvers (\<open>None\<close> when no registry is configured) and the texts \<^verbatim>\<open>regexp.Compile\<close> accepts.
\<close>

record tenv =
  te_fault :: "string \<Rightarrow> (terr \<times> bool) option"
  te_now :: "nat \<Rightarrow> time"
  te_dbnow :: time
  te_uuid :: "nat \<Rightarrow> string"
  te_put :: "string \<Rightarrow> duration \<Rightarrow> terr + string"
  te_get :: "string \<Rightarrow> duration \<Rightarrow> terr + string"
  te_head :: "string \<Rightarrow> terr + string"
  te_resolvers :: "string list option"
  te_regex :: "string \<Rightarrow> bool"

type_synonym 'a tm = "tstore \<Rightarrow> (terr + 'a) \<times> tstore"

definition returnM :: "'a \<Rightarrow> 'a tm" where
  "returnM x s = (Inr x, s)"

definition failM :: "terr \<Rightarrow> 'a tm" where
  "failM e s = (Inl e, s)"

definition bindM :: "'a tm \<Rightarrow> ('a \<Rightarrow> 'b tm) \<Rightarrow> 'b tm" where
  "bindM m k s = (case m s of (Inl e, s') \<Rightarrow> (Inl e, s') | (Inr x, s') \<Rightarrow> k x s')"

definition requireM :: "bool \<Rightarrow> terr \<Rightarrow> unit tm" where
  "requireM b e = (if b then returnM () else failM e)"

definition liftM :: "terr + 'a \<Rightarrow> 'a tm" where
  "liftM r s = (r, s)"

definition mapErrM :: "(terr \<Rightarrow> terr) \<Rightarrow> 'a tm \<Rightarrow> 'a tm" where
  "mapErrM f m s = (case m s of (Inl e, s') \<Rightarrow> (Inl (f e), s') | (Inr x, s') \<Rightarrow> (Inr x, s'))"

text \<open>One statement.\<close>

definition exec :: "tenv \<Rightarrow> string \<Rightarrow> 'a tm \<Rightarrow> 'a tm" where
  "exec env name op s =
     (case te_fault env name of None \<Rightarrow> op s | Some (e, landed) \<Rightarrow> (Inl e, if landed then snd (op s) else s))"

text \<open>A query for one row, and an insert behind its constraints.\<close>

definition query_row :: "(tstore \<Rightarrow> 'a option) \<Rightarrow> 'a tm" where
  "query_row f s = (case f s of None \<Rightarrow> (Inl TNoRows, s) | Some x \<Rightarrow> (Inr x, s))"

definition not_found :: "terr \<Rightarrow> terr" where
  "not_found e = (if terr_is e TNoRows \<or> pg_code e = Some ''22P02'' then ErrNotFound else e)"

section \<open>Templates\<close>

text \<open>Identifiers are in the canonical text form of a UUID; a text that is not a UUID names no row, and the repository reports it as not found too.\<close>

definition insert_template :: "Template \<Rightarrow> unit tm" where
  "insert_template t s =
     (if tp_id t \<in> tp_id ` set (ts_templates s) \<or> (tp_tenant t, tp_key t) \<in> (\<lambda>x. (tp_tenant x, tp_key x)) ` set (ts_templates s)
      then (Inl (TPgError ''23505''), s)
      else (Inr (), s\<lparr>ts_templates := ts_templates s @ [t]\<rparr>))"

definition Repo_CreateTemplate :: "tenv \<Rightarrow> Template \<Rightarrow> unit tm" where
  "Repo_CreateTemplate env t =
     mapErrM (\<lambda>e. if pg_code e = Some ''23505'' then ErrKeyConflict else e) (exec env ''CreateTemplate'' (insert_template t))"

definition Repo_GetTemplate :: "tenv \<Rightarrow> string \<Rightarrow> string \<Rightarrow> Template tm" where
  "Repo_GetTemplate env tenantID i =
     mapErrM not_found (exec env ''GetTemplate'' (query_row (\<lambda>s. List.find (\<lambda>t. tp_id t = i \<and> tp_tenant t = tenantID) (ts_templates s))))"

definition Repo_GetTemplateByKey :: "tenv \<Rightarrow> string \<Rightarrow> string \<Rightarrow> Template tm" where
  "Repo_GetTemplateByKey env tenantID key =
     mapErrM (\<lambda>e. if terr_is e TNoRows then ErrNotFound else e)
       (exec env ''GetTemplateByKey'' (query_row (\<lambda>s. List.find (\<lambda>t. tp_tenant t = tenantID \<and> tp_key t = key) (ts_templates s))))"

record ListFilter =
  lf_tenant :: string
  lf_areas :: "string list"
  lf_actor_areas :: "string list"
  lf_external :: bool
  lf_doc_type :: "string option"
  lf_status :: "VersionStatus option"
  lf_limit :: int
  lf_offset :: int

text \<open>The filter's status is not used by the query.\<close>

definition listed :: "ListFilter \<Rightarrow> Template \<Rightarrow> bool" where
  "listed f t \<longleftrightarrow> tp_tenant t = lf_tenant f \<and> (lf_doc_type f = None \<or> lf_doc_type f = Some (tp_doc_type t)) \<and>
     (lf_areas f = [] \<or> set (tp_areas t) \<inter> set (lf_areas f) \<noteq> {}) \<and>
     (tp_visibility t = VisibilityPublic \<or> tp_visibility t = VisibilityInternal \<and> \<not> lf_external f \<or>
      tp_visibility t = VisibilitySpecific \<and> lf_actor_areas f \<noteq> [] \<and> set (tp_specific_areas t) \<inter> set (lf_actor_areas f) \<noteq> {})"

definition page :: "int \<Rightarrow> int \<Rightarrow> 'a list \<Rightarrow> terr + 'a list" where
  "page limit offset rows =
     (if limit < 0 then Inl (TPgError ''2201W'') else if offset < 0 then Inl (TPgError ''2201X'')
      else Inr (take (nat limit) (drop (nat offset) rows)))"

definition Repo_ListTemplates :: "tenv \<Rightarrow> ListFilter \<Rightarrow> Template list tm" where
  "Repo_ListTemplates env f = exec env ''ListTemplates''
     (\<lambda>s. (page (lf_limit f) (lf_offset f) (sort_key (\<lambda>t. - tp_created_at t) (filter (listed f) (ts_templates s))), s))"

text \<open>The columns an update writes; identity, tenant and creation stay.\<close>

definition write_template :: "Template \<Rightarrow> Template \<Rightarrow> Template" where
  "write_template t row = row\<lparr>tp_doc_type := tp_doc_type t, tp_key := tp_key t, tp_name := tp_name t, tp_description := tp_description t,
     tp_areas := tp_areas t, tp_visibility := tp_visibility t, tp_specific_areas := tp_specific_areas t, tp_latest := tp_latest t,
     tp_published := tp_published t, tp_archived_at := tp_archived_at t\<rparr>"

definition update_template :: "Template \<Rightarrow> unit tm" where
  "update_template t s =
     (let P = (\<lambda>x. tp_id x = tp_id t \<and> tp_tenant x = tp_tenant t) in
      if rows_affected P (ts_templates s) = 0 then (Inl ErrNotFound, s)
      else if (\<exists>x \<in> set (ts_templates s). \<not> P x \<and> tp_tenant x = tp_tenant t \<and> tp_key x = tp_key t) then (Inl (TPgError ''23505''), s)
      else if (case tp_published t of None \<Rightarrow> False | Some v \<Rightarrow> v \<notin> tv_id ` set (ts_versions s)) then (Inl (TPgError ''23503''), s)
      else (Inr (), s\<lparr>ts_templates := update_where P (write_template t) (ts_templates s)\<rparr>))"

definition Repo_UpdateTemplate :: "tenv \<Rightarrow> Template \<Rightarrow> unit tm" where
  "Repo_UpdateTemplate env t = exec env ''UpdateTemplate'' (update_template t)"

section \<open>Versions\<close>

text \<open>
  The columns keep the schemas as values: \<^verbatim>\<open>marshalVersionSchemas\<close> and \<^verbatim>\<open>scanTemplateVersion\<close> are inverse on schemas that came from JSON.
\<close>

definition insert_version :: "TemplateVersion \<Rightarrow> unit tm" where
  "insert_version v s =
     (if tv_id v \<in> tv_id ` set (ts_versions s) \<or> (tv_template v, tv_number v) \<in> (\<lambda>x. (tv_template x, tv_number x)) ` set (ts_versions s)
      then (Inl (TPgError ''23505''), s)
      else if tv_template v \<notin> tp_id ` set (ts_templates s) then (Inl (TPgError ''23503''), s)
      else (Inr (), s\<lparr>ts_versions := ts_versions s @ [v]\<rparr>))"

definition Repo_CreateVersion :: "tenv \<Rightarrow> TemplateVersion \<Rightarrow> unit tm" where
  "Repo_CreateVersion env v = exec env ''CreateVersion'' (insert_version v)"

definition Repo_GetVersion :: "tenv \<Rightarrow> string \<Rightarrow> int \<Rightarrow> TemplateVersion tm" where
  "Repo_GetVersion env templateID n =
     mapErrM not_found (exec env ''GetVersion'' (query_row (\<lambda>s. List.find (\<lambda>v. tv_template v = templateID \<and> tv_number v = n) (ts_versions s))))"

definition Repo_GetVersionByID :: "tenv \<Rightarrow> string \<Rightarrow> TemplateVersion tm" where
  "Repo_GetVersionByID env i =
     mapErrM not_found (exec env ''GetVersionByID'' (query_row (\<lambda>s. List.find (\<lambda>v. tv_id v = i) (ts_versions s))))"

definition write_version :: "TemplateVersion \<Rightarrow> TemplateVersion \<Rightarrow> TemplateVersion" where
  "write_version v row = v\<lparr>tv_id := tv_id row, tv_template := tv_template row, tv_number := tv_number row, tv_author := tv_author row,
     tv_created_at := tv_created_at row\<rparr>"

definition update_version :: "TemplateVersion \<Rightarrow> unit tm" where
  "update_version v s =
     (if rows_affected (\<lambda>x. tv_id x = tv_id v) (ts_versions s) = 0 then (Inl ErrNotFound, s)
      else (Inr (), s\<lparr>ts_versions := update_where (\<lambda>x. tv_id x = tv_id v) (write_version v) (ts_versions s)\<rparr>))"

definition Repo_UpdateVersion :: "tenv \<Rightarrow> TemplateVersion \<Rightarrow> unit tm" where
  "Repo_UpdateVersion env v = exec env ''UpdateVersion'' (update_version v)"

definition obsolete_others :: "tenv \<Rightarrow> string \<Rightarrow> string \<Rightarrow> TemplateVersion list \<Rightarrow> TemplateVersion list" where
  "obsolete_others env templateID keepVersionID =
     update_where (\<lambda>v. tv_template v = templateID \<and> tv_status v = VersionPublished \<and> tv_id v \<noteq> keepVersionID)
       (\<lambda>v. v\<lparr>tv_status := VersionObsolete, tv_obsoleted_at := Some (te_dbnow env)\<rparr>)"

definition Repo_ObsoletePreviousPublished :: "tenv \<Rightarrow> string \<Rightarrow> string \<Rightarrow> unit tm" where
  "Repo_ObsoletePreviousPublished env templateID keepVersionID = exec env ''ObsoletePreviousPublished''
     (\<lambda>s. (Inr (), s\<lparr>ts_versions := obsolete_others env templateID keepVersionID (ts_versions s)\<rparr>))"

section \<open>Approval configuration and audit log\<close>

definition Repo_GetApprovalConfig :: "tenv \<Rightarrow> string \<Rightarrow> ApprovalConfig tm" where
  "Repo_GetApprovalConfig env templateID =
     mapErrM not_found (exec env ''GetApprovalConfig'' (query_row (\<lambda>s. List.find (\<lambda>c. ac_template c = templateID) (ts_configs s))))"

definition upsert_config :: "ApprovalConfig \<Rightarrow> unit tm" where
  "upsert_config c s =
     (if ac_template c \<notin> tp_id ` set (ts_templates s) then (Inl (TPgError ''23503''), s)
      else if ac_template c \<in> ac_template ` set (ts_configs s)
      then (Inr (), s\<lparr>ts_configs := update_where (\<lambda>x. ac_template x = ac_template c)
        (\<lambda>x. x\<lparr>ac_reviewer := ac_reviewer c, ac_approver := ac_approver c\<rparr>) (ts_configs s)\<rparr>)
      else (Inr (), s\<lparr>ts_configs := ts_configs s @ [c]\<rparr>))"

definition Repo_UpsertApprovalConfig :: "tenv \<Rightarrow> ApprovalConfig \<Rightarrow> unit tm" where
  "Repo_UpsertApprovalConfig env c = exec env ''UpsertApprovalConfig'' (upsert_config c)"

definition Repo_AppendAudit :: "tenv \<Rightarrow> AuditEvent \<Rightarrow> unit tm" where
  "Repo_AppendAudit env e = exec env ''AppendAudit'' (\<lambda>s. (Inr (), s\<lparr>ts_audit := ts_audit s @ [e]\<rparr>))"

definition Repo_ListAudit :: "tenv \<Rightarrow> string \<Rightarrow> int \<Rightarrow> int \<Rightarrow> AuditEvent list tm" where
  "Repo_ListAudit env templateID limit offset =
     mapErrM (\<lambda>e. if pg_code e = Some ''22P02'' then ErrNotFound else e) (exec env ''ListAudit''
       (\<lambda>s. (page limit offset (sort_key (\<lambda>e. - au_occurred e) (filter (\<lambda>e. au_template e = templateID) (ts_audit s))), s)))"

section \<open>Weakest preconditions\<close>

text \<open>
  \<open>wp m Q s\<close>: running \<open>m\<close> in \<open>s\<close> gives a result and tables with \<open>Q\<close>. The rules below run a service symbolically, one statement after the other.
\<close>

definition wp :: "'a tm \<Rightarrow> (terr + 'a \<Rightarrow> tstore \<Rightarrow> bool) \<Rightarrow> tstore \<Rightarrow> bool" where
  "wp m Q s \<longleftrightarrow> (case m s of (r, s') \<Rightarrow> Q r s')"

named_theorems wp_rules \<open>rules that run a computation of the repository symbolically\<close>

lemma wpD: "wp m Q s \<Longrightarrow> m s = (r, s') \<Longrightarrow> Q r s'"
  by (simp add: wp_def)

lemma wp_return [wp_rules]: "Q (Inr x) s \<Longrightarrow> wp (returnM x) Q s"
  by (simp add: wp_def returnM_def)

lemma wp_fail [wp_rules]: "Q (Inl e) s \<Longrightarrow> wp (failM e) Q s"
  by (simp add: wp_def failM_def)

lemma wp_bind [wp_rules]: "wp m (\<lambda>r s'. case r of Inl e \<Rightarrow> Q (Inl e) s' | Inr x \<Rightarrow> wp (k x) Q s') s \<Longrightarrow> wp (bindM m k) Q s"
  by (auto simp: wp_def bindM_def split: prod.splits sum.splits)

lemma wp_require [wp_rules]: "(b \<Longrightarrow> Q (Inr ()) s) \<Longrightarrow> (\<not> b \<Longrightarrow> Q (Inl e) s) \<Longrightarrow> wp (requireM b e) Q s"
  by (auto simp: wp_def requireM_def returnM_def failM_def)

lemma wp_lift [wp_rules]: "(\<And>x. r = Inr x \<Longrightarrow> Q (Inr x) s) \<Longrightarrow> (\<And>e. r = Inl e \<Longrightarrow> Q (Inl e) s) \<Longrightarrow> wp (liftM r) Q s"
  by (cases r) (simp_all add: wp_def liftM_def)

lemma wp_if [wp_rules]: "(b \<Longrightarrow> wp m Q s) \<Longrightarrow> (\<not> b \<Longrightarrow> wp m' Q s) \<Longrightarrow> wp (if b then m else m') Q s"
  by simp

lemma wp_mapErr: "wp m (\<lambda>r s'. case r of Inl e \<Rightarrow> Q (Inl (f e)) s' | Inr x \<Rightarrow> Q (Inr x) s') s \<Longrightarrow> wp (mapErrM f m) Q s"
  by (auto simp: wp_def mapErrM_def split: prod.splits sum.splits)

lemma wp_exec: "wp op Q s \<Longrightarrow> (\<And>e. Q (Inl e) s) \<Longrightarrow> (\<And>e. Q (Inl e) (snd (op s))) \<Longrightarrow> wp (exec env name op) Q s"
  by (auto simp: wp_def exec_def split: option.splits prod.splits)

text \<open>A query for one row.\<close>

lemma wp_query:
  assumes "\<And>e. Q (Inl e) s" and "\<And>x. f s = Some x \<Longrightarrow> Q (Inr x) s"
  shows "wp (mapErrM g (exec env name (query_row f))) Q s"
  using assms by (intro wp_mapErr wp_exec) (auto simp: wp_def query_row_def split: option.splits)

text \<open>The template exists and belongs to the tenant.\<close>

definition owns :: "string \<Rightarrow> tstore \<Rightarrow> string \<Rightarrow> bool" where
  "owns tn s i \<longleftrightarrow> (\<exists>t \<in> set (ts_templates s). tp_id t = i \<and> tp_tenant t = tn)"

lemma owns_frame [simp]:
  "owns tn (s\<lparr>ts_versions := vs\<rparr>) i = owns tn s i" "owns tn (s\<lparr>ts_audit := es\<rparr>) i = owns tn s i"
  "owns tn (s\<lparr>ts_configs := cs\<rparr>) i = owns tn s i" "owns tn (s\<lparr>ts_deleted := ks\<rparr>) i = owns tn s i"
  by (simp_all add: owns_def)

lemma wp_GetTemplate [wp_rules]:
  assumes "\<And>e. Q (Inl e) s"
    and "\<And>t. t \<in> set (ts_templates s) \<Longrightarrow> tp_id t = i \<Longrightarrow> tp_tenant t = tenantID \<Longrightarrow> owns tenantID s i \<Longrightarrow> Q (Inr t) s"
  shows "wp (Repo_GetTemplate env tenantID i) Q s"
  unfolding Repo_GetTemplate_def
proof (rule wp_query)
  fix t assume "List.find (\<lambda>t. tp_id t = i \<and> tp_tenant t = tenantID) (ts_templates s) = Some t"
  from find_SomeD [OF this] show "Q (Inr t) s" by (auto intro!: assms(2) simp: owns_def)
qed (rule assms(1))

lemma wp_GetTemplateByKey [wp_rules]: "(\<And>e. Q (Inl e) s) \<Longrightarrow> (\<And>t. Q (Inr t) s) \<Longrightarrow> wp (Repo_GetTemplateByKey env tenantID key) Q s"
  unfolding Repo_GetTemplateByKey_def by (intro wp_query) auto

lemma wp_GetVersion [wp_rules]:
  assumes "\<And>e. Q (Inl e) s" and "\<And>v. v \<in> set (ts_versions s) \<Longrightarrow> tv_template v = t \<Longrightarrow> tv_number v = n \<Longrightarrow> Q (Inr v) s"
  shows "wp (Repo_GetVersion env t n) Q s"
  unfolding Repo_GetVersion_def using assms by (intro wp_query) (auto dest!: find_SomeD)

lemma wp_GetVersionByID [wp_rules]:
  assumes "\<And>e. Q (Inl e) s" and "\<And>v. v \<in> set (ts_versions s) \<Longrightarrow> tv_id v = i \<Longrightarrow> Q (Inr v) s"
  shows "wp (Repo_GetVersionByID env i) Q s"
  unfolding Repo_GetVersionByID_def using assms by (intro wp_query) (auto dest!: find_SomeD)

lemma wp_GetApprovalConfig [wp_rules]: "(\<And>e. Q (Inl e) s) \<Longrightarrow> (\<And>c. Q (Inr c) s) \<Longrightarrow> wp (Repo_GetApprovalConfig env t) Q s"
  unfolding Repo_GetApprovalConfig_def by (intro wp_query) auto

text \<open>A statement that writes: it fails and leaves the tables, or its effect is there, whatever it answers.\<close>

lemma wp_write:
  assumes "\<And>e. Q (Inl e) s" and "\<And>x s'. op s = (Inr x, s') \<Longrightarrow> Q (Inr x) s' \<and> (\<forall>e. Q (Inl e) s')"
    and "\<And>e s'. op s = (Inl e, s') \<Longrightarrow> s' = s"
  shows "wp (exec env name op) Q s"
proof (rule wp_exec)
  show "wp op Q s" using assms by (cases "op s"; cases "fst (op s)") (auto simp: wp_def)
  show "Q (Inl e) (snd (op s))" for e using assms by (cases "op s"; cases "fst (op s)") auto
qed (rule assms(1))

lemma wp_CreateTemplate [wp_rules]:
  assumes "\<And>e. Q (Inl e) s"
    and "\<And>e. tp_id t \<notin> tp_id ` set (ts_templates s) \<Longrightarrow> Q (Inl e) (s\<lparr>ts_templates := ts_templates s @ [t]\<rparr>)"
    and "tp_id t \<notin> tp_id ` set (ts_templates s) \<Longrightarrow> Q (Inr ()) (s\<lparr>ts_templates := ts_templates s @ [t]\<rparr>)"
  shows "wp (Repo_CreateTemplate env t) Q s"
  unfolding Repo_CreateTemplate_def
  by (intro wp_mapErr wp_write) (auto simp: assms insert_template_def split: if_splits)

lemma wp_UpdateTemplate [wp_rules]:
  assumes "\<And>e. Q (Inl e) s"
    and "\<And>e. pred_option (\<lambda>v. v \<in> tv_id ` set (ts_versions s)) (tp_published t) \<Longrightarrow>
      Q (Inl e) (s\<lparr>ts_templates := update_where (\<lambda>x. tp_id x = tp_id t \<and> tp_tenant x = tp_tenant t) (write_template t) (ts_templates s)\<rparr>)"
    and "pred_option (\<lambda>v. v \<in> tv_id ` set (ts_versions s)) (tp_published t) \<Longrightarrow>
      Q (Inr ()) (s\<lparr>ts_templates := update_where (\<lambda>x. tp_id x = tp_id t \<and> tp_tenant x = tp_tenant t) (write_template t) (ts_templates s)\<rparr>)"
  shows "wp (Repo_UpdateTemplate env t) Q s"
  unfolding Repo_UpdateTemplate_def
  by (intro wp_write) (auto simp: assms update_template_def Let_def split: if_splits option.splits)

lemma wp_CreateVersion [wp_rules]:
  assumes "\<And>e. Q (Inl e) s"
    and "\<And>e. tv_id v \<notin> tv_id ` set (ts_versions s) \<Longrightarrow> (tv_template v, tv_number v) \<notin> (\<lambda>x. (tv_template x, tv_number x)) ` set (ts_versions s) \<Longrightarrow> Q (Inl e) (s\<lparr>ts_versions := ts_versions s @ [v]\<rparr>)"
    and "tv_id v \<notin> tv_id ` set (ts_versions s) \<Longrightarrow> (tv_template v, tv_number v) \<notin> (\<lambda>x. (tv_template x, tv_number x)) ` set (ts_versions s) \<Longrightarrow> Q (Inr ()) (s\<lparr>ts_versions := ts_versions s @ [v]\<rparr>)"
  shows "wp (Repo_CreateVersion env v) Q s"
  unfolding Repo_CreateVersion_def
  by (intro wp_write) (auto simp: assms insert_version_def split: if_splits)

lemma wp_UpdateVersion [wp_rules]:
  assumes "\<And>e. Q (Inl e) s"
    and "\<And>e. Q (Inl e) (s\<lparr>ts_versions := update_where (\<lambda>x. tv_id x = tv_id v) (write_version v) (ts_versions s)\<rparr>)"
    and "Q (Inr ()) (s\<lparr>ts_versions := update_where (\<lambda>x. tv_id x = tv_id v) (write_version v) (ts_versions s)\<rparr>)"
  shows "wp (Repo_UpdateVersion env v) Q s"
  unfolding Repo_UpdateVersion_def
  by (intro wp_write) (auto simp: assms update_version_def split: if_splits)

lemma wp_ObsoletePreviousPublished [wp_rules]:
  assumes "\<And>e. Q (Inl e) s" and "\<And>e. Q (Inl e) (s\<lparr>ts_versions := obsolete_others env t k (ts_versions s)\<rparr>)"
    and "Q (Inr ()) (s\<lparr>ts_versions := obsolete_others env t k (ts_versions s)\<rparr>)"
  shows "wp (Repo_ObsoletePreviousPublished env t k) Q s"
  unfolding Repo_ObsoletePreviousPublished_def by (intro wp_write) (auto simp: assms)

lemma wp_UpsertApprovalConfig [wp_rules]:
  assumes "\<And>e. Q (Inl e) s" and "\<And>e cs. Q (Inl e) (s\<lparr>ts_configs := cs\<rparr>)"
    and "\<And>cs. Q (Inr ()) (s\<lparr>ts_configs := cs\<rparr>)"
  shows "wp (Repo_UpsertApprovalConfig env c) Q s"
  unfolding Repo_UpsertApprovalConfig_def by (intro wp_write) (auto simp: assms upsert_config_def split: if_splits)

lemma wp_AppendAudit [wp_rules]:
  assumes "\<And>e. Q (Inl e) s" and "\<And>e. Q (Inl e) (s\<lparr>ts_audit := ts_audit s @ [ev]\<rparr>)"
    and "Q (Inr ()) (s\<lparr>ts_audit := ts_audit s @ [ev]\<rparr>)"
  shows "wp (Repo_AppendAudit env ev) Q s"
  unfolding Repo_AppendAudit_def by (intro wp_write) (auto simp: assms)

end
