(* ===== verification/Template_Service.thy ===== *)
theory Template_Service
  imports Template_Store
begin

text \<open>
  The services of the templates module (\<^verbatim>\<open>templates_v2/application\<close>), each in the order of the code. The calls of the clock and of the generator of
  identifiers are numbered within one service call.
\<close>

section \<open>Creating templates and versions\<close>

definition audit_event :: "string \<Rightarrow> string \<Rightarrow> string option \<Rightarrow> string \<Rightarrow> AuditAction \<Rightarrow> (string \<times> any) list \<Rightarrow> time \<Rightarrow> AuditEvent" where
  "audit_event tenantID templateID versionID actorID act details occurred =
     \<lparr>au_tenant = tenantID, au_template = templateID, au_version = versionID, au_actor = actorID, au_action = act, au_details = details,
      au_occurred = occurred\<rparr>"

text \<open>A \<^verbatim>\<open>*string\<close> as a JSON value.\<close>

definition role_value :: "string option \<Rightarrow> any" where
  "role_value r = (case r of None \<Rightarrow> AnyNil | Some s \<Rightarrow> AnyStr s)"

definition storage_key :: "string \<Rightarrow> int \<Rightarrow> string" where
  "storage_key templateID n = ''templates/'' @ templateID @ ''/versions/'' @ int_dec n @ ''.docx''"

definition cloneMetadataSchema :: "MetadataSchema \<Rightarrow> MetadataSchema" where
  "cloneMetadataSchema s = \<lparr>ms_pattern = ms_pattern s, ms_retention = ms_retention s, ms_distribution = ms_distribution s, ms_required = ms_required s\<rparr>"

definition clonePlaceholders :: "Placeholder list \<Rightarrow> Placeholder list" where
  "clonePlaceholders phs = map (\<lambda>p. p\<lparr>ph_options := ph_options p\<rparr>) phs"

lemma clones [simp]: "cloneMetadataSchema s = s" "clonePlaceholders phs = phs"
  by (simp_all add: cloneMetadataSchema_def clonePlaceholders_def)

definition isValidVisibility :: "string \<Rightarrow> bool" where
  "isValidVisibility v \<longleftrightarrow> v = VisibilityPublic \<or> v = VisibilityInternal \<or> v = VisibilitySpecific"

definition empty_metadata :: MetadataSchema where
  "empty_metadata = \<lparr>ms_pattern = [], ms_retention = 0, ms_distribution = [], ms_required = []\<rparr>"

definition new_version :: "string \<Rightarrow> string \<Rightarrow> int \<Rightarrow> MetadataSchema \<Rightarrow> Placeholder list \<Rightarrow> string \<Rightarrow> string option \<Rightarrow> string \<Rightarrow> time \<Rightarrow> TemplateVersion" where
  "new_version i templateID n metadata phs author reviewerRole approverRole created =
     \<lparr>tv_id = i, tv_template = templateID, tv_number = n, tv_status = VersionDraft, tv_storage_key = storage_key templateID n, tv_content_hash = [],
      tv_metadata = metadata, tv_placeholders = phs, tv_author = author, tv_pending_reviewer = reviewerRole, tv_pending_approver = approverRole,
      tv_reviewer = None, tv_approver = None, tv_submitted_at = None, tv_reviewed_at = None, tv_approved_at = None, tv_published_at = None,
      tv_obsoleted_at = None, tv_created_at = created\<rparr>"

record CreateTemplateCmd =
  ct_tenant :: string
  ct_actor :: string
  ct_doc_type :: string
  ct_key :: string
  ct_name :: string
  ct_description :: string
  ct_areas :: "string list"
  ct_visibility :: string
  ct_specific_areas :: "string list"
  ct_approver :: string
  ct_reviewer :: "string option"

text \<open>\<^verbatim>\<open>if _, err := GetTemplateByKey(...); !errors.Is(err, ErrNotFound)\<close>: every other outcome, a failure of the query too, is a conflict.\<close>

definition key_is_free :: "tenv \<Rightarrow> string \<Rightarrow> string \<Rightarrow> unit tm" where
  "key_is_free env tenantID key s =
     (case Repo_GetTemplateByKey env tenantID key s of
        (Inl e, s') \<Rightarrow> (if terr_is e ErrNotFound then Inr () else Inl ErrKeyConflict, s')
      | (Inr _, s') \<Rightarrow> (Inl ErrKeyConflict, s'))"

definition CreateTemplate :: "tenv \<Rightarrow> CreateTemplateCmd \<Rightarrow> (Template \<times> TemplateVersion) tm" where
  "CreateTemplate env cmd =
     bindM (requireM (isValidVisibility (ct_visibility cmd)) ErrInvalidVisibility) (\<lambda>_.
     bindM (requireM (\<not> (ct_visibility cmd = VisibilitySpecific \<and> ct_specific_areas cmd = []))
       (TWrapAfter ErrInvalidVisibility ''specific_visibility_requires_areas'')) (\<lambda>_.
     bindM (key_is_free env (ct_tenant cmd) (ct_key cmd)) (\<lambda>_.
     let specificAreas = (if ct_visibility cmd \<noteq> VisibilitySpecific then [] else ct_specific_areas cmd);
         template = \<lparr>tp_id = te_uuid env 0, tp_tenant = ct_tenant cmd, tp_doc_type = ct_doc_type cmd, tp_key = ct_key cmd, tp_name = ct_name cmd,
           tp_description = ct_description cmd, tp_areas = ct_areas cmd, tp_visibility = ct_visibility cmd, tp_specific_areas = specificAreas,
           tp_latest = 1, tp_published = None, tp_created_by = ct_actor cmd, tp_created_at = te_now env 0, tp_archived_at = None\<rparr>;
         version = new_version (te_uuid env 1) (te_uuid env 0) 1 empty_metadata [] (ct_actor cmd) (ct_reviewer cmd) (ct_approver cmd) (te_now env 1) in
     bindM (Repo_CreateTemplate env template) (\<lambda>_.
     bindM (Repo_CreateVersion env version) (\<lambda>_.
     bindM (Repo_UpsertApprovalConfig env \<lparr>ac_template = te_uuid env 0, ac_reviewer = ct_reviewer cmd, ac_approver = ct_approver cmd\<rparr>) (\<lambda>_.
     bindM (Repo_AppendAudit env (audit_event (ct_tenant cmd) (te_uuid env 0) (Some (te_uuid env 1)) (ct_actor cmd) AuditCreated [] (te_now env 2))) (\<lambda>_.
     returnM (template, version))))))))"

record CreateVersionCmd =
  cv_tenant :: string
  cv_actor :: string
  cv_template :: string

definition CreateNextVersion :: "tenv \<Rightarrow> CreateVersionCmd \<Rightarrow> TemplateVersion tm" where
  "CreateNextVersion env cmd =
     bindM (Repo_GetTemplate env (cv_tenant cmd) (cv_template cmd)) (\<lambda>template.
     bindM (requireM (\<not> IsArchived template) ErrArchived) (\<lambda>_.
     bindM (case tp_published template of
         Some i \<Rightarrow> Repo_GetVersionByID env i
       | None \<Rightarrow> Repo_GetVersion env (tp_id template) (tp_latest template)) (\<lambda>source.
     let newNum = tp_latest template + 1;
         version = new_version (te_uuid env 0) (cv_template cmd) newNum (cloneMetadataSchema (tv_metadata source))
           (clonePlaceholders (tv_placeholders source)) (cv_actor cmd) None [] (te_now env 0) in
     bindM (Repo_CreateVersion env version) (\<lambda>_.
     bindM (Repo_UpdateTemplate env (template\<lparr>tp_latest := newNum\<rparr>)) (\<lambda>_.
     bindM (Repo_AppendAudit env (audit_event (cv_tenant cmd) (tp_id template) (Some (te_uuid env 0)) (cv_actor cmd) AuditCreated [] (te_now env 1))) (\<lambda>_.
     returnM version))))))"

section \<open>Reviewing and approving\<close>

definition containsRole :: "string list \<Rightarrow> string \<Rightarrow> bool" where
  "containsRole roles role \<longleftrightarrow> role \<in> set roles"

record SubmitForReviewCmd =
  sf_tenant :: string
  sf_actor :: string
  sf_template :: string
  sf_number :: int

definition SubmitForReview :: "tenv \<Rightarrow> SubmitForReviewCmd \<Rightarrow> TemplateVersion tm" where
  "SubmitForReview env cmd =
     bindM (Repo_GetTemplate env (sf_tenant cmd) (sf_template cmd)) (\<lambda>_.
     bindM (Repo_GetVersion env (sf_template cmd) (sf_number cmd)) (\<lambda>version.
     bindM (requireM (tv_status version = VersionDraft) ErrInvalidStateTransition) (\<lambda>_.
     bindM (Repo_GetApprovalConfig env (sf_template cmd)) (\<lambda>config.
     let version1 = version\<lparr>tv_pending_reviewer := ac_reviewer config, tv_pending_approver := ac_approver config\<rparr> in
     bindM (liftM (CanTransition version1 VersionInReview (HasReviewer config))) (\<lambda>_.
     let version2 = version1\<lparr>tv_status := VersionInReview, tv_submitted_at := Some (te_now env 0)\<rparr> in
     bindM (Repo_UpdateVersion env version2) (\<lambda>_.
     bindM (Repo_AppendAudit env (audit_event (sf_tenant cmd) (sf_template cmd) (Some (tv_id version)) (sf_actor cmd) AuditSubmitted
       [(''reviewer_role'', role_value (ac_reviewer config)), (''approver_role'', AnyStr (ac_approver config))] (te_now env 1))) (\<lambda>_.
     returnM version2)))))))"

text \<open>\<^verbatim>\<open>ReviewCmd\<close> and \<^verbatim>\<open>ApproveCmd\<close> have the same fields.\<close>

record DecideCmd =
  dc_tenant :: string
  dc_actor :: string
  dc_roles :: "string list"
  dc_template :: string
  dc_number :: int
  dc_accept :: bool
  dc_reason :: string

definition decide_event :: "DecideCmd \<Rightarrow> string \<Rightarrow> AuditAction \<Rightarrow> (string \<times> any) list \<Rightarrow> time \<Rightarrow> AuditEvent" where
  "decide_event cmd versionID act details t = audit_event (dc_tenant cmd) (dc_template cmd) (Some versionID) (dc_actor cmd) act details t"

definition Review :: "tenv \<Rightarrow> DecideCmd \<Rightarrow> TemplateVersion tm" where
  "Review env cmd =
     bindM (Repo_GetTemplate env (dc_tenant cmd) (dc_template cmd)) (\<lambda>_.
     bindM (Repo_GetVersion env (dc_template cmd) (dc_number cmd)) (\<lambda>version.
     bindM (requireM (tv_status version = VersionInReview) ErrInvalidStateTransition) (\<lambda>_.
     bindM (requireM (tv_pending_reviewer version \<noteq> None) ErrInvalidStateTransition) (\<lambda>_.
     bindM (requireM (containsRole (dc_roles cmd) (the (tv_pending_reviewer version))) ErrForbiddenRole) (\<lambda>_.
     bindM (liftM (CheckSegregation ''reviewer'' (dc_actor cmd) (tv_author version) None)) (\<lambda>_.
     if dc_accept cmd then
       bindM (liftM (CanTransition version VersionApproved True)) (\<lambda>_.
       let version1 = version\<lparr>tv_status := VersionApproved, tv_reviewer := Some (dc_actor cmd), tv_reviewed_at := Some (te_now env 0)\<rparr> in
       bindM (Repo_UpdateVersion env version1) (\<lambda>_.
       bindM (Repo_AppendAudit env (decide_event cmd (tv_id version) AuditReviewed [] (te_now env 1))) (\<lambda>_.
       returnM version1)))
     else
       bindM (liftM (CanTransition version VersionDraft True)) (\<lambda>_.
       let version1 = version\<lparr>tv_status := VersionDraft, tv_submitted_at := None\<rparr> in
       bindM (Repo_UpdateVersion env version1) (\<lambda>_.
       bindM (Repo_AppendAudit env (decide_event cmd (tv_id version) AuditRejected
         [(''reason'', AnyStr (dc_reason cmd)), (''stage'', AnyStr ''reviewer'')] (te_now env 1))) (\<lambda>_.
       returnM version1)))))))))"

text \<open>The two branches of \<^verbatim>\<open>Approve\<close>.\<close>

definition publish_version :: "tenv \<Rightarrow> DecideCmd \<Rightarrow> Template \<Rightarrow> TemplateVersion \<Rightarrow> TemplateVersion tm" where
  "publish_version env cmd template version =
     bindM (liftM (CanTransition version VersionPublished (tv_pending_reviewer version \<noteq> None))) (\<lambda>_.
     let version1 = version\<lparr>tv_status := VersionPublished, tv_approver := Some (dc_actor cmd), tv_approved_at := Some (te_now env 0),
           tv_published_at := Some (te_now env 0)\<rparr> in
     bindM (Repo_ObsoletePreviousPublished env (dc_template cmd) (tv_id version)) (\<lambda>_.
     bindM (Repo_UpdateTemplate env (template\<lparr>tp_published := Some (tv_id version)\<rparr>)) (\<lambda>_.
     bindM (Repo_UpdateVersion env version1) (\<lambda>_.
     bindM (Repo_AppendAudit env (decide_event cmd (tv_id version) AuditPublished [] (te_now env 1))) (\<lambda>_.
     returnM version1)))))"

definition turn_down_version :: "tenv \<Rightarrow> DecideCmd \<Rightarrow> TemplateVersion \<Rightarrow> TemplateVersion tm" where
  "turn_down_version env cmd version =
     bindM (liftM (CanTransition version VersionDraft (tv_pending_reviewer version \<noteq> None))) (\<lambda>_.
     let version1 = version\<lparr>tv_status := VersionDraft, tv_submitted_at := None, tv_reviewed_at := None, tv_approved_at := None\<rparr> in
     bindM (Repo_UpdateVersion env version1) (\<lambda>_.
     bindM (Repo_AppendAudit env (decide_event cmd (tv_id version) AuditRejected
       [(''reason'', AnyStr (dc_reason cmd)), (''stage'', AnyStr ''approver'')] (te_now env 1))) (\<lambda>_.
     returnM version1)))"

definition Approve :: "tenv \<Rightarrow> DecideCmd \<Rightarrow> TemplateVersion tm" where
  "Approve env cmd =
     bindM (Repo_GetTemplate env (dc_tenant cmd) (dc_template cmd)) (\<lambda>template.
     bindM (Repo_GetVersion env (dc_template cmd) (dc_number cmd)) (\<lambda>version.
     bindM (requireM (tv_status version = (if tv_pending_reviewer version \<noteq> None then VersionApproved else VersionInReview)) ErrInvalidStateTransition) (\<lambda>_.
     bindM (requireM (containsRole (dc_roles cmd) (tv_pending_approver version)) ErrForbiddenRole) (\<lambda>_.
     bindM (liftM (CheckSegregation ''approver'' (dc_actor cmd) (tv_author version) (tv_reviewer version))) (\<lambda>_.
     if dc_accept cmd then publish_version env cmd template version else turn_down_version env cmd version)))))"

record ArchiveCmd =
  ar_tenant :: string
  ar_actor :: string
  ar_template :: string

definition ArchiveTemplate :: "tenv \<Rightarrow> ArchiveCmd \<Rightarrow> Template tm" where
  "ArchiveTemplate env cmd =
     bindM (Repo_GetTemplate env (ar_tenant cmd) (ar_template cmd)) (\<lambda>template.
     if IsArchived template then returnM template
     else
       let template1 = template\<lparr>tp_archived_at := Some (te_now env 0)\<rparr> in
       bindM (Repo_UpdateTemplate env template1) (\<lambda>_.
       bindM (Repo_AppendAudit env (audit_event (ar_tenant cmd) (ar_template cmd) None (ar_actor cmd) AuditArchived [] (te_now env 1))) (\<lambda>_.
       returnM template1)))"

section \<open>Approval configuration\<close>

record UpsertApprovalConfigCmd =
  uc_tenant :: string
  uc_actor :: string
  uc_template :: string
  uc_roles :: "string list"
  uc_reviewer :: "string option"
  uc_approver :: string

definition UpsertApprovalConfig :: "tenv \<Rightarrow> UpsertApprovalConfigCmd \<Rightarrow> ApprovalConfig tm" where
  "UpsertApprovalConfig env cmd =
     bindM (Repo_GetTemplate env (uc_tenant cmd) (uc_template cmd)) (\<lambda>template.
     bindM (requireM (tp_tenant template = uc_tenant cmd) ErrNotFound) (\<lambda>_.
     bindM (requireM (\<not> IsArchived template) ErrArchived) (\<lambda>_.
     bindM (requireM (if tp_published template \<noteq> None then containsRole (uc_roles cmd) ''admin''
         else tp_created_by template = uc_actor cmd \<or> containsRole (uc_roles cmd) ''admin'') ErrForbidden) (\<lambda>_.
     bindM (requireM (uc_approver cmd \<noteq> []) ErrInvalidApprovalConfig) (\<lambda>_.
     let config = \<lparr>ac_template = uc_template cmd, ac_reviewer = uc_reviewer cmd, ac_approver = uc_approver cmd\<rparr> in
     bindM (Repo_UpsertApprovalConfig env config) (\<lambda>_.
     bindM (Repo_AppendAudit env (audit_event (uc_tenant cmd) (uc_template cmd) None (uc_actor cmd) AuditApprovalConfigUpdated
       [(''reviewer_role'', role_value (uc_reviewer cmd)), (''approver_role'', AnyStr (uc_approver cmd))] (te_now env 0))) (\<lambda>_.
     returnM config)))))))"

section \<open>Content and schema of a draft\<close>

definition autosaveUploadTTL :: duration where
  "autosaveUploadTTL = 10 * 60 * second"

text \<open>\<^verbatim>\<open>PresignAutosaveCmd\<close>; \<^verbatim>\<open>GetDocxURLCmd\<close> has the same fields but for the actor, which neither service reads.\<close>

record PresignCmd =
  pc_tenant :: string
  pc_actor :: string
  pc_template :: string
  pc_number :: int

definition draft_version :: "tenv \<Rightarrow> string \<Rightarrow> string \<Rightarrow> int \<Rightarrow> TemplateVersion tm" where
  "draft_version env tenantID templateID n =
     bindM (Repo_GetTemplate env tenantID templateID) (\<lambda>_.
     bindM (Repo_GetVersion env templateID n) (\<lambda>version.
     bindM (requireM (tv_status version = VersionDraft) ErrInvalidStateTransition) (\<lambda>_.
     returnM version)))"

definition PresignAutosave :: "tenv \<Rightarrow> PresignCmd \<Rightarrow> (string \<times> string \<times> time) tm" where
  "PresignAutosave env cmd =
     bindM (draft_version env (pc_tenant cmd) (pc_template cmd) (pc_number cmd)) (\<lambda>version.
     bindM (liftM (te_put env (tv_storage_key version) autosaveUploadTTL)) (\<lambda>url.
     returnM (url, tv_storage_key version, te_now env 0 + autosaveUploadTTL)))"

record CommitAutosaveCmd =
  cs_tenant :: string
  cs_actor :: string
  cs_template :: string
  cs_number :: int
  cs_expected_hash :: string

text \<open>The error of the deletion is dropped.\<close>

definition delete_object :: "string \<Rightarrow> unit tm" where
  "delete_object key s = (Inr (), s\<lparr>ts_deleted := ts_deleted s @ [key]\<rparr>)"

definition CommitAutosave :: "tenv \<Rightarrow> CommitAutosaveCmd \<Rightarrow> TemplateVersion tm" where
  "CommitAutosave env cmd =
     bindM (draft_version env (cs_tenant cmd) (cs_template cmd) (cs_number cmd)) (\<lambda>version.
     bindM (mapErrM (\<lambda>e. if terr_is e ErrUploadMissing then ErrUploadMissing else e) (liftM (te_head env (tv_storage_key version)))) (\<lambda>actualHash.
     if actualHash \<noteq> cs_expected_hash cmd then bindM (delete_object (tv_storage_key version)) (\<lambda>_. failM ErrTemplateHashMismatch)
     else
       let version1 = version\<lparr>tv_content_hash := actualHash\<rparr> in
       bindM (Repo_UpdateVersion env version1) (\<lambda>_.
       bindM (Repo_AppendAudit env (audit_event (cs_tenant cmd) (cs_template cmd) (Some (tv_id version)) (cs_actor cmd) AuditSaved
         [(''content_hash'', AnyStr actualHash)] (te_now env 0))) (\<lambda>_.
       returnM version1))))"

record UpdateSchemasCmd =
  us_tenant :: string
  us_actor :: string
  us_template :: string
  us_number :: int
  us_metadata :: MetadataSchema
  us_placeholders :: "Placeholder list"
  us_expected_hash :: string

fun check_resolvers :: "string list \<Rightarrow> Placeholder list \<Rightarrow> terr + unit" where
  "check_resolvers known [] = Inr ()"
| "check_resolvers known (p # ps) =
     (case ph_resolver p of
        None \<Rightarrow> check_resolvers known ps
      | Some k \<Rightarrow>
          if k \<notin> set known then Inl (TWrap (placeholder_msg (ph_id p) ('' resolver_key '' @ go_quote k)) ErrUnknownResolver)
          else check_resolvers known ps)"

fun check_options :: "Placeholder list \<Rightarrow> terr + unit" where
  "check_options [] = Inr ()"
| "check_options (p # ps) =
     (if ph_type p = PHSelect \<and> ph_options p = [] then Inl (TNewError (''select_placeholder_requires_options: '' @ ph_id p))
      else if ph_type p \<noteq> PHSelect \<and> ph_options p \<noteq> [] then Inl (TNewError (''options_allowed_only_for_select: '' @ ph_id p))
      else check_options ps)"

text \<open>The tenant of the command is used for the audit entry only.\<close>

definition UpdateSchemas :: "tenv \<Rightarrow> UpdateSchemasCmd \<Rightarrow> TemplateVersion tm" where
  "UpdateSchemas env cmd =
     bindM (Repo_GetVersion env (us_template cmd) (us_number cmd)) (\<lambda>version.
     bindM (requireM (tv_status version = VersionDraft) ErrInvalidStateTransition) (\<lambda>_.
     bindM (requireM (\<not> (us_expected_hash cmd \<noteq> [] \<and> us_expected_hash cmd \<noteq> tv_content_hash version)) ErrStaleBase) (\<lambda>_.
     bindM (liftM (ValidatePlaceholders (te_regex env) (us_placeholders cmd))) (\<lambda>_.
     bindM (liftM (case te_resolvers env of None \<Rightarrow> Inr () | Some known \<Rightarrow> check_resolvers known (us_placeholders cmd))) (\<lambda>_.
     bindM (liftM (check_options (us_placeholders cmd))) (\<lambda>_.
     let version1 = version\<lparr>tv_metadata := cloneMetadataSchema (us_metadata cmd), tv_placeholders := clonePlaceholders (us_placeholders cmd)\<rparr> in
     bindM (Repo_UpdateVersion env version1) (\<lambda>_.
     bindM (Repo_AppendAudit env (audit_event (us_tenant cmd) (us_template cmd) (Some (tv_id version)) (us_actor cmd) AuditSaved
       [(''kind'', AnyStr ''schema'')] (te_now env 0))) (\<lambda>_.
     returnM version1))))))))"

section \<open>Queries\<close>

definition GetTemplate :: "tenv \<Rightarrow> string \<Rightarrow> string \<Rightarrow> Template tm" where
  "GetTemplate env tenantID i =
     bindM (Repo_GetTemplate env tenantID i) (\<lambda>t.
     bindM (requireM (tp_tenant t = tenantID) ErrNotFound) (\<lambda>_.
     returnM t))"

definition GetVersion :: "tenv \<Rightarrow> string \<Rightarrow> string \<Rightarrow> int \<Rightarrow> TemplateVersion tm" where
  "GetVersion env tenantID templateID n = bindM (GetTemplate env tenantID templateID) (\<lambda>_. Repo_GetVersion env templateID n)"

definition ListTemplates :: "tenv \<Rightarrow> ListFilter \<Rightarrow> Template list tm" where
  "ListTemplates env f = Repo_ListTemplates env f"

definition ListAudit :: "tenv \<Rightarrow> string \<Rightarrow> string \<Rightarrow> int \<Rightarrow> int \<Rightarrow> AuditEvent list tm" where
  "ListAudit env tenantID templateID limit offset =
     bindM (GetTemplate env tenantID templateID) (\<lambda>_. Repo_ListAudit env templateID limit offset)"

definition docxDownloadTTL :: duration where
  "docxDownloadTTL = 15 * 60 * second"

definition GetDocxURL :: "tenv \<Rightarrow> PresignCmd \<Rightarrow> string tm" where
  "GetDocxURL env cmd =
     bindM (GetTemplate env (pc_tenant cmd) (pc_template cmd)) (\<lambda>_.
     bindM (Repo_GetVersion env (pc_template cmd) (pc_number cmd)) (\<lambda>v.
     bindM (requireM (tv_storage_key v \<noteq> []) ErrUploadMissing) (\<lambda>_.
     liftM (te_get env (tv_storage_key v) docxDownloadTTL))))"

section \<open>Requests\<close>

datatype template_request =
    TqCreate CreateTemplateCmd | TqNextVersion CreateVersionCmd | TqSubmit SubmitForReviewCmd | TqReview DecideCmd | TqApprove DecideCmd
  | TqArchive ArchiveCmd | TqConfig UpsertApprovalConfigCmd | TqCommit CommitAutosaveCmd | TqSchemas UpdateSchemasCmd

definition forgetM :: "'a tm \<Rightarrow> unit tm" where
  "forgetM m = bindM m (\<lambda>_. returnM ())"

fun serve_template :: "tenv \<Rightarrow> template_request \<Rightarrow> unit tm" where
  "serve_template env (TqCreate c) = forgetM (CreateTemplate env c)"
| "serve_template env (TqNextVersion c) = forgetM (CreateNextVersion env c)"
| "serve_template env (TqSubmit c) = forgetM (SubmitForReview env c)"
| "serve_template env (TqReview c) = forgetM (Review env c)"
| "serve_template env (TqApprove c) = forgetM (Approve env c)"
| "serve_template env (TqArchive c) = forgetM (ArchiveTemplate env c)"
| "serve_template env (TqConfig c) = forgetM (UpsertApprovalConfig env c)"
| "serve_template env (TqCommit c) = forgetM (CommitAutosave env c)"
| "serve_template env (TqSchemas c) = forgetM (UpdateSchemas env c)"

fun request_tenant :: "template_request \<Rightarrow> string" where
  "request_tenant (TqCreate c) = ct_tenant c"
| "request_tenant (TqNextVersion c) = cv_tenant c"
| "request_tenant (TqSubmit c) = sf_tenant c"
| "request_tenant (TqReview c) = dc_tenant c"
| "request_tenant (TqApprove c) = dc_tenant c"
| "request_tenant (TqArchive c) = ar_tenant c"
| "request_tenant (TqConfig c) = uc_tenant c"
| "request_tenant (TqCommit c) = cs_tenant c"
| "request_tenant (TqSchemas c) = us_tenant c"

end
