(* ===== verification/Template_Steps.thy ===== *)
theory Template_Steps
  imports Template_Schema Template_Service
begin

text \<open>
  The life cycle of template versions as an abstract step relation, and the refinement of the services to it: whatever statements fail, and whether or not they took effect,
  a service call is a sequence of these steps on behalf of the tenant of the request.
\<close>

section \<open>Abstract steps\<close>

abbreviation set_version :: "TemplateVersion \<Rightarrow> TemplateVersion \<Rightarrow> tstore \<Rightarrow> tstore" where
  "set_version v v' s \<equiv> s\<lparr>ts_versions := update_where (\<lambda>x. tv_id x = tv_id v) (write_version v') (ts_versions s)\<rparr>"

abbreviation set_template :: "string \<Rightarrow> string \<Rightarrow> Template \<Rightarrow> tstore \<Rightarrow> tstore" where
  "set_template i tn t s \<equiv> s\<lparr>ts_templates := update_where (\<lambda>x. tp_id x = i \<and> tp_tenant x = tn) (write_template t) (ts_templates s)\<rparr>"

text \<open>The moves of a version short of its publication: a saved draft, a submission, a review, and the way back to draft.\<close>

inductive move :: "TemplateVersion \<Rightarrow> TemplateVersion \<Rightarrow> bool" for v where
  move_save: "tv_status v = VersionDraft \<Longrightarrow> move v (v\<lparr>tv_content_hash := h\<rparr>)"
| move_submit: "tv_status v = VersionDraft \<Longrightarrow>
    move v (v\<lparr>tv_pending_reviewer := r, tv_pending_approver := a, tv_status := VersionInReview, tv_submitted_at := t\<rparr>)"
| move_review: "tv_status v = VersionInReview \<Longrightarrow> tv_pending_reviewer v \<noteq> None \<Longrightarrow> a \<noteq> tv_author v \<Longrightarrow>
    move v (v\<lparr>tv_status := VersionApproved, tv_reviewer := Some a, tv_reviewed_at := t\<rparr>)"
| move_send_back: "tv_status v = VersionInReview \<Longrightarrow> move v (v\<lparr>tv_status := VersionDraft, tv_submitted_at := None\<rparr>)"
| move_turn_down: "tv_status v \<in> {VersionInReview, VersionApproved} \<Longrightarrow>
    move v (v\<lparr>tv_status := VersionDraft, tv_submitted_at := None, tv_reviewed_at := None, tv_approved_at := None\<rparr>)"

definition publication :: "TemplateVersion \<Rightarrow> TemplateVersion \<Rightarrow> bool" where
  "publication v v' \<longleftrightarrow> tv_status v = (if tv_pending_reviewer v = None then VersionInReview else VersionApproved) \<and>
     (\<exists>a t u. a \<noteq> tv_author v \<and> tv_reviewer v \<noteq> Some a \<and>
       v' = v\<lparr>tv_status := VersionPublished, tv_approver := Some a, tv_approved_at := t, tv_published_at := u\<rparr>)"

definition fresh_version :: "tstore \<Rightarrow> TemplateVersion \<Rightarrow> bool" where
  "fresh_version s v \<longleftrightarrow> tv_id v \<notin> tv_id ` set (ts_versions s) \<and>
     (tv_template v, tv_number v) \<notin> (\<lambda>x. (tv_template x, tv_number x)) ` set (ts_versions s) \<and> tv_status v = VersionDraft \<and> tv_reviewer v = None \<and>
     tv_placeholders v \<in> insert [] (tv_placeholders ` set (ts_versions s))"

text \<open>
  One step on behalf of a tenant. A version is added alone (the first one, or when the service fails before it has counted it) or together with the count of the
  template.
\<close>

inductive tstep :: "string \<Rightarrow> tstore \<Rightarrow> tstore \<Rightarrow> bool" for tn where
  beside: "ts_templates s' = ts_templates s \<Longrightarrow> ts_versions s' = ts_versions s \<Longrightarrow> prefix (ts_audit s) (ts_audit s') \<Longrightarrow> tstep tn s s'"
| add_template: "tp_id t \<notin> tp_id ` set (ts_templates s) \<Longrightarrow> tp_tenant t = tn \<Longrightarrow> tstep tn s (s\<lparr>ts_templates := ts_templates s @ [t]\<rparr>)"
| touch_template: "t0 \<in> set (ts_templates s) \<Longrightarrow> tp_tenant t0 = tn \<Longrightarrow> tp_latest t = tp_latest t0 \<Longrightarrow> tstep tn s (set_template (tp_id t0) tn t s)"
| add_version: "fresh_version s v \<Longrightarrow> owns tn s (tv_template v) \<Longrightarrow> tstep tn s (s\<lparr>ts_versions := ts_versions s @ [v]\<rparr>)"
| next_version: "fresh_version s v \<Longrightarrow> t0 \<in> set (ts_templates s) \<Longrightarrow> tp_tenant t0 = tn \<Longrightarrow> tv_template v = tp_id t0 \<Longrightarrow>
    tv_number v = tp_latest t0 + 1 \<Longrightarrow> tp_latest t = tp_latest t0 + 1 \<Longrightarrow>
    tstep tn s (set_template (tp_id t0) tn t (s\<lparr>ts_versions := ts_versions s @ [v]\<rparr>))"
| move_version: "v \<in> set (ts_versions s) \<Longrightarrow> owns tn s (tv_template v) \<Longrightarrow> move v v' \<Longrightarrow> tstep tn s (set_version v v' s)"
| retire: "owns tn s i \<Longrightarrow> tstep tn s (s\<lparr>ts_versions := obsolete_others env i k (ts_versions s)\<rparr>)"
| publish: "v \<in> set (ts_versions s) \<Longrightarrow> owns tn s (tv_template v) \<Longrightarrow> publication v v' \<Longrightarrow>
    (\<And>w. w \<in> set (ts_versions s) \<Longrightarrow> tv_template w = tv_template v \<Longrightarrow> tv_status w = VersionPublished \<Longrightarrow> tv_id w = tv_id v) \<Longrightarrow>
    tstep tn s (set_version v v' s)"

text \<open>The step of \<^verbatim>\<open>UpdateSchemas\<close>, which asks for no tenant.\<close>

definition schema_step :: "tstore \<Rightarrow> tstore \<Rightarrow> bool" where
  "schema_step s s' \<longleftrightarrow> (\<exists>v m phs. v \<in> set (ts_versions s) \<and> tv_status v = VersionDraft \<and> schema_wf phs \<and>
     s' = set_version v (v\<lparr>tv_metadata := m, tv_placeholders := phs\<rparr>) s)"

abbreviation tsteps :: "string \<Rightarrow> tstore \<Rightarrow> tstore \<Rightarrow> bool" where
  "tsteps tn \<equiv> (tstep tn)\<^sup>*\<^sup>*"

section \<open>Refinement\<close>

lemma steps_extend: "tsteps tn s0 s \<Longrightarrow> tstep tn s s' \<Longrightarrow> tsteps tn s0 s'"
  by (rule rtranclp.rtrancl_into_rtrancl)

lemma steps_beside:
  "tsteps tn s0 s \<Longrightarrow> prefix (ts_audit s) a \<Longrightarrow> tsteps tn s0 (s\<lparr>ts_audit := a\<rparr>)"
  "tsteps tn s0 s \<Longrightarrow> tsteps tn s0 (s\<lparr>ts_configs := cs\<rparr>)"
  "tsteps tn s0 s \<Longrightarrow> tsteps tn s0 (s\<lparr>ts_deleted := ks\<rparr>)"
  by (erule steps_extend; auto intro: beside)+

lemma steps_move:
  "v \<in> set (ts_versions s) \<Longrightarrow> owns tn s (tv_template v) \<Longrightarrow> move v v' \<Longrightarrow> tsteps tn s (set_version v v' s)"
  by (auto intro: move_version)

lemma owns_found: "t \<in> set (ts_templates s) \<Longrightarrow> owns (tp_tenant t) s (tp_id t)"
  by (auto simp: owns_def)

lemmas steps_rules = steps_beside steps_move

lemma wp_delete [wp_rules]: "Q (Inr ()) (s\<lparr>ts_deleted := ts_deleted s @ [k]\<rparr>) \<Longrightarrow> wp (delete_object k) Q s"
  by (simp add: wp_def delete_object_def)

lemma SubmitForReview_steps: "wp (SubmitForReview env cmd) (\<lambda>_. tsteps (sf_tenant cmd) s) s"
  unfolding SubmitForReview_def Let_def
  by (auto intro!: wp_rules steps_rules) (auto intro: move.intros)

lemma CheckSegregation_Inr:
  "CheckSegregation ''reviewer'' a u r = Inr x \<Longrightarrow> a \<noteq> u"
  "CheckSegregation ''approver'' a u r = Inr x \<Longrightarrow> a \<noteq> u \<and> r \<noteq> Some a"
  by (auto simp: CheckSegregation_def split: if_splits)

lemma Review_steps: "wp (Review env cmd) (\<lambda>_. tsteps (dc_tenant cmd) s) s"
  unfolding Review_def Let_def
  by (auto intro!: wp_rules steps_rules dest!: CheckSegregation_Inr) (auto intro: move.intros)

lemma steps_retire:
  "owns tn s i \<Longrightarrow> tsteps tn s (s\<lparr>ts_versions := obsolete_others env i k (ts_versions s)\<rparr>)"
  by (auto intro: retire)

lemma obsolete_keeps: "tv_status v \<noteq> VersionPublished \<Longrightarrow> v \<in> set vs \<Longrightarrow> v \<in> set (obsolete_others env i k vs)"
  by (force simp: obsolete_others_def in_update_where)

lemma obsolete_done:
  "w \<in> set (obsolete_others env i k vs) \<Longrightarrow> tv_template w = i \<Longrightarrow> tv_status w = VersionPublished \<Longrightarrow> tv_id w = k"
proof -
  assume a: "w \<in> set (obsolete_others env i k vs)" "tv_template w = i" "tv_status w = VersionPublished"
  then obtain r where "w = (if tv_template r = i \<and> tv_status r = VersionPublished \<and> tv_id r \<noteq> k
      then r\<lparr>tv_status := VersionObsolete, tv_obsoleted_at := Some (te_dbnow env)\<rparr> else r)"
    unfolding obsolete_others_def in_update_where by blast
  then show ?thesis using a(2,3) by (cases "tv_template r = i \<and> tv_status r = VersionPublished \<and> tv_id r \<noteq> k") auto
qed

lemma write_template_key [simp]: "tp_id (write_template t r) = tp_id r" "tp_tenant (write_template t r) = tp_tenant r"
  by (simp_all add: write_template_def)

lemma touch_owns: "owns tn (s\<lparr>ts_templates := update_where P (write_template t) ts\<rparr>) j \<longleftrightarrow> (\<exists>x \<in> set ts. tp_id x = j \<and> tp_tenant x = tn)"
proof -
  have "tp_id (if b then write_template t r else r) = tp_id r" "tp_tenant (if b then write_template t r else r) = tp_tenant r" for b r
    by simp_all
  then show ?thesis by (simp add: owns_def bex_update_where)
qed

lemma steps_touch:
  "tsteps tn s0 s \<Longrightarrow> t0 \<in> set (ts_templates s) \<Longrightarrow> tp_tenant t0 = tn \<Longrightarrow> tp_latest t = tp_latest t0 \<Longrightarrow> tsteps tn s0 (set_template (tp_id t0) tn t s)"
  by (blast intro: steps_extend touch_template)

lemma publish_steps:
  fixes env :: tenv
  assumes "v \<in> set (ts_versions s)" and "owns tn s (tv_template v)" and "publication v v'" and "tv_template v = i"
    and t0: "t0 \<in> set (ts_templates s)" "tp_id t0 = i" "tp_tenant t0 = tn" "tp_latest t = tp_latest t0"
  defines "s1 \<equiv> s\<lparr>ts_versions := obsolete_others env i (tv_id v) (ts_versions s)\<rparr>"
  shows "tsteps tn s s1" "tsteps tn s (set_template i tn t s1)" "tsteps tn s (set_version v v' (set_template i tn t s1))"
proof -
  have st: "tv_status v \<noteq> VersionPublished" using assms(3) by (auto simp: publication_def split: if_splits)
  show 1: "tsteps tn s s1" using assms(2,4) unfolding s1_def by (auto intro: steps_retire)
  show 2: "tsteps tn s (set_template i tn t s1)" using steps_touch [OF 1, of t0 t] t0 by (simp add: s1_def)
  show "tsteps tn s (set_version v v' (set_template i tn t s1))"
  proof (rule steps_extend [OF 2 publish])
    show "v \<in> set (ts_versions (set_template i tn t s1))" using obsolete_keeps [OF st assms(1)] by (simp add: s1_def)
    show "owns tn (set_template i tn t s1) (tv_template v)" using assms(2) by (simp add: s1_def touch_owns) (simp add: owns_def)
    show "tv_id w = tv_id v" if "w \<in> set (ts_versions (set_template i tn t s1))" "tv_template w = tv_template v" "tv_status w = VersionPublished" for w
      using that obsolete_done assms(4) by (simp add: s1_def)
  qed (rule assms(3))
qed

lemma publish_version_steps:
  assumes "v \<in> set (ts_versions s)" and "t \<in> set (ts_templates s)" and "tp_id t = dc_template cmd" and "tp_tenant t = tn" and "tv_template v = dc_template cmd"
    and "tv_status v = (if tv_pending_reviewer v \<noteq> None then VersionApproved else VersionInReview)"
    and "dc_actor cmd \<noteq> tv_author v" and "tv_reviewer v \<noteq> Some (dc_actor cmd)"
  shows "wp (publish_version env cmd t v) (\<lambda>_. tsteps tn s) s"
proof -
  let ?v = "v\<lparr>tv_status := VersionPublished, tv_approver := Some (dc_actor cmd), tv_approved_at := Some (te_now env 0),
    tv_published_at := Some (te_now env 0)\<rparr>"
  have pub: "publication v ?v" unfolding publication_def using assms(6-8)
    by (intro conjI exI [of _ "dc_actor cmd"] exI [of _ "Some (te_now env 0)"]) (simp_all split: if_splits)
  have own: "owns tn s (tv_template v)" using assms(2-5) by (auto simp: owns_def)
  note ps = publish_steps [OF assms(1) own pub assms(5,2,3,4), where env = env and t = "t\<lparr>tp_published := Some (tv_id v)\<rparr>", simplified]
  show ?thesis unfolding publish_version_def Let_def
    using ps assms(3,4) by (auto intro!: wp_rules steps_beside(1))
qed

lemma turn_down_steps:
  assumes "v \<in> set (ts_versions s)" and "owns tn s (tv_template v)" and "tv_status v \<in> {VersionInReview, VersionApproved}"
  shows "wp (turn_down_version env cmd v) (\<lambda>_. tsteps tn s) s"
  unfolding turn_down_version_def Let_def
  using assms(1,2) move_turn_down [OF assms(3)] by (auto intro!: wp_rules steps_rules)

lemma Approve_steps: "wp (Approve env cmd) (\<lambda>_. tsteps (dc_tenant cmd) s) s"
  unfolding Approve_def
  by (auto intro!: wp_rules publish_version_steps turn_down_steps dest!: CheckSegregation_Inr split: if_splits)

lemma ArchiveTemplate_steps: "wp (ArchiveTemplate env cmd) (\<lambda>_. tsteps (ar_tenant cmd) s) s"
proof -
  have t: "tsteps (ar_tenant cmd) s (set_template (ar_template cmd) (ar_tenant cmd) (t\<lparr>tp_archived_at := u\<rparr>) s)"
    if "t \<in> set (ts_templates s)" "tp_id t = ar_template cmd" "tp_tenant t = ar_tenant cmd" for t u
    using steps_touch [OF rtranclp.rtrancl_refl that(1,3), of "t\<lparr>tp_archived_at := u\<rparr>"] that(2) by simp
  show ?thesis unfolding ArchiveTemplate_def Let_def
    by (auto intro!: wp_rules steps_beside t)
qed

lemma UpsertApprovalConfig_steps: "wp (UpsertApprovalConfig env cmd) (\<lambda>_. tsteps (uc_tenant cmd) s) s"
  unfolding UpsertApprovalConfig_def Let_def
  by (auto intro!: wp_rules steps_rules)

lemma CommitAutosave_steps: "wp (CommitAutosave env cmd) (\<lambda>_. tsteps (cs_tenant cmd) s) s"
  unfolding CommitAutosave_def draft_version_def Let_def
  by (auto intro!: wp_rules wp_mapErr wp_delete steps_rules) (auto intro: move.intros)

lemma wp_key_free [wp_rules]: "(\<And>e. Q (Inl e) s) \<Longrightarrow> Q (Inr ()) s \<Longrightarrow> wp (key_is_free env tn k) Q s"
proof -
  assume a: "\<And>e. Q (Inl e) s" "Q (Inr ()) s"
  have "wp (Repo_GetTemplateByKey env tn k) (\<lambda>r s'. s' = s) s" by (auto intro!: wp_rules)
  with a show ?thesis by (auto simp: wp_def key_is_free_def split: prod.splits sum.splits)
qed

lemma new_version_fields [simp]:
  "tv_id (new_version i t n m p a rr ar c) = i" "tv_template (new_version i t n m p a rr ar c) = t" "tv_number (new_version i t n m p a rr ar c) = n"
  "tv_status (new_version i t n m p a rr ar c) = VersionDraft" "tv_reviewer (new_version i t n m p a rr ar c) = None"
  "tv_placeholders (new_version i t n m p a rr ar c) = p"
  by (simp_all add: new_version_def)

lemma steps_add_version:
  "tsteps tn s0 s \<Longrightarrow> fresh_version s v \<Longrightarrow> owns tn s (tv_template v) \<Longrightarrow> vs = ts_versions s \<Longrightarrow> tsteps tn s0 (s\<lparr>ts_versions := vs @ [v]\<rparr>)"
  by (blast intro: steps_extend add_version)

lemma steps_add_template:
  "tp_id t \<notin> tp_id ` set (ts_templates s) \<Longrightarrow> tp_tenant t = tn \<Longrightarrow> tsteps tn s (s\<lparr>ts_templates := ts_templates s @ [t]\<rparr>)"
  by (blast intro: add_template)

lemma owns_new: "i = tp_id t \<Longrightarrow> tn = tp_tenant t \<Longrightarrow> owns tn (s\<lparr>ts_templates := ts @ [t]\<rparr>) i"
  by (simp add: owns_def)

lemma CreateTemplate_steps: "wp (CreateTemplate env cmd) (\<lambda>_. tsteps (ct_tenant cmd) s) s"
  unfolding CreateTemplate_def Let_def
  by (auto intro!: wp_rules steps_beside steps_add_version steps_add_template owns_new simp: fresh_version_def)

lemma wp_source:
  assumes "\<And>e. Q (Inl e) s" and "\<And>v. v \<in> set (ts_versions s) \<Longrightarrow> Q (Inr v) s"
  shows "wp (case p of Some i \<Rightarrow> Repo_GetVersionByID env i | None \<Rightarrow> Repo_GetVersion env j n) Q s"
  using assms by (cases p) (auto intro!: wp_rules)

lemma CreateNextVersion_steps: "wp (CreateNextVersion env cmd) (\<lambda>_. tsteps (cv_tenant cmd) s) s"
proof -
  have both: "tsteps tn s (s\<lparr>ts_versions := ts_versions s @ [v],
      ts_templates := update_where (\<lambda>x. tp_id x = i \<and> tp_tenant x = tn) (write_template (t\<lparr>tp_latest := tp_latest t + 1\<rparr>)) (ts_templates s)\<rparr>)"
    if "fresh_version s v" "t \<in> set (ts_templates s)" "tp_tenant t = tn" "tv_template v = i" "tp_id t = i" "tv_number v = tp_latest t + 1" for tn i t v
    using next_version [OF that(1-3), of "t\<lparr>tp_latest := tp_latest t + 1\<rparr>"] that by auto
  show ?thesis unfolding CreateNextVersion_def Let_def
    by (auto intro!: wp_rules wp_source steps_beside both steps_add_version simp: fresh_version_def)
qed

lemma check_options_Inr: "check_options phs = Inr () \<Longrightarrow> \<forall>p \<in> set phs. ph_type p = PHSelect \<longleftrightarrow> ph_options p \<noteq> []"
  by (induction phs) (auto split: if_splits)

text \<open>What \<^verbatim>\<open>UpdateSchemas\<close> does: perhaps the step on the schema, then perhaps an audit entry.\<close>

definition edited :: "tstore \<Rightarrow> tstore \<Rightarrow> bool" where
  "edited s s' \<longleftrightarrow> (\<exists>s1. (s1 = s \<or> schema_step s s1) \<and> ts_templates s' = ts_templates s1 \<and> ts_versions s' = ts_versions s1 \<and> prefix (ts_audit s1) (ts_audit s'))"

lemma schema_stepI:
  "v \<in> set (ts_versions s) \<Longrightarrow> tv_status v = VersionDraft \<Longrightarrow> schema_wf phs \<Longrightarrow>
     schema_step s (set_version v (v\<lparr>tv_metadata := m, tv_placeholders := phs\<rparr>) s)"
  unfolding schema_step_def by blast

lemma edited_intros:
  "edited s s"
  "schema_step s s1 \<Longrightarrow> edited s s1"
  "schema_step s s1 \<Longrightarrow> prefix (ts_audit s1) a \<Longrightarrow> edited s (s1\<lparr>ts_audit := a\<rparr>)"
  by (auto simp: edited_def intro: exI [of _ s1])

lemmas edited_rules = edited_intros(1) edited_intros(2,3) [OF schema_stepI]

lemma UpdateSchemas_edited: "wp (UpdateSchemas env cmd) (\<lambda>_. edited s) s"
proof -
  have ok: "schema_wf (us_placeholders cmd)"
    if "ValidatePlaceholders (te_regex env) (us_placeholders cmd) = Inr ()" "check_options (us_placeholders cmd) = Inr ()"
    using schema_wf_valid [OF that(1) check_options_Inr [OF that(2)]] .
  show ?thesis unfolding UpdateSchemas_def Let_def
    by (auto intro!: wp_rules edited_rules ok)
qed

lemma wp_forget: "wp m (\<lambda>_. P) s \<Longrightarrow> wp (forgetM m) (\<lambda>_. P) s"
  by (auto simp: forgetM_def wp_def bindM_def returnM_def split: prod.splits sum.splits)

lemma serve_steps:
  assumes "serve_template env r s = (res, s')" and "\<forall>c. r \<noteq> TqSchemas c"
  shows "tsteps (request_tenant r) s s'"
proof -
  have "wp (serve_template env r) (\<lambda>_. tsteps (request_tenant r) s) s"
    using assms(2) by (cases r) (auto intro!: wp_forget CreateTemplate_steps CreateNextVersion_steps SubmitForReview_steps Review_steps Approve_steps
        ArchiveTemplate_steps UpsertApprovalConfig_steps CommitAutosave_steps)
  then show ?thesis using assms(1) by (rule wpD)
qed

lemma serve_edited: "serve_template env (TqSchemas c) s = (res, s') \<Longrightarrow> edited s s'"
  using wpD [OF wp_forget [OF UpdateSchemas_edited]] by simp

end
