(* ===== verification/Template_Props.thy ===== *)
theory Template_Props
  imports Template_Steps
begin

text \<open>
  What holds in every state the template services can reach, with any statements failing in between: segregation of duties, one published version,
  well-formed schemas, isolation of tenants; and how a failure between two statements blocks a template for good.
\<close>

section \<open>Reachable states\<close>

definition empty_store :: tstore where
  "empty_store = \<lparr>ts_templates = [], ts_versions = [], ts_configs = [], ts_audit = [], ts_deleted = []\<rparr>"

inductive treach :: "tstore \<Rightarrow> tstore \<Rightarrow> bool" for s0 where
  treach_start: "treach s0 s0"
| treach_step: "treach s0 s \<Longrightarrow> serve_template env r s = (res, s') \<Longrightarrow> treach s0 s'"

abbreviation served :: "tenv \<Rightarrow> template_request \<Rightarrow> tstore \<Rightarrow> tstore" where
  "served env r s \<equiv> snd (serve_template env r s)"

lemma treach_served: "treach s0 s \<Longrightarrow> treach s0 (served env r s)"
  by (cases "serve_template env r s") (auto intro: treach_step)

text \<open>
  A property of the tables that every abstract step keeps holds in every reachable state.
\<close>

locale step_invariant =
  fixes I :: "tstore \<Rightarrow> bool"
  assumes keeps_step: "tstep tn s s' \<Longrightarrow> I s \<Longrightarrow> I s'"
    and keeps_schema: "schema_step s s' \<Longrightarrow> I s \<Longrightarrow> I s'"
begin

lemma keeps_steps: "tsteps tn s s' \<Longrightarrow> I s \<Longrightarrow> I s'"
  by (induction rule: rtranclp_induct) (auto dest: keeps_step)

lemma keeps_edit: "edited s s' \<Longrightarrow> I s \<Longrightarrow> I s'"
proof -
  assume "edited s s'" "I s"
  then obtain s1 where s1: "I s1" "ts_templates s' = ts_templates s1" "ts_versions s' = ts_versions s1" "prefix (ts_audit s1) (ts_audit s')"
    by (auto simp: edited_def dest: keeps_schema)
  from keeps_step [OF beside [OF s1(2-4)] s1(1)] show "I s'" .
qed

lemma keeps_serve: "serve_template env r s = (res, s') \<Longrightarrow> I s \<Longrightarrow> I s'"
  by (cases "\<exists>c. r = TqSchemas c") (use serve_edited keeps_edit serve_steps keeps_steps in blast)+

lemma keeps_reach: "treach s0 s \<Longrightarrow> I s0 \<Longrightarrow> I s"
  by (induction rule: treach.induct) (auto dest: keeps_serve)

end

section \<open>A sample run\<close>

text \<open>Ann creates a template with a review and submits its first version, Bob reviews it, and Cyd publishes it.\<close>

definition sample_tenv :: tenv where
  "sample_tenv = \<lparr>te_fault = (\<lambda>_. None), te_now = int, te_dbnow = 0, te_uuid = (\<lambda>k. replicate (Suc k) CHR ''x''), te_put = (\<lambda>k _. Inr k), te_get = (\<lambda>k _. Inr k), te_head = Inr,
     te_resolvers = None, te_regex = (\<lambda>_. True)\<rparr>"

definition sample_create :: template_request where
  "sample_create = TqCreate \<lparr>ct_tenant = ''acme'', ct_actor = ''ann'', ct_doc_type = ''sop'', ct_key = ''k'', ct_name = ''n'', ct_description = [], ct_areas = [],
     ct_visibility = ''public'', ct_specific_areas = [], ct_approver = ''qa'', ct_reviewer = Some ''rev''\<rparr>"

definition sample_submission :: template_request where
  "sample_submission = TqSubmit \<lparr>sf_tenant = ''acme'', sf_actor = ''ann'', sf_template = ''x'', sf_number = 1\<rparr>"

definition sample_decision :: "string \<Rightarrow> string \<Rightarrow> DecideCmd" where
  "sample_decision actor role = \<lparr>dc_tenant = ''acme'', dc_actor = actor, dc_roles = [role], dc_template = ''x'', dc_number = 1, dc_accept = True, dc_reason = []\<rparr>"

definition sample_created :: tstore where
  "sample_created = served sample_tenv sample_create empty_store"

definition sample_published :: tstore where
  "sample_published = served sample_tenv (TqApprove (sample_decision ''cyd'' ''qa''))
     (served sample_tenv (TqReview (sample_decision ''bob'' ''rev'')) (served sample_tenv sample_submission sample_created))"

definition sample_version :: TemplateVersion where
  "sample_version = (new_version ''xx'' ''x'' 1 empty_metadata [] ''ann'' (Some ''rev'') ''qa'' 1)
     \<lparr>tv_status := VersionPublished, tv_reviewer := Some ''bob'', tv_approver := Some ''cyd'', tv_submitted_at := Some 0, tv_reviewed_at := Some 0,
      tv_approved_at := Some 0, tv_published_at := Some 0\<rparr>"

lemma sample_templates_reached: "treach empty_store sample_created" "treach empty_store sample_published"
  unfolding sample_published_def sample_created_def by (intro treach_served treach_start)+

lemma sample_versions: "ts_versions sample_published = [sample_version]"
  by code_simp

section \<open>Segregation of duties\<close>

definition version_ok :: "TemplateVersion \<Rightarrow> bool" where
  "version_ok v \<longleftrightarrow> tv_reviewer v \<noteq> Some (tv_author v) \<and> (tv_status v = VersionApproved \<longrightarrow> tv_reviewer v \<noteq> None) \<and>
     (tv_status v \<in> {VersionPublished, VersionObsolete} \<longrightarrow> (\<exists>a. tv_approver v = Some a \<and> a \<noteq> tv_author v \<and> tv_reviewer v \<noteq> Some a \<and>
       (tv_pending_reviewer v \<noteq> None \<longrightarrow> tv_reviewer v \<noteq> None))) \<and>
     schema_wf (tv_placeholders v)"

definition template_keys_ok :: "tstore \<Rightarrow> bool" where
  "template_keys_ok s \<longleftrightarrow> distinct (map tp_id (ts_templates s)) \<and> distinct (map tv_id (ts_versions s))"

definition one_published :: "TemplateVersion list \<Rightarrow> bool" where
  "one_published vs \<longleftrightarrow> (\<forall>v \<in> set vs. \<forall>w \<in> set vs. tv_status v = VersionPublished \<and> tv_status w = VersionPublished \<and>
     tv_template v = tv_template w \<longrightarrow> tv_id v = tv_id w)"

definition templates_ok :: "tstore \<Rightarrow> bool" where
  "templates_ok s \<longleftrightarrow> template_keys_ok s \<and> (\<forall>v \<in> set (ts_versions s). version_ok v) \<and> one_published (ts_versions s)"

lemma one_publishedD:
  "one_published vs \<Longrightarrow> v \<in> set vs \<Longrightarrow> w \<in> set vs \<Longrightarrow> tv_status v = VersionPublished \<Longrightarrow> tv_status w = VersionPublished \<Longrightarrow>
     tv_template v = tv_template w \<Longrightarrow> tv_id v = tv_id w"
  unfolding one_published_def by blast

lemma one_published_snoc: "one_published vs \<Longrightarrow> tv_status v \<noteq> VersionPublished \<Longrightarrow> one_published (vs @ [v])"
  unfolding one_published_def set_append by (metis UnE empty_iff empty_set insertE list.simps(15))

lemma templates_okD: "templates_ok s \<Longrightarrow> v \<in> set (ts_versions s) \<Longrightarrow> version_ok v" "templates_ok s \<Longrightarrow> one_published (ts_versions s)"
  by (simp_all add: templates_ok_def)

lemma write_version_key [simp]: "tv_id (write_version v' v) = tv_id v"
  by (simp add: write_version_def)

lemma set_template_ids [simp]: "map tp_id (update_where P (write_template t) ts) = map tp_id ts"
  by (rule map_update_where) simp

lemma set_version_ids [simp]: "map tv_id (update_where P (write_version v') vs) = map tv_id vs"
  by (rule map_update_where) simp

lemma obsolete_ids [simp]: "map tv_id (obsolete_others env i k vs) = map tv_id vs"
  unfolding obsolete_others_def by (rule map_update_where) simp

text \<open>A changed row is the only one that changes.\<close>

lemma set_version_rows:
  assumes "distinct (map tv_id vs)" and "v \<in> set vs"
  shows "x \<in> set (update_where (\<lambda>x. tv_id x = tv_id v) (write_version v') vs) \<longleftrightarrow> x = write_version v' v \<or> x \<in> set vs \<and> tv_id x \<noteq> tv_id v"
proof -
  have "r = v" if "r \<in> set vs" "tv_id r = tv_id v" for r
    using distinct_map_key [OF assms(1) that(1) assms(2)] that(2) by simp
  with assms(2) show ?thesis unfolding in_update_where by (metis (full_types))
qed

lemma move_row: "move v v' \<Longrightarrow> write_version v' v = v' \<and> tv_id v' = tv_id v \<and> tv_template v' = tv_template v \<and> tv_number v' = tv_number v"
  by (auto simp: write_version_def elim!: move.cases)

lemma move_ok: "move v v' \<Longrightarrow> version_ok v \<Longrightarrow> version_ok v' \<and> tv_status v' \<noteq> VersionPublished"
  by (erule move.cases) (auto simp: version_ok_def)

lemma publication_row: "publication v v' \<Longrightarrow> write_version v' v = v' \<and> tv_id v' = tv_id v \<and> tv_template v' = tv_template v \<and> tv_number v' = tv_number v"
  by (auto simp: publication_def write_version_def)

lemma publication_ok: "publication v v' \<Longrightarrow> version_ok v \<Longrightarrow> version_ok v'"
  by (auto simp: publication_def version_ok_def split: if_splits)

lemma ok_set_version:
  assumes "templates_ok s" and "v \<in> set (ts_versions s)" and row: "write_version v' v = v' \<and> tv_id v' = tv_id v \<and> tv_template v' = tv_template v"
    and "version_ok v'"
    and pub: "\<And>w. tv_status v' = VersionPublished \<Longrightarrow> w \<in> set (ts_versions s) \<Longrightarrow> tv_template w = tv_template v \<Longrightarrow> tv_status w = VersionPublished \<Longrightarrow>
      tv_id w = tv_id v"
  shows "templates_ok (set_version v v' s)"
proof -
  have k: "template_keys_ok s" and d: "distinct (map tv_id (ts_versions s))" using assms(1) by (simp_all add: templates_ok_def template_keys_ok_def)
  let ?vs = "update_where (\<lambda>x. tv_id x = tv_id v) (write_version v') (ts_versions s)"
  have rows: "x \<in> set ?vs \<longleftrightarrow> x = v' \<or> x \<in> set (ts_versions s) \<and> tv_id x \<noteq> tv_id v" for x
    using set_version_rows [OF d assms(2), of x v'] row by simp
  have "\<forall>x \<in> set ?vs. version_ok x" using rows assms(1,4) by (auto simp: templates_ok_def)
  moreover have "one_published ?vs" unfolding one_published_def
  proof (intro ballI impI, elim conjE)
    fix x y assume x: "x \<in> set ?vs" "tv_status x = VersionPublished" and y: "y \<in> set ?vs" "tv_status y = VersionPublished"
      and t: "tv_template x = tv_template y"
    have old: "tv_id x = tv_id y" if "x \<in> set (ts_versions s)" "y \<in> set (ts_versions s)"
      by (rule one_publishedD [OF templates_okD(2) [OF assms(1)] that x(2) y(2) t])
    from x(1) y(1) show "tv_id x = tv_id y" unfolding rows using pub x(2) y(2) t row old by metis
  qed
  ultimately show ?thesis using k by (simp add: templates_ok_def template_keys_ok_def)
qed

lemma ok_obsolete:
  assumes "templates_ok s"
  shows "templates_ok (s\<lparr>ts_versions := obsolete_others env i k (ts_versions s)\<rparr>)"
proof -
  have row: "version_ok x \<and> (tv_status x = VersionPublished \<longrightarrow> x \<in> set (ts_versions s))"
    if x: "x \<in> set (obsolete_others env i k (ts_versions s))" for x
  proof -
    let ?P = "\<lambda>v. tv_template v = i \<and> tv_status v = VersionPublished \<and> tv_id v \<noteq> k"
    from x obtain r where r: "r \<in> set (ts_versions s)"
      "x = (if ?P r then r\<lparr>tv_status := VersionObsolete, tv_obsoleted_at := Some (te_dbnow env)\<rparr> else r)"
      unfolding obsolete_others_def in_update_where by blast
    have "version_ok r" using r(1) assms by (simp add: templates_ok_def)
    with r show ?thesis by (cases "?P r") (simp_all add: version_ok_def)
  qed
  then have "one_published (obsolete_others env i k (ts_versions s))"
    using assms unfolding templates_ok_def one_published_def by blast
  with row assms show ?thesis by (simp add: templates_ok_def template_keys_ok_def)
qed

lemma ok_frame:
  "templates_ok s \<Longrightarrow> ts_versions s' = ts_versions s \<Longrightarrow> map tp_id (ts_templates s') = map tp_id (ts_templates s) \<Longrightarrow> templates_ok s'"
  by (simp add: templates_ok_def template_keys_ok_def)

lemma ok_add_version:
  assumes "templates_ok s" and "fresh_version s v"
  shows "templates_ok (s\<lparr>ts_versions := ts_versions s @ [v]\<rparr>)"
proof -
  have "schema_wf (tv_placeholders v)" using assms schema_wf_Nil by (auto simp: fresh_version_def templates_ok_def version_ok_def)
  then have "version_ok v" using assms(2) by (simp add: version_ok_def fresh_version_def)
  moreover have "one_published (ts_versions s @ [v])"
    using one_published_snoc [OF templates_okD(2) [OF assms(1)]] assms(2) by (simp add: fresh_version_def)
  moreover have "template_keys_ok (s\<lparr>ts_versions := ts_versions s @ [v]\<rparr>)" using assms by (simp add: templates_ok_def template_keys_ok_def fresh_version_def)
  ultimately show ?thesis using assms(1) by (simp add: templates_ok_def)
qed

interpretation templates: step_invariant templates_ok
proof
  fix tn s s' assume "tstep tn s s'" and ok: "templates_ok s"
  then show "templates_ok s'"
  proof cases
    case beside
    then show ?thesis using ok_frame [OF ok] by simp
  next
    case (add_template t)
    then show ?thesis using ok by (simp add: templates_ok_def template_keys_ok_def)
  next
    case (touch_template t0 t)
    then show ?thesis using ok_frame [OF ok, of s'] by simp
  next
    case (add_version v)
    then show ?thesis using ok_add_version [OF ok] by simp
  next
    case (next_version v t0 t)
    then show ?thesis using ok_frame [OF ok_add_version [OF ok next_version(2)], of s'] by simp
  next
    case (move_version v v')
    have "version_ok v" using ok move_version(2) by (simp add: templates_ok_def)
    then show ?thesis unfolding move_version(1)
      using ok_set_version [OF ok move_version(2), of v'] move_row [OF move_version(4)] move_ok [OF move_version(4)] by blast
  next
    case (retire i env k)
    then show ?thesis using ok_obsolete [OF ok] by simp
  next
    case (publish v v')
    have "version_ok v" using ok publish(2) by (simp add: templates_ok_def)
    then show ?thesis unfolding publish(1)
      using ok_set_version [OF ok publish(2), of v'] publication_row [OF publish(4)] publication_ok [OF publish(4)] publish(5) by blast
  qed
next
  fix s s' assume "schema_step s s'" and ok: "templates_ok s"
  then obtain v m phs where v: "v \<in> set (ts_versions s)" "tv_status v = VersionDraft" "schema_wf phs"
    and s': "s' = set_version v (v\<lparr>tv_metadata := m, tv_placeholders := phs\<rparr>) s"
    unfolding schema_step_def by blast
  have "version_ok v" using ok v(1) by (simp add: templates_ok_def)
  with v(2,3) have "version_ok (v\<lparr>tv_metadata := m, tv_placeholders := phs\<rparr>)" by (simp add: version_ok_def)
  then show "templates_ok s'" unfolding s' using v(2) by (intro ok_set_version [OF ok v(1)]) (simp_all add: write_version_def)
qed

lemma empty_ok: "templates_ok empty_store"
  by (simp add: templates_ok_def template_keys_ok_def one_published_def empty_store_def)

text \<open>
  C36. Segregation of duties for templates. In every state the services can reach from an empty database, whatever statements fail on the way and whatever of their
  effects is there nevertheless: a published version was approved by somebody who is neither its author nor its reviewer, and if its
  approval asked for a review, it was reviewed by somebody other than the author; and no template has two published versions.
\<close>

theorem template_release_segregated:
  assumes "treach empty_store s" and "v \<in> set (ts_versions s)" and "tv_status v = VersionPublished"
  shows "(\<exists>a. tv_approver v = Some a \<and> a \<noteq> tv_author v \<and> tv_reviewer v \<noteq> Some a \<and>
      (tv_pending_reviewer v \<noteq> None \<longrightarrow> (\<exists>r. tv_reviewer v = Some r \<and> r \<noteq> tv_author v))) \<and>
    (\<forall>w \<in> set (ts_versions s). tv_status w = VersionPublished \<and> tv_template w = tv_template v \<longrightarrow> w = v)"
proof -
  have ok: "templates_ok s" using templates.keeps_reach [OF assms(1) empty_ok] .
  have d: "distinct (map tv_id (ts_versions s))" using ok by (simp add: templates_ok_def template_keys_ok_def)
  have one: "w = v" if w: "w \<in> set (ts_versions s)" "tv_status w = VersionPublished" "tv_template w = tv_template v" for w
  proof -
    have "tv_id w = tv_id v" by (rule one_publishedD [OF templates_okD(2) [OF ok] w(1) assms(2) w(2) assms(3) w(3)])
    then show ?thesis using distinct_map_key [OF d w(1) assms(2)] by simp
  qed
  have "version_ok v" using ok assms(2) by (simp add: templates_ok_def)
  then have "\<exists>a. tv_approver v = Some a \<and> a \<noteq> tv_author v \<and> tv_reviewer v \<noteq> Some a \<and>
      (tv_pending_reviewer v \<noteq> None \<longrightarrow> (\<exists>r. tv_reviewer v = Some r \<and> r \<noteq> tv_author v))"
    using assms(3) by (auto simp: version_ok_def)
  with one show ?thesis by blast
qed

theorem template_release_segregated_witness:
  "treach empty_store sample_published \<and> sample_version \<in> set (ts_versions sample_published) \<and> tv_status sample_version = VersionPublished \<and>
   (\<exists>a. tv_approver sample_version = Some a \<and> a \<noteq> tv_author sample_version \<and> tv_reviewer sample_version \<noteq> Some a \<and>
      (tv_pending_reviewer sample_version \<noteq> None \<longrightarrow> (\<exists>r. tv_reviewer sample_version = Some r \<and> r \<noteq> tv_author sample_version)))"
proof -
  have h: "sample_version \<in> set (ts_versions sample_published)" "tv_status sample_version = VersionPublished"
    by (simp_all add: sample_versions) (simp add: sample_version_def)
  with template_release_segregated [OF sample_templates_reached(2) h] sample_templates_reached(2) show ?thesis by simp
qed


text \<open>
  C38. Stored schemas are well-typed. In every reachable state the placeholders of every version have distinct identifiers that are not empty, distinct names from the
  catalog with the resolver of that name, ordered bounds, options exactly for selections, and visibility conditions that name known placeholders and have no cycle.
\<close>

theorem template_schemas_well_formed:
  assumes "treach empty_store s" and "v \<in> set (ts_versions s)"
  shows "schema_wf (tv_placeholders v)"
  using templates.keeps_reach [OF assms(1) empty_ok] assms(2) by (simp add: templates_ok_def version_ok_def)

theorem template_schemas_well_formed_witness:
  "treach empty_store sample_published \<and> sample_version \<in> set (ts_versions sample_published) \<and> schema_wf (tv_placeholders sample_version)"
proof -
  have h: "sample_version \<in> set (ts_versions sample_published)" by (simp add: sample_versions)
  with template_schemas_well_formed [OF sample_templates_reached(2) h] sample_templates_reached(2) show ?thesis by simp
qed

section \<open>Tenants\<close>

definition foreign :: "string \<Rightarrow> tstore \<Rightarrow> string \<Rightarrow> bool" where
  "foreign tn s i \<longleftrightarrow> (\<exists>t \<in> set (ts_templates s). tp_id t = i \<and> tp_tenant t \<noteq> tn)"

definition kept :: "string \<Rightarrow> tstore \<Rightarrow> tstore \<Rightarrow> bool" where
  "kept tn s s' \<longleftrightarrow> (\<forall>t \<in> set (ts_templates s). tp_tenant t \<noteq> tn \<longrightarrow> t \<in> set (ts_templates s')) \<and>
     (\<forall>v \<in> set (ts_versions s). foreign tn s (tv_template v) \<longrightarrow> v \<in> set (ts_versions s'))"

lemma kept_trans: "kept tn a b \<Longrightarrow> kept tn b c \<Longrightarrow> kept tn a c"
  unfolding kept_def foreign_def by blast

lemma owned_not_foreign: "template_keys_ok s \<Longrightarrow> owns tn s i \<Longrightarrow> \<not> foreign tn s i"
  unfolding template_keys_ok_def owns_def foreign_def using distinct_map_key [of tp_id "ts_templates s"] by metis

lemma kept_templates: "x \<in> set ts \<Longrightarrow> tp_tenant x \<noteq> tn \<Longrightarrow> x \<in> set (update_where (\<lambda>x. tp_id x = i \<and> tp_tenant x = tn) f ts)"
  unfolding in_update_where by force

lemma kept_set_version:
  assumes "template_keys_ok s" and "v \<in> set (ts_versions s)" and "owns tn s (tv_template v)"
  shows "kept tn s (set_version v v' s)"
proof -
  have "w \<in> set (ts_versions (set_version v v' s))" if w: "w \<in> set (ts_versions s)" "foreign tn s (tv_template w)" for w
  proof -
    have d: "distinct (map tv_id (ts_versions s))" using assms(1) by (simp add: template_keys_ok_def)
    have "w \<noteq> v" using w(2) owned_not_foreign [OF assms(1,3)] by blast
    then have "tv_id w \<noteq> tv_id v" using distinct_map_key [OF d w(1) assms(2)] by blast
    then show ?thesis using set_version_rows [OF d assms(2), of w v'] w(1) by simp
  qed
  then show ?thesis by (simp add: kept_def)
qed

lemma kept_step:
  assumes "tstep tn s s'" and "template_keys_ok s"
  shows "kept tn s s'"
  using assms(1)
proof cases
  case (touch_template t0 t)
  then show ?thesis by (simp add: kept_def kept_templates)
next
  case (next_version v t0 t)
  then show ?thesis by (simp add: kept_def kept_templates)
next
  case (move_version v v')
  then show ?thesis using kept_set_version [OF assms(2)] by simp
next
  case (retire i env k)
  have "v \<in> set (obsolete_others env i k (ts_versions s))" if "v \<in> set (ts_versions s)" "foreign tn s (tv_template v)" for v
  proof -
    have "tv_template v \<noteq> i" using that(2) owned_not_foreign [OF assms(2) retire(2)] by blast
    then show ?thesis unfolding obsolete_others_def in_update_where using that(1) by (intro bexI [of _ v]) simp_all
  qed
  then show ?thesis by (simp add: kept_def retire(1))
next
  case (publish v v')
  then show ?thesis using kept_set_version [OF assms(2)] by simp
qed (simp_all add: kept_def)

lemma kept_steps:
  assumes "tsteps tn s s'" and "templates_ok s"
  shows "kept tn s s'"
  using assms
proof (induction rule: rtranclp_induct)
  case base
  then show ?case by (simp add: kept_def)
next
  case (step b c)
  have "template_keys_ok b" using templates.keeps_steps [OF step.hyps(1) step.prems] by (simp add: templates_ok_def)
  from kept_trans [OF step.IH [OF step.prems] kept_step [OF step.hyps(2) this]] show ?case .
qed

text \<open>
  C37. Tenants are isolated. In every reachable state, a request of one tenant, unless it is an update of schemas, leaves the templates of every other tenant and all of their
  versions exactly as they are, also when it fails in the middle.
\<close>

theorem template_tenant_isolation:
  assumes "treach empty_store s" and "serve_template env r s = (res, s')" and "\<forall>c. r \<noteq> TqSchemas c"
    and "t \<in> set (ts_templates s)" and "tp_tenant t \<noteq> request_tenant r"
  shows "t \<in> set (ts_templates s') \<and> (\<forall>v \<in> set (ts_versions s). tv_template v = tp_id t \<longrightarrow> v \<in> set (ts_versions s'))"
proof -
  have "kept (request_tenant r) s s'"
    using kept_steps [OF serve_steps [OF assms(2,3)] templates.keeps_reach [OF assms(1) empty_ok]] .
  then have k: "\<And>t. t \<in> set (ts_templates s) \<Longrightarrow> tp_tenant t \<noteq> request_tenant r \<Longrightarrow> t \<in> set (ts_templates s')"
    "\<And>v. v \<in> set (ts_versions s) \<Longrightarrow> foreign (request_tenant r) s (tv_template v) \<Longrightarrow> v \<in> set (ts_versions s')"
    by (simp_all add: kept_def)
  have "foreign (request_tenant r) s (tp_id t)" using assms(4,5) by (auto simp: foreign_def)
  with k(1) [OF assms(4,5)] k(2) show ?thesis by simp
qed

definition foreign_create :: template_request where
  "foreign_create = TqCreate \<lparr>ct_tenant = ''other'', ct_actor = ''eve'', ct_doc_type = ''sop'', ct_key = ''k'', ct_name = ''n'', ct_description = [], ct_areas = [],
     ct_visibility = ''public'', ct_specific_areas = [], ct_approver = ''qa'', ct_reviewer = None\<rparr>"

definition foreign_tenv :: tenv where
  "foreign_tenv = sample_tenv\<lparr>te_uuid := (\<lambda>k. replicate (Suc k) CHR ''y'')\<rparr>"

definition sample_template :: Template where
  "sample_template = hd (ts_templates sample_published)"

theorem template_tenant_isolation_witness:
  "treach empty_store sample_published \<and> sample_template \<in> set (ts_templates sample_published) \<and> tp_tenant sample_template \<noteq> request_tenant foreign_create \<and>
   length (ts_templates (served foreign_tenv foreign_create sample_published)) = 2 \<and>
   sample_template \<in> set (ts_templates (served foreign_tenv foreign_create sample_published))"
proof -
  have l: "length (ts_templates (served foreign_tenv foreign_create sample_published)) = 2" by code_simp
  have "tp_tenant sample_template = ''acme''" "ts_templates sample_published = [sample_template]" "request_tenant foreign_create = ''other''" by code_simp+
  then have h: "sample_template \<in> set (ts_templates sample_published)" "tp_tenant sample_template \<noteq> request_tenant foreign_create" by simp_all
  have "\<forall>c. foreign_create \<noteq> TqSchemas c" by (simp add: foreign_create_def)
  from template_tenant_isolation [OF sample_templates_reached(2) prod.collapse [symmetric] this h, of foreign_tenv] l h sample_templates_reached(2) show ?thesis by simp
qed

text \<open>An update of schemas is outside of that guarantee: what it answers and what it does to the versions is the same for every tenant.\<close>

definition agree :: "(terr + 'a) \<times> tstore \<Rightarrow> (terr + 'a) \<times> tstore \<Rightarrow> bool" where
  "agree p q \<longleftrightarrow> fst p = fst q \<and> ts_versions (snd p) = ts_versions (snd q)"

lemma agree_bind: "(\<And>x s. agree (k x s) (k' x s)) \<Longrightarrow> agree (bindM m k s) (bindM m k' s)"
  by (auto simp: bindM_def agree_def split: prod.splits sum.splits)

lemma agree_audit: "agree (bindM (Repo_AppendAudit env e) (\<lambda>_. returnM x) s) (bindM (Repo_AppendAudit env e') (\<lambda>_. returnM x) s)"
  by (auto simp: agree_def bindM_def returnM_def Repo_AppendAudit_def exec_def split: option.splits)

lemma update_schemas_any_tenant: "agree (UpdateSchemas env (c\<lparr>us_tenant := tn\<rparr>) s) (UpdateSchemas env c s)"
  unfolding UpdateSchemas_def Let_def
  by (cases c, simp only: UpdateSchemasCmd.select_convs UpdateSchemasCmd.update_convs) (intro agree_bind agree_audit)

section \<open>A failure that blocks a template\<close>

definition numbers :: "tstore \<Rightarrow> (string \<times> int) set" where
  "numbers s = (\<lambda>x. (tv_template x, tv_number x)) ` set (ts_versions s)"

definition wedged :: "string \<Rightarrow> tstore \<Rightarrow> bool" where
  "wedged i s \<longleftrightarrow> distinct (map tp_id (ts_templates s)) \<and> (\<exists>t \<in> set (ts_templates s). tp_id t = i \<and> (i, tp_latest t + 1) \<in> numbers s)"

lemma numbers_frame [simp]:
  "numbers (s\<lparr>ts_templates := ts\<rparr>) = numbers s"
  "numbers (s\<lparr>ts_versions := vs @ [v]\<rparr>) = insert (tv_template v, tv_number v) (numbers (s\<lparr>ts_versions := vs\<rparr>))"
  by (simp_all add: numbers_def)

lemma numbers_update:
  assumes "\<And>x. tv_template (f x) = tv_template x" and "\<And>x. tv_number (f x) = tv_number x"
  shows "numbers (s\<lparr>ts_versions := update_where P f (ts_versions s)\<rparr>) = numbers s"
proof -
  have "map (\<lambda>x. (tv_template x, tv_number x)) (update_where P f (ts_versions s)) = map (\<lambda>x. (tv_template x, tv_number x)) (ts_versions s)"
    by (rule map_update_where) (simp add: assms)
  from arg_cong [OF this, of set] show ?thesis by (simp add: numbers_def)
qed

lemma numbers_write [simp]: "numbers (set_version v v' s) = numbers s"
  by (rule numbers_update) (simp_all add: write_version_def)

lemma numbers_retire [simp]: "numbers (s\<lparr>ts_versions := obsolete_others env i k (ts_versions s)\<rparr>) = numbers s"
  unfolding obsolete_others_def by (rule numbers_update) simp_all

lemma wedged_frame:
  "wedged i s \<Longrightarrow> ts_templates s' = ts_templates s \<Longrightarrow> numbers s \<subseteq> numbers s' \<Longrightarrow> wedged i s'"
  by (auto simp: wedged_def)

text \<open>The template of a blocked identifier is the only one with it.\<close>

lemma wedged_row: "wedged i s \<Longrightarrow> t \<in> set (ts_templates s) \<Longrightarrow> tp_id t = i \<Longrightarrow> (i, tp_latest t + 1) \<in> numbers s"
  unfolding wedged_def using distinct_map_key [of tp_id "ts_templates s" t] by metis

lemma wedged_touch:
  assumes "wedged i s" and "t0 \<in> set (ts_templates s)" and "tp_id t0 = i \<Longrightarrow> tp_latest t = tp_latest t0"
  shows "wedged i (set_template (tp_id t0) tn t s)"
proof -
  obtain x where x: "x \<in> set (ts_templates s)" "tp_id x = i" "(i, tp_latest x + 1) \<in> numbers s" and d: "distinct (map tp_id (ts_templates s))"
    using assms(1) by (auto simp: wedged_def)
  let ?y = "if tp_id x = tp_id t0 \<and> tp_tenant x = tn then write_template t x else x"
  have "x = t0" if "tp_id x = tp_id t0" using distinct_map_key [OF d x(1) assms(2)] that by simp
  then have "tp_id ?y = i" "tp_latest ?y = tp_latest x" using x(2) assms(3) by (auto simp: write_template_def)
  moreover have "?y \<in> set (ts_templates (set_template (tp_id t0) tn t s))" using x(1) by (auto simp: in_update_where)
  ultimately show ?thesis using x(3) d unfolding wedged_def by fastforce
qed

interpretation blocked: step_invariant "wedged i" for i
proof
  fix tn s s' assume "tstep tn s s'" and w: "wedged i s"
  then show "wedged i s'"
  proof cases
    case beside
    then show ?thesis using wedged_frame [OF w] by (simp add: numbers_def)
  next
    case (add_template t)
    then show ?thesis using w by (auto simp: wedged_def)
  next
    case (touch_template t0 t)
    then show ?thesis using wedged_touch [OF w touch_template(2)] by simp
  next
    case (next_version v t0 t)
    have "tp_id t0 \<noteq> i" using wedged_row [OF w next_version(3)] next_version(2,5,6) by (auto simp: fresh_version_def numbers_def)
    moreover have "wedged i (s\<lparr>ts_versions := ts_versions s @ [v]\<rparr>)" by (rule wedged_frame [OF w]) auto
    ultimately show ?thesis using wedged_touch [of i "s\<lparr>ts_versions := ts_versions s @ [v]\<rparr>" t0 t tn] next_version(1,3) by simp
  qed (auto intro!: wedged_frame [OF w])
next
  fix s s' assume "schema_step s s'" and w: "wedged i s"
  then show "wedged i s'" by (auto simp: schema_step_def intro!: wedged_frame [OF w])
qed

lemma wedged_fails: "wedged (cv_template cmd) s \<Longrightarrow> wp (CreateNextVersion env cmd) (\<lambda>r _. \<exists>e. r = Inl e) s"
  unfolding CreateNextVersion_def Let_def
  by (auto intro!: wp_rules wp_source dest!: wedged_row simp: numbers_def)

lemma update_where_fixed: "update_where P f ts = ts \<Longrightarrow> t \<in> set ts \<Longrightarrow> P t \<Longrightarrow> f t = t"
  by (induction ts) auto

lemma write_template_latest: "tp_latest (write_template t r) = tp_latest t"
  by (simp add: write_template_def)

lemma count_shows: "t \<in> set ts \<Longrightarrow> P t \<Longrightarrow> tp_latest t' \<noteq> tp_latest t \<Longrightarrow> update_where P (write_template t') ts \<noteq> ts"
  using update_where_fixed [of P "write_template t'" ts t] write_template_latest [of t' t] by metis

lemma uncounted_wedges:
  assumes "distinct (map tp_id (ts_templates s))"
  shows "wp (CreateNextVersion env cmd)
     (\<lambda>_ s'. ts_versions s' \<noteq> ts_versions s \<and> ts_templates s' = ts_templates s \<longrightarrow> wedged (cv_template cmd) s') s"
  unfolding CreateNextVersion_def Let_def
  by (auto intro!: wp_rules wp_source simp: wedged_def assms count_shows) blast+

text \<open>
  C40. A lost count blocks a template. When the creation of a version adds the version but its later statement, which counts it in the template, does not take effect (it fails, or
  the server stops there), then no version of that template can ever be created again: whatever requests are served afterwards, and for whatever request, the creation of a
  version fails.
\<close>

theorem next_version_wedged:
  assumes "treach empty_store s" and "CreateNextVersion env cmd s = (r, s1)"
    and "ts_versions s1 \<noteq> ts_versions s" and "ts_templates s1 = ts_templates s"
    and "treach s1 s2" and "cv_template cmd' = cv_template cmd"
  shows "\<exists>e. fst (CreateNextVersion env' cmd' s2) = Inl e"
proof -
  have "distinct (map tp_id (ts_templates s))" using templates.keeps_reach [OF assms(1) empty_ok] by (simp add: templates_ok_def template_keys_ok_def)
  from wpD [OF uncounted_wedges [OF this] assms(2)] have "wedged (cv_template cmd) s1" using assms(3,4) by blast
  from blocked.keeps_reach [OF assms(5) this] have "wedged (cv_template cmd') s2" using assms(6) by simp
  from wedged_fails [OF this, of env'] show ?thesis by (cases "CreateNextVersion env' cmd' s2") (auto simp: wp_def)
qed

definition crash_tenv :: tenv where
  "crash_tenv = foreign_tenv\<lparr>te_fault := (\<lambda>n. if n = ''UpdateTemplate'' then Some (TOutside ''connection lost'', False) else None)\<rparr>"

definition sample_next :: CreateVersionCmd where
  "sample_next = \<lparr>cv_tenant = ''acme'', cv_actor = ''ann'', cv_template = ''x''\<rparr>"

definition sample_crashed :: tstore where
  "sample_crashed = snd (CreateNextVersion crash_tenv sample_next sample_published)"

theorem next_version_wedged_witness:
  "ts_versions sample_crashed \<noteq> ts_versions sample_published \<and> ts_templates sample_crashed = ts_templates sample_published \<and>
   (\<exists>e. fst (CreateNextVersion sample_tenv sample_next sample_crashed) = Inl e)"
proof -
  have "length (ts_versions sample_crashed) = 2" "length (ts_versions sample_published) = 1" by code_simp+
  then have v: "ts_versions sample_crashed \<noteq> ts_versions sample_published" by force
  have t: "ts_templates sample_crashed = ts_templates sample_published" by code_simp
  have r: "CreateNextVersion crash_tenv sample_next sample_published = (fst (CreateNextVersion crash_tenv sample_next sample_published), sample_crashed)"
    by (simp add: sample_crashed_def)
  from next_version_wedged [OF sample_templates_reached(2) r v t treach_start refl] v t show ?thesis by blast
qed

end
