(* ===== verification/Spec2Isabelle.thy ===== *)
theory Spec2Isabelle
  imports Http_Props Job_Tasks Password_Reauth Template_Props
begin

text \<open>
  \<^bold>\<open>The approval and template life cycles of MetalDocs.\<close>

  MetalDocs keeps controlled documents of a quality-management system. Its Go module
  \<^verbatim>\<open>src/internal/modules/documents_v2/approval\<close> moves a document through its life cycle: a draft is submitted for review, the stages
  of its approval route collect signoffs until a quorum decides each of them, the approved document is published (at once, at a
  scheduled time, or superseding a prior one) and finally made obsolete. Every step is one database transaction that checks a capability, writes with
  an optimistic revision check and emits a governance event. PostgreSQL takes part: unique indexes, foreign
  keys and triggers of \<^verbatim>\<open>src/migrations\<close> enforce some of the rules a second time.

  \<^bold>\<open>Theories, in the order of the layers.\<close>

  \<^item> \<open>Prelude\<close> and \<open>Go_Std\<close>: results and maps over them, \<open>update_where\<close> (what an SQL update does to the rows), decimal and hexadecimal
    printing, JSON strings, SHA-256 on 32-bit words, calendar printing of clock readings.
  \<^item> \<open>Approval_Errors\<close> (\<^verbatim>\<open>repository/errors.go\<close> and the sentinels of the domain), \<open>Doc_State\<close> (\<^verbatim>\<open>domain/state.go\<close>), \<open>Approval_Route\<close>
    (\<^verbatim>\<open>domain/route.go\<close>), \<open>Approval_Instance\<close> (\<^verbatim>\<open>domain/instance.go\<close>), \<open>Approval_Signoff\<close> (\<^verbatim>\<open>domain/signoff.go\<close>, \<^verbatim>\<open>sod.go\<close>),
    \<open>Approval_Quorum\<close> (\<^verbatim>\<open>domain/quorum.go\<close>, \<^verbatim>\<open>drift.go\<close>), \<open>Content_Hash\<close> (\<^verbatim>\<open>application/content_hash.go\<close>, \<^verbatim>\<open>idempotency.go\<close>): the pure
    domain, one function per Go function, with its properties.
  \<^item> \<open>Approval_Store\<close> (\<^verbatim>\<open>repository/postgres_approval_repository.go\<close> and the migrations): the tables as a record of row lists, a
    transaction as a state-and-error monad \<open>'a tx\<close> over the tables and the session settings, each constraint and trigger as a guard of the
    statement that fires it. \<open>runTx\<close> commits or restores the tables it started from.
  \<^item> \<open>Service_Base\<close> (\<^verbatim>\<open>authz.Require\<close>, \<^verbatim>\<open>Emit\<close>), \<open>Submit_Service\<close>, \<open>Decision_Service\<close>, \<open>Lifecycle_Services\<close> (publish, schedule, supersede,
    obsolete, cancel, the due publisher, the cutover check) and \<open>Route_Admin\<close> (route administration, read service): the
    services of \<^verbatim>\<open>application\<close>, statement by statement, with their error wrapping.
  \<^item> \<open>Store_Laws\<close> and \<open>Service_Laws\<close>: the locales \<open>frame_relation\<close>, \<open>doc_frame\<close> and \<open>store_frame\<close> state what a relation between the tables
    before and after a statement has to satisfy to be kept by whole services; their interpretations are integrity of the keys, append-only
    tables, and the relation of \<open>Release_Safety\<close>. \<open>Store_Effects\<close> has the exact effect of each statement.
  \<^item> \<open>Submit_Props\<close>, \<open>Decision_Props\<close>, \<open>Lifecycle_Props\<close>: exact conditions and effects of the services, and the refinement of
    the domain's instance by the rows the decision service writes.
  \<^item> \<open>Approval_System\<close>: requests in any order and their runs (\<open>reach\<close>). \<open>Release_Safety\<close>: no document is released without
    approval.
  \<^item> \<open>Http_Contracts\<close> (\<^verbatim>\<open>http/contracts\<close>) and \<open>Approval_Http\<close> (\<^verbatim>\<open>http\<close>): strict decoding and validation of request bodies, the headers,
    the mapping of errors to responses, and one definition per handler; \<open>handler\<close> is the router. \<open>Http_Props\<close>: error responses change nothing, the entity tag of a
    submission is its new revision, which endpoints never do their work, and what a signoff stores.
  \<^item> \<open>Password_Reauth\<close> (\<^verbatim>\<open>infra/signature\<close>): the registry of signature providers, and \<open>Sign\<close> over the table of failures with its rate limit and sweep; the
    number of failed attempts per user and minute is bounded.
  \<^item> \<open>Job_Scheduler\<close> and \<open>Job_Leases\<close> (\<^verbatim>\<open>src/internal/modules/jobs/scheduler\<close> and the lease functions of migration 0148): back-pressure,
    leases with epochs, and several scheduler processes as an interleaving step relation with the fencing invariant; the lease reaper and what it breaks.
    \<open>Job_Tasks\<close>: the effective-date publisher, the stuck-instance watchdog and the idempotency janitor on top of the services.

  \<^bold>\<open>The templates.\<close> The module \<^verbatim>\<open>src/internal/modules/templates_v2\<close> keeps the templates documents are made from, with a life cycle of its own: a draft
  version is submitted, reviewed when its configuration asks for it, and approved by a third person, which publishes it and retires the version before.
  Its repository works without transactions: every statement commits for itself.

  \<^item> \<open>Template_Domain\<close> (\<^verbatim>\<open>domain\<close>, and the validation of \<^verbatim>\<open>application/schema.go\<close> and \<^verbatim>\<open>visibility_graph.go\<close>), \<open>Template_Schema\<close>: the
    depth-first search for visibility cycles ends and is right, and what an accepted schema satisfies.
  \<^item> \<open>Template_Store\<close> (\<^verbatim>\<open>repository/postgres.go\<close> over migration 0120): a computation gives a result or an error together with the tables it leaves;
    weakest-precondition rules run it symbolically. \<open>Template_Service\<close> (\<^verbatim>\<open>application\<close>): every service.
  \<^item> \<open>Template_Steps\<close>: the abstract life cycle as a step relation, and that every service refines it, whatever statements fail. \<open>Template_Props\<close>: the locale
    \<open>step_invariant\<close>, its interpretations, and from them segregation of duties, one published version, well-formed schemas, isolation of tenants,
    and how a failure between two statements blocks a template for good.

  \<^bold>\<open>Parameters.\<close> The environment \<open>env\<close> holds what the code takes from outside: clock readings, fresh identifiers, Unicode normalisation, and for each
  statement whether it fails for an outside reason (connection loss and the like). \<open>calm\<close> says that none does. The freeze step of the final
  approval is code of another service behind an interface, so it is a parameter; \<open>freeze_frame\<close> says that it touches only tables outside
  the approval module.

  The HTTP layer has the parser of JSON text, time stamps and the request identifiers as parameters; the password provider the comparison of bcrypt and the reader of users;
  the jobs the clock of the database and the outcome of each statement. The template services take from \<open>tenv\<close> the object store, the clock, the identifiers, the
  known resolvers, the texts \<^verbatim>\<open>regexp.Compile\<close> accepts, and for each statement whether it reports an error and whether it took effect nevertheless.

  \<^bold>\<open>Bounds.\<close> Revision counters, version numbers, epochs and denominators are unbounded integers, as the code only adds one to values read from the database;
  \<open>itoa\<close> is kept at 64 bits since negating the least integer overflows. Bounds of numbers in schemas are rationals, which represent every finite float. All loops are
  structural recursions or have a termination proof; no fuel is used. The limits of the batches (50 documents, 50 rounds of 1000 keys) are those of the code.

  \<^bold>\<open>Not modelled.\<close> Transactions of the approval services run one after the other: row locks and isolation levels have no counterpart; the statements of the schedulers
  interleave, those of two template requests do not. The text of JSON, object storage, rendering, the message bus and process wiring are input and output. The HTTP layer of
  the templates only decodes and encodes around the services modelled here. The editor of \<^verbatim>\<open>documents_v2\<close>, its freeze, fill-in and snapshot services and the
  session and notification modules are outside of the two life cycles; the legacy documents module is superseded by \<^verbatim>\<open>documents_v2\<close>.
\<close>

end
